(* ===== verification/Prelude.thy ===== *)
theory Prelude
  imports Main
begin

text \<open>
  Shared vocabulary of the development: the type of stateful computations that may throw (an
  \<open>async\<close> function of the source run to completion), its combinators, a small Hoare logic over
  them, and generic facts on lists. The collections \<open>comp_simps\<close> (evaluation of the
  combinators), \<open>comp_rules\<close> (Hoare rules) and \<open>js_simps\<close> (evaluation of the JavaScript
  library model) are what the component theories hand to the simplifier.
\<close>

named_theorems comp_simps \<open>evaluation of the computation combinators\<close>
named_theorems comp_rules \<open>Hoare rules of the computation combinators\<close>
named_theorems js_simps \<open>evaluation of the JavaScript library model\<close>

subsection \<open>Computations\<close>

text \<open>
  An \<open>async\<close> function takes the state it reads and writes, and either throws an \<open>Error\<close>
  (its message, \<open>Inl\<close>) or returns (\<open>Inr\<close>), together with the state it leaves behind. A
  throw keeps the effects that happened before it.
\<close>

type_synonym error = string

type_synonym ('s, 'a) comp = "'s \<Rightarrow> (error + 'a) \<times> 's"

definition ret :: "'a \<Rightarrow> ('s, 'a) comp" where
  "ret a s = (Inr a, s)"

definition throw :: "error \<Rightarrow> ('s, 'a) comp" where
  "throw e s = (Inl e, s)"

definition bindE :: "('s, 'a) comp \<Rightarrow> ('a \<Rightarrow> ('s, 'b) comp) \<Rightarrow> ('s, 'b) comp" where
  "bindE m f s =
     (case m s of (Inl e, t) \<Rightarrow> (Inl e, t) | (Inr a, t) \<Rightarrow> f a t)"

definition catchE :: "('s, 'a) comp \<Rightarrow> (error \<Rightarrow> ('s, 'a) comp) \<Rightarrow> ('s, 'a) comp" where
  "catchE m h s =
     (case m s of (Inl e, t) \<Rightarrow> h e t | (Inr a, t) \<Rightarrow> (Inr a, t))"

definition seqE :: "('s, 'a) comp \<Rightarrow> ('s, 'b) comp \<Rightarrow> ('s, 'b) comp" where
  "seqE m n = bindE m (\<lambda>_. n)"

definition getS :: "('s, 's) comp" where
  "getS s = (Inr s, s)"

definition modS :: "('s \<Rightarrow> 's) \<Rightarrow> ('s, unit) comp" where
  "modS f s = (Inr (), f s)"

definition liftE :: "error + 'a \<Rightarrow> ('s, 'a) comp" where
  "liftE x s = (x, s)"

fun forE :: "'a list \<Rightarrow> ('a \<Rightarrow> ('s, unit) comp) \<Rightarrow> ('s, unit) comp" where
  "forE [] f = ret ()"
| "forE (x # xs) f = seqE (f x) (forE xs f)"

lemma ret_apply [comp_simps]: "ret a s = (Inr a, s)"
  by (simp add: ret_def)

lemma throw_apply [comp_simps]: "throw e s = (Inl e, s)"
  by (simp add: throw_def)

lemma getS_apply [comp_simps]: "getS s = (Inr s, s)"
  by (simp add: getS_def)

lemma modS_apply [comp_simps]: "modS f s = (Inr (), f s)"
  by (simp add: modS_def)

lemma liftE_apply [comp_simps]: "liftE x s = (x, s)"
  by (simp add: liftE_def)

lemma bindE_Inl [comp_simps]: "m s = (Inl e, t) \<Longrightarrow> bindE m f s = (Inl e, t)"
  by (simp add: bindE_def)

lemma bindE_Inr [comp_simps]: "m s = (Inr a, t) \<Longrightarrow> bindE m f s = f a t"
  by (simp add: bindE_def)

lemma bindE_ret [comp_simps]: "bindE (ret a) f = f a"
  by (rule ext) (simp add: bindE_def ret_def)

lemma bindE_throw [comp_simps]: "bindE (throw e) f = throw e"
  by (rule ext) (simp add: bindE_def throw_def)

lemma catchE_Inl [comp_simps]: "m s = (Inl e, t) \<Longrightarrow> catchE m h s = h e t"
  by (simp add: catchE_def)

lemma catchE_Inr [comp_simps]: "m s = (Inr a, t) \<Longrightarrow> catchE m h s = (Inr a, t)"
  by (simp add: catchE_def)

lemma seqE_Inl [comp_simps]: "m s = (Inl e, t) \<Longrightarrow> seqE m n s = (Inl e, t)"
  by (simp add: seqE_def bindE_def)

lemma seqE_Inr [comp_simps]: "m s = (Inr a, t) \<Longrightarrow> seqE m n s = n t"
  by (simp add: seqE_def bindE_def)

subsection \<open>A Hoare logic\<close>

text \<open>
  \<open>hoare P m Q E\<close>: started where \<open>P\<close> holds, \<open>m\<close> returns with \<open>Q\<close> or throws with \<open>E\<close>.
\<close>

definition hoare ::
  "('s \<Rightarrow> bool) \<Rightarrow> ('s, 'a) comp \<Rightarrow> ('a \<Rightarrow> 's \<Rightarrow> bool) \<Rightarrow> ('s \<Rightarrow> bool) \<Rightarrow> bool" where
  "hoare P m Q E \<longleftrightarrow>
     (\<forall>s. P s \<longrightarrow> (case m s of (Inl e, t) \<Rightarrow> E t | (Inr a, t) \<Rightarrow> Q a t))"

lemma hoareI:
  "(\<And>s. P s \<Longrightarrow> (case m s of (Inl e, t) \<Rightarrow> E t | (Inr a, t) \<Rightarrow> Q a t)) \<Longrightarrow> hoare P m Q E"
  by (simp add: hoare_def)

lemma hoare_Inr: "hoare P m Q E \<Longrightarrow> P s \<Longrightarrow> m s = (Inr a, t) \<Longrightarrow> Q a t"
  by (auto simp: hoare_def dest!: spec [of _ s])

lemma hoare_Inl: "hoare P m Q E \<Longrightarrow> P s \<Longrightarrow> m s = (Inl e, t) \<Longrightarrow> E t"
  by (auto simp: hoare_def dest!: spec [of _ s])

lemma hoare_ret [comp_rules]: "(\<And>s. P s \<Longrightarrow> Q a s) \<Longrightarrow> hoare P (ret a) Q E"
  by (simp add: hoare_def ret_def)

lemma hoare_throw [comp_rules]: "(\<And>s. P s \<Longrightarrow> E s) \<Longrightarrow> hoare P (throw e) Q E"
  by (simp add: hoare_def throw_def)

lemma hoare_bindE [comp_rules]:
  "hoare P m R E \<Longrightarrow> (\<And>a. hoare (R a) (f a) Q E) \<Longrightarrow> hoare P (bindE m f) Q E"
  unfolding hoare_def bindE_def by (fastforce split: prod.splits sum.splits)

lemma hoare_seqE [comp_rules]:
  "hoare P m (\<lambda>_. R) E \<Longrightarrow> hoare R n Q E \<Longrightarrow> hoare P (seqE m n) Q E"
  unfolding seqE_def by (rule hoare_bindE)

lemma hoare_catchE [comp_rules]:
  "hoare P m Q R \<Longrightarrow> (\<And>e. hoare R (h e) Q E) \<Longrightarrow> hoare P (catchE m h) Q E"
  unfolding hoare_def catchE_def by (fastforce split: prod.splits sum.splits)

lemma hoare_pre:
  "hoare P' m Q E \<Longrightarrow> (\<And>s. P s \<Longrightarrow> P' s) \<Longrightarrow> hoare P m Q E"
  by (simp add: hoare_def)

lemma hoare_post:
  "hoare P m Q' E' \<Longrightarrow> (\<And>a s. Q' a s \<Longrightarrow> Q a s) \<Longrightarrow> (\<And>s. E' s \<Longrightarrow> E s) \<Longrightarrow> hoare P m Q E"
  unfolding hoare_def by (fastforce split: prod.splits sum.splits)

lemma hoare_if [comp_rules]:
  "(b \<Longrightarrow> hoare P m Q E) \<Longrightarrow> (\<not> b \<Longrightarrow> hoare P n Q E) \<Longrightarrow> hoare P (if b then m else n) Q E"
  by simp

text \<open>
  \<open>keeps I m\<close>: an invariant every outcome keeps, thrown or returned. Its rules have no side
  conditions on values, so the invariant of a whole handler is proved by \<open>intro comp_rules\<close>.
\<close>

definition keeps :: "('s \<Rightarrow> bool) \<Rightarrow> ('s, 'a) comp \<Rightarrow> bool" where
  "keeps I m \<longleftrightarrow> (\<forall>s. I s \<longrightarrow> I (snd (m s)))"

lemma keepsI: "(\<And>s. I s \<Longrightarrow> I (snd (m s))) \<Longrightarrow> keeps I m"
  by (simp add: keeps_def)

lemma keepsD: "keeps I m \<Longrightarrow> I s \<Longrightarrow> I (snd (m s))"
  by (simp add: keeps_def)

lemma keeps_ret [comp_rules]: "keeps I (ret a)"
  by (simp add: keeps_def ret_def)

lemma keeps_throw [comp_rules]: "keeps I (throw e)"
  by (simp add: keeps_def throw_def)

lemma keeps_getS [comp_rules]: "keeps I getS"
  by (simp add: keeps_def getS_def)

lemma keeps_liftE [comp_rules]: "keeps I (liftE x)"
  by (simp add: keeps_def liftE_def)

lemma keeps_bindE [comp_rules]:
  "keeps I m \<Longrightarrow> (\<And>a. keeps I (f a)) \<Longrightarrow> keeps I (bindE m f)"
  unfolding keeps_def bindE_def by (fastforce split: prod.splits sum.splits)

lemma keeps_seqE [comp_rules]: "keeps I m \<Longrightarrow> keeps I n \<Longrightarrow> keeps I (seqE m n)"
  unfolding seqE_def by (rule keeps_bindE)

lemma keeps_catchE [comp_rules]:
  "keeps I m \<Longrightarrow> (\<And>e. keeps I (h e)) \<Longrightarrow> keeps I (catchE m h)"
  unfolding keeps_def catchE_def by (fastforce split: prod.splits sum.splits)

lemma keeps_if [comp_rules]:
  "(b \<Longrightarrow> keeps I m) \<Longrightarrow> (\<not> b \<Longrightarrow> keeps I n) \<Longrightarrow> keeps I (if b then m else n)"
  by simp

lemma keeps_case_option [comp_rules]:
  "(x = None \<Longrightarrow> keeps I m) \<Longrightarrow> (\<And>a. x = Some a \<Longrightarrow> keeps I (f a)) \<Longrightarrow>
   keeps I (case x of None \<Rightarrow> m | Some a \<Rightarrow> f a)"
  by (cases x) simp_all

lemma keeps_case_prod [comp_rules]:
  "(\<And>a b. x = (a, b) \<Longrightarrow> keeps I (f a b)) \<Longrightarrow> keeps I (case x of (a, b) \<Rightarrow> f a b)"
  by (cases x) simp

lemma keeps_forE [comp_rules]: "(\<And>x. x \<in> set xs \<Longrightarrow> keeps I (f x)) \<Longrightarrow> keeps I (forE xs f)"
  by (induction xs) (auto intro!: comp_rules)

text \<open>\<open>returns m\<close>: \<open>m\<close> never throws.\<close>

definition returns :: "('s, 'a) comp \<Rightarrow> bool" where
  "returns m \<longleftrightarrow> (\<forall>s. \<exists>a. fst (m s) = Inr a)"

lemma returns_ret [comp_rules]: "returns (ret a)"
  by (simp add: returns_def ret_def)

lemma returns_getS [comp_rules]: "returns getS"
  by (simp add: returns_def getS_def)

lemma returns_modS [comp_rules]: "returns (modS f)"
  by (simp add: returns_def modS_def)

lemma returnsE: "returns m \<Longrightarrow> (\<And>a t. m s = (Inr a, t) \<Longrightarrow> P) \<Longrightarrow> P"
  unfolding returns_def by (metis prod.collapse)

lemma returns_bindE [comp_rules]:
  assumes "returns m" "\<And>a. returns (f a)"
  shows "returns (bindE m f)"
  unfolding returns_def
proof
  fix s
  obtain a t where "m s = (Inr a, t)" using assms(1) by (rule returnsE)
  with assms(2) [of a] show "\<exists>b. fst (bindE m f s) = Inr b"
    by (simp add: bindE_Inr returns_def)
qed

lemma returns_seqE [comp_rules]: "returns m \<Longrightarrow> returns n \<Longrightarrow> returns (seqE m n)"
  unfolding seqE_def by (rule returns_bindE)

lemma returns_catchE [comp_rules]: "(\<And>e. returns (h e)) \<Longrightarrow> returns (catchE m h)"
  unfolding returns_def catchE_def by (fastforce split: prod.splits sum.splits)

lemma returns_if [comp_rules]:
  "(b \<Longrightarrow> returns m) \<Longrightarrow> (\<not> b \<Longrightarrow> returns n) \<Longrightarrow> returns (if b then m else n)"
  by simp

lemma returns_case_option [comp_rules]:
  "(x = None \<Longrightarrow> returns m) \<Longrightarrow> (\<And>a. x = Some a \<Longrightarrow> returns (f a)) \<Longrightarrow>
   returns (case x of None \<Rightarrow> m | Some a \<Rightarrow> f a)"
  by (cases x) simp_all

lemma returns_case_sum [comp_rules]:
  "(\<And>e. x = Inl e \<Longrightarrow> returns (g e)) \<Longrightarrow> (\<And>a. x = Inr a \<Longrightarrow> returns (f a)) \<Longrightarrow>
   returns (case x of Inl e \<Rightarrow> g e | Inr a \<Rightarrow> f a)"
  by (cases x) simp_all

lemma returns_case_prod [comp_rules]:
  "(\<And>a b. x = (a, b) \<Longrightarrow> returns (f a b)) \<Longrightarrow> returns (case x of (a, b) \<Rightarrow> f a b)"
  by (cases x) simp

lemma returns_forE [comp_rules]: "(\<And>x. x \<in> set xs \<Longrightarrow> returns (f x)) \<Longrightarrow> returns (forE xs f)"
  by (induction xs) (auto intro!: comp_rules)

text \<open>A loop over an appended list runs the two halves one after the other.\<close>

lemma forE_append:
  assumes "fst (forE xs f s) = Inr ()"
  shows "forE (xs @ ys) f s = forE ys f (snd (forE xs f s))"
  using assms
proof (induction xs arbitrary: s)
  case (Cons x xs)
  then show ?case
    by (auto simp: seqE_def bindE_def split: prod.splits sum.splits)
qed (simp add: comp_simps)

subsection \<open>Fallible values\<close>

definition bind_sum :: "error + 'a \<Rightarrow> ('a \<Rightarrow> error + 'b) \<Rightarrow> error + 'b" where
  "bind_sum m f = (case m of Inl e \<Rightarrow> Inl e | Inr a \<Rightarrow> f a)"

lemma bind_sum_simps [simp]: "bind_sum (Inl e) f = Inl e" "bind_sum (Inr a) f = f a"
  by (simp_all add: bind_sum_def)

lemma bind_sum_Inr: "bind_sum m f = Inr b \<longleftrightarrow> (\<exists>a. m = Inr a \<and> f a = Inr b)"
  by (simp add: bind_sum_def split: sum.split)

fun map_fallible :: "('a \<Rightarrow> error + 'b) \<Rightarrow> 'a list \<Rightarrow> error + 'b list" where
  "map_fallible f [] = Inr []"
| "map_fallible f (x # xs) =
     bind_sum (f x) (\<lambda>y. bind_sum (map_fallible f xs) (\<lambda>ys. Inr (y # ys)))"

lemma map_fallible_cong [fundef_cong]:
  "xs = ys \<Longrightarrow> (\<And>x. x \<in> set ys \<Longrightarrow> f x = g x) \<Longrightarrow> map_fallible f xs = map_fallible g ys"
  by (induction ys arbitrary: xs) auto

lemma map_fallible_all: "map_fallible f xs = Inr ys \<Longrightarrow> list_all (\<lambda>x. \<exists>y. f x = Inr y) xs"
proof (induction xs arbitrary: ys)
  case (Cons x xs)
  then show ?case by (cases "f x"; cases "map_fallible f xs") auto
qed simp

subsection \<open>Lists\<close>

lemma takeWhile_dropWhile_app: "takeWhile p xs @ dropWhile p xs = xs"
  by simp

lemma list_all_replicate [simp]: "list_all p (replicate n x) \<longleftrightarrow> n = 0 \<or> p x"
  by (induction n) auto

lemma sum_list_map_mono:
  fixes f g :: "'a \<Rightarrow> int"
  shows "(\<And>x. x \<in> set xs \<Longrightarrow> f x \<le> g x) \<Longrightarrow> sum_list (map f xs) \<le> sum_list (map g xs)"
  by (rule sum_list_mono)

end
