(* ===== verification/Js_Number.thy ===== *)
theory Js_Number
  imports Prelude Complex_Main
begin

text \<open>
  JavaScript's \<open>Number\<close>: IEEE 754 binary64 with round-to-nearest-even, as exact rationals plus the
  three special values. Negative zero is not told apart from zero (nothing in the modelled code
  divides by a number or prints a negative zero). The operations are those the modelled code
  uses: \<open>+\<close>, \<open>-\<close>, \<open>*\<close>, \<open>/\<close>, comparison, \<open>Math.floor\<close>, \<open>Math.min\<close>, truthiness, \<open>BigInt(x)\<close> and
  \<open>Number(bigint)\<close>. The main facts: an integer of magnitude at most \<open>2 ^ 53\<close> is its own
  rounding, so integer arithmetic below that bound is exact.
\<close>

datatype jnum = JNaN | JPInf | JNInf | JFin rat

subsection \<open>Rounding to binary64\<close>

text \<open>Number of binary digits.\<close>

fun blen :: "nat \<Rightarrow> nat" where
  "blen n = (if n = 0 then 0 else Suc (blen (n div 2)))"

declare blen.simps [simp del]

text \<open>Floor of the binary logarithm of a positive rational.\<close>

definition flog2 :: "rat \<Rightarrow> int" where
  "flog2 x =
     (if 1 \<le> x then int (blen (nat \<lfloor>x\<rfloor>)) - 1
      else - int (blen (nat (\<lceil>1 / x\<rceil> - 1))))"

text \<open>Round a non-negative rational to an integer, ties to even.\<close>

definition round_even :: "rat \<Rightarrow> int" where
  "round_even y =
     (let f = \<lfloor>y\<rfloor>; r = y - of_int f
      in if r < 1 / 2 then f
         else if 1 / 2 < r then f + 1
         else if even f then f else f + 1)"

definition pow2 :: "int \<Rightarrow> rat" where
  "pow2 e = (if 0 \<le> e then 2 ^ nat e else 1 / 2 ^ nat (- e))"

text \<open>
  Round a positive rational to 53 significant bits; subnormals keep the exponent \<open>-1074\<close>.
\<close>

definition round_pos :: "rat \<Rightarrow> rat" where
  "round_pos x =
     (let e = max (flog2 x - 52) (- 1074)
      in of_int (round_even (x / pow2 e)) * pow2 e)"

definition to_double :: "rat \<Rightarrow> jnum" where
  "to_double x =
     (if x = 0 then JFin 0
      else let y = round_pos \<bar>x\<bar>
           in if pow2 1024 \<le> y then (if 0 < x then JPInf else JNInf)
              else JFin (if 0 < x then y else - y))"

subsection \<open>Arithmetic\<close>

fun js_add :: "jnum \<Rightarrow> jnum \<Rightarrow> jnum" where
  "js_add (JFin a) (JFin b) = to_double (a + b)"
| "js_add JNaN _ = JNaN"
| "js_add _ JNaN = JNaN"
| "js_add JPInf JNInf = JNaN"
| "js_add JNInf JPInf = JNaN"
| "js_add JPInf _ = JPInf"
| "js_add _ JPInf = JPInf"
| "js_add JNInf _ = JNInf"
| "js_add _ JNInf = JNInf"

fun js_neg :: "jnum \<Rightarrow> jnum" where
  "js_neg (JFin a) = JFin (- a)"
| "js_neg JNaN = JNaN"
| "js_neg JPInf = JNInf"
| "js_neg JNInf = JPInf"

definition js_sub :: "jnum \<Rightarrow> jnum \<Rightarrow> jnum" where
  "js_sub a b = js_add a (js_neg b)"

definition inf_of_sign :: "rat \<Rightarrow> jnum" where
  "inf_of_sign a = (if a = 0 then JNaN else if 0 < a then JPInf else JNInf)"

fun js_mul :: "jnum \<Rightarrow> jnum \<Rightarrow> jnum" where
  "js_mul (JFin a) (JFin b) = to_double (a * b)"
| "js_mul JNaN _ = JNaN"
| "js_mul _ JNaN = JNaN"
| "js_mul (JFin a) JPInf = inf_of_sign a"
| "js_mul (JFin a) JNInf = inf_of_sign (- a)"
| "js_mul JPInf (JFin b) = inf_of_sign b"
| "js_mul JNInf (JFin b) = inf_of_sign (- b)"
| "js_mul JPInf JPInf = JPInf"
| "js_mul JNInf JNInf = JPInf"
| "js_mul JPInf JNInf = JNInf"
| "js_mul JNInf JPInf = JNInf"

text \<open>Division, for the non-zero finite divisors the code uses.\<close>

fun js_div :: "jnum \<Rightarrow> jnum \<Rightarrow> jnum" where
  "js_div (JFin a) (JFin b) = (if b = 0 then inf_of_sign a else to_double (a / b))"
| "js_div JNaN _ = JNaN"
| "js_div _ JNaN = JNaN"
| "js_div (JFin a) _ = JFin 0"
| "js_div JPInf (JFin b) = (if 0 \<le> b then JPInf else JNInf)"
| "js_div JNInf (JFin b) = (if 0 \<le> b then JNInf else JPInf)"
| "js_div _ _ = JNaN"

fun js_less :: "jnum \<Rightarrow> jnum \<Rightarrow> bool" where
  "js_less JNaN _ = False"
| "js_less _ JNaN = False"
| "js_less (JFin a) (JFin b) = (a < b)"
| "js_less _ JNInf = False"
| "js_less JPInf _ = False"
| "js_less _ _ = True"

text \<open>\<open>a === b\<close>, \<open>a <= b\<close> and \<open>a >= b\<close>: false whenever an operand is \<open>NaN\<close>.\<close>

definition js_eq :: "jnum \<Rightarrow> jnum \<Rightarrow> bool" where
  "js_eq a b \<longleftrightarrow> a \<noteq> JNaN \<and> a = b"

definition js_le :: "jnum \<Rightarrow> jnum \<Rightarrow> bool" where
  "js_le a b \<longleftrightarrow> js_less a b \<or> js_eq a b"

fun js_floor :: "jnum \<Rightarrow> jnum" where
  "js_floor (JFin a) = JFin (of_int \<lfloor>a\<rfloor>)"
| "js_floor x = x"

definition js_min :: "jnum \<Rightarrow> jnum \<Rightarrow> jnum" where
  "js_min a b = (if a = JNaN \<or> b = JNaN then JNaN else if js_less b a then b else a)"

definition js_max :: "jnum \<Rightarrow> jnum \<Rightarrow> jnum" where
  "js_max a b = (if a = JNaN \<or> b = JNaN then JNaN else if js_less a b then b else a)"

definition js_abs :: "jnum \<Rightarrow> jnum" where
  "js_abs a = (if js_less a (JFin 0) then js_neg a else a)"

text \<open>\<open>0\<close> and \<open>NaN\<close> are falsy.\<close>

definition truthy_num :: "jnum \<Rightarrow> bool" where
  "truthy_num x \<longleftrightarrow> x \<noteq> JNaN \<and> x \<noteq> JFin 0"

text \<open>\<open>BigInt(x)\<close> throws a \<open>RangeError\<close> unless \<open>x\<close> is an integer.\<close>

fun bigint_of_num :: "jnum \<Rightarrow> error + int" where
  "bigint_of_num (JFin a) =
     (if of_int \<lfloor>a\<rfloor> = a then Inr \<lfloor>a\<rfloor> else Inl ''RangeError'')"
| "bigint_of_num _ = Inl ''RangeError''"

text \<open>\<open>Number(n)\<close> of a \<open>BigInt\<close>.\<close>

definition num_of_bigint :: "int \<Rightarrow> jnum" where
  "num_of_bigint n = to_double (of_int n)"

text \<open>A number literal that is an integer; exact for magnitudes up to \<open>2 ^ 53\<close>.\<close>

abbreviation JInt :: "int \<Rightarrow> jnum" where
  "JInt n \<equiv> JFin (of_int n)"

text \<open>BigInt division truncates toward zero.\<close>

definition bigint_div :: "int \<Rightarrow> int \<Rightarrow> int" where
  "bigint_div a b = sgn a * sgn b * (\<bar>a\<bar> div \<bar>b\<bar>)"

text \<open>\<open>%\<close> takes the sign of the dividend.\<close>

definition js_rem :: "int \<Rightarrow> int \<Rightarrow> int" where
  "js_rem a b = sgn a * (\<bar>a\<bar> mod \<bar>b\<bar>)"

definition safe_int :: "int \<Rightarrow> bool" where
  "safe_int n \<longleftrightarrow> \<bar>n\<bar> \<le> 2 ^ 53"

subsection \<open>Integers up to two to the 53 are exact\<close>

lemma blen_le: "n < 2 ^ k \<Longrightarrow> blen n \<le> k"
proof (induction k arbitrary: n)
  case 0
  then show ?case by (simp add: blen.simps)
next
  case (Suc k)
  then have "n div 2 < 2 ^ k" by auto
  then have "blen (n div 2) \<le> k" by (rule Suc.IH)
  then show ?case by (subst blen.simps) simp
qed

lemma blen_pow2: "blen (2 ^ k) = Suc k"
  by (induction k) (subst blen.simps, simp add: blen.simps)+

text \<open>Evaluation on numerals: \<open>simp\<close> computes closed roundings with these.\<close>

lemma blen_0 [js_simps]: "blen 0 = 0"
  by (simp add: blen.simps)

lemma blen_pos [js_simps]: "0 < n \<Longrightarrow> blen n = Suc (blen (n div 2))"
  by (subst blen.simps) simp

lemma floor_rat_numeral [js_simps]:
  "\<lfloor>(numeral a :: rat) / numeral b\<rfloor> = numeral a div numeral b"
  using floor_divide_of_int_eq [of "numeral a" "numeral b", where 'a = rat] by simp

lemma floor_rat_one_numeral [js_simps]: "\<lfloor>1 / (numeral b :: rat)\<rfloor> = 1 div numeral b"
  using floor_divide_of_int_eq [of 1 "numeral b", where 'a = rat] by simp

lemma ceiling_rat_numeral [js_simps]:
  "\<lceil>(numeral a :: rat) / numeral b\<rceil> = - ((- numeral a) div numeral b)"
  using floor_divide_of_int_eq [of "- numeral a" "numeral b", where 'a = rat]
  by (simp add: ceiling_def)

lemmas round_simps = to_double_def round_pos_def round_even_def flog2_def pow2_def Let_def
  js_simps

lemma round_even_of_int [simp]: "round_even (of_int n) = n"
  by (simp add: round_even_def Let_def)

lemma round_pos_int:
  assumes "0 < n" "n \<le> 2 ^ 53"
  shows "round_pos (of_int n) = of_int n"
proof (cases "n = 2 ^ 53")
  case True
  have fl: "flog2 (of_int n) = 53"
    using blen_pow2 [of 53] by (simp add: flog2_def True nat_power_eq)
  have "(of_int n :: rat) / pow2 1 = of_int (2 ^ 52)"
    by (simp add: pow2_def True)
  then have "round_even (of_int n / pow2 1) = 2 ^ 52"
    by (simp only: round_even_of_int)
  then show ?thesis by (simp add: round_pos_def fl Let_def) (simp add: pow2_def True)
next
  case False
  with assms have n: "n < 2 ^ 53" by simp
  define e where "e = flog2 (of_int n) - 52"
  have "nat n < 2 ^ 53" using n by (simp add: nat_less_iff)
  then have "blen (nat n) \<le> 53" by (rule blen_le)
  with assms have e0: "e \<le> 0" and e1: "- 1074 \<le> e"
    by (auto simp: e_def flog2_def)
  have p: "pow2 e = 1 / 2 ^ nat (- e)"
    using e0 by (cases "e = 0") (auto simp: pow2_def)
  have "(of_int n :: rat) / pow2 e = of_int (n * 2 ^ nat (- e))"
    by (simp add: p)
  then have "round_even (of_int n / pow2 e) = n * 2 ^ nat (- e)"
    by (simp only: round_even_of_int)
  then show ?thesis
    using e1 by (simp add: round_pos_def Let_def e_def [symmetric] p max_def)
qed

lemma to_double_int:
  assumes "safe_int n"
  shows "to_double (of_int n) = JInt n"
proof -
  have big: "(9007199254740992 :: rat) < pow2 1024"
    by (simp add: pow2_def)
  have small: "of_int k < pow2 1024" if "k \<le> 2 ^ 53" for k
  proof -
    have "(of_int k :: rat) \<le> of_int (2 ^ 53)" using that by (simp only: of_int_le_iff)
    with big show ?thesis by simp
  qed
  consider "n = 0" | "0 < n" | "n < 0" by linarith
  then show ?thesis
  proof cases
    case 2
    with assms have "n \<le> 2 ^ 53" by (simp add: safe_int_def)
    with 2 show ?thesis
      using round_pos_int [of n] small [of n] by (simp add: to_double_def Let_def)
  next
    case 3
    with assms have "- n \<le> 2 ^ 53" by (simp add: safe_int_def)
    with 3 show ?thesis
      using round_pos_int [of "- n"] small [of "- n"] by (simp add: to_double_def Let_def)
  qed (simp add: to_double_def)
qed

lemma js_add_int: "safe_int (a + b) \<Longrightarrow> js_add (JInt a) (JInt b) = JInt (a + b)"
  using to_double_int [of "a + b"] by simp

lemma js_sub_int: "safe_int (a - b) \<Longrightarrow> js_sub (JInt a) (JInt b) = JInt (a - b)"
  using to_double_int [of "a - b"] by (simp add: js_sub_def)

lemma js_mul_int: "safe_int (a * b) \<Longrightarrow> js_mul (JInt a) (JInt b) = JInt (a * b)"
  using to_double_int [of "a * b"] by simp

lemma num_of_bigint_safe: "safe_int n \<Longrightarrow> num_of_bigint n = JInt n"
  by (simp add: num_of_bigint_def to_double_int)

lemma js_less_int [js_simps]: "js_less (JInt a) (JInt b) \<longleftrightarrow> a < b"
  by simp

lemma js_eq_int [js_simps]: "js_eq (JInt a) (JInt b) \<longleftrightarrow> a = b"
  by (simp add: js_eq_def)

lemma js_le_int [js_simps]: "js_le (JInt a) (JInt b) \<longleftrightarrow> a \<le> b"
  by (auto simp: js_le_def js_eq_def)

lemma js_floor_int [js_simps]: "js_floor (JInt a) = JInt a"
  by simp

lemma truthy_num_int [js_simps]: "truthy_num (JInt a) \<longleftrightarrow> a \<noteq> 0"
  by (simp add: truthy_num_def)

lemma bigint_of_num_int [js_simps]: "bigint_of_num (JInt a) = Inr a"
  by simp

lemma bigint_div_nonneg [js_simps]: "0 \<le> a \<Longrightarrow> 0 < b \<Longrightarrow> bigint_div a b = a div b"
  by (cases "a = 0") (simp_all add: bigint_div_def)

lemma js_rem_nonneg [js_simps]: "0 \<le> a \<Longrightarrow> 0 < b \<Longrightarrow> js_rem a b = a mod b"
  by (cases "a = 0") (simp_all add: js_rem_def)

subsection \<open>Bitwise operators\<close>

text \<open>
  \<open><<\<close>, \<open>>>\<close>, \<open>&\<close> and \<open>|\<close> convert their operands with \<open>ToInt32\<close> (the two's complement value of the
  low 32 bits) and use the shift count modulo 32.
\<close>

unbundle bit_operations_syntax

definition to_int32 :: "int \<Rightarrow> int" where
  "to_int32 n = signed_take_bit 31 n"

definition js_shl :: "int \<Rightarrow> nat \<Rightarrow> int" where
  "js_shl a n = to_int32 (push_bit (n mod 32) (to_int32 a))"

definition js_shr :: "int \<Rightarrow> nat \<Rightarrow> int" where
  "js_shr a n = drop_bit (n mod 32) (to_int32 a)"

definition js_and :: "int \<Rightarrow> int \<Rightarrow> int" where
  "js_and a b = to_int32 a AND to_int32 b"

definition js_or :: "int \<Rightarrow> int \<Rightarrow> int" where
  "js_or a b = to_int32 a OR to_int32 b"

lemma to_int32_small: "0 \<le> n \<Longrightarrow> n < 2 ^ 31 \<Longrightarrow> to_int32 n = n"
  unfolding to_int32_def by (rule signed_take_bit_int_eq_self) simp_all

lemma js_shl_small:
  "0 \<le> a \<Longrightarrow> a * 2 ^ n < 2 ^ 31 \<Longrightarrow> n < 32 \<Longrightarrow> js_shl a n = a * 2 ^ n"
proof -
  assume a: "0 \<le> a" "a * 2 ^ n < 2 ^ 31" and n: "n < 32"
  have "a * 1 \<le> a * 2 ^ n" using a(1) by (intro mult_left_mono) simp_all
  with a(2) have "a < 2 ^ 31" by simp
  with a n show ?thesis by (simp add: js_shl_def push_bit_eq_mult to_int32_small)
qed

lemma js_shr_small:
  "0 \<le> a \<Longrightarrow> a < 2 ^ 31 \<Longrightarrow> n < 32 \<Longrightarrow> js_shr a n = a div 2 ^ n"
  by (simp add: js_shr_def drop_bit_eq_div to_int32_small)

lemma js_and_mask:
  "0 \<le> a \<Longrightarrow> a < 2 ^ 31 \<Longrightarrow> n < 32 \<Longrightarrow> js_and a (2 ^ n - 1) = a mod 2 ^ n"
proof -
  assume a: "0 \<le> a" "a < 2 ^ 31" and "n < 32"
  then have "(2 :: int) ^ n \<le> 2 ^ 31" by (intro power_increasing) simp_all
  moreover have "(1 :: int) \<le> 2 ^ n" by simp
  ultimately have "to_int32 (2 ^ n - 1) = 2 ^ n - 1" by (intro to_int32_small) linarith+
  with a show ?thesis
    by (simp add: js_and_def to_int32_small take_bit_eq_mask [unfolded mask_eq_exp_minus_1, symmetric]
        take_bit_eq_mod)
qed

lemma js_or_disjoint:
  assumes "0 \<le> a" "a * 2 ^ n < 2 ^ 31" "0 \<le> v" "v < 2 ^ n" "n < 32"
  shows "js_or (a * 2 ^ n) v = a * 2 ^ n + v"
proof -
  have "(2 :: int) ^ n \<le> 2 ^ 31" using assms(5) by (intro power_increasing) simp_all
  with assms(4) have v: "v < 2 ^ 31" by linarith
  have eq: "take_bit n v = v" using assms by (simp add: take_bit_int_eq_self)
  have "push_bit n a AND take_bit n v = 0"
    by (rule bit_eqI) (auto simp: bit_simps)
  then have "push_bit n a OR take_bit n v = push_bit n a + take_bit n v"
    by (simp add: disjunctive_add_eq_or)
  with eq have "push_bit n a OR v = a * 2 ^ n + v" by (simp add: push_bit_eq_mult)
  with assms v show ?thesis
    by (simp add: js_or_def to_int32_small push_bit_eq_mult)
qed

end
