(* ===== verification/Js_String.thy ===== *)
theory Js_String
  imports Js_Number
begin

text \<open>
  JavaScript's string library, as far as the modelled code uses it. A string is a list of
  characters; the inputs of the modelled code are ASCII, and the few non-ASCII characters its
  output contains are written as their UTF-8 bytes. Printing and parsing of numbers
  (\<open>String(x)\<close>, \<open>n.toString(radix)\<close>, \<open>Number(s)\<close>, \<open>parseFloat\<close>, \<open>parseInt\<close>, \<open>BigInt(s)\<close>) follow
  ECMA-262; the round trip of printing and parsing an integer is proved for every radix.
\<close>

text \<open>Characters outside ASCII, by their UTF-8 bytes, and the line feed.\<close>

definition ellipsis :: string where
  "ellipsis = [CHR 0xE2, CHR 0x80, CHR 0xA6]"

definition dash :: string where
  "dash = [CHR 0xE2, CHR 0x80, CHR 0x94]"

definition apostrophe :: string where
  "apostrophe = [CHR 0xE2, CHR 0x80, CHR 0x99]"

definition bullet :: string where
  "bullet = [CHR 0xE2, CHR 0x80, CHR 0xA2]"

definition middle_dot :: string where
  "middle_dot = [CHR 0xC2, CHR 0xB7]"

definition nl :: string where
  "nl = [CHR 0x0A]"

lemmas char_strings = ellipsis_def dash_def apostrophe_def bullet_def middle_dot_def nl_def

subsection \<open>Searching, replacing, trimming\<close>

definition starts_with :: "string \<Rightarrow> string \<Rightarrow> bool" where
  "starts_with s p \<longleftrightarrow> take (length p) s = p"

fun includes_str :: "string \<Rightarrow> string \<Rightarrow> bool" where
  "includes_str [] p = (p = [])"
| "includes_str (c # s) p = (starts_with (c # s) p \<or> includes_str s p)"

text \<open>\<open>s.replace(p, r)\<close> with a string pattern replaces the first occurrence.\<close>

fun replace_first :: "string \<Rightarrow> string \<Rightarrow> string \<Rightarrow> string" where
  "replace_first p r [] = (if p = [] then r else [])"
| "replace_first p r (c # s) =
     (if starts_with (c # s) p then r @ drop (length p) (c # s)
      else c # replace_first p r s)"

definition is_space :: "char \<Rightarrow> bool" where
  "is_space c \<longleftrightarrow> (of_char c :: nat) \<in> {9, 10, 11, 12, 13, 32}"

definition trim_start :: "string \<Rightarrow> string" where
  "trim_start s = dropWhile is_space s"

definition trim :: "string \<Rightarrow> string" where
  "trim s = rev (dropWhile is_space (rev (dropWhile is_space s)))"

definition pad_start :: "nat \<Rightarrow> char \<Rightarrow> string \<Rightarrow> string" where
  "pad_start n c s = replicate (n - length s) c @ s"

definition to_lower_char :: "char \<Rightarrow> char" where
  "to_lower_char c =
     (if 65 \<le> (of_char c :: nat) \<and> (of_char c :: nat) \<le> 90
      then char_of (of_char c + 32 :: nat) else c)"

definition to_lower :: "string \<Rightarrow> string" where
  "to_lower s = map to_lower_char s"

text \<open>\<open>null\<close> and the empty string are falsy.\<close>

definition truthy_str :: "string option \<Rightarrow> bool" where
  "truthy_str x \<longleftrightarrow> x \<noteq> None \<and> x \<noteq> Some []"

lemma truthy_str_simps [js_simps, simp]:
  "truthy_str None = False" "truthy_str (Some s) = (s \<noteq> [])"
  by (simp_all add: truthy_str_def)

lemma starts_with_append [simp]: "starts_with (p @ s) p"
  by (simp add: starts_with_def)

lemma starts_with_iff: "starts_with s p \<longleftrightarrow> (\<exists>t. s = p @ t)"
  unfolding starts_with_def by (metis append_eq_conv_conj append_take_drop_id)

lemma starts_with_Nil [simp]: "starts_with s []"
  by (simp add: starts_with_def)

lemma starts_with_Cons [js_simps]:
  "starts_with [] (d # p) = False"
  "starts_with (c # s) (d # p) \<longleftrightarrow> c = d \<and> starts_with s p"
  by (auto simp: starts_with_def)

lemma includes_char: "includes_str s [c] \<longleftrightarrow> c \<in> set s"
  by (induction s) (auto simp: starts_with_def)

lemma replace_first_absent: "\<not> includes_str s p \<Longrightarrow> replace_first p r s = s"
  by (induction s) (auto split: if_splits)

lemma length_pad_start: "length (pad_start n c s) = max n (length s)"
  by (simp add: pad_start_def)

text \<open>\<open>s.split('/')\<close>.\<close>

fun split_slash :: "string \<Rightarrow> string list" where
  "split_slash [] = [[]]"
| "split_slash (c # s) =
     (case split_slash s of
        [] \<Rightarrow> []
      | w # ws \<Rightarrow> if c = CHR ''/'' then [] # w # ws else (c # w) # ws)"

lemma split_slash_plain: "CHR ''/'' \<notin> set s \<Longrightarrow> split_slash s = [s]"
  by (induction s) auto

lemma split_slash_nonempty: "split_slash s \<noteq> []"
  by (induction s) (auto split: list.splits)

lemma split_slash_seg:
  "CHR ''/'' \<notin> set a \<Longrightarrow> split_slash (a @ CHR ''/'' # s) = a # split_slash s"
proof (induction a)
  case Nil
  show ?case using split_slash_nonempty [of s] by (simp split: list.split)
qed auto

subsection \<open>Digits\<close>

definition digit_char :: "nat \<Rightarrow> char" where
  "digit_char d = (if d < 10 then char_of (48 + d) else char_of (87 + d))"

definition digit_val :: "char \<Rightarrow> nat" where
  "digit_val c =
     (let n = of_char c
      in if 48 \<le> n \<and> n \<le> 57 then n - 48
         else if 97 \<le> n \<and> n \<le> 122 then n - 87
         else if 65 \<le> n \<and> n \<le> 90 then n - 55
         else 36)"

text \<open>A digit of the given radix (at most 36).\<close>

definition is_digit_of :: "nat \<Rightarrow> char \<Rightarrow> bool" where
  "is_digit_of b c \<longleftrightarrow> digit_val c < b"

abbreviation is_digit :: "char \<Rightarrow> bool" where
  "is_digit \<equiv> is_digit_of 10"

fun show_base :: "nat \<Rightarrow> nat \<Rightarrow> string" where
  "show_base b n =
     (if b < 2 \<or> n < b then [digit_char n]
      else show_base b (n div b) @ [digit_char (n mod b)])"

declare show_base.simps [simp del]

definition parse_base :: "nat \<Rightarrow> string \<Rightarrow> nat" where
  "parse_base b s = foldl (\<lambda>a c. a * b + digit_val c) 0 s"

lemma digit_val_char [simp]: "d < 36 \<Longrightarrow> digit_val (digit_char d) = d"
  by (auto simp: digit_val_def digit_char_def Let_def of_char_of)

lemma is_digit_of_char: "d < b \<Longrightarrow> b \<le> 36 \<Longrightarrow> is_digit_of b (digit_char d)"
  by (simp add: is_digit_of_def)

lemma parse_base_snoc [simp]: "parse_base b (s @ [c]) = parse_base b s * b + digit_val c"
  by (simp add: parse_base_def)

lemma parse_base_Nil [simp]: "parse_base b [] = 0"
  by (simp add: parse_base_def)

theorem parse_show_base:
  "2 \<le> b \<Longrightarrow> b \<le> 36 \<Longrightarrow> parse_base b (show_base b n) = n"
proof (induction b n rule: show_base.induct)
  case (1 b n)
  show ?case
  proof (cases "n < b")
    case True
    with "1.prems" show ?thesis
      by (subst show_base.simps) (simp add: parse_base_def)
  next
    case False
    with "1" have "parse_base b (show_base b (n div b)) = n div b" by simp
    moreover have "n mod b < 36"
      using "1.prems" mod_less_divisor [of b n] by linarith
    ultimately show ?thesis
      using False "1.prems" by (subst show_base.simps) simp
  qed
qed

lemma show_base_digits:
  "2 \<le> b \<Longrightarrow> b \<le> 36 \<Longrightarrow> c \<in> set (show_base b n) \<Longrightarrow> is_digit_of b c"
proof (induction b n rule: show_base.induct)
  case (1 b n)
  show ?case
  proof (cases "n < b")
    case True
    with "1.prems" have "show_base b n = [digit_char n]" by (subst show_base.simps) simp
    with True "1.prems" show ?thesis by (simp add: is_digit_of_char)
  next
    case False
    with "1.prems" have "show_base b n = show_base b (n div b) @ [digit_char (n mod b)]"
      by (subst show_base.simps) simp
    with False "1" show ?thesis by (auto intro!: is_digit_of_char)
  qed
qed

lemma show_base_nonempty [simp]: "show_base b n \<noteq> []"
  by (subst show_base.simps) simp

lemma length_show_base_le:
  "2 \<le> b \<Longrightarrow> n < b ^ k \<Longrightarrow> 0 < k \<Longrightarrow> length (show_base b n) \<le> k"
proof (induction k arbitrary: n)
  case (Suc k)
  show ?case
  proof (cases "n < b")
    case True
    with Suc.prems show ?thesis by (subst show_base.simps) simp
  next
    case False
    then have k: "0 < k" using Suc.prems by (cases k) auto
    have "n div b < b ^ k"
      using Suc.prems by (simp add: less_mult_imp_div_less mult.commute)
    then have "length (show_base b (n div b)) \<le> k" using Suc k by simp
    with False Suc.prems show ?thesis by (subst show_base.simps) simp
  qed
qed simp

lemma parse_base_zeros [simp]:
  "parse_base b (replicate k (CHR ''0'') @ s) = parse_base b s"
proof (induction k)
  case (Suc k)
  have "digit_val (CHR ''0'') = 0" by (simp add: digit_val_def Let_def)
  then have "parse_base b (CHR ''0'' # t) = parse_base b t" for t
    by (simp add: parse_base_def)
  with Suc show ?case by simp
qed simp

subsection \<open>Integers\<close>

text \<open>\<open>n.toString(radix)\<close> of a \<open>BigInt\<close>.\<close>

definition show_bigint :: "nat \<Rightarrow> int \<Rightarrow> string" where
  "show_bigint b n =
     (if n < 0 then CHR ''-'' # show_base b (nat (- n)) else show_base b (nat n))"

abbreviation show_int :: "int \<Rightarrow> string" where
  "show_int \<equiv> show_bigint 10"

definition syntax_error :: error where
  "syntax_error = ''SyntaxError''"

text \<open>
  \<open>BigInt(s)\<close>: surrounding white space is dropped, the empty string is zero, a \<open>0x\<close>, \<open>0o\<close> or
  \<open>0b\<close> literal has no sign, anything else must be an optionally signed run of decimal digits.
\<close>

definition all_digits :: "nat \<Rightarrow> string \<Rightarrow> bool" where
  "all_digits b s \<longleftrightarrow> s \<noteq> [] \<and> list_all (is_digit_of b) s"

definition radix_prefix :: "string \<Rightarrow> (nat \<times> string) option" where
  "radix_prefix s =
     (case s of
        c # d # t \<Rightarrow>
          if c = CHR ''0'' \<and> d \<in> {CHR ''x'', CHR ''X''} then Some (16, t)
          else if c = CHR ''0'' \<and> d \<in> {CHR ''o'', CHR ''O''} then Some (8, t)
          else if c = CHR ''0'' \<and> d \<in> {CHR ''b'', CHR ''B''} then Some (2, t)
          else None
      | _ \<Rightarrow> None)"

definition split_sign :: "string \<Rightarrow> int \<times> string" where
  "split_sign s =
     (case s of
        c # t \<Rightarrow> if c = CHR ''-'' then (- 1, t) else if c = CHR ''+'' then (1, t) else (1, s)
      | [] \<Rightarrow> (1, s))"

definition bigint_of_string :: "string \<Rightarrow> error + int" where
  "bigint_of_string s =
     (let t = trim s
      in if t = [] then Inr 0
         else case radix_prefix t of
           Some (b, u) \<Rightarrow>
             if all_digits b u then Inr (int (parse_base b u)) else Inl syntax_error
         | None \<Rightarrow>
             (let (sg, u) = split_sign t
              in if all_digits 10 u then Inr (sg * int (parse_base 10 u))
                 else Inl syntax_error))"

subsection \<open>Decimal literals\<close>

definition ten_pow :: "int \<Rightarrow> rat" where
  "ten_pow e = (if 0 \<le> e then 10 ^ nat e else 1 / 10 ^ nat (- e))"

text \<open>The optional exponent part; without digits it is not consumed.\<close>

definition parse_exp :: "string \<Rightarrow> int \<times> string" where
  "parse_exp s =
     (case s of
        c # t \<Rightarrow>
          if c = CHR ''e'' \<or> c = CHR ''E'' then
            (let (sg, u) = split_sign t; ds = takeWhile is_digit u
             in if ds = [] then (0, s)
                else (sg * int (parse_base 10 ds), dropWhile is_digit u))
          else (0, s)
      | [] \<Rightarrow> (0, s))"

text \<open>The longest prefix that is an unsigned decimal literal: its value and the rest.\<close>

definition parse_udec :: "string \<Rightarrow> (rat \<times> string) option" where
  "parse_udec s =
     (let ds = takeWhile is_digit s; r = dropWhile is_digit s;
          (fs, r2) =
            (case r of
               c # t \<Rightarrow>
                 if c = CHR ''.'' \<and> (ds \<noteq> [] \<or> takeWhile is_digit t \<noteq> [])
                 then (takeWhile is_digit t, dropWhile is_digit t) else ([], r)
             | [] \<Rightarrow> ([], r));
          (e, r3) = parse_exp r2
      in if ds = [] \<and> fs = [] then None
         else Some (of_nat (parse_base 10 (ds @ fs)) / 10 ^ length fs * ten_pow e, r3))"

definition parse_sdec :: "string \<Rightarrow> (jnum \<times> string) option" where
  "parse_sdec s =
     (let (sg, u) = split_sign s
      in if starts_with u ''Infinity''
         then Some (if sg = 1 then JPInf else JNInf, drop 8 u)
         else map_option (\<lambda>(v, r). (to_double (of_int sg * v), r)) (parse_udec u))"

definition parse_float :: "string \<Rightarrow> jnum" where
  "parse_float s =
     (case parse_sdec (trim_start s) of None \<Rightarrow> JNaN | Some (v, _) \<Rightarrow> v)"

text \<open>\<open>Number(s)\<close>: the whole trimmed string must be a literal; the empty string is zero.\<close>

definition num_of_string :: "string \<Rightarrow> jnum" where
  "num_of_string s =
     (let t = trim s
      in if t = [] then JFin 0
         else case radix_prefix t of
           Some (b, u) \<Rightarrow>
             if all_digits b u then to_double (of_nat (parse_base b u)) else JNaN
         | None \<Rightarrow>
             (case parse_sdec t of Some (v, []) \<Rightarrow> v | _ \<Rightarrow> JNaN))"

text \<open>\<open>parseInt(s, radix)\<close> for radix 10 and 16 (the latter skips a \<open>0x\<close>).\<close>

definition parse_int :: "nat \<Rightarrow> string \<Rightarrow> jnum" where
  "parse_int b s =
     (let (sg, u) = split_sign (trim_start s);
          v = (if b = 16 \<and> (starts_with u ''0x'' \<or> starts_with u ''0X'') then drop 2 u else u);
          ds = takeWhile (is_digit_of b) v
      in if ds = [] then JNaN else to_double (of_int (sg * int (parse_base b ds))))"

subsection \<open>Printing numbers\<close>

text \<open>
  \<open>String(x)\<close> prints the shortest decimal that reads back as \<open>x\<close>. \<open>shortest n x k\<close> looks for it
  with \<open>k\<close> digits, where \<open>10 ^ (n - 1) \<le> x < 10 ^ n\<close>; seventeen digits always suffice. A candidate
  that rounds up to \<open>10 ^ k\<close> is written with the next exponent.
\<close>

fun flog10_up :: "nat \<Rightarrow> rat \<Rightarrow> int \<Rightarrow> int" where
  "flog10_up 0 x n = n"
| "flog10_up (Suc k) x n = (if ten_pow n \<le> x then flog10_up k x (n + 1) else n)"

definition dec_exponent :: "rat \<Rightarrow> int" where
  "dec_exponent x = (if 1 \<le> x then flog10_up 310 x 0 else flog10_up 325 x (- 324))"

definition norm_digits :: "int \<Rightarrow> nat \<Rightarrow> int \<Rightarrow> int \<times> nat \<times> int" where
  "norm_digits s k n = (if s = 10 ^ k then (10 ^ (k - 1), k, n + 1) else (s, k, n))"

fun shortest :: "int \<Rightarrow> rat \<Rightarrow> nat \<Rightarrow> nat \<Rightarrow> int \<times> nat \<times> int" where
  "shortest n x k 0 = norm_digits (round_even (x * ten_pow (int k - n))) k n"
| "shortest n x k (Suc fuel) =
     (let s = round_even (x * ten_pow (int k - n))
      in if to_double (of_int s * ten_pow (n - int k)) = JFin x then norm_digits s k n
         else shortest n x (Suc k) fuel)"

definition show_pos :: "rat \<Rightarrow> string" where
  "show_pos x =
     (let (s, k, n) = shortest (dec_exponent x) x 1 16; ds = show_base 10 (nat s)
      in if int k \<le> n \<and> n \<le> 21 then ds @ replicate (nat (n - int k)) (CHR ''0'')
         else if 0 < n \<and> n \<le> 21 then take (nat n) ds @ ''.'' @ drop (nat n) ds
         else if - 6 < n \<and> n \<le> 0 then ''0.'' @ replicate (nat (- n)) (CHR ''0'') @ ds
         else
           (let e = n - 1; es = (if e < 0 then ''-'' else ''+'') @ show_int \<bar>e\<bar>
            in if k = 1 then ds @ ''e'' @ es
               else take 1 ds @ ''.'' @ drop 1 ds @ ''e'' @ es))"

definition show_num :: "jnum \<Rightarrow> string" where
  "show_num x =
     (case x of
        JNaN \<Rightarrow> ''NaN''
      | JPInf \<Rightarrow> ''Infinity''
      | JNInf \<Rightarrow> ''-Infinity''
      | JFin a \<Rightarrow>
          if a = 0 then ''0'' else if a < 0 then CHR ''-'' # show_pos (- a) else show_pos a)"

text \<open>\<open>n.toString(16)\<close> of an integer.\<close>

fun num_hex :: "jnum \<Rightarrow> string" where
  "num_hex (JFin q) = show_bigint 16 \<lfloor>q\<rfloor>"
| "num_hex x = show_num x"

subsection \<open>The round trip of a printed integer\<close>

lemma digit_not_space: "is_digit_of b c \<Longrightarrow> b \<le> 36 \<Longrightarrow> \<not> is_space c"
  by (auto simp: is_digit_of_def digit_val_def is_space_def Let_def split: if_splits)

lemma dropWhile_none: "(\<And>c. c \<in> set s \<Longrightarrow> \<not> p c) \<Longrightarrow> dropWhile p s = s"
  by (cases s) auto

lemma trim_none: "(\<And>c. c \<in> set s \<Longrightarrow> \<not> is_space c) \<Longrightarrow> trim s = s"
  unfolding trim_def by (subst (2) dropWhile_none, blast) (subst dropWhile_none, simp_all)

lemma all_digits_show: "2 \<le> b \<Longrightarrow> b \<le> 36 \<Longrightarrow> all_digits b (show_base b n)"
  by (auto simp: all_digits_def list_all_iff intro: show_base_digits)

lemma digit_not_sign:
  assumes "is_digit_of b c" "b \<le> 36"
  shows "c \<noteq> CHR ''-''" and "c \<noteq> CHR ''+''" and "c \<noteq> CHR ''.''"
  using assms by (auto simp: is_digit_of_def digit_val_def Let_def)

lemma not_decimal_digits [js_simps]:
  "\<not> is_digit (CHR ''-'')" "\<not> is_digit (CHR ''+'')" "\<not> is_digit (CHR ''.'')"
  "\<not> is_digit (CHR ''x'')" "\<not> is_digit (CHR ''X'')" "\<not> is_digit (CHR ''o'')"
  "\<not> is_digit (CHR ''O'')" "\<not> is_digit (CHR ''b'')" "\<not> is_digit (CHR ''B'')"
  by (simp_all add: is_digit_of_def digit_val_def Let_def)

lemma radix_prefix_digits: "list_all is_digit s \<Longrightarrow> radix_prefix s = None"
proof -
  have no: "d \<notin> {CHR ''x'', CHR ''X'', CHR ''o'', CHR ''O'', CHR ''b'', CHR ''B''}" if "is_digit d" for d
    using that not_decimal_digits by fastforce
  assume "list_all is_digit s"
  then consider "s = []" | c where "s = [c]" | c d t where "s = c # d # t" "is_digit d"
    by (cases s rule: remdups_adj.cases) auto
  then show ?thesis
  proof cases
    case (3 c d t)
    with no [of d] show ?thesis by (simp add: radix_prefix_def)
  qed (simp_all add: radix_prefix_def)
qed

lemma split_sign_digits: "list_all is_digit s \<Longrightarrow> split_sign s = (1, s)"
  by (auto simp: split_sign_def not_decimal_digits split: list.splits)

lemma bigint_of_digits:
  assumes "all_digits 10 s"
  shows "bigint_of_string s = Inr (int (parse_base 10 s))"
proof -
  from assms have d: "list_all is_digit s" and ne: "s \<noteq> []"
    by (simp_all add: all_digits_def)
  from d have "trim s = s"
    using digit_not_space [of 10] by (intro trim_none) (auto simp: list_all_iff)
  with assms ne d show ?thesis
    by (simp add: bigint_of_string_def radix_prefix_digits split_sign_digits)
qed

theorem bigint_of_show: "0 \<le> n \<Longrightarrow> bigint_of_string (show_int n) = Inr n"
  by (simp add: show_bigint_def bigint_of_digits all_digits_show parse_show_base)

lemma show_int_no_dot: "\<not> includes_str (show_int n) ''.''"
proof -
  have "CHR ''.'' \<notin> set (show_base 10 m)" for m
    using show_base_digits [of 10 "CHR ''.''" m] digit_not_sign(3) [of 10 "CHR ''.''"] by auto
  then show ?thesis by (simp add: includes_char show_bigint_def)
qed

lemma show_bigint_nonempty [simp]: "show_bigint b n \<noteq> []"
  by (simp add: show_bigint_def)

lemma num_of_digits:
  assumes "all_digits 10 s"
  shows "num_of_string s = to_double (of_nat (parse_base 10 s))"
proof -
  from assms have d: "list_all is_digit s" and ne: "s \<noteq> []"
    by (simp_all add: all_digits_def)
  from d have "trim s = s"
    using digit_not_space [of 10] by (intro trim_none) (auto simp: list_all_iff)
  moreover have tk: "takeWhile is_digit s = s" "dropWhile is_digit s = []"
    using d by (simp_all add: list_all_iff)
  have "parse_udec s = Some (of_nat (parse_base 10 s), [])"
    using ne by (simp add: parse_udec_def tk parse_exp_def ten_pow_def)
  moreover have "\<not> starts_with s ''Infinity''"
  proof (cases s)
    case (Cons c t)
    with d have "c \<noteq> CHR ''I''" by (auto simp: is_digit_of_def digit_val_def)
    then show ?thesis by (simp add: Cons starts_with_Cons)
  qed (use ne in simp)
  ultimately show ?thesis
    using d ne by (simp add: num_of_string_def parse_sdec_def radix_prefix_digits split_sign_digits)
qed

lemma num_of_show: "0 \<le> n \<Longrightarrow> safe_int n \<Longrightarrow> num_of_string (show_int n) = JInt n"
  using to_double_int [of n]
  by (simp add: show_bigint_def num_of_digits all_digits_show parse_show_base safe_int_def)

end
