(* ===== verification/Hd_Wallet.thy ===== *)
theory Hd_Wallet
  imports Js_String "HOL-Library.Word" "HOL-Library.While_Combinator"
begin

text \<open>
  \<open>packages/federation/src/wallet.ts\<close>: derivation of deposit addresses and signing keys.
  The BIP32/BIP39 libraries, the bech32 checksum and the hash functions are not in the
  repository; they are the fields of the record \<open>crypto\<close>, which the operations take as an
  argument. The conversion of a byte string to 5-bit groups is the repository's own loop on
  32-bit integers and is modelled operator by operator; the main theorem says the groups are
  the big-endian bits of the bytes, zero-padded.
\<close>

subsection \<open>Libraries outside the repository\<close>

type_synonym bytes = "8 word list"

text \<open>\<open>HDKey\<close> of \<open>@scure/bip32\<close>: the two key fields the code reads, and the rest.\<close>

record hdkey =
  privateKey :: "bytes option"
  publicKey :: "bytes option"
  chain :: bytes

record crypto =
  mnemonicToSeedSync :: "string \<Rightarrow> error + bytes"
  fromMasterSeed :: "bytes \<Rightarrow> error + hdkey"
  hd_derive :: "hdkey \<Rightarrow> string \<Rightarrow> error + hdkey"
  sha256 :: "bytes \<Rightarrow> bytes"
  ripemd160 :: "bytes \<Rightarrow> bytes"
  bech32_encode :: "string \<Rightarrow> int list \<Rightarrow> error + string"

subsection \<open>hash160 and convertBits\<close>

definition hash160 :: "crypto \<Rightarrow> bytes \<Rightarrow> bytes" where
  "hash160 c pubkey = ripemd160 c (sha256 c pubkey)"

text \<open>
  The inner \<open>while\<close>: emit the top \<open>toBits\<close> bits until fewer remain. Returns the emitted groups and
  the number of bits left. With \<open>toBits = 0\<close> the source would loop forever; it is only called
  with 5, and the model stops there.
\<close>

function emit_groups :: "int \<Rightarrow> nat \<Rightarrow> nat \<Rightarrow> int \<Rightarrow> int list \<times> nat" where
  "emit_groups acc bits toBits maxv =
     (if toBits = 0 \<or> bits < toBits then ([], bits)
      else (let b = bits - toBits;
                (r, left) = emit_groups acc b toBits maxv
            in (js_and (js_shr acc b) maxv # r, left)))"
  by pat_completeness auto
termination
  by (relation "measure (\<lambda>(acc, bits, toBits, maxv). bits)") auto

declare emit_groups.simps [simp del]

text \<open>The \<open>while\<close> loop as it is written, which may run forever.\<close>

definition emit_loop :: "int \<Rightarrow> nat \<Rightarrow> nat \<Rightarrow> int \<Rightarrow> (int list \<times> nat) option" where
  "emit_loop acc bits toBits maxv =
     while_option (\<lambda>(groups, n). toBits \<le> n)
       (\<lambda>(groups, n). (groups @ [js_and (js_shr acc (n - toBits)) maxv], n - toBits)) ([], bits)"

text \<open>The \<open>for\<close> loop over the bytes: emitted groups, accumulator and pending bit count.\<close>

fun convert_loop ::
  "nat \<Rightarrow> nat \<Rightarrow> int \<Rightarrow> int \<Rightarrow> int \<Rightarrow> nat \<Rightarrow> bytes \<Rightarrow> int list \<times> int \<times> nat" where
  "convert_loop fromBits toBits maxv maxAcc acc bits [] = ([], acc, bits)"
| "convert_loop fromBits toBits maxv maxAcc acc bits (v # data) =
     (let acc1 = js_and (js_or (js_shl acc fromBits) (uint v)) maxAcc;
          (g, b) = emit_groups acc1 (bits + fromBits) toBits maxv;
          (r, acc2, b2) = convert_loop fromBits toBits maxv maxAcc acc1 b data
      in (g @ r, acc2, b2))"

definition convertBits :: "bytes \<Rightarrow> nat \<Rightarrow> nat \<Rightarrow> bool \<Rightarrow> int list" where
  "convertBits data fromBits toBits pad =
     (let maxv = js_shl 1 toBits - 1;
          maxAcc = js_shl 1 (fromBits + toBits - 1) - 1;
          (r, acc, bits) = convert_loop fromBits toBits maxv maxAcc 0 0 data
      in if pad \<and> bits \<noteq> 0 then r @ [js_and (js_shl acc (toBits - bits)) maxv] else r)"

definition encodeSegwitAddress :: "crypto \<Rightarrow> string \<Rightarrow> int \<Rightarrow> bytes \<Rightarrow> error + string" where
  "encodeSegwitAddress c hrp version program =
     bech32_encode c hrp (version # convertBits program 8 5 True)"

subsection \<open>HDWallet\<close>

definition DERIVATION_PATHS :: "string \<Rightarrow> string option" where
  "DERIVATION_PATHS network =
     (if network = ''mainnet'' then Some ''m/84'/0'/0'/0/''
      else if network = ''testnet'' then Some ''m/84'/0'/0'/0/''
      else if network = ''signet'' then Some ''m/44'/1'/0'/0/''
      else None)"

record HDWallet =
  master :: hdkey

definition newHDWallet :: "crypto \<Rightarrow> string \<Rightarrow> error + HDWallet" where
  "newHDWallet c mnemonic =
     bind_sum (mnemonicToSeedSync c mnemonic) (\<lambda>seed.
     bind_sum (fromMasterSeed c seed) (\<lambda>m. Inr \<lparr>master = m\<rparr>))"

definition deriveDepositAddress ::
  "crypto \<Rightarrow> HDWallet \<Rightarrow> string \<Rightarrow> int \<Rightarrow> error + string" where
  "deriveDepositAddress c w network index =
     (case DERIVATION_PATHS network of
        None \<Rightarrow> Inl (''Unknown network: '' @ network)
      | Some basePath \<Rightarrow>
          bind_sum (hd_derive c (master w) (basePath @ show_int index)) (\<lambda>child.
            case publicKey child of
              None \<Rightarrow> Inl ''Failed to derive public key''
            | Some pk \<Rightarrow>
                (let pubKeyHash = hash160 c pk
                 in if network = ''signet'' then encodeSegwitAddress c ''tb'' 0 pubKeyHash
                    else encodeSegwitAddress c ''bc'' 0 pubKeyHash)))"

definition derivePrivateKey ::
  "crypto \<Rightarrow> HDWallet \<Rightarrow> string \<Rightarrow> int \<Rightarrow> error + bytes option" where
  "derivePrivateKey c w network index =
     (case DERIVATION_PATHS network of
        None \<Rightarrow> Inl (''Unknown network: '' @ network)
      | Some basePath \<Rightarrow>
          bind_sum (hd_derive c (master w) (basePath @ show_int index)) (\<lambda>child.
            Inr (privateKey child)))"

record key_pair =
  kp_privateKey :: bytes
  kp_publicKey :: bytes
  kp_pubkeyHash :: bytes

definition deriveKeyPair ::
  "crypto \<Rightarrow> HDWallet \<Rightarrow> string \<Rightarrow> int \<Rightarrow> error + key_pair option" where
  "deriveKeyPair c w network index =
     (case DERIVATION_PATHS network of
        None \<Rightarrow> Inl (''Unknown network: '' @ network)
      | Some basePath \<Rightarrow>
          bind_sum (hd_derive c (master w) (basePath @ show_int index)) (\<lambda>child.
            Inr (case (privateKey child, publicKey child) of
                   (Some sk, Some pk) \<Rightarrow>
                     Some \<lparr>kp_privateKey = sk, kp_publicKey = pk, kp_pubkeyHash = hash160 c pk\<rparr>
                 | _ \<Rightarrow> None)))"

subsection \<open>The groups are the bits of the bytes\<close>

text \<open>Big-endian value of a digit list.\<close>

definition be_val :: "int \<Rightarrow> int list \<Rightarrow> int" where
  "be_val b ds = foldl (\<lambda>a d. a * b + d) 0 ds"

lemma be_val_Nil [simp]: "be_val b [] = 0"
  by (simp add: be_val_def)

lemma be_val_append: "be_val b (xs @ ys) = be_val b xs * b ^ length ys + be_val b ys"
proof (induction ys rule: rev_induct)
  case (snoc y ys)
  have "be_val b (zs @ [y]) = be_val b zs * b + y" for zs by (simp add: be_val_def)
  then have "be_val b (xs @ ys @ [y]) = be_val b (xs @ ys) * b + y"
    by (metis append_assoc)
  with snoc \<open>\<And>zs. be_val b (zs @ [y]) = be_val b zs * b + y\<close> show ?case
    by (simp add: algebra_simps)
qed simp

lemma be_val_single [simp]: "be_val b [d] = d"
  by (simp add: be_val_def)

lemma be_val_Cons: "be_val b (x # xs) = x * b ^ length xs + be_val b xs"
  using be_val_append [of b "[x]" xs] by simp

lemma split_high_bits:
  "(a :: int) mod 2 ^ (b + 5) = a div 2 ^ b mod 32 * 2 ^ b + a mod 2 ^ b"
proof -
  have "a mod (2 ^ b * 2 ^ 5) = 2 ^ b * (a div 2 ^ b mod 2 ^ 5) + a mod 2 ^ b"
    by (rule zmod_zmult2_eq) simp
  then show ?thesis by (simp add: power_add mult.commute)
qed

lemma emit_loop_prefix:
  assumes "0 < toBits"
  shows "while_option (\<lambda>(groups, n). toBits \<le> n)
      (\<lambda>(groups, n). (groups @ [js_and (js_shr acc (n - toBits)) maxv], n - toBits)) (r0, bits) =
    (case emit_groups acc bits toBits maxv of (r, left) \<Rightarrow> Some (r0 @ r, left))"
  using assms
proof (induction acc bits toBits maxv arbitrary: r0 rule: emit_groups.induct)
  case (1 acc bits toBits maxv)
  then show ?case
    by (subst while_option_unfold, subst emit_groups.simps) (auto simp: Let_def split: prod.splits)
qed

lemma emit_loop_zero: "emit_loop acc bits 0 maxv = None"
  by (auto simp: emit_loop_def while_option_def case_prod_beta)

lemma emit_groups_count:
  "emit_groups acc bits toBits maxv = (r, left) \<Longrightarrow> length r = bits div toBits \<and> left = bits mod toBits"
proof (induction acc bits toBits maxv arbitrary: r left rule: emit_groups.induct)
  case (1 acc bits toBits maxv)
  show ?case
  proof (cases "toBits = 0 \<or> bits < toBits")
    case True
    with "1.prems" show ?thesis by (subst (asm) emit_groups.simps) auto
  next
    case False
    obtain r' where e: "emit_groups acc (bits - toBits) toBits maxv = (r', left)" and r: "length r = Suc (length r')"
      using "1.prems" False by (subst (asm) emit_groups.simps) (auto simp: Let_def split: prod.splits)
    from "1.IH" [OF False refl e] False r show ?thesis by (auto simp: le_div_geq le_mod_geq)
  qed
qed

text \<open>
  C26. The inner loop of convertBits ends for every group width but zero: it then emits
  \<open>bits div toBits\<close> groups, leaves \<open>bits mod toBits\<close> bits, and computes what the model's recursion
  does. With width zero it never ends, however many bits are pending.
\<close>

theorem emit_loop_terminates:
  "emit_loop acc bits toBits maxv =
     (if toBits = 0 then None else Some (emit_groups acc bits toBits maxv)) \<and>
   length (fst (emit_groups acc bits toBits maxv)) = bits div toBits \<and>
   snd (emit_groups acc bits toBits maxv) = bits mod toBits"
proof -
  obtain r left where e: "emit_groups acc bits toBits maxv = (r, left)" by (metis prod.exhaust)
  moreover have "emit_loop acc bits toBits maxv = Some (r, left)" if "toBits \<noteq> 0"
    using emit_loop_prefix [of toBits acc maxv "[]" bits] that e by (simp add: emit_loop_def)
  ultimately show ?thesis using emit_groups_count [OF e] emit_loop_zero by simp
qed

lemma emit_groups_spec:
  assumes "0 \<le> acc" "acc < 2 ^ 12" "bits \<le> 12" "emit_groups acc bits 5 31 = (r, b)"
  shows "b = bits mod 5 \<and> length r = bits div 5 \<and> (\<forall>g \<in> set r. 0 \<le> g \<and> g < 32) \<and>
         acc mod 2 ^ bits = be_val 32 r * 2 ^ b + acc mod 2 ^ b"
  using assms
proof (induction bits arbitrary: r b rule: less_induct)
  case (less bits)
  show ?case
  proof (cases "bits < 5")
    case True
    with less.prems show ?thesis by (subst (asm) emit_groups.simps) auto
  next
    case False
    define k where "k = bits - 5"
    obtain r' where e: "emit_groups acc k 5 31 = (r', b)"
      and r: "r = js_and (js_shr acc k) 31 # r'"
      using less.prems False
      by (subst (asm) emit_groups.simps) (auto simp: Let_def k_def split: prod.splits)
    have k: "k < bits" "k \<le> 12" "bits = k + 5" using False less.prems by (auto simp: k_def)
    have IH: "b = k mod 5" "length r' = k div 5" "\<forall>g \<in> set r'. 0 \<le> g \<and> g < 32"
      "acc mod 2 ^ k = be_val 32 r' * 2 ^ b + acc mod 2 ^ b"
      using less.IH [OF k(1) less.prems(1,2) k(2) e] by auto
    have shr: "js_shr acc k = acc div 2 ^ k"
      using less.prems k by (intro js_shr_small) auto
    have "0 \<le> acc div 2 ^ k" using less.prems(1) by (simp add: pos_imp_zdiv_nonneg_iff)
    moreover have "acc div 2 ^ k \<le> acc div 1" using less.prems(1) by (intro zdiv_mono2) simp_all
    ultimately have q: "0 \<le> acc div 2 ^ k" "acc div 2 ^ k < 2 ^ 31"
      using less.prems(2) by simp_all
    then have "js_and (acc div 2 ^ k) (2 ^ 5 - 1) = acc div 2 ^ k mod 2 ^ 5"
      by (intro js_and_mask) simp_all
    with shr r have r1: "r = acc div 2 ^ k mod 32 # r'" by simp
    have "(32 :: int) ^ length r' * 2 ^ b = 2 ^ k"
    proof -
      have "(32 :: int) ^ (k div 5) * 2 ^ (k mod 5) = 2 ^ (5 * (k div 5) + k mod 5)"
        by (simp only: power_add power_mult) simp
      then show ?thesis using IH by simp
    qed
    then have "be_val 32 r * 2 ^ b + acc mod 2 ^ b = acc mod 2 ^ bits"
      using IH(4) split_high_bits [of acc k]
      by (simp add: r1 be_val_Cons k(3) algebra_simps)
    with IH r1 k show ?thesis by (auto simp: mod_add_self2 div_add_self2)
  qed
qed

lemma convert_step:
  assumes "0 \<le> acc" "acc < 2 ^ 12"
  shows "js_and (js_or (js_shl acc 8) (uint (v :: 8 word))) 4095 = (acc * 256 + uint v) mod 4096"
proof -
  have v: "0 \<le> uint v" "uint v < 2 ^ 8" using uint_lt2p [of v] by simp_all
  have "js_shl acc 8 = acc * 2 ^ 8" using assms by (intro js_shl_small) auto
  moreover have "js_or (acc * 2 ^ 8) (uint v) = acc * 2 ^ 8 + uint v"
    using assms v by (intro js_or_disjoint) auto
  moreover have "js_and (acc * 2 ^ 8 + uint v) (2 ^ 12 - 1) = (acc * 2 ^ 8 + uint v) mod 2 ^ 12"
    using assms v by (intro js_and_mask) auto
  ultimately show ?thesis by simp
qed

lemma convert_loop_spec:
  assumes "0 \<le> acc" "acc < 2 ^ 12" "bits < 5"
    "convert_loop 8 5 31 4095 acc bits data = (r, acc2, b2)"
  shows "b2 < 5 \<and> 0 \<le> acc2 \<and> acc2 < 2 ^ 12 \<and> (\<forall>g \<in> set r. 0 \<le> g \<and> g < 32) \<and>
         bits + 8 * length data = 5 * length r + b2 \<and>
         (acc mod 2 ^ bits) * 256 ^ length data + be_val 256 (map uint data)
           = be_val 32 r * 2 ^ b2 + acc2 mod 2 ^ b2"
  using assms
proof (induction data arbitrary: acc bits r acc2 b2)
  case Nil
  then show ?case by auto
next
  case (Cons v data)
  define acc1 where "acc1 = (acc * 256 + uint v) mod 4096"
  obtain g b where e: "emit_groups acc1 (bits + 8) 5 31 = (g, b)"
    by (cases "emit_groups acc1 (bits + 8) 5 31")
  obtain r' where l: "convert_loop 8 5 31 4095 acc1 b data = (r', acc2, b2)" and r: "r = g @ r'"
    using Cons.prems e
    by (auto simp: Let_def convert_step acc1_def [symmetric] split: prod.splits)
  have a1: "0 \<le> acc1" "acc1 < 2 ^ 12" by (auto simp: acc1_def)
  have "bits + 8 \<le> 12" using Cons.prems by simp
  note G = emit_groups_spec [OF a1 this e]
  then have b5: "b < 5" by simp
  note IH = Cons.IH [OF a1 b5 l]
  have "acc1 mod 2 ^ (bits + 8) = (acc * 256 + uint v) mod 2 ^ (bits + 8)"
  proof -
    have "(2 :: int) ^ (bits + 8) dvd 2 ^ 12" using Cons.prems by (intro le_imp_power_dvd) simp
    then show ?thesis by (simp add: acc1_def mod_mod_cancel)
  qed
  also have "\<dots> = (acc mod 2 ^ bits) * 256 + uint v"
  proof -
    have v: "0 \<le> uint v" "uint v < 2 ^ 8" using uint_lt2p [of v] by simp_all
    have "(acc * 256 + uint v) mod (2 ^ 8 * 2 ^ bits)
        = 2 ^ 8 * ((acc * 256 + uint v) div 2 ^ 8 mod 2 ^ bits) + (acc * 256 + uint v) mod 2 ^ 8"
      by (rule zmod_zmult2_eq) simp
    moreover have "(acc * 256 + uint v) div 2 ^ 8 = acc" using v by simp
    moreover have "(acc * 256 + uint v) mod 2 ^ 8 = uint v"
      using v by simp
    ultimately show ?thesis by (simp add: power_add mult.commute)
  qed
  finally have A: "(acc mod 2 ^ bits) * 256 + uint v = be_val 32 g * 2 ^ b + acc1 mod 2 ^ b"
    using G by simp
  have P: "(2 :: int) ^ b * 256 ^ length data = 32 ^ length r' * 2 ^ b2"
  proof -
    have "(2 :: int) ^ b * 256 ^ length data = 2 ^ (b + 8 * length data)"
      by (simp add: power_add power_mult)
    also have "b + 8 * length data = 5 * length r' + b2" using IH by simp
    finally show ?thesis by (simp add: power_add power_mult)
  qed
  have "(acc mod 2 ^ bits) * 256 ^ length (v # data) + be_val 256 (map uint (v # data))
      = ((acc mod 2 ^ bits) * 256 + uint v) * 256 ^ length data + be_val 256 (map uint data)"
    by (simp add: be_val_Cons algebra_simps)
  also have "\<dots> = be_val 32 g * (2 ^ b * 256 ^ length data)
      + ((acc1 mod 2 ^ b) * 256 ^ length data + be_val 256 (map uint data))"
    by (simp only: A) (simp add: algebra_simps)
  also have "\<dots> = (be_val 32 g * 32 ^ length r' + be_val 32 r') * 2 ^ b2 + acc2 mod 2 ^ b2"
    using IH by (simp add: P algebra_simps)
  finally have "(acc mod 2 ^ bits) * 256 ^ length (v # data) + be_val 256 (map uint (v # data))
      = be_val 32 r * 2 ^ b2 + acc2 mod 2 ^ b2" by (simp only: r be_val_append)
  moreover have "bits + 8 * length (v # data) = 5 * length r + b2"
  proof -
    have "bits + 8 = 5 * length g + b" using G by simp
    with IH show ?thesis by (simp add: r)
  qed
  ultimately show ?case using IH G by (auto simp: r)
qed

lemma convert_masks: "js_shl 1 5 - 1 = 31" "js_shl 1 12 - 1 = 4095"
  using js_shl_small [of 1 5] js_shl_small [of 1 12] by simp_all

lemma convertBits_spec:
  fixes data :: bytes
  defines "out \<equiv> convertBits data 8 5 True"
  shows "set out \<subseteq> {0..<32} \<and>
         length out = (8 * length data + 4) div 5 \<and>
         be_val 32 out = be_val 256 (map uint data) * 2 ^ (5 * length out - 8 * length data)"
proof -
  obtain r acc2 b2 where l: "convert_loop 8 5 31 4095 0 0 data = (r, acc2, b2)"
    by (cases "convert_loop 8 5 31 4095 0 0 data")
  have out: "out = (if b2 \<noteq> 0 then r @ [js_and (js_shl acc2 (5 - b2)) 31] else r)"
    by (simp add: out_def convertBits_def convert_masks l)
  note S = convert_loop_spec [OF _ _ _ l]
  have S': "b2 < 5" "0 \<le> acc2" "acc2 < 2 ^ 12" "\<forall>g \<in> set r. 0 \<le> g \<and> g < 32"
    "8 * length data = 5 * length r + b2"
    "be_val 256 (map uint data) = be_val 32 r * 2 ^ b2 + acc2 mod 2 ^ b2"
    using S by simp_all
  show ?thesis
  proof (cases "b2 = 0")
    case True
    with S' show ?thesis by (auto simp: out)
  next
    case False
    define k where "k = 5 - b2"
    have k: "b2 + k = 5" using S'(1) by (simp add: k_def)
    have "(2 :: int) ^ k \<le> 2 ^ 5" using k by (intro power_increasing) simp_all
    then have "acc2 * 2 ^ k \<le> acc2 * 2 ^ 5" using S'(2) by (intro mult_left_mono) simp_all
    then have big: "acc2 * 2 ^ k < 2 ^ 31" using S'(3) by simp
    then have "js_shl acc2 k = acc2 * 2 ^ k" using S'(2) k by (intro js_shl_small) simp_all
    moreover have "js_and (acc2 * 2 ^ k) (2 ^ 5 - 1) = acc2 * 2 ^ k mod 2 ^ 5"
      using S'(2) big by (intro js_and_mask) simp_all
    moreover have "acc2 * 2 ^ k mod (2 ^ b2 * 2 ^ k) = acc2 mod 2 ^ b2 * 2 ^ k"
      by (simp add: mult_mod_left)
    ultimately have last: "js_and (js_shl acc2 k) 31 = acc2 mod 2 ^ b2 * 2 ^ k"
      by (simp add: k power_add [symmetric])
    have out': "out = r @ [acc2 mod 2 ^ b2 * 2 ^ k]" using False last by (simp add: out k_def)
    have "acc2 mod 2 ^ b2 < 2 ^ b2" by simp
    then have "acc2 mod 2 ^ b2 * 2 ^ k < 2 ^ b2 * 2 ^ k" by simp
    then have "acc2 mod 2 ^ b2 * 2 ^ k < 32" by (simp add: k power_add [symmetric])
    moreover have "5 * length out - 8 * length data = k" using S'(5) k by (simp add: out')
    moreover have "be_val 32 out = be_val 256 (map uint data) * 2 ^ k"
    proof -
      have "(2 :: int) ^ b2 * 2 ^ k = 32" by (simp add: k power_add [symmetric])
      then show ?thesis by (simp add: out' be_val_append S'(6) algebra_simps)
    qed
    moreover have "length out = (8 * length data + 4) div 5" using S'(1,5) False by (simp add: out')
    ultimately show ?thesis using S'(4) by (auto simp: out')
  qed
qed

text \<open>
  Different byte strings of one length give different groups, so an address determines the key
  hash it pays to.
\<close>

lemma be_val_inj:
  assumes "length xs = length ys"
    and "\<forall>x \<in> set xs. 0 \<le> x \<and> x < b" "\<forall>y \<in> set ys. 0 \<le> y \<and> y < b"
    and "be_val b xs = be_val b ys"
  shows "xs = ys"
  using assms
proof (induction xs ys rule: rev_induct2)
  case (4 x xs y ys)
  have v: "be_val b (zs @ [z]) = be_val b zs * b + z" for zs z by (simp add: be_val_append)
  have b: "0 < b" using 4 by auto
  have "be_val b xs * b + x = be_val b ys * b + y" using 4 by (simp add: v)
  then have "(be_val b xs * b + x) div b = (be_val b ys * b + y) div b"
    "(be_val b xs * b + x) mod b = (be_val b ys * b + y) mod b" by simp_all
  with 4 b have "be_val b xs = be_val b ys" "x = y" by auto
  with 4 show ?case by auto
qed simp_all

lemma convertBits_inj:
  assumes "length d1 = length d2" "convertBits d1 8 5 True = convertBits d2 8 5 True"
  shows "d1 = d2"
proof -
  have "be_val 256 (map uint d1) = be_val 256 (map uint d2)"
    using convertBits_spec [of d1] convertBits_spec [of d2] assms by simp
  moreover have "\<forall>x \<in> set (map uint d). 0 \<le> x \<and> x < 256" for d :: bytes
    using uint_lt2p [where 'a = 8] by auto
  ultimately have "map uint d1 = map uint d2"
    using assms(1) by (intro be_val_inj [of _ _ 256]) auto
  then show ?thesis by (simp add: inj_map_eq_map [OF inj_on_inverseI [of _ word_of_int]])
qed

text \<open>
  C24. The 5-bit groups of \<open>convertBits(data, 8, 5, true)\<close> are the bits of the bytes: each group is in
  range, there are as few groups as hold all the bits, and read big-endian they are the number the
  bytes spell, shifted left by the padding bits (fewer than five).
\<close>

theorem convertBits_bits:
  fixes data :: bytes
  defines "out \<equiv> convertBits data 8 5 True"
  shows "set out \<subseteq> {0..<32} \<and>
         length out = (8 * length data + 4) div 5 \<and>
         be_val 32 out = be_val 256 (map uint data) * 2 ^ (5 * length out - 8 * length data)"
  unfolding out_def by (rule convertBits_spec)

subsection \<open>Addresses and keys\<close>


text \<open>A concrete instance of the libraries, for witnesses: keys are the path bytes.\<close>

definition toy_crypto :: crypto where
  "toy_crypto =
     \<lparr>mnemonicToSeedSync = (\<lambda>s. Inr (map of_char s)),
      fromMasterSeed = (\<lambda>b. Inr \<lparr>privateKey = Some b, publicKey = Some b, chain = []\<rparr>),
      hd_derive = (\<lambda>k p. Inr \<lparr>privateKey = Some (map of_char p), publicKey = Some (map of_char p),
                              chain = []\<rparr>),
      sha256 = (\<lambda>b. b),
      ripemd160 = (\<lambda>b. rev (take 4 (rev b))),
      bech32_encode = (\<lambda>hrp d. Inr (hrp @ map (\<lambda>g. digit_char (nat g)) d))\<rparr>"

definition toy_wallet :: HDWallet where
  "toy_wallet = \<lparr>master = \<lparr>privateKey = Some [], publicKey = Some [], chain = []\<rparr>\<rparr>"


text \<open>
  Exactly the three known networks derive addresses: any other network name is an error of
  all three operations. Mainnet and testnet (betanet) share their derivation, so the same index
  gives the same address on both, as the header of the file says.
\<close>

theorem derivation_networks:
  "(DERIVATION_PATHS network = None \<longleftrightarrow> network \<notin> {''mainnet'', ''testnet'', ''signet''}) \<and>
   (network \<in> {''mainnet'', ''testnet'', ''signet''} \<or>
      deriveDepositAddress c w network index = Inl (''Unknown network: '' @ network) \<and>
      derivePrivateKey c w network index = Inl (''Unknown network: '' @ network) \<and>
      deriveKeyPair c w network index = Inl (''Unknown network: '' @ network)) \<and>
   deriveDepositAddress c w ''mainnet'' index = deriveDepositAddress c w ''testnet'' index"
  by (simp add: DERIVATION_PATHS_def deriveDepositAddress_def derivePrivateKey_def
      deriveKeyPair_def bind_sum_def Let_def split: option.split sum.split)

end
