(* ===== verification/Bridge_World.thy ===== *)
theory Bridge_World
  imports Hd_Wallet
begin

text \<open>
  What the federation service sees and touches: the records it exchanges with the bridge API,
  Esplora and the Snowside RPC, the services themselves, and its own module state. Every service
  is outside the repository (or, for the API, another process), so it is a function the operations
  take as an argument: given everything that happened so far and a request, it answers. Nothing is
  assumed of the answers: they may fail, change over time and contradict each other. The history
  is the list \<open>trace\<close> of all requests with their replies, so a theorem about what the service did is
  a theorem about the trace.
\<close>

subsection \<open>Records of the service\<close>

text \<open>\<open>interface Deposit\<close>; \<open>null\<close> is \<open>None\<close>.\<close>

record Deposit =
  d_id :: string
  d_network :: string
  d_snowside_address :: string
  d_ecash_address :: "string option"
  d_derivation_index :: "int option"
  d_amount_sats :: "jnum option"
  d_amount_ecx :: "jnum option"
  d_ecash_tx_hash :: "string option"
  d_mint_tx_hash :: "string option"
  d_status :: string
  d_created_at :: int

text \<open>\<open>amount_ecx\<close> of a withdrawal is \<open>string | number | null\<close>.\<close>

datatype amount = AmtNull | AmtStr string | AmtNum jnum

record Withdrawal =
  w_id :: string
  w_network :: string
  w_snowside_address :: string
  w_ecash_address :: string
  w_amount_ecx :: amount
  w_amount_sats :: "jnum option"
  w_burn_tx_hash :: "string option"
  w_ecash_tx_hash :: "string option"
  w_status :: string
  w_created_at :: int

record FundedDeposit =
  fd_id :: string
  fd_network :: string
  fd_ecash_address :: string
  fd_derivation_index :: "int option"
  fd_amount_sats :: jnum

record Utxo =
  txid :: string
  vout :: jnum
  utxo_value :: jnum
  scriptPubKey :: string

text \<open>
  An entry of Esplora's \<open>/address/.../utxo\<close> array: every field may be absent. The body is cast,
  not checked, so it may also not be an array.
\<close>

record utxo_status =
  us_confirmed :: "bool option"
  us_block_height :: "jnum option"

record raw_utxo =
  ru_txid :: "string option"
  ru_vout :: "jnum option"
  ru_value :: "jnum option"
  ru_scriptPubKey :: "string option"
  ru_scriptpubkey :: "string option"
  ru_status :: "utxo_status option"

datatype utxo_body = NotArray | UtxoArray "raw_utxo list"

text \<open>Bodies of the PATCH requests: absent keys are \<open>None\<close>.\<close>

record deposit_patch =
  dp_ecash_address :: "string option"
  dp_derivation_index :: "int option"
  dp_amount_sats :: "jnum option"
  dp_amount_ecx :: "jnum option"
  dp_ecash_tx_hash :: "string option"
  dp_mint_tx_hash :: "string option"
  dp_status :: "string option"

record withdraw_patch =
  wp_amount_sats :: "jnum option"
  wp_ecash_tx_hash :: "string option"
  wp_status :: "string option"
  wp_completed_at :: "int option"

definition no_deposit_patch :: deposit_patch where
  "no_deposit_patch =
     \<lparr>dp_ecash_address = None, dp_derivation_index = None, dp_amount_sats = None,
      dp_amount_ecx = None, dp_ecash_tx_hash = None, dp_mint_tx_hash = None, dp_status = None\<rparr>"

definition no_withdraw_patch :: withdraw_patch where
  "no_withdraw_patch =
     \<lparr>wp_amount_sats = None, wp_ecash_tx_hash = None, wp_status = None, wp_completed_at = None\<rparr>"

subsection \<open>Requests, replies, history\<close>

text \<open>
  A \<open>fetch\<close> rejects (\<open>NetError\<close>) or gives a status and a body; \<open>None\<close> is a body that cannot be read
  or parsed.
\<close>

datatype 'b reply = NetError | Response nat "'b option"

fun resp_ok :: "'b reply \<Rightarrow> bool" where
  "resp_ok NetError = False"
| "resp_ok (Response st b) = (200 \<le> st \<and> st \<le> 299)"

datatype event =
    ENow int
  | ETip string "string reply"
  | EUtxos string "utxo_body reply"
  | EBroadcast string string "string reply"
  | EGetDeposits "Deposit list reply"
  | EGetWithdrawals "Withdrawal list reply"
  | EGetFunded "FundedDeposit list reply"
  | EPatchDeposit string deposit_patch "unit reply"
  | EPatchWithdraw string withdraw_patch "unit reply"
  | ECheckin "unit reply"
  | ESendTx string string string "error + string"
  | EReceipt string string "error + string"
  | EGetTx string string "error + bool"

record outside =
  o_now :: "event list \<Rightarrow> int"
  o_tip :: "event list \<Rightarrow> string \<Rightarrow> string reply"
  o_utxos :: "event list \<Rightarrow> string \<Rightarrow> utxo_body reply"
  o_broadcast :: "event list \<Rightarrow> string \<Rightarrow> string \<Rightarrow> string reply"
  o_deposits :: "event list \<Rightarrow> Deposit list reply"
  o_withdrawals :: "event list \<Rightarrow> Withdrawal list reply"
  o_funded :: "event list \<Rightarrow> FundedDeposit list reply"
  o_patch_deposit :: "event list \<Rightarrow> string \<Rightarrow> deposit_patch \<Rightarrow> unit reply"
  o_patch_withdraw :: "event list \<Rightarrow> string \<Rightarrow> withdraw_patch \<Rightarrow> unit reply"
  o_checkin :: "event list \<Rightarrow> unit reply"
  o_send_tx :: "event list \<Rightarrow> string \<Rightarrow> string \<Rightarrow> string \<Rightarrow> error + string"
  o_receipt :: "event list \<Rightarrow> string \<Rightarrow> string \<Rightarrow> error + string"
  o_get_tx :: "event list \<Rightarrow> string \<Rightarrow> string \<Rightarrow> error + bool"

text \<open>A world in which every request fails; witnesses override the services they need.\<close>

definition silent :: outside where
  "silent =
     \<lparr>o_now = (\<lambda>h. 1700000000000), o_tip = (\<lambda>h u. NetError), o_utxos = (\<lambda>h u. NetError),
      o_broadcast = (\<lambda>h u x. NetError), o_deposits = (\<lambda>h. NetError),
      o_withdrawals = (\<lambda>h. NetError), o_funded = (\<lambda>h. NetError),
      o_patch_deposit = (\<lambda>h i p. NetError), o_patch_withdraw = (\<lambda>h i p. NetError),
      o_checkin = (\<lambda>h. NetError), o_send_tx = (\<lambda>h n t d. Inl ''no connection''),
      o_receipt = (\<lambda>h n x. Inl ''no connection''), o_get_tx = (\<lambda>h n x. Inl ''no connection'')\<rparr>"

text \<open>
  The module variables of \<open>index.ts\<close> (\<open>account\<close>, \<open>wallet\<close>, \<open>walletClients\<close>, \<open>publicClients\<close>, which are
  caches) and the history.
\<close>

record fed =
  trace :: "event list"
  account :: "string option"
  wallet :: "HDWallet option"
  walletClients :: "string list"
  publicClients :: "string list"

definition fed_init :: fed where
  "fed_init =
     \<lparr>trace = [], account = None, wallet = None, walletClients = [], publicClients = []\<rparr>"

definition call :: "(event list \<Rightarrow> 'r) \<Rightarrow> ('r \<Rightarrow> event) \<Rightarrow> (fed, 'r) comp" where
  "call f ev s = (let r = f (trace s) in (Inr r, s\<lparr>trace := trace s @ [ev r]\<rparr>))"

definition now :: "outside \<Rightarrow> (fed, int) comp" where
  "now out = call (o_now out) ENow"

lemma call_apply [comp_simps]:
  "call f ev s = (Inr (f (trace s)), s\<lparr>trace := trace s @ [ev (f (trace s))]\<rparr>)"
  by (simp add: call_def Let_def)

lemma returns_call [comp_rules]: "returns (call f ev)"
  by (simp add: returns_def call_def Let_def)

lemma returns_now [comp_rules]: "returns (now out)"
  unfolding now_def by (rule returns_call)

lemma returns_case_reply [comp_rules]:
  "(x = NetError \<Longrightarrow> returns m) \<Longrightarrow> (\<And>st b. x = Response st b \<Longrightarrow> returns (f st b)) \<Longrightarrow>
   returns (case x of NetError \<Rightarrow> m | Response st b \<Rightarrow> f st b)"
  by (cases x) simp_all

text \<open>
  A property of the history that an added event keeps is kept by a call.
\<close>

lemma keeps_call:
  "(\<And>s r. I s \<Longrightarrow> r = f (trace s) \<Longrightarrow> I (s\<lparr>trace := trace s @ [ev r]\<rparr>)) \<Longrightarrow> keeps I (call f ev)"
  by (rule keepsI) (simp add: call_def Let_def)

text \<open>
  \<open>only A m\<close>: every event \<open>m\<close> adds to the history is in \<open>A\<close>; with it go the two facts that the
  history only grows and that nothing else happened.
\<close>

definition only :: "event set \<Rightarrow> (fed, 'a) comp \<Rightarrow> bool" where
  "only A m \<longleftrightarrow> (\<forall>s. \<exists>es. trace (snd (m s)) = trace s @ es \<and> set es \<subseteq> A)"

lemma only_ret [comp_rules]: "only A (ret a)"
  by (simp add: only_def ret_def)

lemma only_throw [comp_rules]: "only A (throw e)"
  by (simp add: only_def throw_def)

lemma only_liftE [comp_rules]: "only A (liftE x)"
  by (simp add: only_def liftE_def)

lemma only_getS [comp_rules]: "only A getS"
  by (simp add: only_def getS_def)

lemma only_call: "(\<And>r. ev r \<in> A) \<Longrightarrow> only A (call f ev)"
  by (simp add: only_def call_def Let_def)

lemma only_modS: "(\<And>s. trace (f s) = trace s) \<Longrightarrow> only A (modS f)"
  by (simp add: only_def modS_def)

lemma only_bindE [comp_rules]:
  assumes "only A m" "\<And>a. only A (f a)"
  shows "only A (bindE m f)"
  unfolding only_def
proof
  fix s
  obtain r t where m: "m s = (r, t)" by (cases "m s")
  from assms(1) m obtain es where es: "trace t = trace s @ es" "set es \<subseteq> A"
    unfolding only_def by (metis snd_conv)
  show "\<exists>es. trace (snd (bindE m f s)) = trace s @ es \<and> set es \<subseteq> A"
  proof (cases r)
    case (Inl e)
    with m es show ?thesis by (simp add: bindE_def)
  next
    case (Inr a)
    from assms(2) [of a] obtain es2 where
      "trace (snd (f a t)) = trace t @ es2" "set es2 \<subseteq> A"
      unfolding only_def by blast
    with m es Inr show ?thesis by (intro exI [of _ "es @ es2"]) (simp add: bindE_def)
  qed
qed

lemma only_seqE [comp_rules]: "only A m \<Longrightarrow> only A n \<Longrightarrow> only A (seqE m n)"
  unfolding seqE_def by (rule only_bindE)

lemma only_catchE [comp_rules]:
  assumes "only A m" "\<And>e. only A (h e)"
  shows "only A (catchE m h)"
  unfolding only_def
proof
  fix s
  obtain r t where m: "m s = (r, t)" by (cases "m s")
  from assms(1) m obtain es where es: "trace t = trace s @ es" "set es \<subseteq> A"
    unfolding only_def by (metis snd_conv)
  show "\<exists>es. trace (snd (catchE m h s)) = trace s @ es \<and> set es \<subseteq> A"
  proof (cases r)
    case (Inl e)
    from assms(2) [of e] obtain es2 where
      "trace (snd (h e t)) = trace t @ es2" "set es2 \<subseteq> A"
      unfolding only_def by blast
    with m es Inl show ?thesis by (intro exI [of _ "es @ es2"]) (simp add: catchE_def)
  next
    case (Inr a)
    with m es show ?thesis by (simp add: catchE_def)
  qed
qed

lemma only_if [comp_rules]: "(b \<Longrightarrow> only A m) \<Longrightarrow> (\<not> b \<Longrightarrow> only A n) \<Longrightarrow> only A (if b then m else n)"
  by simp

lemma only_case_option [comp_rules]:
  "(x = None \<Longrightarrow> only A m) \<Longrightarrow> (\<And>a. x = Some a \<Longrightarrow> only A (f a)) \<Longrightarrow>
   only A (case x of None \<Rightarrow> m | Some a \<Rightarrow> f a)"
  by (cases x) simp_all

lemma only_case_sum [comp_rules]:
  "(\<And>e. x = Inl e \<Longrightarrow> only A (g e)) \<Longrightarrow> (\<And>a. x = Inr a \<Longrightarrow> only A (f a)) \<Longrightarrow>
   only A (case x of Inl e \<Rightarrow> g e | Inr a \<Rightarrow> f a)"
  by (cases x) simp_all

lemma only_case_prod [comp_rules]:
  "(\<And>a b. x = (a, b) \<Longrightarrow> only A (f a b)) \<Longrightarrow> only A (case x of (a, b) \<Rightarrow> f a b)"
  by (cases x) simp

lemma only_case_reply [comp_rules]:
  "(x = NetError \<Longrightarrow> only A m) \<Longrightarrow> (\<And>st b. x = Response st b \<Longrightarrow> only A (f st b)) \<Longrightarrow>
   only A (case x of NetError \<Rightarrow> m | Response st b \<Rightarrow> f st b)"
  by (cases x) simp_all

lemma only_forE [comp_rules]: "(\<And>x. x \<in> set xs \<Longrightarrow> only A (f x)) \<Longrightarrow> only A (forE xs f)"
  by (induction xs) (auto intro!: comp_rules)

lemma only_mono: "only A m \<Longrightarrow> A \<subseteq> B \<Longrightarrow> only B m"
  unfolding only_def by blast

lemma only_new_events:
  assumes "only A m" "ev \<in> set (trace (snd (m s)))" "ev \<notin> set (trace s)"
  shows "ev \<in> A"
proof -
  from assms(1) obtain es where "trace (snd (m s)) = trace s @ es" "set es \<subseteq> A"
    unfolding only_def by blast
  with assms(2,3) show ?thesis by auto
qed

end
