(* ===== verification/Withdraw_Tx.thy ===== *)
theory Withdraw_Tx
  imports Bridge_World "HOL-Library.Multiset"
begin

text \<open>
  \<open>packages/federation/src/withdraw.ts\<close>: amounts, UTXO selection and the construction of the
  mainchain transaction that pays a withdrawal. The transaction library \<open>@scure/btc-signer\<close> is the
  record \<open>btc_lib\<close>; the transaction the code assembles with it is the record \<open>btc_tx\<close>.
\<close>

subsection \<open>Networks and the transaction library\<close>

datatype btc_network = NETWORK | TEST_NETWORK

definition getBtcNetwork :: "string \<Rightarrow> btc_network" where
  "getBtcNetwork network = (if network = ''signet'' then TEST_NETWORK else NETWORK)"

definition REPLAY_LOCKTIME :: "string \<Rightarrow> int option" where
  "REPLAY_LOCKTIME network =
     (if network = ''mainnet'' then Some 499999998
      else if network = ''testnet'' then Some 499999999
      else if network = ''signet'' then Some 0
      else None)"

record btc_input =
  in_txid :: bytes
  in_index :: jnum
  in_script :: bytes
  in_amount :: int
  in_sequence :: int

record btc_output =
  out_address :: string
  out_amount :: int
  out_network :: btc_network

record btc_tx =
  lockTime :: int
  tx_inputs :: "btc_input list"
  tx_outputs :: "btc_output list"

text \<open>
  The library calls that may throw: script and hex decoding, the checks of \<open>addInput\<close> and
  \<open>addOutputAddress\<close>, and \<open>sign\<close> (once per key, in order), \<open>finalize\<close>, \<open>extract\<close> and hex encoding
  taken together.
\<close>

record btc_lib =
  p2wpkh_script :: "bytes \<Rightarrow> error + bytes"
  hex_decode :: "string \<Rightarrow> error + bytes"
  check_input :: "btc_input \<Rightarrow> error + unit"
  check_output :: "btc_output \<Rightarrow> error + unit"
  sign_finalize_extract :: "btc_tx \<Rightarrow> bytes list \<Rightarrow> error + string"

subsection \<open>Amounts\<close>

definition ECX_TO_SATS :: int where
  "ECX_TO_SATS = 10 ^ 10"

definition ecxToSats :: "amount \<Rightarrow> string \<Rightarrow> jnum" where
  "ecxToSats amountEcx network =
     (let falsy = (case amountEcx of
                     AmtNull \<Rightarrow> True | AmtStr s \<Rightarrow> s = [] | AmtNum x \<Rightarrow> \<not> truthy_num x);
          str = (case amountEcx of AmtNull \<Rightarrow> ''null'' | AmtStr s \<Rightarrow> s | AmtNum x \<Rightarrow> show_num x)
      in if falsy then JInt 0
         else if includes_str str ''.'' then js_floor (js_mul (parse_float str) (JInt 100000000))
         else (case bigint_of_string str of
                 Inl e \<Rightarrow> JInt 0
               | Inr ecx \<Rightarrow> num_of_bigint (bigint_div ecx ECX_TO_SATS)))"

definition cleanAddress :: "string \<Rightarrow> string" where
  "cleanAddress address =
     replace_first ''bitcoincash:'' [] (replace_first ''ecash:'' [] address)"

subsection \<open>Esplora\<close>

text \<open>The row mapping of \<open>fetchUtxos\<close>: \<open>x || default\<close>, then \<open>String\<close> or \<open>Number\<close>.\<close>

definition str_or :: "string option \<Rightarrow> string \<Rightarrow> string" where
  "str_or x d = (if truthy_str x then the x else d)"

definition num_or :: "jnum option \<Rightarrow> jnum \<Rightarrow> jnum" where
  "num_or x d = (case x of None \<Rightarrow> d | Some v \<Rightarrow> if truthy_num v then v else d)"

definition to_utxo :: "raw_utxo \<Rightarrow> Utxo" where
  "to_utxo u =
     \<lparr>txid = str_or (ru_txid u) [],
      vout = num_or (ru_vout u) (JInt 0),
      utxo_value = num_or (ru_value u) (JInt 0),
      scriptPubKey = (if truthy_str (ru_scriptPubKey u) then the (ru_scriptPubKey u)
                      else str_or (ru_scriptpubkey u) [])\<rparr>"

definition fetchUtxos :: "outside \<Rightarrow> string \<Rightarrow> string \<Rightarrow> (fed, Utxo list) comp" where
  "fetchUtxos out esploraUrl address =
     (let url = esploraUrl @ ''/address/'' @ cleanAddress address @ ''/utxo''
      in bindE (call (\<lambda>h. o_utxos out h url) (EUtxos url)) (\<lambda>resp.
           case resp of
             NetError \<Rightarrow> ret []
           | Response st body \<Rightarrow>
               if \<not> resp_ok resp then ret []
               else (case body of
                       Some (UtxoArray us) \<Rightarrow> ret (map to_utxo us)
                     | _ \<Rightarrow> ret [])))"

definition broadcastTx :: "outside \<Rightarrow> string \<Rightarrow> string \<Rightarrow> (fed, string option) comp" where
  "broadcastTx out esploraUrl rawHex =
     (let url = esploraUrl @ ''/tx''
      in bindE (call (\<lambda>h. o_broadcast out h url rawHex) (EBroadcast url rawHex)) (\<lambda>resp.
           case resp of
             NetError \<Rightarrow> ret None
           | Response st body \<Rightarrow>
               if \<not> resp_ok resp then ret None
               else ret (map_option trim body)))"

subsection \<open>UTXO selection\<close>

type_synonym coin = "Utxo \<times> FundedDeposit"

abbreviation coin_value :: "coin \<Rightarrow> jnum" where
  "coin_value x \<equiv> utxo_value (fst x)"

text \<open>Stable sort, largest value first: \<open>sort((a, b) => b.utxo.value - a.utxo.value)\<close>.\<close>

fun insert_desc :: "coin \<Rightarrow> coin list \<Rightarrow> coin list" where
  "insert_desc x [] = [x]"
| "insert_desc x (y # ys) =
     (if js_less (coin_value x) (coin_value y) then y # insert_desc x ys else x # y # ys)"

fun sort_desc :: "coin list \<Rightarrow> coin list" where
  "sort_desc [] = []"
| "sort_desc (x # xs) = insert_desc x (sort_desc xs)"

text \<open>The loop with its \<open>break\<close>: coins taken and the final total.\<close>

fun take_coins :: "jnum \<Rightarrow> jnum \<Rightarrow> coin list \<Rightarrow> coin list \<times> jnum" where
  "take_coins target tot [] = ([], tot)"
| "take_coins target tot (x # xs) =
     (let tot' = js_add tot (coin_value x)
      in if js_le target tot' then ([x], tot')
         else (let (sel, t) = take_coins target tot' xs in (x # sel, t)))"

definition selectUtxos :: "coin list \<Rightarrow> jnum \<Rightarrow> jnum \<Rightarrow> coin list" where
  "selectUtxos utxos targetSats feeSats =
     (let target = js_add targetSats feeSats;
          (selected, tot) = take_coins target (JInt 0) (sort_desc utxos)
      in if js_less tot target then [] else selected)"

subsection \<open>Building the transaction\<close>

text \<open>\<open>withdrawal.amount_sats || ecxToSats(withdrawal.amount_ecx, withdrawal.network)\<close>.\<close>

definition withdrawal_sats :: "Withdrawal \<Rightarrow> jnum" where
  "withdrawal_sats w = num_or (w_amount_sats w) (ecxToSats (w_amount_ecx w) (w_network w))"

fun collect_utxos ::
  "outside \<Rightarrow> string \<Rightarrow> string \<Rightarrow> FundedDeposit list \<Rightarrow> (fed, coin list) comp" where
  "collect_utxos out esploraUrl network [] = ret []"
| "collect_utxos out esploraUrl network (d # ds) =
     (if fd_network d \<noteq> network then collect_utxos out esploraUrl network ds
      else if fd_derivation_index d = None then collect_utxos out esploraUrl network ds
      else bindE (fetchUtxos out esploraUrl (fd_ecash_address d)) (\<lambda>us.
           bindE (collect_utxos out esploraUrl network ds) (\<lambda>rest.
           ret (map (\<lambda>u. (u, d)) us @ rest))))"

text \<open>
  The two loops over the selected coins: one adds the inputs, the other collects the signing keys.
  \<open>None\<close> is the early \<open>return null\<close> when no key can be derived. Selected coins come from
  \<open>collect_utxos\<close>, which skips deposits without a derivation index.
\<close>

fun add_inputs ::
  "crypto \<Rightarrow> btc_lib \<Rightarrow> HDWallet \<Rightarrow> string \<Rightarrow> coin list \<Rightarrow> error + btc_input list option" where
  "add_inputs c lib w network [] = Inr (Some [])"
| "add_inputs c lib w network ((u, d) # xs) =
     bind_sum (deriveKeyPair c w network (the (fd_derivation_index d))) (\<lambda>keyPair.
       case keyPair of
         None \<Rightarrow> Inr None
       | Some kp \<Rightarrow>
           bind_sum (p2wpkh_script lib (kp_publicKey kp)) (\<lambda>script.
           bind_sum (hex_decode lib (txid u)) (\<lambda>tid.
           bind_sum (bigint_of_num (utxo_value u)) (\<lambda>amount.
             let i = \<lparr>in_txid = tid, in_index = vout u, in_script = script, in_amount = amount,
                      in_sequence = 4294967293\<rparr>
             in bind_sum (check_input lib i) (\<lambda>_.
                bind_sum (add_inputs c lib w network xs) (\<lambda>rest.
                  Inr (map_option (\<lambda>r. i # r) rest)))))))"

fun signing_keys :: "crypto \<Rightarrow> HDWallet \<Rightarrow> string \<Rightarrow> coin list \<Rightarrow> error + bytes list" where
  "signing_keys c w network [] = Inr []"
| "signing_keys c w network ((u, d) # xs) =
     bind_sum (deriveKeyPair c w network (the (fd_derivation_index d))) (\<lambda>keyPair.
     bind_sum (signing_keys c w network xs) (\<lambda>rest.
       Inr (case keyPair of None \<Rightarrow> rest | Some kp \<Rightarrow> kp_privateKey kp # rest)))"

text \<open>Outputs: the user's, and the change when it is above the dust limit.\<close>

definition add_outputs ::
  "btc_lib \<Rightarrow> string \<Rightarrow> string \<Rightarrow> string \<Rightarrow> jnum \<Rightarrow> jnum \<Rightarrow> error + btc_output list" where
  "add_outputs lib network address changeAddress targetSats changeSats =
     bind_sum (bigint_of_num targetSats) (\<lambda>target.
       let o1 = \<lparr>out_address = cleanAddress address, out_amount = target,
                 out_network = getBtcNetwork network\<rparr>
       in bind_sum (check_output lib o1) (\<lambda>_.
          if js_less (JInt 546) changeSats
          then bind_sum (bigint_of_num changeSats) (\<lambda>change.
                 let o2 = \<lparr>out_address = cleanAddress changeAddress, out_amount = change,
                           out_network = getBtcNetwork network\<rparr>
                 in bind_sum (check_output lib o2) (\<lambda>_. Inr [o1, o2]))
          else Inr [o1]))"

definition build_tx ::
  "crypto \<Rightarrow> btc_lib \<Rightarrow> HDWallet \<Rightarrow> string \<Rightarrow> string \<Rightarrow> string \<Rightarrow> coin list \<Rightarrow> jnum \<Rightarrow> jnum
     \<Rightarrow> error + (btc_tx \<times> bytes list) option" where
  "build_tx c lib w network address changeAddress selected targetSats changeSats =
     bind_sum (add_inputs c lib w network selected) (\<lambda>ins.
       case ins of
         None \<Rightarrow> Inr None
       | Some inputs \<Rightarrow>
           bind_sum (add_outputs lib network address changeAddress targetSats changeSats) (\<lambda>outputs.
           bind_sum (signing_keys c w network selected) (\<lambda>keys.
             Inr (Some (\<lparr>lockTime = (case REPLAY_LOCKTIME network of None \<Rightarrow> 0 | Some l \<Rightarrow> l),
                         tx_inputs = inputs, tx_outputs = outputs\<rparr>, keys)))))"

definition DUST_LIMIT :: int where
  "DUST_LIMIT = 546"

definition feeSats :: int where
  "feeSats = 1000"

definition coins_total :: "coin list \<Rightarrow> jnum" where
  "coins_total cs = foldl (\<lambda>s u. js_add s (coin_value u)) (JInt 0) cs"

definition buildSignAndBroadcastWithdrawal ::
  "outside \<Rightarrow> crypto \<Rightarrow> btc_lib \<Rightarrow> string \<Rightarrow> Withdrawal \<Rightarrow> FundedDeposit list \<Rightarrow> string \<Rightarrow> HDWallet
     \<Rightarrow> string \<Rightarrow> (fed, string option) comp" where
  "buildSignAndBroadcastWithdrawal out c lib network withdrawal fundedDeposits esploraUrl w
       changeAddress =
     (let targetSats = withdrawal_sats withdrawal
      in if js_le targetSats (JInt 0) then ret None
         else if js_less targetSats (JInt DUST_LIMIT) then ret None
         else bindE (collect_utxos out esploraUrl network fundedDeposits) (\<lambda>allUtxos.
           if allUtxos = [] then ret None
           else (let selected = selectUtxos allUtxos targetSats (JInt feeSats)
                 in if selected = [] then ret None
                    else (let totalInput = coins_total selected;
                              changeSats = js_sub (js_sub totalInput targetSats) (JInt feeSats)
                          in case build_tx c lib w network (w_ecash_address withdrawal) changeAddress
                                    selected targetSats changeSats of
                               Inl e \<Rightarrow> ret None
                             | Inr None \<Rightarrow> ret None
                             | Inr (Some (tx, keys)) \<Rightarrow>
                                 (case sign_finalize_extract lib tx keys of
                                    Inl e \<Rightarrow> ret None
                                  | Inr rawHex \<Rightarrow>
                                      bindE (broadcastTx out esploraUrl rawHex) (\<lambda>txHash.
                                        if truthy_str txHash then ret txHash else ret None))))))"

subsection \<open>Coins with whole values\<close>

text \<open>
  Esplora reports values in satoshi: non-negative integers, and no address holds more than the
  money supply, far below \<open>2 ^ 53\<close>. \<open>whole_coins\<close> says so of a list of coins; then the sums the code
  forms in floating point are exact.
\<close>

definition coin_sats :: "coin \<Rightarrow> int" where
  "coin_sats x = (case coin_value x of JFin q \<Rightarrow> \<lfloor>q\<rfloor> | _ \<Rightarrow> 0)"

abbreviation sats_sum :: "coin list \<Rightarrow> int" where
  "sats_sum cs \<equiv> sum_list (map coin_sats cs)"

definition whole_coin :: "coin \<Rightarrow> bool" where
  "whole_coin x \<longleftrightarrow> coin_value x = JInt (coin_sats x) \<and> 0 \<le> coin_sats x"

definition whole_coins :: "coin list \<Rightarrow> bool" where
  "whole_coins cs \<longleftrightarrow> list_all whole_coin cs \<and> sats_sum cs \<le> 2 ^ 53"

lemma whole_coin_value: "whole_coin x \<Longrightarrow> coin_value x = JInt (coin_sats x)"
  by (simp add: whole_coin_def)

lemma sats_sum_nonneg: "list_all whole_coin cs \<Longrightarrow> 0 \<le> sats_sum cs"
  by (induction cs) (auto simp: whole_coin_def)

lemma sats_sum_mset: "mset xs = mset ys \<Longrightarrow> sats_sum xs = sats_sum ys"
  by (metis mset_map sum_mset_sum_list)

lemma whole_coins_sub:
  assumes "whole_coins cs" "mset ds \<subseteq># mset cs"
  shows "whole_coins ds"
proof -
  obtain r where r: "mset cs = mset ds + r" using assms(2) by (auto simp: subset_mset.le_iff_add)
  obtain rs where rs: "r = mset rs" using ex_mset [of r] by metis
  have "mset cs = mset (ds @ rs)" by (simp add: r rs)
  then have sum: "sats_sum cs = sats_sum ds + sats_sum rs"
    using sats_sum_mset [of cs "ds @ rs"] by simp
  have set: "set cs = set ds \<union> set rs" using r rs by (metis set_mset_mset set_mset_union)
  with assms(1) have "list_all whole_coin ds" "list_all whole_coin rs"
    by (auto simp: whole_coins_def list_all_iff)
  moreover from this(2) have "0 \<le> sats_sum rs" by (rule sats_sum_nonneg)
  ultimately show ?thesis using assms(1) sum by (simp add: whole_coins_def)
qed

lemma mset_insert_desc: "mset (insert_desc x ys) = add_mset x (mset ys)"
  by (induction ys) auto

lemma mset_sort_desc: "mset (sort_desc xs) = mset xs"
  by (induction xs) (simp_all add: mset_insert_desc)

lemma set_insert_desc: "set (insert_desc x ys) = insert x (set ys)"
  by (induction ys) auto

lemma set_sort_desc: "set (sort_desc xs) = set xs"
  by (induction xs) (simp_all add: set_insert_desc)

abbreviation desc :: "coin list \<Rightarrow> bool" where
  "desc \<equiv> sorted_wrt (\<lambda>x y. coin_sats y \<le> coin_sats x)"

lemma desc_insert:
  assumes "desc ys" "whole_coin x" "list_all whole_coin ys"
  shows "desc (insert_desc x ys)"
  using assms
proof (induction ys)
  case (Cons y ys)
  have c: "js_less (coin_value x) (coin_value y) \<longleftrightarrow> coin_sats x < coin_sats y"
    using Cons.prems by (simp add: whole_coin_value)
  show ?case
  proof (cases "coin_sats x < coin_sats y")
    case True
    with Cons c show ?thesis by (simp add: set_insert_desc)
  next
    case False
    with Cons c show ?thesis by fastforce
  qed
qed simp

lemma desc_sort: "list_all whole_coin xs \<Longrightarrow> desc (sort_desc xs)"
  by (induction xs) (simp_all add: desc_insert list_all_iff set_sort_desc)

lemma take_coins_spec:
  assumes "list_all whole_coin xs" "0 \<le> tot" "tot + sats_sum xs \<le> 2 ^ 53" "tot < need"
  shows "\<exists>ys zs. xs = ys @ zs \<and>
           take_coins (JInt need) (JInt tot) xs = (ys, JInt (tot + sats_sum ys)) \<and>
           (zs = [] \<and> tot + sats_sum ys < need \<or>
            ys \<noteq> [] \<and> need \<le> tot + sats_sum ys \<and> tot + sats_sum (butlast ys) < need)"
  using assms
proof (induction xs arbitrary: tot)
  case (Cons x xs)
  have wx: "whole_coin x" "list_all whole_coin xs" using Cons.prems(1) by simp_all
  have nn: "0 \<le> sats_sum xs" "0 \<le> coin_sats x"
    using sats_sum_nonneg [OF wx(2)] wx(1) by (simp_all add: whole_coin_def)
  have safe: "safe_int (tot + coin_sats x)"
    using Cons.prems nn by (simp add: safe_int_def)
  have v: "coin_value x = JInt (coin_sats x)" using Cons.prems by (simp add: whole_coin_value)
  have add: "js_add (JInt tot) (coin_value x) = JInt (tot + coin_sats x)"
    unfolding v by (rule js_add_int [OF safe])
  show ?case
  proof (cases "need \<le> tot + coin_sats x")
    case True
    then have "take_coins (JInt need) (JInt tot) (x # xs) = ([x], JInt (tot + coin_sats x))"
      by (simp only: take_coins.simps add Let_def js_le_int if_True)
    with True Cons.prems show ?thesis by (intro exI [of _ "[x]"] exI [of _ xs]) simp
  next
    case False
    obtain ys zs where yz: "xs = ys @ zs"
      "take_coins (JInt need) (JInt (tot + coin_sats x)) xs =
         (ys, JInt (tot + coin_sats x + sats_sum ys))"
      "zs = [] \<and> tot + coin_sats x + sats_sum ys < need \<or>
       ys \<noteq> [] \<and> need \<le> tot + coin_sats x + sats_sum ys \<and>
         tot + coin_sats x + sats_sum (butlast ys) < need"
      using Cons.IH [of "tot + coin_sats x"] Cons.prems nn False by auto
    have "take_coins (JInt need) (JInt tot) (x # xs) = (x # ys, JInt (tot + sats_sum (x # ys)))"
      using False by (simp only: take_coins.simps add Let_def js_le_int if_False yz(2))
        (simp add: add.assoc)
    with yz show ?thesis by (intro exI [of _ "x # ys"] exI [of _ zs]) (auto simp: add.assoc)
  qed
qed simp

lemma selectUtxos_spec:
  assumes "whole_coins cs" "0 < t" "0 \<le> f" "t + f \<le> 2 ^ 53"
  shows "\<exists>rest. mset cs = mset (selectUtxos cs (JInt t) (JInt f)) + mset rest \<and>
    (selectUtxos cs (JInt t) (JInt f) = [] \<longleftrightarrow> sats_sum cs < t + f) \<and>
    (selectUtxos cs (JInt t) (JInt f) = [] \<or>
      t + f \<le> sats_sum (selectUtxos cs (JInt t) (JInt f)) \<and>
      sats_sum (butlast (selectUtxos cs (JInt t) (JInt f))) < t + f \<and>
      desc (selectUtxos cs (JInt t) (JInt f)) \<and>
      (\<forall>x \<in> set (selectUtxos cs (JInt t) (JInt f)). \<forall>y \<in> set rest. coin_sats y \<le> coin_sats x))"
proof -
  have "safe_int (t + f)" using assms by (simp add: safe_int_def)
  then have need: "js_add (JInt t) (JInt f) = JInt (t + f)" by (rule js_add_int)
  have whole: "list_all whole_coin (sort_desc cs)"
    using assms(1) by (simp add: whole_coins_def list_all_iff set_sort_desc)
  have sum: "sats_sum (sort_desc cs) = sats_sum cs"
    by (intro sats_sum_mset mset_sort_desc)
  have p1: "0 + sats_sum (sort_desc cs) \<le> 2 ^ 53" and p2: "0 < t + f"
    using assms sum by (simp_all add: whole_coins_def)
  obtain ys zs where yz: "sort_desc cs = ys @ zs"
    "take_coins (JInt (t + f)) (JInt 0) (sort_desc cs) = (ys, JInt (0 + sats_sum ys))"
    "zs = [] \<and> 0 + sats_sum ys < t + f \<or>
     ys \<noteq> [] \<and> t + f \<le> 0 + sats_sum ys \<and> 0 + sats_sum (butlast ys) < t + f"
    using take_coins_spec [OF whole order_refl p1 p2] by blast
  have sel: "selectUtxos cs (JInt t) (JInt f) = (if sats_sum ys < t + f then [] else ys)"
    unfolding selectUtxos_def need Let_def yz(2) by (simp del: of_int_add of_int_sum)
  have ms: "mset cs = mset ys + mset zs"
    using mset_sort_desc [of cs] by (simp add: yz(1))
  have zs0: "0 \<le> sats_sum zs"
    using whole by (intro sats_sum_nonneg) (simp add: yz(1))
  show ?thesis
  proof (cases "sats_sum ys < t + f")
    case True
    with yz(3) have "zs = []" by auto
    with True sum have "sats_sum cs < t + f" by (simp add: yz(1))
    with True sel show ?thesis by (intro exI [of _ cs]) simp
  next
    case False
    have "desc (ys @ zs)" using desc_sort assms(1) by (metis yz(1) whole_coins_def)
    then have "desc ys" "\<forall>x \<in> set ys. \<forall>y \<in> set zs. coin_sats y \<le> coin_sats x"
      by (simp_all add: sorted_wrt_append)
    moreover have "\<not> sats_sum cs < t + f" using False sum zs0 by (simp add: yz(1))
    ultimately show ?thesis using False sel ms yz(3) by (intro exI [of _ zs]) auto
  qed
qed

subsection \<open>The contract of coin selection\<close>

text \<open>
  What the transaction builder relies on: a selection is drawn from the coins offered, covers the
  amount needed, has no coin too many, and exists whenever the coins suffice.
\<close>

locale coin_selection =
  fixes select :: "'c list \<Rightarrow> int \<Rightarrow> 'c list"
    and amount :: "'c \<Rightarrow> int"
    and fits :: "'c list \<Rightarrow> int \<Rightarrow> bool"
  assumes drawn: "fits cs need \<Longrightarrow> mset (select cs need) \<subseteq># mset cs"
    and covers: "fits cs need \<Longrightarrow> select cs need \<noteq> [] \<Longrightarrow>
      need \<le> sum_list (map amount (select cs need))"
    and no_surplus: "fits cs need \<Longrightarrow> select cs need \<noteq> [] \<Longrightarrow>
      sum_list (map amount (butlast (select cs need))) < need"
    and refuses: "fits cs need \<Longrightarrow>
      select cs need = [] \<longleftrightarrow> sum_list (map amount cs) < need"
begin

text \<open>The change is never negative and always less than the last coin taken.\<close>

lemma change_bounds:
  assumes "fits cs need" "select cs need \<noteq> []"
  shows "0 \<le> sum_list (map amount (select cs need)) - need"
    and "sum_list (map amount (select cs need)) - need < amount (last (select cs need))"
proof -
  have "sum_list (map amount xs) = sum_list (map amount (butlast xs)) + amount (last xs)"
    if "xs \<noteq> []" for xs
    using that by (induction xs rule: rev_induct) simp_all
  from this [OF assms(2)]
  show "sum_list (map amount (select cs need)) - need < amount (last (select cs need))"
    using no_surplus [OF assms] by simp
  show "0 \<le> sum_list (map amount (select cs need)) - need"
    using covers [OF assms] by simp
qed

end

definition select_for :: "coin list \<Rightarrow> int \<Rightarrow> coin list" where
  "select_for cs need = selectUtxos cs (JInt (need - feeSats)) (JInt feeSats)"

definition selectable :: "coin list \<Rightarrow> int \<Rightarrow> bool" where
  "selectable cs need \<longleftrightarrow> whole_coins cs \<and> feeSats < need \<and> need \<le> 2 ^ 53"

lemma select_for_spec:
  assumes "selectable cs need"
  shows "\<exists>rest. mset cs = mset (select_for cs need) + mset rest \<and>
    (select_for cs need = [] \<longleftrightarrow> sats_sum cs < need) \<and>
    (select_for cs need = [] \<or>
      need \<le> sats_sum (select_for cs need) \<and> sats_sum (butlast (select_for cs need)) < need)"
proof -
  have "0 < need - feeSats" "(0 :: int) \<le> feeSats" "need - feeSats + feeSats \<le> 2 ^ 53"
    using assms by (simp_all add: selectable_def feeSats_def)
  with selectUtxos_spec [of cs "need - feeSats" feeSats] assms show ?thesis
    unfolding select_for_def selectable_def by auto
qed

interpretation coins: coin_selection select_for coin_sats selectable
proof
  fix cs need
  assume s: "selectable cs need"
  show "mset (select_for cs need) \<subseteq># mset cs"
    using select_for_spec [OF s] by (auto simp: subset_mset.le_iff_add)
  show "select_for cs need = [] \<longleftrightarrow> sats_sum cs < need"
    using select_for_spec [OF s] by auto
  show "need \<le> sats_sum (select_for cs need)" if "select_for cs need \<noteq> []"
    using select_for_spec [OF s] that by auto
  show "sats_sum (butlast (select_for cs need)) < need" if "select_for cs need \<noteq> []"
    using select_for_spec [OF s] that by auto
qed

subsection \<open>The transaction that is built\<close>

lemma foldl_coins:
  assumes "list_all whole_coin cs" "0 \<le> a" "a + sats_sum cs \<le> 2 ^ 53"
  shows "foldl (\<lambda>s u. js_add s (coin_value u)) (JInt a) cs = JInt (a + sats_sum cs)"
  using assms
proof (induction cs arbitrary: a)
  case (Cons x cs)
  have wx: "whole_coin x" "list_all whole_coin cs" using Cons.prems(1) by simp_all
  have nn: "0 \<le> sats_sum cs" "0 \<le> coin_sats x"
    using sats_sum_nonneg [OF wx(2)] wx(1) by (simp_all add: whole_coin_def)
  have "safe_int (a + coin_sats x)" using Cons.prems nn by (simp add: safe_int_def)
  then have "js_add (JInt a) (coin_value x) = JInt (a + coin_sats x)"
    unfolding whole_coin_value [OF wx(1)] by (rule js_add_int)
  moreover have "0 \<le> a + coin_sats x" "a + coin_sats x + sats_sum cs \<le> 2 ^ 53"
    using Cons.prems nn by simp_all
  ultimately show ?case
    using Cons.IH [OF wx(2), of "a + coin_sats x"] by (simp add: add.assoc del: of_int_add)
qed simp

lemma coins_total_whole: "whole_coins cs \<Longrightarrow> coins_total cs = JInt (sats_sum cs)"
  using foldl_coins [of cs 0] by (simp add: coins_total_def whole_coins_def)

lemma add_inputs_spec:
  assumes "add_inputs c lib w network cs = Inr (Some ins)" "list_all whole_coin cs"
  shows "map in_amount ins = map coin_sats cs \<and> (\<forall>i \<in> set ins. in_sequence i = 4294967293)"
  using assms
proof (induction cs arbitrary: ins)
  case (Cons x cs)
  obtain u d where x: "x = (u, d)" by (cases x)
  have "utxo_value u = JInt (coin_sats x)" using Cons.prems(2) by (simp add: whole_coin_def x)
  then have b: "bigint_of_num (utxo_value u) = Inr (coin_sats x)" by simp
  from Cons.prems(1) b obtain rest i where
    "add_inputs c lib w network cs = Inr (Some rest)" "ins = i # rest"
    "in_amount i = coin_sats x" "in_sequence i = 4294967293"
    by (auto simp: x Let_def bind_sum_def split: sum.splits option.splits)
  with Cons show ?case by auto
qed simp

text \<open>
  What a transaction that pays \<open>t\<close> satoshi to \<open>address\<close> must look like: it carries the network's
  replay-protection lock time and non-final inputs, its first output is the payment, any other
  output is change above the dust limit, and what is left for the miners is the flat fee plus at
  most a dust amount.
\<close>

definition pays :: "string \<Rightarrow> string \<Rightarrow> string \<Rightarrow> int \<Rightarrow> btc_tx \<Rightarrow> bool" where
  "pays network address changeAddress t tx \<longleftrightarrow>
     Some (lockTime tx) =
       (case REPLAY_LOCKTIME network of None \<Rightarrow> Some 0 | Some l \<Rightarrow> Some l) \<and>
     (\<forall>i \<in> set (tx_inputs tx). in_sequence i = 4294967293) \<and>
     (\<exists>rest. tx_outputs tx =
        \<lparr>out_address = cleanAddress address, out_amount = t,
         out_network = getBtcNetwork network\<rparr> # rest \<and>
        length rest \<le> 1 \<and>
        (\<forall>r \<in> set rest. out_address r = cleanAddress changeAddress \<and> DUST_LIMIT < out_amount r)) \<and>
     (let fee = sum_list (map in_amount (tx_inputs tx)) - sum_list (map out_amount (tx_outputs tx))
      in feeSats \<le> fee \<and> fee \<le> feeSats + DUST_LIMIT)"

lemma add_outputs_int:
  "add_outputs lib network address chg (JInt t) (JInt k) = Inr outs \<Longrightarrow>
   outs = \<lparr>out_address = cleanAddress address, out_amount = t, out_network = getBtcNetwork network\<rparr> #
     (if 546 < k then [\<lparr>out_address = cleanAddress chg, out_amount = k,
                        out_network = getBtcNetwork network\<rparr>] else [])"
  by (auto simp: add_outputs_def Let_def bind_sum_def split: sum.splits if_splits)

lemma build_tx_pays:
  assumes b: "build_tx c lib w network address chg sel (JInt t) (JInt k) = Inr (Some (tx, keys))"
    and whole: "list_all whole_coin sel"
    and k: "k = sats_sum sel - t - feeSats" "0 \<le> k"
  shows "pays network address chg t tx"
proof -
  from b obtain ins outs where
    ins: "add_inputs c lib w network sel = Inr (Some ins)" and
    outs: "add_outputs lib network address chg (JInt t) (JInt k) = Inr outs" and
    tx: "tx = \<lparr>lockTime = (case REPLAY_LOCKTIME network of None \<Rightarrow> 0 | Some l \<Rightarrow> l),
               tx_inputs = ins, tx_outputs = outs\<rparr>"
    by (auto simp: build_tx_def bind_sum_def split: sum.splits option.splits)
  note I = add_inputs_spec [OF ins whole] and O = add_outputs_int [OF outs]
  show ?thesis
    using I k unfolding pays_def tx O
    by (auto simp: Let_def DUST_LIMIT_def feeSats_def split: option.splits)
qed

subsection \<open>The whole operation\<close>

text \<open>Its only effects are UTXO queries and the broadcast, and it never throws.\<close>

definition withdraw_events :: "event set" where
  "withdraw_events = {e. (\<exists>u r. e = EUtxos u r) \<or> (\<exists>u x r. e = EBroadcast u x r)}"

lemma only_fetchUtxos: "only withdraw_events (fetchUtxos out url a)"
  unfolding fetchUtxos_def Let_def
  by (intro comp_rules only_call)
    (auto simp: withdraw_events_def split: option.splits utxo_body.splits intro: comp_rules)

lemma only_broadcastTx: "only withdraw_events (broadcastTx out url x)"
  unfolding broadcastTx_def Let_def
  by (intro comp_rules only_call) (auto simp: withdraw_events_def)

lemma only_collect: "only withdraw_events (collect_utxos out url network ds)"
  by (induction ds) (auto intro!: comp_rules only_fetchUtxos)

lemma only_buildSignAndBroadcast:
  "only withdraw_events
     (buildSignAndBroadcastWithdrawal out c lib network wd funded url w chg)"
  unfolding buildSignAndBroadcastWithdrawal_def Let_def
  by (intro comp_rules only_collect)
    (auto split: sum.splits option.splits intro!: comp_rules only_broadcastTx)

lemma returns_fetchUtxos [comp_rules]: "returns (fetchUtxos out url a)"
  unfolding fetchUtxos_def Let_def
  by (intro comp_rules) (auto split: option.splits utxo_body.splits intro: comp_rules)

lemma returns_broadcastTx [comp_rules]: "returns (broadcastTx out url x)"
  unfolding broadcastTx_def Let_def by (intro comp_rules)

lemma returns_collect [comp_rules]: "returns (collect_utxos out url network ds)"
  by (induction ds) (auto intro!: comp_rules)

lemma returns_buildSignAndBroadcast [comp_rules]:
  "returns (buildSignAndBroadcastWithdrawal out c lib network wd funded url w chg)"
  unfolding buildSignAndBroadcastWithdrawal_def Let_def
  by (intro comp_rules)

lemma broadcastTx_Some:
  assumes "broadcastTx out url x s = (Inr (Some h), t)"
  shows "\<exists>r. trace t = trace s @ [EBroadcast (url @ ''/tx'') x r] \<and> resp_ok r"
  using assms
  by (auto simp: broadcastTx_def Let_def bindE_def call_apply ret_apply
      split: reply.splits if_splits)

text \<open>
  C3. What is broadcast pays the withdrawal and nothing is lost: whenever the operation reports a
  transaction hash, it collected coins, built a transaction that \<open>pays\<close> the requested satoshis to
  the user's address (lock time of the network, non-final inputs, inputs equal to outputs plus a
  fee between 1000 and 1546 satoshi, change only above the dust limit), signed it, and its last
  action was to broadcast exactly that transaction with an accepting reply. The coins must have
  whole values below \<open>2 ^ 53\<close> satoshi in total.
\<close>

theorem withdrawal_pays:
  assumes run: "buildSignAndBroadcastWithdrawal out c lib network wd funded url w chg s
                  = (Inr (Some h), s')"
    and coins: "collect_utxos out url network funded s = (Inr coins, s1)" "whole_coins coins"
    and amt: "withdrawal_sats wd = JInt t" "t \<le> 2 ^ 52"
  shows "\<exists>tx keys raw r. sign_finalize_extract lib tx keys = Inr raw \<and>
           trace s' = trace s1 @ [EBroadcast (url @ ''/tx'') raw r] \<and> resp_ok r \<and>
           pays network (w_ecash_address wd) chg t tx"
proof -
  define sel where "sel = selectUtxos coins (JInt t) (JInt feeSats)"
  define k where "k = sats_sum sel - t - feeSats"
  have "\<not> js_le (JInt t) (JInt 0)" "\<not> js_less (JInt t) (JInt DUST_LIMIT)"
    using run by (auto simp: buildSignAndBroadcastWithdrawal_def amt Let_def ret_apply
        split: if_splits)
  then have t: "DUST_LIMIT \<le> t" by (simp add: js_le_int)
  have sel_ne: "sel \<noteq> []"
    using run coins(1)
    by (auto simp: buildSignAndBroadcastWithdrawal_def amt Let_def ret_apply sel_def bindE_Inr
        split: if_splits)
  have selectable: "selectable coins (t + feeSats)"
    using coins(2) amt(2) t by (simp add: selectable_def feeSats_def DUST_LIMIT_def)
  have sf: "select_for coins (t + feeSats) = sel" by (simp add: select_for_def sel_def)
  have k0: "0 \<le> k"
    using coins.change_bounds(1) [OF selectable] sel_ne by (simp add: sf k_def)
  have whole: "whole_coins sel"
    using whole_coins_sub [OF coins(2)] coins.drawn [OF selectable] sf by simp
  have safe: "safe_int (sats_sum sel - t)" "safe_int (sats_sum sel - t - feeSats)"
    using k0 whole t by (auto simp: k_def whole_coins_def safe_int_def feeSats_def DUST_LIMIT_def)
  have change: "js_sub (js_sub (coins_total sel) (JInt t)) (JInt feeSats) = JInt k"
    unfolding coins_total_whole [OF whole] js_sub_int [OF safe(1)] js_sub_int [OF safe(2)] k_def ..
  obtain tx keys where b:
    "build_tx c lib w network (w_ecash_address wd) chg sel (JInt t) (JInt k) = Inr (Some (tx, keys))"
    and "\<exists>raw. sign_finalize_extract lib tx keys = Inr raw \<and>
      broadcastTx out url raw s1 = (Inr (Some h), s')"
  proof -
    from run coins(1) sel_ne show ?thesis
      using that
      by (auto simp: buildSignAndBroadcastWithdrawal_def amt Let_def ret_apply bindE_Inr
          sel_def [symmetric] change bindE_def
          split: if_splits sum.splits option.splits prod.splits)
  qed
  moreover have "pays network (w_ecash_address wd) chg t tx"
    using build_tx_pays [OF b _ k_def k0] whole by (simp add: whole_coins_def)
  ultimately show ?thesis using broadcastTx_Some by blast
qed

text \<open>A concrete world for witnesses: one coin of 10000 satoshi, every library call succeeds.\<close>

definition toy_lib :: btc_lib where
  "toy_lib =
     \<lparr>p2wpkh_script = Inr, hex_decode = (\<lambda>s. Inr (map of_char s)), check_input = (\<lambda>_. Inr ()),
      check_output = (\<lambda>_. Inr ()), sign_finalize_extract = (\<lambda>tx keys. Inr ''00ff'')\<rparr>"

definition toy_raw :: raw_utxo where
  "toy_raw =
     \<lparr>ru_txid = Some ''ab'', ru_vout = Some (JInt 1), ru_value = Some (JInt 10000),
      ru_scriptPubKey = None, ru_scriptpubkey = None,
      ru_status = Some \<lparr>us_confirmed = Some True, us_block_height = Some (JInt 100)\<rparr>\<rparr>"

definition toy_out :: outside where
  "toy_out = silent\<lparr>
     o_utxos := (\<lambda>h url. Response 200 (Some (UtxoArray [toy_raw]))),
     o_broadcast := (\<lambda>h url x. Response 200 (Some ''txhash''))\<rparr>"

definition toy_funded :: "FundedDeposit list" where
  "toy_funded =
     [\<lparr>fd_id = ''d1'', fd_network = ''signet'', fd_ecash_address = ''tb1q'',
       fd_derivation_index = Some 7, fd_amount_sats = JInt 10000\<rparr>]"

definition toy_withdrawal :: Withdrawal where
  "toy_withdrawal =
     \<lparr>w_id = ''w1'', w_network = ''signet'', w_snowside_address = ''0xabc'',
      w_ecash_address = ''tb1user'', w_amount_ecx = AmtStr ''0.00005'',
      w_amount_sats = Some (JInt 5000), w_burn_tx_hash = Some ''0xburn'', w_ecash_tx_hash = None,
      w_status = ''pending'', w_created_at = 0\<rparr>"

lemmas toy_defs = toy_lib_def toy_raw_def toy_out_def toy_funded_def toy_withdrawal_def
  toy_crypto_def toy_wallet_def

lemmas toy_run_simps = buildSignAndBroadcastWithdrawal_def toy_defs withdrawal_sats_def num_or_def
  truthy_num_def js_le_def js_eq_def DUST_LIMIT_def feeSats_def fetchUtxos_def Let_def comp_simps
  bindE_def call_def to_utxo_def str_or_def selectUtxos_def coins_total_def js_sub_def build_tx_def
  deriveKeyPair_def DERIVATION_PATHS_def add_outputs_def broadcastTx_def trim_def is_space_def
  REPLAY_LOCKTIME_def round_simps

lemma toy_run:
  "fst (buildSignAndBroadcastWithdrawal toy_out toy_crypto toy_lib ''signet'' toy_withdrawal
          toy_funded ''e'' toy_wallet ''tb1chg'' fed_init) = Inr (Some ''txhash'')"
  by (simp add: toy_run_simps)

lemma toy_collect:
  "fst (collect_utxos toy_out ''e'' ''signet'' toy_funded fed_init)
     = Inr [(to_utxo toy_raw, hd toy_funded)]"
  by (simp add: toy_run_simps)

lemma toy_whole: "whole_coins [(to_utxo toy_raw, hd toy_funded)]"
  by (simp add: whole_coins_def whole_coin_def coin_sats_def to_utxo_def toy_defs num_or_def
      truthy_num_def str_or_def js_eq_def round_simps)

theorem withdrawal_pays_witness:
  "\<exists>tx keys raw r. sign_finalize_extract toy_lib tx keys = Inr raw \<and>
     pays ''signet'' ''tb1user'' ''tb1chg'' 5000 tx"
proof -
  obtain s' where run: "buildSignAndBroadcastWithdrawal toy_out toy_crypto toy_lib ''signet''
      toy_withdrawal toy_funded ''e'' toy_wallet ''tb1chg'' fed_init = (Inr (Some ''txhash''), s')"
    using toy_run by (metis prod.collapse)
  obtain s1 where coll: "collect_utxos toy_out ''e'' ''signet'' toy_funded fed_init
      = (Inr [(to_utxo toy_raw, hd toy_funded)], s1)"
    using toy_collect by (metis prod.collapse)
  have amt: "withdrawal_sats toy_withdrawal = JInt 5000"
    by (simp add: withdrawal_sats_def toy_withdrawal_def num_or_def truthy_num_def js_eq_def)
  show ?thesis
    using withdrawal_pays [OF run coll toy_whole amt] by (auto simp: toy_withdrawal_def)
qed

lemma top_sum:
  assumes "desc xs" "list_all whole_coin xs" "mset ds \<subseteq># mset xs" "length ds \<le> k"
  shows "sats_sum ds \<le> sats_sum (take k xs)"
  using assms
proof (induction xs arbitrary: ds k)
  case (Cons x xs)
  show ?case
  proof (cases ds)
    case Nil
    have "list_all whole_coin (take k (x # xs))"
      using Cons.prems(2) by (meson in_set_takeD list_all_iff)
    then show ?thesis using sats_sum_nonneg Nil by simp
  next
    case (Cons d ds')
    then obtain k' where k: "k = Suc k'" using Cons.prems(4) by (cases k) simp_all
    show ?thesis
    proof (cases "x \<in> set ds")
      case True
      then have m: "mset ds = add_mset x (mset (remove1 x ds))" by simp
      define ds2 where "ds2 = remove1 x ds"
      have m: "mset ds = add_mset x (mset ds2)" using m by (simp only: ds2_def)
      have "mset ds2 \<subseteq># mset xs" using Cons.prems(3) unfolding m by simp
      moreover have "length ds2 \<le> k'"
        using Cons.prems(4) m by (metis Suc_le_mono k size_add_mset size_mset)
      ultimately have "sats_sum ds2 \<le> sats_sum (take k' xs)"
        using Cons.IH [of ds2 k'] Cons.prems(1,2) by simp
      moreover have "sats_sum ds = coin_sats x + sats_sum ds2"
        using sats_sum_mset [of ds "x # ds2"] m by simp
      ultimately show ?thesis by (simp add: k)
    next
      case False
      have sub: "mset ds \<subseteq># mset xs"
      proof (rule mset_subset_eqI)
        fix a
        show "count (mset ds) a \<le> count (mset xs) a"
          using mset_subset_eq_count [OF Cons.prems(3), of a] False
          by (cases "a = x") (simp_all add: count_eq_zero_iff [THEN iffD2])
      qed
      have "d \<in> set xs" using sub Cons by (metis list.set_intros(1) mset_subset_eqD set_mset_mset)
      then have "coin_sats d \<le> coin_sats x" using Cons.prems(1) by simp
      moreover have "mset ds' \<subseteq># mset xs"
        using sub unfolding Cons by (metis insert_subset_eq_iff mset.simps(2) diff_subset_eq_self
            subset_mset.order_trans)
      then have "sats_sum ds' \<le> sats_sum (take k' xs)"
        using Cons.IH [of ds' k'] Cons.prems Cons by (simp add: k)
      ultimately show ?thesis using Cons by (simp add: k)
    qed
  qed
qed simp


lemma selectUtxos_fewest:
  assumes cs: "whole_coins cs" and t: "0 < t" "0 \<le> f" "t + f \<le> 2 ^ 53"
    and ds: "mset ds \<subseteq># mset cs" "t + f \<le> sats_sum ds"
  shows "length (selectUtxos cs (JInt t) (JInt f)) \<le> length ds"
proof (rule ccontr)
  define sel where "sel = selectUtxos cs (JInt t) (JInt f)"
  assume "\<not> length (selectUtxos cs (JInt t) (JInt f)) \<le> length ds"
  then have n: "length ds \<le> length sel - 1" "sel \<noteq> []" by (auto simp: sel_def)
  obtain rest where rest: "mset cs = mset sel + mset rest" "sats_sum (butlast sel) < t + f"
    "desc sel" "\<forall>x \<in> set sel. \<forall>y \<in> set rest. coin_sats y \<le> coin_sats x"
    using selectUtxos_spec [OF cs t] n(2) unfolding sel_def [symmetric] by auto
  have "set cs = set sel \<union> set rest" using rest(1) by (metis set_mset_mset set_mset_union)
  then have w: "list_all whole_coin (sel @ sort_desc rest)" "list_all whole_coin rest"
    using cs by (auto simp: whole_coins_def list_all_iff set_sort_desc)
  have "desc (sel @ sort_desc rest)"
    using rest(3,4) desc_sort [OF w(2)] by (simp add: sorted_wrt_append set_sort_desc)
  moreover have "mset ds \<subseteq># mset (sel @ sort_desc rest)"
    using ds(1) rest(1) by (simp add: mset_sort_desc)
  ultimately have "sats_sum ds \<le> sats_sum (take (length sel - 1) (sel @ sort_desc rest))"
    using top_sum w(1) n(1) by blast
  also have "take (length sel - 1) (sel @ sort_desc rest) = butlast sel"
    by (simp add: butlast_conv_take)
  finally show False using rest(2) ds(2) by simp
qed

text \<open>
  C4. Coin selection is optimal: the selection is drawn from the coins offered (each used once),
  covers amount plus fee, is empty exactly when all coins together do not suffice, and no other
  choice of coins that covers the amount has fewer inputs.
\<close>

theorem selectUtxos_optimal:
  assumes cs: "whole_coins cs" and t: "0 < t" "0 \<le> f" "t + f \<le> 2 ^ 53"
  shows "mset (selectUtxos cs (JInt t) (JInt f)) \<subseteq># mset cs \<and>
    (selectUtxos cs (JInt t) (JInt f) = [] \<longleftrightarrow> sats_sum cs < t + f) \<and>
    (selectUtxos cs (JInt t) (JInt f) = [] \<or>
       t + f \<le> sats_sum (selectUtxos cs (JInt t) (JInt f))) \<and>
    (\<forall>ds. mset ds \<subseteq># mset cs \<and> t + f \<le> sats_sum ds \<longrightarrow>
       length (selectUtxos cs (JInt t) (JInt f)) \<le> length ds)"
  using selectUtxos_spec [OF cs t] selectUtxos_fewest [OF cs t]
  by (auto simp: subset_mset.le_iff_add)

definition toy_coin :: "int \<Rightarrow> coin" where
  "toy_coin n = (\<lparr>txid = ''ab'', vout = JInt 0, utxo_value = JInt n, scriptPubKey = []\<rparr>, hd toy_funded)"

lemma toy_coins_whole: "whole_coins [toy_coin 300, toy_coin 9000, toy_coin 5000]"
  by (simp add: whole_coins_def whole_coin_def coin_sats_def toy_coin_def)

theorem selectUtxos_optimal_witness:
  "mset (selectUtxos [toy_coin 300, toy_coin 9000, toy_coin 5000] (JInt 8000) (JInt 1000))
     \<subseteq># mset [toy_coin 300, toy_coin 9000, toy_coin 5000] \<and>
   selectUtxos [toy_coin 300, toy_coin 9000, toy_coin 5000] (JInt 8000) (JInt 1000) \<noteq> []"
  using selectUtxos_optimal [OF toy_coins_whole, of 8000 1000]
  by (simp add: coin_sats_def toy_coin_def)

subsection \<open>Refusals\<close>

text \<open>
  A withdrawal of nothing or of less than the dust limit is refused before anything is done: no
  request is sent and the state is unchanged.
\<close>

theorem dust_withdrawal_refused:
  assumes "js_le (withdrawal_sats wd) (JInt 0) \<or> js_less (withdrawal_sats wd) (JInt DUST_LIMIT)"
  shows "buildSignAndBroadcastWithdrawal out c lib network wd funded url w chg s = (Inr None, s)"
  using assms by (auto simp: buildSignAndBroadcastWithdrawal_def Let_def ret_apply)

theorem dust_withdrawal_refused_witness:
  "buildSignAndBroadcastWithdrawal silent toy_crypto toy_lib ''signet''
     (toy_withdrawal\<lparr>w_amount_sats := Some (JInt 545)\<rparr>) [] ''e'' toy_wallet ''tb1chg'' fed_init
   = (Inr None, fed_init)"
  by (rule dust_withdrawal_refused)
    (simp add: withdrawal_sats_def num_or_def truthy_num_def js_eq_def DUST_LIMIT_def)

text \<open>
  When the coins of all funded deposits together do not cover amount and fee, nothing is signed
  or broadcast: the operation stops after its UTXO queries.
\<close>

theorem insufficient_coins_refused:
  assumes coins: "collect_utxos out url network funded s = (Inr coins, s1)" "whole_coins coins"
    and amt: "withdrawal_sats wd = JInt t" "DUST_LIMIT \<le> t" "t \<le> 2 ^ 52"
    and short: "sats_sum coins < t + feeSats"
  shows "buildSignAndBroadcastWithdrawal out c lib network wd funded url w chg s = (Inr None, s1)"
proof -
  have "selectUtxos coins (JInt t) (JInt feeSats) = []"
    using selectUtxos_spec [OF coins(2), of t feeSats] amt short
    by (auto simp: feeSats_def DUST_LIMIT_def)
  moreover have "\<not> js_le (JInt t) (JInt 0)" "\<not> js_less (JInt t) (JInt DUST_LIMIT)"
    using amt(2) js_le_int [of t 0] by (simp_all add: DUST_LIMIT_def)
  ultimately show ?thesis
    by (simp add: buildSignAndBroadcastWithdrawal_def amt(1) Let_def bindE_def coins(1)
        ret_apply)
qed

theorem insufficient_coins_refused_witness:
  "\<exists>s1. buildSignAndBroadcastWithdrawal toy_out toy_crypto toy_lib ''signet''
     (toy_withdrawal\<lparr>w_amount_sats := Some (JInt 9500)\<rparr>) toy_funded ''e'' toy_wallet ''tb1chg''
     fed_init = (Inr None, s1)"
proof -
  obtain s1 where coll: "collect_utxos toy_out ''e'' ''signet'' toy_funded fed_init
      = (Inr [(to_utxo toy_raw, hd toy_funded)], s1)"
    using toy_collect by (metis prod.collapse)
  have amt: "withdrawal_sats (toy_withdrawal\<lparr>w_amount_sats := Some (JInt 9500)\<rparr>) = JInt 9500"
    by (simp add: withdrawal_sats_def toy_withdrawal_def num_or_def truthy_num_def js_eq_def)
  have "sats_sum [(to_utxo toy_raw, hd toy_funded)] < 9500 + feeSats"
    by (simp add: coin_sats_def to_utxo_def toy_defs num_or_def truthy_num_def js_eq_def feeSats_def)
  then show ?thesis
    using insufficient_coins_refused [OF coll toy_whole amt] by (auto simp: DUST_LIMIT_def)
qed

subsection \<open>Amounts of a withdrawal\<close>

lemma ecxToSats_show:
  assumes "0 \<le> wei" "safe_int (wei div ECX_TO_SATS)"
  shows "ecxToSats (AmtStr (show_int wei)) network = JInt (wei div ECX_TO_SATS)"
  using assms num_of_bigint_safe [OF assms(2)]
  by (simp add: ecxToSats_def Let_def show_int_no_dot bigint_of_show
      bigint_div_nonneg ECX_TO_SATS_def)

text \<open>
  An amount given as a decimal integer string is a number of wei (\<open>10 ^ 18\<close> to the ECX): it is
  read without loss at any size and divided down to satoshi in integer arithmetic; the result is
  exact as long as it is at most \<open>2 ^ 53\<close> satoshi, which the whole money supply is.
\<close>

theorem ecxToSats_wei:
  assumes "0 \<le> wei" "wei div ECX_TO_SATS \<le> 2 ^ 53"
  shows "ecxToSats (AmtStr (show_int wei)) network = JInt (wei div ECX_TO_SATS)"
  using assms by (intro ecxToSats_show) (simp_all add: safe_int_def ECX_TO_SATS_def)

theorem ecxToSats_wei_witness:
  "ecxToSats (AmtStr (show_int 21000000000000000000000000)) ''mainnet'' = JInt 2100000000000000"
  using ecxToSats_wei [of 21000000000000000000000000 "''mainnet''"] by (simp add: ECX_TO_SATS_def)

text \<open>
  C31. The flip side: an amount written without a decimal point is taken for wei even when the user
  meant ECX. Every whole number below 5.46 million million (the bridge form accepts \<open>5\<close> for five
  ECX) comes to less than the dust limit, so the withdrawal is refused, silently and at every
  attempt.
\<close>

theorem whole_ecx_withdrawal_refused:
  assumes "w_amount_sats wd = None" "w_amount_ecx wd = AmtStr (show_int n)"
    and "0 \<le> n" "n < 5460000000000"
  shows "buildSignAndBroadcastWithdrawal out c lib network wd funded url w chg s = (Inr None, s)"
proof -
  have d: "0 \<le> n div ECX_TO_SATS" "n div ECX_TO_SATS < 546"
    using assms(3,4) by (simp_all add: ECX_TO_SATS_def)
  then have "safe_int (n div ECX_TO_SATS)" by (simp add: safe_int_def)
  then have "withdrawal_sats wd = JInt (n div ECX_TO_SATS)"
    using assms by (simp add: withdrawal_sats_def num_or_def ecxToSats_show)
  moreover have "js_less (JInt (n div ECX_TO_SATS)) (JInt DUST_LIMIT)"
    using d by (simp add: DUST_LIMIT_def)
  ultimately show ?thesis
    by (auto simp: buildSignAndBroadcastWithdrawal_def Let_def ret_apply)
qed

theorem whole_ecx_withdrawal_refused_witness:
  "buildSignAndBroadcastWithdrawal silent toy_crypto toy_lib ''signet''
     (toy_withdrawal\<lparr>w_amount_sats := None, w_amount_ecx := AmtStr (show_int 5)\<rparr>) toy_funded ''e''
     toy_wallet ''tb1chg'' fed_init = (Inr None, fed_init)"
  by (rule whole_ecx_withdrawal_refused [where n = 5]) simp_all

text \<open>
  An amount with a decimal point is multiplied as a double and floored, which can lose a
  satoshi: \<open>0.29\<close> ECX becomes 28999999 satoshi, not 29000000.
\<close>

theorem decimal_amount_truncated: "ecxToSats (AmtStr ''0.29'') network = JInt 28999999"
  by (simp add: ecxToSats_def parse_float_def parse_sdec_def starts_with_def trim_start_def parse_udec_def
      parse_exp_def split_sign_def ten_pow_def parse_base_def is_space_def is_digit_of_def
      digit_val_def round_simps)

text \<open>
  Paying a withdrawal is contained: whatever Esplora, the key derivation and the transaction
  library answer, the operation returns instead of throwing, and all it ever does to the outside is
  query UTXOs and broadcast.
\<close>

theorem withdrawal_contained:
  "returns (buildSignAndBroadcastWithdrawal out c lib network wd funded url w chg) \<and>
   only withdraw_events (buildSignAndBroadcastWithdrawal out c lib network wd funded url w chg)"
  by (simp add: returns_buildSignAndBroadcast only_buildSignAndBroadcast)

end
