(* ===== verification/Federation.thy ===== *)
theory Federation
  imports Withdraw_Tx
begin

text \<open>
  \<open>packages/federation/src/index.ts\<close>: the service that polls the bridge API, assigns deposit
  addresses, watches Esplora, mints on the Snowside chain and pays withdrawals. The first part
  translates the file; the second shows what every history of the service satisfies.
\<close>

subsection \<open>Configuration\<close>

text \<open>
  \<open>process.env\<close> is a parameter; the module constants are functions of it. A table indexed by
  network name holds exactly the three names the source lists.
\<close>

type_synonym penv = "string \<Rightarrow> string option"

definition env_or :: "penv \<Rightarrow> string \<Rightarrow> string \<Rightarrow> string" where
  "env_or env k d = str_or (env k) d"

definition HD_MNEMONIC :: "penv \<Rightarrow> string" where
  "HD_MNEMONIC env = env_or env ''HD_MNEMONIC'' []"

definition MINTER_PRIVATE_KEY :: "penv \<Rightarrow> string" where
  "MINTER_PRIVATE_KEY env = env_or env ''MINTER_PRIVATE_KEY'' []"

definition RPC_URLS :: "penv \<Rightarrow> string \<Rightarrow> string option" where
  "RPC_URLS env network =
     (if network = ''mainnet'' then Some (env_or env ''MAINNET_RPC'' [])
      else if network = ''testnet'' then Some (env_or env ''TESTNET_RPC'' [])
      else if network = ''signet'' then Some (env_or env ''SIGNET_RPC'' [])
      else None)"

definition ESPLORA_URLS :: "penv \<Rightarrow> string \<Rightarrow> string option" where
  "ESPLORA_URLS env network =
     (if network = ''mainnet''
      then Some (env_or env ''MAINNET_ESPLORA'' ''https://esplora.ecash.ninja'')
      else if network = ''testnet''
      then Some (env_or env ''TESTNET_ESPLORA'' ''https://esplora.beta.ecash.ninja'')
      else if network = ''signet''
      then Some (env_or env ''SIGNET_ESPLORA'' ''https://esplora.signet.drivechain.info'')
      else None)"

definition NATIVE_MINTER :: string where
  "NATIVE_MINTER = ''0x0200000000000000000000000000000000000001''"

definition CHAIN_IDS :: "string \<Rightarrow> int option" where
  "CHAIN_IDS network =
     (if network = ''mainnet'' then Some 32904
      else if network = ''testnet'' then Some 33160
      else if network = ''signet'' then Some 33416
      else None)"

definition SATS_TO_ECX :: int where
  "SATS_TO_ECX = 10 ^ 10"

definition satsToEcxMultiplier :: "string \<Rightarrow> int" where
  "satsToEcxMultiplier network = SATS_TO_ECX"

text \<open>\<open>Number(process.env.X || d)\<close>.\<close>

definition env_num :: "penv \<Rightarrow> string \<Rightarrow> int \<Rightarrow> jnum" where
  "env_num env k d = (if truthy_str (env k) then num_of_string (the (env k)) else JInt d)"

definition MIN_CONFIRMATIONS :: "penv \<Rightarrow> string \<Rightarrow> jnum option" where
  "MIN_CONFIRMATIONS env network =
     (if network = ''mainnet'' then Some (env_num env ''CONFIRMATIONS_MAINNET'' 3)
      else if network = ''testnet'' then Some (env_num env ''CONFIRMATIONS_TESTNET'' 1)
      else if network = ''signet'' then Some (env_num env ''CONFIRMATIONS_SIGNET'' 1)
      else None)"

definition ECASH_MAINNET_FORK_HEIGHT :: "penv \<Rightarrow> jnum" where
  "ECASH_MAINNET_FORK_HEIGHT env = env_num env ''ECASH_MAINNET_FORK_HEIGHT'' 973728"

definition WITHDRAWAL_TIMEOUT_MS :: int where
  "WITHDRAWAL_TIMEOUT_MS = 15 * 60 * 1000"

subsection \<open>Cached clients\<close>

text \<open>
  \<open>privateKeyToAccount\<close> is the library's; it throws on a malformed key. Creating a client has no
  effect and does not throw.
\<close>

definition getAccount :: "(string \<Rightarrow> error + string) \<Rightarrow> penv \<Rightarrow> (fed, string) comp" where
  "getAccount privateKeyToAccount env = bindE getS (\<lambda>s.
     case account s of
       Some a \<Rightarrow> ret a
     | None \<Rightarrow>
         if MINTER_PRIVATE_KEY env = [] then throw ''MINTER_PRIVATE_KEY not set''
         else (let k = MINTER_PRIVATE_KEY env;
                   key = (if starts_with k ''0x'' then k else ''0x'' @ k)
               in bindE (liftE (privateKeyToAccount key)) (\<lambda>a.
                  seqE (modS (\<lambda>t. t\<lparr>account := Some a\<rparr>)) (ret a))))"

definition getWalletClient ::
  "(string \<Rightarrow> error + string) \<Rightarrow> penv \<Rightarrow> string \<Rightarrow> (fed, string) comp" where
  "getWalletClient privateKeyToAccount env network = bindE getS (\<lambda>s.
     if network \<in> set (walletClients s) then ret network
     else if \<not> truthy_str (RPC_URLS env network)
          then throw (''No RPC URL for network: '' @ network)
     else bindE (getAccount privateKeyToAccount env) (\<lambda>_.
          seqE (modS (\<lambda>t. t\<lparr>walletClients := network # walletClients t\<rparr>)) (ret network)))"

definition getPublicClient :: "penv \<Rightarrow> string \<Rightarrow> (fed, string) comp" where
  "getPublicClient env network = bindE getS (\<lambda>s.
     if network \<in> set (publicClients s) then ret network
     else if \<not> truthy_str (RPC_URLS env network)
          then throw (''No RPC URL for network: '' @ network)
     else seqE (modS (\<lambda>t. t\<lparr>publicClients := network # publicClients t\<rparr>)) (ret network))"

definition getWallet :: "crypto \<Rightarrow> penv \<Rightarrow> (fed, HDWallet) comp" where
  "getWallet c env = bindE getS (\<lambda>s.
     case wallet s of
       Some w \<Rightarrow> ret w
     | None \<Rightarrow>
         if HD_MNEMONIC env = [] then throw ''HD_MNEMONIC env var not set''
         else bindE (liftE (newHDWallet c (HD_MNEMONIC env))) (\<lambda>w.
              seqE (modS (\<lambda>t. t\<lparr>wallet := Some w\<rparr>)) (ret w)))"

subsection \<open>HTTP helpers\<close>

text \<open>
  The common ending of \<open>apiGet\<close>, \<open>apiPatch\<close> and \<open>apiPost\<close>: reject, bad status or unreadable body
  throw. Each path of the API has its own event, so the three helpers appear per path.
\<close>

definition api_result :: "string \<Rightarrow> 'b reply \<Rightarrow> (fed, 'b) comp" where
  "api_result what resp =
     (case resp of
        NetError \<Rightarrow> throw ''fetch failed''
      | Response st body \<Rightarrow>
          if \<not> resp_ok resp then throw (what @ '' failed: '' @ show_int (int st))
          else (case body of None \<Rightarrow> throw ''SyntaxError'' | Some b \<Rightarrow> ret b))"

definition apiGet_deposits :: "outside \<Rightarrow> (fed, Deposit list) comp" where
  "apiGet_deposits out =
     bindE (call (o_deposits out) EGetDeposits) (api_result ''API GET /fed/deposits/pending'')"

definition apiGet_withdrawals :: "outside \<Rightarrow> (fed, Withdrawal list) comp" where
  "apiGet_withdrawals out =
     bindE (call (o_withdrawals out) EGetWithdrawals)
       (api_result ''API GET /fed/withdrawals/pending'')"

definition apiPatch_deposit :: "outside \<Rightarrow> string \<Rightarrow> deposit_patch \<Rightarrow> (fed, unit) comp" where
  "apiPatch_deposit out i p =
     bindE (call (\<lambda>h. o_patch_deposit out h i p) (EPatchDeposit i p))
       (api_result (''API PATCH /fed/deposit/'' @ i))"

definition apiPatch_withdraw :: "outside \<Rightarrow> string \<Rightarrow> withdraw_patch \<Rightarrow> (fed, unit) comp" where
  "apiPatch_withdraw out i p =
     bindE (call (\<lambda>h. o_patch_withdraw out h i p) (EPatchWithdraw i p))
       (api_result (''API PATCH /fed/withdraw/'' @ i))"

definition apiPost_checkin :: "outside \<Rightarrow> (fed, unit) comp" where
  "apiPost_checkin out =
     bindE (call (o_checkin out) ECheckin) (api_result ''API POST /fed/checkin'')"

subsection \<open>Esplora\<close>

text \<open>\<open>Number(await resp.text()) || 0\<close>; 0 stands for any failure.\<close>

definition getTipHeight :: "outside \<Rightarrow> string \<Rightarrow> (fed, jnum) comp" where
  "getTipHeight out esploraUrl =
     (let url = esploraUrl @ ''/blocks/tip/height''
      in bindE (call (\<lambda>h. o_tip out h url) (ETip url)) (\<lambda>resp.
           case resp of
             NetError \<Rightarrow> ret (JInt 0)
           | Response st body \<Rightarrow>
               if \<not> resp_ok resp then ret (JInt 0)
               else (case body of
                       None \<Rightarrow> ret (JInt 0)
                     | Some text \<Rightarrow> ret (num_or (Some (num_of_string text)) (JInt 0)))))"

text \<open>The filter of \<open>checkAddressForDeposits\<close>: confirmed, in a block, and deep enough.\<close>

definition enough_confs :: "jnum \<Rightarrow> jnum \<Rightarrow> raw_utxo \<Rightarrow> bool" where
  "enough_confs tip minConfs u =
     (case ru_status u of
        None \<Rightarrow> False
      | Some st \<Rightarrow>
          us_confirmed st = Some True \<and>
          (case us_block_height st of
             None \<Rightarrow> False
           | Some h \<Rightarrow> js_le minConfs (js_add (js_sub tip h) (JInt 1))))"

definition sum_values :: "raw_utxo list \<Rightarrow> jnum" where
  "sum_values us = foldl (\<lambda>s u. js_add s (num_or (ru_value u) (JInt 0))) (JInt 0) us"

definition checkAddressForDeposits ::
  "outside \<Rightarrow> penv \<Rightarrow> string \<Rightarrow> string \<Rightarrow> (fed, (jnum \<times> string) option) comp" where
  "checkAddressForDeposits out env network address =
     (if \<not> truthy_str (ESPLORA_URLS env network) then ret None
      else (let esploraUrl = the (ESPLORA_URLS env network);
                url = esploraUrl @ ''/address/'' @ cleanAddress address @ ''/utxo''
            in bindE (getTipHeight out esploraUrl) (\<lambda>tip.
               if js_eq tip (JInt 0) then ret None
               else if network = ''mainnet'' \<and> js_less tip (ECASH_MAINNET_FORK_HEIGHT env)
               then ret None
               else bindE (call (\<lambda>h. o_utxos out h url) (EUtxos url)) (\<lambda>resp.
                 case resp of
                   NetError \<Rightarrow> ret None
                 | Response st body \<Rightarrow>
                     if \<not> resp_ok resp then ret None
                     else (case body of
                             Some (UtxoArray utxos) \<Rightarrow>
                               (let minConfs = (case MIN_CONFIRMATIONS env network of
                                                  None \<Rightarrow> JInt 1 | Some m \<Rightarrow> m);
                                    confirmed = filter (enough_confs tip minConfs) utxos
                                in if confirmed = [] then ret None
                                   else ret (Some (sum_values confirmed,
                                                   str_or (ru_txid (hd confirmed)) [])))
                           | _ \<Rightarrow> ret None)))))"

subsection \<open>Minting\<close>

definition MINT_SELECTOR :: string where
  "MINT_SELECTOR = ''0x4f5aaaba''"

definition encodeMintCall :: "string \<Rightarrow> int \<Rightarrow> string" where
  "encodeMintCall toAddress amount =
     (let a = to_lower toAddress;
          addressPadded = pad_start 64 (CHR ''0'') (if starts_with a ''0x'' then drop 2 a else a);
          amountHex = pad_start 64 (CHR ''0'') (show_bigint 16 amount)
      in MINT_SELECTOR @ addressPadded @ amountHex)"

definition mintEcx ::
  "outside \<Rightarrow> (string \<Rightarrow> error + string) \<Rightarrow> penv \<Rightarrow> string \<Rightarrow> string \<Rightarrow> jnum
     \<Rightarrow> (fed, string option) comp" where
  "mintEcx out acc env network toAddress satAmount =
     (if \<not> truthy_str (RPC_URLS env network) \<or> MINTER_PRIVATE_KEY env = [] then ret None
      else catchE
        (bindE (getWalletClient acc env network) (\<lambda>client.
         bindE (liftE (bigint_of_num satAmount)) (\<lambda>sats.
         let amount = sats * satsToEcxMultiplier network;
             data = encodeMintCall toAddress amount
         in bindE (getAccount acc env) (\<lambda>_.
            bindE (call (\<lambda>h. o_send_tx out h client NATIVE_MINTER data)
                     (ESendTx client NATIVE_MINTER data)) (\<lambda>sent.
            bindE (liftE sent) (\<lambda>txHash.
            bindE (getPublicClient env network) (\<lambda>publicClient.
            bindE (call (\<lambda>h. o_receipt out h publicClient txHash) (EReceipt publicClient txHash))
              (\<lambda>got.
            bindE (liftE got) (\<lambda>status.
              if status = ''success'' then ret (Some txHash) else ret None)))))))))
        (\<lambda>err. ret None))"

subsection \<open>Deposits\<close>

text \<open>\<open>Math.floor(Date.now() / 1000) % 1000000\<close>; exact for every date JavaScript can represent.\<close>

definition time_index :: "int \<Rightarrow> int" where
  "time_index t = js_rem (t div 1000) 1000000"

definition assignDepositAddress ::
  "outside \<Rightarrow> crypto \<Rightarrow> penv \<Rightarrow> Deposit \<Rightarrow> (fed, unit) comp" where
  "assignDepositAddress out c env deposit =
     (if truthy_str (d_ecash_address deposit) then ret ()
      else bindE (now out) (\<lambda>t.
           let index = time_index t
           in bindE (getWallet c env) (\<lambda>w.
              bindE (liftE (deriveDepositAddress c w (d_network deposit) index)) (\<lambda>addr.
              apiPatch_deposit out (d_id deposit)
                (no_deposit_patch\<lparr>dp_ecash_address := Some addr,
                                  dp_derivation_index := Some index\<rparr>)))))"

definition processDeposit ::
  "outside \<Rightarrow> (string \<Rightarrow> error + string) \<Rightarrow> penv \<Rightarrow> Deposit \<Rightarrow> (fed, unit) comp" where
  "processDeposit out acc env deposit =
     (if \<not> truthy_str (d_ecash_address deposit) \<or> d_status deposit = ''minted'' then ret ()
      else bindE (checkAddressForDeposits out env (d_network deposit)
                    (the (d_ecash_address deposit))) (\<lambda>result.
        case result of
          None \<Rightarrow> ret ()
        | Some (amount, txHash) \<Rightarrow>
            seqE (if d_status deposit = ''pending''
                  then apiPatch_deposit out (d_id deposit)
                         (no_deposit_patch\<lparr>dp_status := Some ''confirmed'',
                                           dp_amount_sats := Some amount,
                                           dp_ecash_tx_hash := Some txHash\<rparr>)
                  else ret ())
              (bindE (mintEcx out acc env (d_network deposit) (d_snowside_address deposit) amount)
                (\<lambda>mintTxHash.
                   if truthy_str mintTxHash
                   then bindE (liftE (bigint_of_num amount)) (\<lambda>sats.
                        let ecxAmount =
                              num_of_bigint (sats * satsToEcxMultiplier (d_network deposit))
                        in apiPatch_deposit out (d_id deposit)
                             (no_deposit_patch\<lparr>dp_status := Some ''minted'',
                                               dp_amount_ecx := Some ecxAmount,
                                               dp_mint_tx_hash := mintTxHash\<rparr>))
                   else ret ()))))"

subsection \<open>Withdrawals\<close>

definition verifyBurnTx :: "outside \<Rightarrow> penv \<Rightarrow> string \<Rightarrow> string \<Rightarrow> (fed, bool) comp" where
  "verifyBurnTx out env network burnTxHash =
     (if burnTxHash = [] then ret False
      else catchE
        (bindE (getPublicClient env network) (\<lambda>client.
         bindE (call (\<lambda>h. o_get_tx out h client burnTxHash) (EGetTx client burnTxHash)) (\<lambda>got.
         bindE (liftE got) (\<lambda>tx. if \<not> tx then ret False else ret True))))
        (\<lambda>err. ret False))"

definition fetchFundedDeposits :: "outside \<Rightarrow> (fed, FundedDeposit list) comp" where
  "fetchFundedDeposits out =
     bindE (call (o_funded out) EGetFunded) (\<lambda>resp.
       case resp of
         NetError \<Rightarrow> ret []
       | Response st body \<Rightarrow>
           if \<not> resp_ok resp then ret []
           else (case body of None \<Rightarrow> ret [] | Some ds \<Rightarrow> ret ds))"

definition processWithdrawal ::
  "outside \<Rightarrow> crypto \<Rightarrow> btc_lib \<Rightarrow> penv \<Rightarrow> Withdrawal \<Rightarrow> (fed, unit) comp" where
  "processWithdrawal out c lib env withdrawal =
     (if w_status withdrawal \<noteq> ''pending'' then ret ()
      else if \<not> truthy_str (w_burn_tx_hash withdrawal) then ret ()
      else if MINTER_PRIVATE_KEY env = [] then ret ()
      else bindE (verifyBurnTx out env (w_network withdrawal) (the (w_burn_tx_hash withdrawal)))
        (\<lambda>verified.
         if \<not> verified then ret ()
         else bindE (fetchFundedDeposits out) (\<lambda>fundedDeposits.
           if fundedDeposits = [] then ret ()
           else bindE (now out) (\<lambda>t.
             bindE (getWallet c env) (\<lambda>w.
             bindE (liftE (deriveDepositAddress c w (w_network withdrawal) (time_index t)))
               (\<lambda>changeAddress.
             if \<not> truthy_str (ESPLORA_URLS env (w_network withdrawal)) then ret ()
             else bindE (buildSignAndBroadcastWithdrawal out c lib (w_network withdrawal) withdrawal
                           fundedDeposits (the (ESPLORA_URLS env (w_network withdrawal))) w
                           changeAddress) (\<lambda>l1TxHash.
               if \<not> truthy_str l1TxHash then ret ()
               else (let amountSats = withdrawal_sats withdrawal
                     in bindE (now out) (\<lambda>done_at.
                        apiPatch_withdraw out (w_id withdrawal)
                          (no_withdraw_patch\<lparr>wp_status := Some ''completed'',
                                             wp_ecash_tx_hash := l1TxHash,
                                             wp_amount_sats := Some amountSats,
                                             wp_completed_at := Some done_at\<rparr>))))))))))"

subsection \<open>The main loop\<close>

definition checkIn :: "outside \<Rightarrow> (fed, unit) comp" where
  "checkIn out = catchE (apiPost_checkin out) (\<lambda>err. ret ())"

definition handle_deposit ::
  "outside \<Rightarrow> (string \<Rightarrow> error + string) \<Rightarrow> crypto \<Rightarrow> penv \<Rightarrow> Deposit \<Rightarrow> (fed, unit) comp" where
  "handle_deposit out acc c env deposit =
     catchE (if \<not> truthy_str (d_ecash_address deposit)
             then assignDepositAddress out c env deposit
             else processDeposit out acc env deposit)
       (\<lambda>err. ret ())"

definition processPendingDeposits ::
  "outside \<Rightarrow> (string \<Rightarrow> error + string) \<Rightarrow> crypto \<Rightarrow> penv \<Rightarrow> (fed, unit) comp" where
  "processPendingDeposits out acc c env =
     catchE (bindE (apiGet_deposits out) (\<lambda>deposits.
               forE deposits (handle_deposit out acc c env)))
       (\<lambda>err. ret ())"

definition handle_withdrawal ::
  "outside \<Rightarrow> crypto \<Rightarrow> btc_lib \<Rightarrow> penv \<Rightarrow> int \<Rightarrow> Withdrawal \<Rightarrow> (fed, unit) comp" where
  "handle_withdrawal out c lib env t withdrawal =
     catchE (let createdAt = w_created_at withdrawal
             in if 0 < createdAt \<and> WITHDRAWAL_TIMEOUT_MS < t - createdAt
                then apiPatch_withdraw out (w_id withdrawal)
                       (no_withdraw_patch\<lparr>wp_status := Some ''failed'', wp_completed_at := Some t\<rparr>)
                else processWithdrawal out c lib env withdrawal)
       (\<lambda>err. ret ())"

definition processPendingWithdrawals ::
  "outside \<Rightarrow> crypto \<Rightarrow> btc_lib \<Rightarrow> penv \<Rightarrow> (fed, unit) comp" where
  "processPendingWithdrawals out c lib env =
     catchE (bindE (apiGet_withdrawals out) (\<lambda>withdrawals.
             bindE (now out) (\<lambda>t.
               forE withdrawals (handle_withdrawal out c lib env t))))
       (\<lambda>err. ret ())"

definition poll_cycle ::
  "outside \<Rightarrow> (string \<Rightarrow> error + string) \<Rightarrow> crypto \<Rightarrow> btc_lib \<Rightarrow> penv \<Rightarrow> (fed, unit) comp" where
  "poll_cycle out acc c lib env =
     catchE (seqE (checkIn out)
            (seqE (processPendingDeposits out acc c env)
                  (processPendingWithdrawals out c lib env)))
       (\<lambda>err. ret ())"

text \<open>\<open>while (true)\<close>: the state after the first \<open>n\<close> polls, for every \<open>n\<close>.\<close>

fun main_loop ::
  "outside \<Rightarrow> (string \<Rightarrow> error + string) \<Rightarrow> crypto \<Rightarrow> btc_lib \<Rightarrow> penv \<Rightarrow> nat \<Rightarrow> (fed, unit) comp" where
  "main_loop out acc c lib env 0 = ret ()"
| "main_loop out acc c lib env (Suc n) =
     seqE (poll_cycle out acc c lib env) (main_loop out acc c lib env n)"

subsection \<open>What a history must justify\<close>

text \<open>
  \<open>justified env A e\<close>: event \<open>e\<close> is one the service may cause once the events \<open>A\<close> have happened.
  A transaction may be sent only to the minter contract, only with the call that mints
  \<open>10 ^ 10\<close> wei per satoshi to the Snowside address of a deposit the API listed, for the amount that
  confirmed UTXOs of that deposit's address add up to in an Esplora reply. A deposit may be
  marked minted only with the hash of a sent transaction whose receipt is \<open>success\<close>. A mainchain
  transaction may be broadcast only when the API listed a pending withdrawal whose burn
  transaction exists on its network. A withdrawal may be marked completed only with the hash that
  an accepted broadcast returned.
\<close>

definition answered :: "'b reply \<Rightarrow> 'b \<Rightarrow> bool" where
  "answered r b \<longleftrightarrow> (\<exists>st. r = Response st (Some b) \<and> 200 \<le> st \<and> st \<le> 299)"

definition utxo_evidence :: "penv \<Rightarrow> event set \<Rightarrow> string \<Rightarrow> string \<Rightarrow> jnum \<Rightarrow> bool" where
  "utxo_evidence env A network address amount \<longleftrightarrow>
     (\<exists>base text us r1 r2.
        ESPLORA_URLS env network = Some base \<and>
        ETip (base @ ''/blocks/tip/height'') r1 \<in> A \<and> answered r1 text \<and>
        EUtxos (base @ ''/address/'' @ cleanAddress address @ ''/utxo'') r2 \<in> A \<and>
        answered r2 (UtxoArray us) \<and>
        truthy_num (num_of_string text) \<and>
        (network = ''mainnet'' \<longrightarrow>
           \<not> js_less (num_of_string text) (ECASH_MAINNET_FORK_HEIGHT env)) \<and>
        (let confirmed = filter (enough_confs (num_of_string text)
                            (case MIN_CONFIRMATIONS env network of
                               None \<Rightarrow> JInt 1 | Some m \<Rightarrow> m)) us
         in confirmed \<noteq> [] \<and> amount = sum_values confirmed))"

definition deposit_evidence :: "penv \<Rightarrow> event set \<Rightarrow> Deposit \<Rightarrow> jnum \<Rightarrow> bool" where
  "deposit_evidence env A d amount \<longleftrightarrow>
     (\<exists>r ds. EGetDeposits r \<in> A \<and> answered r ds \<and> d \<in> set ds) \<and>
     d_status d \<noteq> ''minted'' \<and> d_ecash_address d \<noteq> None \<and>
     utxo_evidence env A (d_network d) (the (d_ecash_address d)) amount"

definition burn_evidence :: "event set \<Rightarrow> bool" where
  "burn_evidence A \<longleftrightarrow>
     (\<exists>r ws w burn. EGetWithdrawals r \<in> A \<and> answered r ws \<and> w \<in> set ws \<and>
        w_status w = ''pending'' \<and> w_burn_tx_hash w = Some burn \<and> burn \<noteq> [] \<and>
        EGetTx (w_network w) burn (Inr True) \<in> A)"

fun justified :: "penv \<Rightarrow> event set \<Rightarrow> event \<Rightarrow> bool" where
  "justified env A (ESendTx network to_addr data r) =
     (to_addr = NATIVE_MINTER \<and>
      (\<exists>d amount sats. deposit_evidence env A d amount \<and> d_network d = network \<and>
         bigint_of_num amount = Inr sats \<and>
         data = encodeMintCall (d_snowside_address d) (sats * SATS_TO_ECX)))"
| "justified env A (EPatchDeposit i p r) =
     (if dp_status p = Some ''minted''
      then (\<exists>network data h. dp_mint_tx_hash p = Some h \<and>
              ESendTx network NATIVE_MINTER data (Inr h) \<in> A \<and>
              EReceipt network h (Inr ''success'') \<in> A)
      else if dp_status p = Some ''confirmed''
      then (\<exists>d amount. deposit_evidence env A d amount \<and> d_id d = i \<and>
              d_status d = ''pending'' \<and> dp_amount_sats p = Some amount)
      else dp_status p = None)"
| "justified env A (EBroadcast url raw r) = burn_evidence A"
| "justified env A (EPatchWithdraw i p r) =
     (if wp_status p = Some ''completed''
      then (\<exists>url raw r text. EBroadcast url raw r \<in> A \<and> answered r text \<and>
              wp_ecash_tx_hash p = Some (trim text))
      else wp_status p = Some ''failed'')"
| "justified env A e = True"

definition lawful :: "penv \<Rightarrow> event list \<Rightarrow> bool" where
  "lawful env h \<longleftrightarrow> (\<forall>i < length h. justified env (set (take i h)) (h ! i))"

lemma utxo_evidence_mono: "utxo_evidence env A n a x \<Longrightarrow> A \<subseteq> B \<Longrightarrow> utxo_evidence env B n a x"
  unfolding utxo_evidence_def by (meson subsetD)

lemma deposit_evidence_mono: "deposit_evidence env A d a \<Longrightarrow> A \<subseteq> B \<Longrightarrow> deposit_evidence env B d a"
  unfolding deposit_evidence_def by (meson subsetD utxo_evidence_mono)

lemma burn_evidence_mono: "burn_evidence A \<Longrightarrow> A \<subseteq> B \<Longrightarrow> burn_evidence B"
  unfolding burn_evidence_def by (meson subsetD)

lemma justified_mono: "justified env A e \<Longrightarrow> A \<subseteq> B \<Longrightarrow> justified env B e"
proof (cases e)
  case (ESendTx network to_addr data r)
  assume "justified env A e" "A \<subseteq> B"
  with ESendTx show ?thesis by (auto; metis deposit_evidence_mono)
next
  case (EPatchDeposit i p r)
  assume "justified env A e" "A \<subseteq> B"
  with EPatchDeposit show ?thesis
    by (auto split: if_splits; metis deposit_evidence_mono subsetD)
next
  case (EPatchWithdraw i p r)
  assume "justified env A e" "A \<subseteq> B"
  with EPatchWithdraw show ?thesis by (auto split: if_splits; metis subsetD)
qed (simp_all add: burn_evidence_mono)

lemma lawful_Nil [simp]: "lawful env []"
  by (simp add: lawful_def)

lemma lawful_snoc: "lawful env (h @ [e]) \<longleftrightarrow> lawful env h \<and> justified env (set h) e"
  by (auto simp: lawful_def nth_append less_Suc_eq)

subsection \<open>A logic of what is known\<close>

text \<open>
  \<open>known env F s\<close>: the history of \<open>s\<close> is lawful and its events satisfy \<open>F\<close>. Facts are monotone:
  what has happened stays so. An operation whose every possible event is justified by \<open>F\<close> keeps it.
\<close>

definition known :: "penv \<Rightarrow> (event set \<Rightarrow> bool) \<Rightarrow> fed \<Rightarrow> bool" where
  "known env F s \<longleftrightarrow> lawful env (trace s) \<and> F (set (trace s))"

definition mono_fact :: "(event set \<Rightarrow> bool) \<Rightarrow> bool" where
  "mono_fact F \<longleftrightarrow> (\<forall>A B. A \<subseteq> B \<longrightarrow> F A \<longrightarrow> F B)"

lemma lawful_append:
  assumes "lawful env h" "F (set h)" "mono_fact F"
    and "\<And>A e. F A \<Longrightarrow> e \<in> set es \<Longrightarrow> justified env A e"
  shows "lawful env (h @ es) \<and> F (set (h @ es))"
  using assms(4)
proof (induction es rule: rev_induct)
  case (snoc e es)
  then have "lawful env (h @ es) \<and> F (set (h @ es))" by simp
  moreover from this snoc.prems have "justified env (set (h @ es)) e" by simp
  ultimately show ?case
    using assms(3) by (auto simp: lawful_snoc mono_fact_def simp flip: append_assoc
        intro: subset_insertI)
qed (use assms in simp)

lemma only_known:
  assumes "only L m" "mono_fact F" "\<And>A e. F A \<Longrightarrow> e \<in> L \<Longrightarrow> justified env A e"
  shows "keeps (known env F) m"
proof (rule keepsI)
  fix s assume k: "known env F s"
  obtain es where es: "trace (snd (m s)) = trace s @ es" "set es \<subseteq> L"
    using assms(1) unfolding only_def by blast
  have "lawful env (trace s @ es) \<and> F (set (trace s @ es))"
    using k assms es(2) by (intro lawful_append) (auto simp: known_def)
  with es(1) show "known env F (snd (m s))" by (simp add: known_def)
qed

lemma only_extends: "only L m \<Longrightarrow> set (trace s) \<subseteq> set (trace (snd (m s)))"
  unfolding only_def by (metis Un_upper1 set_append)

text \<open>\<open>yields R m\<close>: whenever \<open>m\<close> returns \<open>a\<close> in state \<open>t\<close>, \<open>R a t\<close>.\<close>

definition yields :: "('a \<Rightarrow> 's \<Rightarrow> bool) \<Rightarrow> ('s, 'a) comp \<Rightarrow> bool" where
  "yields R m \<longleftrightarrow> (\<forall>s a t. m s = (Inr a, t) \<longrightarrow> R a t)"

lemma yieldsD: "yields R m \<Longrightarrow> m s = (Inr a, t) \<Longrightarrow> R a t"
  by (simp add: yields_def)

lemma keeps_bind_yields:
  assumes "keeps (known env F) m" "yields (\<lambda>a t. G a (set (trace t))) m"
    and "\<And>a. keeps (known env (\<lambda>A. F A \<and> G a A)) (f a)"
  shows "keeps (known env F) (bindE m f)"
proof (rule keepsI)
  fix s assume k: "known env F s"
  show "known env F (snd (bindE m f s))"
  proof (cases "fst (m s)")
    case (Inl e)
    then obtain t where m: "m s = (Inl e, t)" by (metis prod.collapse)
    from keepsD [OF assms(1) k] show ?thesis by (simp add: bindE_def m)
  next
    case (Inr a)
    then obtain t where m: "m s = (Inr a, t)" by (metis prod.collapse)
    have "known env (\<lambda>A. F A \<and> G a A) t"
      using keepsD [OF assms(1) k] yieldsD [OF assms(2) m] unfolding m known_def by simp
    from keepsD [OF assms(3) this] have "known env F (snd (f a t))" by (simp add: known_def)
    then show ?thesis by (simp add: bindE_def m)
  qed
qed

subsection \<open>What each operation may cause and what its result tells\<close>

text \<open>Configuration lookups and caches cause no event.\<close>

lemma only_getAccount: "only L (getAccount acc env)"
  unfolding getAccount_def Let_def by (intro comp_rules only_modS) simp_all

lemma only_getWalletClient: "only L (getWalletClient acc env network)"
  unfolding getWalletClient_def by (intro comp_rules only_modS only_getAccount) simp_all

lemma only_getPublicClient: "only L (getPublicClient env network)"
  unfolding getPublicClient_def by (intro comp_rules only_modS) simp_all

lemma only_getWallet: "only L (getWallet c env)"
  unfolding getWallet_def by (intro comp_rules only_modS) simp_all

lemma getWalletClient_value:
  "getWalletClient acc env network s = (Inr cl, t) \<Longrightarrow> cl = network"
  by (auto simp: getWalletClient_def bindE_def seqE_def getS_def ret_def throw_def
      split: if_splits sum.splits prod.splits)

lemma getPublicClient_value:
  "getPublicClient env network s = (Inr cl, t) \<Longrightarrow> cl = network"
  by (auto simp: getPublicClient_def bindE_def seqE_def getS_def ret_def throw_def
      split: if_splits sum.splits prod.splits)

lemma only_bind_value:
  assumes "only L m" "\<And>s a t. m s = (Inr a, t) \<Longrightarrow> R a" "\<And>a. R a \<Longrightarrow> only L (f a)"
  shows "only L (bindE m f)"
  unfolding only_def
proof
  fix s
  obtain r t where m: "m s = (r, t)" by (cases "m s")
  from assms(1) m obtain es where es: "trace t = trace s @ es" "set es \<subseteq> L"
    unfolding only_def by (metis snd_conv)
  show "\<exists>es. trace (snd (bindE m f s)) = trace s @ es \<and> set es \<subseteq> L"
  proof (cases r)
    case (Inl e)
    with m es show ?thesis by (simp add: bindE_def)
  next
    case (Inr a)
    with assms(2,3) m obtain es2 where
      "trace (snd (f a t)) = trace t @ es2" "set es2 \<subseteq> L"
      unfolding only_def by blast
    with m es Inr show ?thesis by (intro exI [of _ "es @ es2"]) (simp add: bindE_def)
  qed
qed

lemma only_api_result: "only L (api_result what r)"
  unfolding api_result_def by (intro comp_rules)

lemma api_result_Inr: "api_result what r s = (Inr b, t) \<Longrightarrow> answered r b \<and> t = s"
  by (auto simp: api_result_def answered_def ret_def throw_def
      split: reply.splits if_splits option.splits)

lemma only_apiPatch_deposit: "only {EPatchDeposit i p r | r. True} (apiPatch_deposit out i p)"
  unfolding apiPatch_deposit_def by (intro comp_rules only_call only_api_result) auto

lemma only_apiPatch_withdraw: "only {EPatchWithdraw i p r | r. True} (apiPatch_withdraw out i p)"
  unfolding apiPatch_withdraw_def by (intro comp_rules only_call only_api_result) auto

lemma only_getTipHeight: "only {e. \<exists>u r. e = ETip u r} (getTipHeight out base)"
  unfolding getTipHeight_def Let_def by (intro comp_rules only_call) auto

lemma only_checkAddress:
  "only {e. (\<exists>u r. e = ETip u r) \<or> (\<exists>u r. e = EUtxos u r)}
     (checkAddressForDeposits out env network address)"
  unfolding checkAddressForDeposits_def Let_def
  by (intro comp_rules only_call only_mono [OF only_getTipHeight])
    (auto split: option.split utxo_body.split intro: comp_rules)

lemma getTipHeight_evidence:
  assumes "getTipHeight out base s = (Inr tip, t)" "\<not> js_eq tip (JInt 0)"
  shows "truthy_num tip \<and> (\<exists>r text. ETip (base @ ''/blocks/tip/height'') r \<in> set (trace t) \<and>
           answered r text \<and> tip = num_of_string text)"
  using assms
  by (auto simp: getTipHeight_def Let_def bindE_def call_apply ret_def answered_def num_or_def
      truthy_num_def js_eq_def split: reply.splits if_splits option.splits)

lemma bindE_InrE:
  assumes "bindE m f s = (Inr b, t)"
  obtains a u where "m s = (Inr a, u)" "f a u = (Inr b, t)"
  using assms by (auto simp: bindE_def split: prod.splits sum.splits)

lemma checkAddress_evidence:
  assumes "checkAddressForDeposits out env network address s = (Inr (Some (amount, tx)), t)"
  shows "utxo_evidence env (set (trace t)) network address amount"
proof -
  obtain base where base: "ESPLORA_URLS env network = Some base"
    using assms by (auto simp: checkAddressForDeposits_def Let_def ret_def split: if_splits)
      (metis option.exhaust_sel truthy_str_simps(1))
  from assms obtain tip u where tip: "getTipHeight out base s = (Inr tip, u)"
    by (auto simp: checkAddressForDeposits_def Let_def ret_def base split: if_splits
        elim!: bindE_InrE)
  have z: "\<not> js_eq tip (JInt 0)" and
    gate: "network = ''mainnet'' \<longrightarrow> \<not> js_less tip (ECASH_MAINNET_FORK_HEIGHT env)"
    using assms tip by (auto simp: checkAddressForDeposits_def Let_def ret_def base bindE_def
        split: if_splits)
  obtain r reply_text where ev: "truthy_num tip" "ETip (base @ ''/blocks/tip/height'') r \<in> set (trace u)"
    "answered r reply_text" "tip = num_of_string reply_text"
    using getTipHeight_evidence [OF tip z] by blast
  let ?url = "base @ ''/address/'' @ cleanAddress address @ ''/utxo''"
  define confs where "confs = (case MIN_CONFIRMATIONS env network of None \<Rightarrow> JInt 1 | Some m \<Rightarrow> m)"
  obtain r2 us where u2: "trace t = trace u @ [EUtxos ?url r2]" "answered r2 (UtxoArray us)"
    "filter (enough_confs tip confs) us \<noteq> []"
    "amount = sum_values (filter (enough_confs tip confs) us)"
    using assms tip z gate
    by (auto simp: checkAddressForDeposits_def Let_def ret_def base bindE_def call_apply
        answered_def confs_def split: if_splits reply.splits option.splits utxo_body.splits)
  show ?thesis
    unfolding utxo_evidence_def
    using base ev gate u2
    by (intro exI [of _ base] exI [of _ reply_text] exI [of _ us] exI [of _ r] exI [of _ r2])
      (simp add: Let_def confs_def)
qed

definition mint_events :: "string \<Rightarrow> string \<Rightarrow> jnum \<Rightarrow> event set" where
  "mint_events network to_addr satAmount =
     {e. \<exists>sats r. bigint_of_num satAmount = Inr sats \<and>
           e = ESendTx network NATIVE_MINTER (encodeMintCall to_addr (sats * SATS_TO_ECX)) r} \<union>
     {e. \<exists>n h r. e = EReceipt n h r}"

lemma only_mintEcx: "only (mint_events network to_addr sat) (mintEcx out acc env network to_addr sat)"
proof -
  show ?thesis
    unfolding mintEcx_def Let_def satsToEcxMultiplier_def
    apply (intro only_if only_catchE only_ret)
    apply (rule only_bind_value [where R = "\<lambda>cl. cl = network"])
      apply (rule only_getWalletClient)
     apply (erule getWalletClient_value)
    apply (rule only_bind_value [where R = "\<lambda>n. bigint_of_num sat = Inr n"])
      apply (rule only_liftE)
     apply (simp add: liftE_def)
    apply (intro only_bindE only_getAccount only_call only_liftE)
      apply (auto simp: mint_events_def intro!: comp_rules only_getPublicClient)
    done
qed

lemma only_none: "only {} m \<Longrightarrow> m s = (r, t) \<Longrightarrow> trace t = trace s"
  unfolding only_def by (metis append.right_neutral snd_conv set_empty subset_empty)

lemma catchE_InrE:
  assumes "catchE m h s = (Inr a, t)"
  obtains "m s = (Inr a, t)" | e u where "m s = (Inl e, u)" "h e u = (Inr a, t)"
  using assms by (auto simp: catchE_def split: prod.splits sum.splits)

lemma mintEcx_evidence:
  assumes "mintEcx out acc env network to_addr sat s = (Inr (Some h), t)"
  shows "\<exists>data. ESendTx network NATIVE_MINTER data (Inr h) \<in> set (trace t) \<and>
           EReceipt network h (Inr ''success'') \<in> set (trace t)"
proof -
  obtain u v w data cl where cl: "getWalletClient acc env network s = (Inr cl, u)" and
    sent: "call (\<lambda>h. o_send_tx out h cl NATIVE_MINTER data) (ESendTx cl NATIVE_MINTER data) v
             = (Inr (Inr h), w)"
    and got: "bindE (getPublicClient env network) (\<lambda>publicClient.
        bindE (call (\<lambda>hs. o_receipt out hs publicClient h) (EReceipt publicClient h)) (\<lambda>got.
        bindE (liftE got) (\<lambda>status. if status = ''success'' then ret (Some h) else ret None))) w
        = (Inr (Some h), t)"
  proof -
    from assms show ?thesis
      using that
      by (auto simp: mintEcx_def Let_def ret_def liftE_def bindE_def split: if_splits
        sum.splits prod.splits elim!: catchE_InrE)
  qed
  obtain cl2 x where pc: "getPublicClient env network w = (Inr cl2, x)" and
    rc: "call (\<lambda>hs. o_receipt out hs cl2 h) (EReceipt cl2 h) x = (Inr (Inr ''success''), t)"
    using got by (auto simp: ret_def liftE_def bindE_def split: if_splits sum.splits prod.splits)
  show ?thesis
    using getWalletClient_value [OF cl] getPublicClient_value [OF pc] sent rc
      only_none [OF only_getPublicClient pc]
    by (auto simp: call_apply)
qed

subsection \<open>Every handler keeps the history lawful\<close>

named_theorems mono_facts \<open>monotone facts about a history\<close>

lemma mono_fact_conj [mono_facts]: "mono_fact F \<Longrightarrow> mono_fact G \<Longrightarrow> mono_fact (\<lambda>A. F A \<and> G A)"
  unfolding mono_fact_def by blast

lemma mono_fact_const [mono_facts]: "mono_fact (\<lambda>A. P)"
  by (simp add: mono_fact_def)

lemma mono_fact_deposit [mono_facts]: "mono_fact (\<lambda>A. deposit_evidence env A d a)"
  unfolding mono_fact_def by (meson deposit_evidence_mono)

lemma mono_fact_burn [mono_facts]: "mono_fact burn_evidence"
  unfolding mono_fact_def by (meson burn_evidence_mono)

lemma mono_fact_mem [mono_facts]: "mono_fact (\<lambda>A. e \<in> A)"
  unfolding mono_fact_def by blast

definition listed_deposit :: "event set \<Rightarrow> Deposit \<Rightarrow> bool" where
  "listed_deposit A d \<longleftrightarrow> (\<exists>r ds. EGetDeposits r \<in> A \<and> answered r ds \<and> d \<in> set ds)"

definition listed_withdrawal :: "event set \<Rightarrow> Withdrawal \<Rightarrow> bool" where
  "listed_withdrawal A w \<longleftrightarrow> (\<exists>r ws. EGetWithdrawals r \<in> A \<and> answered r ws \<and> w \<in> set ws)"

lemma mono_fact_listed [mono_facts]:
  "mono_fact (\<lambda>A. listed_deposit A d)" "mono_fact (\<lambda>A. listed_withdrawal A w)"
  unfolding mono_fact_def listed_deposit_def listed_withdrawal_def by (meson subsetD)+

definition mint_succeeded :: "event set \<Rightarrow> string \<Rightarrow> string \<Rightarrow> bool" where
  "mint_succeeded A n h \<longleftrightarrow>
     (\<exists>data. ESendTx n NATIVE_MINTER data (Inr h) \<in> A) \<and> EReceipt n h (Inr ''success'') \<in> A"

definition payout_accepted :: "event set \<Rightarrow> string \<Rightarrow> bool" where
  "payout_accepted A h \<longleftrightarrow>
     (\<exists>url raw r reply. EBroadcast url raw r \<in> A \<and> answered r reply \<and> h = trim reply)"

lemma mono_fact_minted [mono_facts]: "mono_fact (\<lambda>A. mint_succeeded A n h)"
  unfolding mono_fact_def mint_succeeded_def by (meson subsetD)

lemma mono_fact_payout [mono_facts]: "mono_fact (\<lambda>A. payout_accepted A h)"
  unfolding mono_fact_def payout_accepted_def by (metis subsetD)

lemma only_assign:
  "only {e. (\<exists>t. e = ENow t) \<or> (\<exists>i p r. e = EPatchDeposit i p r \<and> dp_status p = None)}
     (assignDepositAddress out c env d)"
  unfolding assignDepositAddress_def Let_def now_def
  by (intro comp_rules only_call only_getWallet only_mono [OF only_apiPatch_deposit])
    (auto simp: no_deposit_patch_def)

lemma keeps_assign: "mono_fact F \<Longrightarrow> keeps (known env F) (assignDepositAddress out c env d)"
  by (rule only_known [OF only_assign]) auto

lemma keeps_check:
  "mono_fact F \<Longrightarrow> keeps (known env F) (checkAddressForDeposits out env network address)"
  by (rule only_known [OF only_checkAddress]) auto

lemma keeps_mint:
  "keeps (known env (\<lambda>A. deposit_evidence env A d amount))
     (mintEcx out acc env (d_network d) (d_snowside_address d) amount)"
  by (rule only_known [OF only_mintEcx mono_fact_deposit]) (auto simp: mint_events_def; metis)

lemma keeps_patch_confirmed:
  "d_status d = ''pending'' \<Longrightarrow>
   keeps (known env (\<lambda>A. deposit_evidence env A d amount))
     (apiPatch_deposit out (d_id d)
        (no_deposit_patch\<lparr>dp_status := Some ''confirmed'', dp_amount_sats := Some amount,
                          dp_ecash_tx_hash := Some x\<rparr>))"
  by (rule only_known [OF only_apiPatch_deposit mono_fact_deposit])
    (auto simp: no_deposit_patch_def)

lemma keeps_patch_minted:
  assumes "mono_fact F" "\<And>A. F A \<Longrightarrow> mint_succeeded A n h"
  shows "keeps (known env F)
     (apiPatch_deposit out i
        (no_deposit_patch\<lparr>dp_status := Some ''minted'', dp_amount_ecx := x,
                          dp_mint_tx_hash := Some h\<rparr>))"
  using assms(2) unfolding mint_succeeded_def
  by (intro only_known [OF only_apiPatch_deposit assms(1)]) (auto simp: no_deposit_patch_def; blast)

text \<open>The end of \<open>processDeposit\<close>, from the mint on.\<close>

lemma keeps_mint_and_patch:
  "keeps (known env (\<lambda>A. deposit_evidence env A d amount))
     (bindE (mintEcx out acc env (d_network d) (d_snowside_address d) amount)
        (\<lambda>mintTxHash.
           if truthy_str mintTxHash
           then bindE (liftE (bigint_of_num amount)) (\<lambda>sats.
                apiPatch_deposit out (d_id d)
                     (no_deposit_patch\<lparr>dp_status := Some ''minted'',
                        dp_amount_ecx := Some (num_of_bigint (sats * satsToEcxMultiplier (d_network d))),
                        dp_mint_tx_hash := mintTxHash\<rparr>))
           else ret ()))"
proof (rule keeps_bind_yields [OF keeps_mint,
      where G = "\<lambda>h A. h = None \<or> mint_succeeded A (d_network d) (the h)"], goal_cases)
  case 1
  then show ?case
    unfolding yields_def mint_succeeded_def using mintEcx_evidence by fastforce
next
  case (2 h)
  show ?case
  proof (cases h)
    case (Some x)
    then show ?thesis
      by (auto intro!: comp_rules keeps_patch_minted mono_facts)
  qed (simp add: comp_rules)
qed

lemma keeps_processDeposit:
  "keeps (known env (\<lambda>A. listed_deposit A d)) (processDeposit out acc env d)"
proof (cases "\<not> truthy_str (d_ecash_address d) \<or> d_status d = ''minted''")
  case False
  then obtain addr where addr: "d_ecash_address d = Some addr" "d_status d \<noteq> ''minted''"
    by (cases "d_ecash_address d") auto
  have eq: "(\<lambda>A. listed_deposit A d \<and> utxo_evidence env A (d_network d) addr amount)
    = (\<lambda>A. deposit_evidence env A d amount)" for amount
    using addr by (intro ext) (simp add: deposit_evidence_def listed_deposit_def)
  with addr False show ?thesis
    unfolding processDeposit_def Let_def
    apply simp
    apply (rule keeps_bind_yields [where G = "\<lambda>res A. case res of None \<Rightarrow> True | Some (amount, x) \<Rightarrow>
          utxo_evidence env A (d_network d) addr amount"])
      apply (intro keeps_check mono_facts)
     apply (auto simp: yields_def split: option.split dest: checkAddress_evidence) []
    apply (split option.split, intro conjI impI allI)
     apply (simp add: keeps_ret)
    apply (split prod.split, intro impI allI)
    apply (simp only: option.case prod.case eq)
    apply (intro keeps_seqE keeps_mint_and_patch)
    apply (auto intro!: keeps_patch_confirmed keeps_ret)
    done
qed (simp add: processDeposit_def keeps_ret)

lemma keeps_handle_deposit:
  "keeps (known env (\<lambda>A. listed_deposit A d)) (handle_deposit out acc c env d)"
  unfolding handle_deposit_def
  by (intro keeps_catchE keeps_if keeps_assign keeps_processDeposit keeps_ret mono_facts)

text \<open>A monotone fact is kept alongside by whatever only adds to the history.\<close>

lemma keeps_frame:
  assumes "keeps (known env F) m" "only L m" "mono_fact G"
  shows "keeps (known env (\<lambda>A. F A \<and> G A)) m"
proof (rule keepsI)
  fix s assume k: "known env (\<lambda>A. F A \<and> G A) s"
  then have "known env F (snd (m s))" using keepsD [OF assms(1)] by (simp add: known_def)
  moreover have "G (set (trace (snd (m s))))"
    using k only_extends [OF assms(2), of s] assms(3) unfolding known_def mono_fact_def by blast
  ultimately show "known env (\<lambda>A. F A \<and> G A) (snd (m s))" by (simp add: known_def)
qed

lemma keeps_known_loop:
  assumes "\<And>x. keeps (known env (\<lambda>A. F A x)) (f x)" "\<And>x. only L (f x)"
    and "\<And>x. mono_fact (\<lambda>A. F A x)"
  shows "keeps (known env (\<lambda>A. \<forall>x \<in> set xs. F A x)) (forE xs f)"
proof (rule keeps_forE)
  fix x assume x: "x \<in> set xs"
  have "mono_fact (\<lambda>A. \<forall>x \<in> set xs. F A x)" using assms(3) unfolding mono_fact_def by blast
  from keeps_frame [OF assms(1,2) this]
  have "keeps (known env (\<lambda>A. F A x \<and> (\<forall>x \<in> set xs. F A x))) (f x)" .
  moreover have "(\<lambda>A. F A x \<and> (\<forall>x \<in> set xs. F A x)) = (\<lambda>A. \<forall>x \<in> set xs. F A x)"
    using x by blast
  ultimately show "keeps (known env (\<lambda>A. \<forall>x \<in> set xs. F A x)) (f x)" by simp
qed

lemma only_handle_deposit: "only UNIV (handle_deposit out acc c env d)"
  unfolding handle_deposit_def processDeposit_def Let_def
  by (intro comp_rules only_mono [OF only_assign] only_mono [OF only_checkAddress]
      only_mono [OF only_apiPatch_deposit] only_mono [OF only_mintEcx]) simp_all

lemma yields_apiGet_deposits:
  "yields (\<lambda>ds t. \<forall>d \<in> set ds. listed_deposit (set (trace t)) d) (apiGet_deposits out)"
  unfolding yields_def apiGet_deposits_def listed_deposit_def
  by (force elim!: bindE_InrE simp: call_apply dest!: api_result_Inr)

lemma yields_apiGet_withdrawals:
  "yields (\<lambda>ws t. \<forall>w \<in> set ws. listed_withdrawal (set (trace t)) w) (apiGet_withdrawals out)"
  unfolding yields_def apiGet_withdrawals_def listed_withdrawal_def
  by (force elim!: bindE_InrE simp: call_apply dest!: api_result_Inr)

lemma keeps_processPendingDeposits:
  "keeps (known env (\<lambda>A. True)) (processPendingDeposits out acc c env)"
  unfolding processPendingDeposits_def
proof (intro keeps_catchE keeps_ret)
  show "keeps (known env (\<lambda>A. True))
    (bindE (apiGet_deposits out) (\<lambda>deposits. forE deposits (handle_deposit out acc c env)))"
    apply (rule keeps_bind_yields [OF _ yields_apiGet_deposits])
     apply (rule only_known [where L = "{EGetDeposits r | r. True}"])
       apply (unfold apiGet_deposits_def, intro comp_rules only_call only_api_result, blast) []
      apply (auto intro: mono_facts) [2]
    apply simp
    apply (rule keeps_known_loop [OF keeps_handle_deposit only_handle_deposit])
    apply (rule mono_facts)
    done
qed

subsection \<open>Withdrawals\<close>

lemma only_verifyBurnTx: "only {e. \<exists>n b r. e = EGetTx n b r} (verifyBurnTx out env network burn)"
  unfolding verifyBurnTx_def
  by (intro comp_rules only_call only_getPublicClient) auto

lemma verifyBurnTx_evidence:
  assumes "verifyBurnTx out env network burn s = (Inr True, t)"
  shows "burn \<noteq> [] \<and> EGetTx network burn (Inr True) \<in> set (trace t)"
  using assms
  by (auto simp: verifyBurnTx_def bindE_def call_apply liftE_def ret_def
      split: if_splits sum.splits prod.splits elim!: catchE_InrE dest!: getPublicClient_value)

lemma only_fetchFunded: "only {e. \<exists>r. e = EGetFunded r} (fetchFundedDeposits out)"
  unfolding fetchFundedDeposits_def by (intro comp_rules only_call) auto

lemma broadcastTx_accepted:
  assumes "broadcastTx out url raw s = (Inr (Some h), t)"
  shows "payout_accepted (set (trace t)) h"
proof -
  obtain st reply where "200 \<le> st" "st \<le> 299" "h = trim reply"
    "EBroadcast (url @ ''/tx'') raw (Response st (Some reply)) \<in> set (trace t)"
    using assms
    by (auto simp: broadcastTx_def Let_def bindE_def call_apply ret_def
        split: reply.splits if_splits option.splits)
  then show ?thesis unfolding payout_accepted_def answered_def by blast
qed

lemma build_accepted:
  assumes "buildSignAndBroadcastWithdrawal out c lib network wd funded url w chg s
             = (Inr (Some h), t)"
  shows "payout_accepted (set (trace t)) h"
proof -
  from assms obtain raw u where "broadcastTx out url raw u = (Inr (Some h), t)"
    by (auto simp: buildSignAndBroadcastWithdrawal_def Let_def ret_def bindE_def
        split: if_splits sum.splits option.splits prod.splits)
  then show ?thesis by (rule broadcastTx_accepted)
qed


lemma burn_evidenceI:
  "listed_withdrawal A w \<Longrightarrow> w_status w = ''pending'' \<Longrightarrow> w_burn_tx_hash w = Some burn \<Longrightarrow>
   burn \<noteq> [] \<and> EGetTx (w_network w) burn (Inr True) \<in> A \<Longrightarrow> burn_evidence A"
  unfolding listed_withdrawal_def burn_evidence_def by blast

lemma keeps_patch_completed:
  assumes "mono_fact F" "\<And>A. F A \<Longrightarrow> payout_accepted A h"
  shows "keeps (known env F) (apiPatch_withdraw out i
           (no_withdraw_patch\<lparr>wp_status := Some ''completed'', wp_ecash_tx_hash := Some h,
              wp_amount_sats := Some a, wp_completed_at := Some t\<rparr>))"
  using assms(2) unfolding payout_accepted_def
  by (intro only_known [OF only_apiPatch_withdraw assms(1)])
    (auto simp: no_withdraw_patch_def; metis)

lemma keeps_patch_failed:
  "mono_fact F \<Longrightarrow> keeps (known env F) (apiPatch_withdraw out i
     (no_withdraw_patch\<lparr>wp_status := Some ''failed'', wp_completed_at := Some t\<rparr>))"
  by (rule only_known [OF only_apiPatch_withdraw]) (auto simp: no_withdraw_patch_def)

lemma keeps_build:
  assumes "mono_fact F" "\<And>A. F A \<Longrightarrow> burn_evidence A"
  shows "keeps (known env F)
     (buildSignAndBroadcastWithdrawal out c lib network wd funded url w chg)"
  using assms(2)
  by (intro only_known [OF only_buildSignAndBroadcast assms(1)]) (auto simp: withdraw_events_def)

lemma keeps_now: "mono_fact F \<Longrightarrow> keeps (known env F) (now out)"
  unfolding now_def by (rule only_known [where L = "{ENow t | t. True}"]) (auto intro: only_call)

lemma keeps_getWallet: "mono_fact F \<Longrightarrow> keeps (known env F) (getWallet c env)"
  by (rule only_known [OF only_getWallet [where L = "{}"]]) simp_all

lemma keeps_fetchFunded: "mono_fact F \<Longrightarrow> keeps (known env F) (fetchFundedDeposits out)"
  by (rule only_known [OF only_fetchFunded]) auto

lemma keeps_pay_and_patch:
  assumes "mono_fact F" "\<And>A. F A \<Longrightarrow> burn_evidence A"
  shows "keeps (known env F)
     (bindE (buildSignAndBroadcastWithdrawal out c lib network wd funded url w chg) (\<lambda>l1TxHash.
        if \<not> truthy_str l1TxHash then ret ()
        else bindE (now out) (\<lambda>t. apiPatch_withdraw out i
               (no_withdraw_patch\<lparr>wp_status := Some ''completed'', wp_ecash_tx_hash := l1TxHash,
                  wp_amount_sats := Some a, wp_completed_at := Some t\<rparr>))))"
proof (rule keeps_bind_yields [where G = "\<lambda>h A. h = None \<or> payout_accepted A (the h)"], goal_cases)
  case 1
  show ?case using assms by (rule keeps_build)
next
  case 2
  show ?case unfolding yields_def by (metis build_accepted option.collapse)
next
  case (3 h)
  show ?case
    using assms(1)
    by (cases h) (auto intro!: comp_rules keeps_patch_completed keeps_now mono_facts)
qed

lemma keeps_processWithdrawal:
  "keeps (known env (\<lambda>A. listed_withdrawal A wd)) (processWithdrawal out c lib env wd)"
proof (cases "w_status wd \<noteq> ''pending'' \<or> \<not> truthy_str (w_burn_tx_hash wd) \<or> MINTER_PRIVATE_KEY env = []")
  case False
  then obtain burn where burn: "w_burn_tx_hash wd = Some burn" "w_status wd = ''pending''"
    by (cases "w_burn_tx_hash wd") auto
  let ?F = "\<lambda>v A. listed_withdrawal A wd \<and>
    (v \<longrightarrow> burn \<noteq> [] \<and> EGetTx (w_network wd) burn (Inr True) \<in> A)"
  have F: "mono_fact (?F v)" for v
    by (cases v) (simp_all add: mono_facts)
  have ev: "?F True A \<Longrightarrow> burn_evidence A" for A
    using burn_evidenceI [OF _ burn(2,1)] by blast
  show ?thesis
    using burn False
    unfolding processWithdrawal_def Let_def
    apply simp
    apply (rule keeps_bind_yields [where G = "\<lambda>v A. v \<longrightarrow> burn \<noteq> [] \<and> EGetTx (w_network wd) burn (Inr True) \<in> A"])
      apply (rule only_known [OF only_verifyBurnTx], rule mono_facts, force)
     apply (unfold yields_def, metis (full_types) verifyBurnTx_evidence)
    apply (rule keeps_if, rule keeps_ret)
    apply (intro keeps_bindE [OF keeps_fetchFunded [OF F]] keeps_bindE [OF keeps_now [OF F]]
        keeps_bindE [OF keeps_getWallet [OF F]] keeps_bindE [OF keeps_liftE] keeps_if keeps_ret
        keeps_pay_and_patch F)
    apply (rule ev, simp)
    done
qed (auto simp: processWithdrawal_def keeps_ret)

lemma keeps_handle_withdrawal:
  "keeps (known env (\<lambda>A. listed_withdrawal A wd)) (handle_withdrawal out c lib env t wd)"
  unfolding handle_withdrawal_def Let_def
  by (intro keeps_catchE keeps_if keeps_patch_failed keeps_processWithdrawal keeps_ret mono_facts)

lemma only_handle_withdrawal: "only UNIV (handle_withdrawal out c lib env t wd)"
  unfolding handle_withdrawal_def processWithdrawal_def Let_def now_def
  by (intro comp_rules only_call only_mono [OF only_verifyBurnTx] only_mono [OF only_fetchFunded]
      only_getWallet only_mono [OF only_buildSignAndBroadcast]
      only_mono [OF only_apiPatch_withdraw]) simp_all

lemma keeps_processPendingWithdrawals:
  "keeps (known env (\<lambda>A. True)) (processPendingWithdrawals out c lib env)"
  unfolding processPendingWithdrawals_def
proof (intro keeps_catchE keeps_ret)
  have loop: "keeps (known env (\<lambda>A. \<forall>w \<in> set ws. listed_withdrawal A w))
    (forE ws (handle_withdrawal out c lib env t))" for ws t
    by (rule keeps_known_loop [OF keeps_handle_withdrawal only_handle_withdrawal]) (rule mono_facts)
  have m: "mono_fact (\<lambda>A. \<forall>w \<in> set ws. listed_withdrawal A w)" for ws
    using mono_fact_listed(2) unfolding mono_fact_def by metis
  show "keeps (known env (\<lambda>A. True))
    (bindE (apiGet_withdrawals out) (\<lambda>ws. bindE (now out) (\<lambda>t.
       forE ws (handle_withdrawal out c lib env t))))"
    apply (rule keeps_bind_yields [OF _ yields_apiGet_withdrawals])
     apply (rule only_known [where L = "{EGetWithdrawals r | r. True}"])
       apply (unfold apiGet_withdrawals_def, intro comp_rules only_call only_api_result, blast) []
      apply (auto intro: mono_facts) [2]
    apply (simp add: keeps_bindE keeps_now m loop)
    done
qed

lemma keeps_checkIn: "keeps (known env (\<lambda>A. True)) (checkIn out)"
proof -
  have "only {ECheckin r | r. True} (checkIn out)"
    unfolding checkIn_def apiPost_checkin_def by (intro comp_rules only_call only_api_result) auto
  then show ?thesis by (rule only_known) (auto intro: mono_facts)
qed

lemma keeps_main_loop: "keeps (known env (\<lambda>A. True)) (main_loop out acc c lib env n)"
  by (induction n)
    (auto simp: poll_cycle_def intro!: comp_rules keeps_checkIn keeps_processPendingDeposits
      keeps_processPendingWithdrawals)

lemma main_loop_lawful: "lawful env (trace (snd (main_loop out acc c lib env n fed_init)))"
  using keepsD [OF keeps_main_loop, of env fed_init] by (simp add: known_def fed_init_def)

text \<open>
  C1. Every history is lawful: whatever the API, Esplora and the Snowside node answer, after any
  number of polls each action of the service is justified by what it had seen before that action.
  No mint without confirmed UTXOs of a listed, unminted deposit (past the fork height on mainnet)
  and for exactly their sum at \<open>10 ^ 10\<close> wei per satoshi; no deposit marked minted without a
  successful receipt; no mainchain broadcast without an existing burn transaction; no withdrawal
  marked completed without an accepted broadcast.
\<close>

theorem service_lawful: "lawful env (trace (snd (main_loop out acc c lib env n fed_init)))"
  by (rule main_loop_lawful)

subsection \<open>The service never stops\<close>

lemma returns_checkIn [comp_rules]: "returns (checkIn out)"
  unfolding checkIn_def by (intro comp_rules)

lemma returns_handlers [comp_rules]:
  "returns (handle_deposit out acc c env d)"
  "returns (handle_withdrawal out c lib env t w)"
  unfolding handle_deposit_def handle_withdrawal_def by (intro comp_rules)+

lemma returns_pending [comp_rules]:
  "returns (processPendingDeposits out acc c env)"
  "returns (processPendingWithdrawals out c lib env)"
  unfolding processPendingDeposits_def processPendingWithdrawals_def by (intro comp_rules)+

lemma returns_unit: "returns m \<Longrightarrow> fst (m s) = Inr ()"
  unfolding returns_def by (metis old.unit.exhaust)


subsection \<open>What a deposit is credited\<close>

text \<open>
  The same in whole numbers. A UTXO is \<open>whole\<close> when its value is a non-negative integer and its
  block height, if any, an integer below \<open>2 ^ 52\<close>; its depth under tip \<open>t\<close> is the number of blocks
  from its own to the tip, both included.
\<close>

definition utxo_sats :: "raw_utxo \<Rightarrow> int" where
  "utxo_sats u = (case ru_value u of Some (JFin q) \<Rightarrow> \<lfloor>q\<rfloor> | _ \<Rightarrow> 0)"

definition utxo_height :: "raw_utxo \<Rightarrow> int option" where
  "utxo_height u =
     (case ru_status u of
        Some st \<Rightarrow>
          if us_confirmed st = Some True
          then (case us_block_height st of Some (JFin q) \<Rightarrow> Some \<lfloor>q\<rfloor> | _ \<Rightarrow> None) else None
      | None \<Rightarrow> None)"

definition whole_utxo :: "raw_utxo \<Rightarrow> bool" where
  "whole_utxo u \<longleftrightarrow>
     ru_value u = Some (JInt (utxo_sats u)) \<and> 0 \<le> utxo_sats u \<and>
     (case ru_status u of None \<Rightarrow> True | Some st \<Rightarrow>
        (case us_block_height st of None \<Rightarrow> True
         | Some h \<Rightarrow> \<exists>n. h = JInt n \<and> 0 \<le> n \<and> n \<le> 2 ^ 52))"

definition deep :: "int \<Rightarrow> int \<Rightarrow> raw_utxo \<Rightarrow> bool" where
  "deep tip confs u \<longleftrightarrow> (case utxo_height u of None \<Rightarrow> False | Some h \<Rightarrow> confs \<le> tip - h + 1)"

lemma enough_confs_deep:
  assumes "whole_utxo u" "0 \<le> tip" "tip \<le> 2 ^ 52"
  shows "enough_confs (JInt tip) (JInt confs) u \<longleftrightarrow> deep tip confs u"
proof (cases "\<exists>st h. ru_status u = Some st \<and> us_confirmed st = Some True \<and> us_block_height st = Some h")
  case True
  then obtain st h where st: "ru_status u = Some st" "us_confirmed st = Some True"
    "us_block_height st = Some h" by blast
  with assms(1) obtain n where n: "h = JInt n" "0 \<le> n" "n \<le> 2 ^ 52"
    by (auto simp: whole_utxo_def)
  then have "safe_int (tip - n)" "safe_int (tip - n + 1)"
    using assms(2,3) by (auto simp: safe_int_def)
  then have "js_add (js_sub (JInt tip) (JInt n)) (JInt 1) = JInt (tip - n + 1)"
    by (simp only: js_sub_int js_add_int)
  with st n show ?thesis
    by (simp add: enough_confs_def deep_def utxo_height_def js_le_int del: of_int_add of_int_diff)
next
  case False
  then show ?thesis
    by (auto simp: enough_confs_def deep_def utxo_height_def split: option.splits jnum.splits)
qed

lemma sum_values_whole:
  assumes "list_all whole_utxo us" "sum_list (map utxo_sats us) \<le> 2 ^ 53"
  shows "sum_values us = JInt (sum_list (map utxo_sats us))"
proof -
  have "foldl (\<lambda>s u. js_add s (num_or (ru_value u) (JInt 0))) (JInt a) us
      = JInt (a + sum_list (map utxo_sats us))"
    if "0 \<le> a" "a + sum_list (map utxo_sats us) \<le> 2 ^ 53" for a
    using assms(1) that
  proof (induction us arbitrary: a)
    case (Cons u us)
    have nn: "0 \<le> sum_list (map utxo_sats us)" "0 \<le> utxo_sats u"
      using Cons.prems(1) by (auto simp: list_all_iff whole_utxo_def intro!: sum_list_nonneg)
    have "ru_value u = Some (JInt (utxo_sats u))" using Cons.prems(1) by (simp add: whole_utxo_def)
    then have "num_or (ru_value u) (JInt 0) = JInt (utxo_sats u)"
      by (simp add: num_or_def truthy_num_def)
    moreover have "safe_int (a + utxo_sats u)" using Cons.prems nn by (simp add: safe_int_def)
    ultimately have "js_add (JInt a) (num_or (ru_value u) (JInt 0)) = JInt (a + utxo_sats u)"
      by (simp only: js_add_int)
    then show ?case
      using Cons.IH [of "a + utxo_sats u"] Cons.prems nn
      by (simp add: add.assoc del: of_int_add)
  qed simp
  from this [of 0] assms(2) show ?thesis by (simp add: sum_values_def)
qed

definition answers :: "outside \<Rightarrow> event list \<Rightarrow> string \<Rightarrow> string \<Rightarrow> int \<Rightarrow> raw_utxo list \<Rightarrow> bool" where
  "answers out h base address tip us \<longleftrightarrow>
     (let u1 = base @ ''/blocks/tip/height'';
          r1 = Response 200 (Some (show_int tip));
          u2 = base @ ''/address/'' @ cleanAddress address @ ''/utxo''
      in o_tip out h u1 = r1 \<and>
         o_utxos out (h @ [ETip u1 r1]) u2 = Response 200 (Some (UtxoArray us)))"

text \<open>
  C6. The amount credited to a deposit: when Esplora reports tip \<open>t\<close> and UTXOs \<open>us\<close>, the check
  returns exactly the sum of the values of those UTXOs that are confirmed with at least the
  configured number of confirmations, with the id of the first of them; it returns nothing when
  there is none, and nothing at all on mainnet while the tip is below the fork height.
\<close>

theorem deposit_credited:
  assumes url: "ESPLORA_URLS env network = Some base" "base \<noteq> []"
    and confs: "MIN_CONFIRMATIONS env network = Some (JInt confs)"
    and fork: "ECASH_MAINNET_FORK_HEIGHT env = JInt fork"
    and ans: "answers out (trace s) base address tip us" "0 < tip" "tip \<le> 2 ^ 52"
    and whole: "list_all whole_utxo us" "sum_list (map utxo_sats us) \<le> 2 ^ 53"
  shows "fst (checkAddressForDeposits out env network address s) =
    Inr (if network = ''mainnet'' \<and> tip < fork \<or> filter (deep tip confs) us = [] then None
         else Some (JInt (sum_list (map utxo_sats (filter (deep tip confs) us))),
                    str_or (ru_txid (hd (filter (deep tip confs) us))) []))"
proof -
  let ?d = "filter (deep tip confs) us"
  have f: "filter (enough_confs (JInt tip) (JInt confs)) us = ?d"
    using whole(1) ans by (intro filter_cong refl enough_confs_deep) (auto simp: list_all_iff)
  have w: "list_all whole_utxo ?d" using whole(1) by (auto simp: list_all_iff)
  have "sum_list (map utxo_sats ?d) \<le> sum_list (map utxo_sats us)"
    using whole(1) by (induction us) (auto simp: whole_utxo_def)
  then have s: "sum_values ?d = JInt (sum_list (map utxo_sats ?d))"
    using whole(2) w by (intro sum_values_whole) simp_all
  have tip: "num_of_string (show_int tip) = JInt tip"
    using ans by (intro num_of_show) (simp_all add: safe_int_def)
  show ?thesis
    using ans url confs fork tip f s
    by (simp add: checkAddressForDeposits_def getTipHeight_def answers_def Let_def bindE_def
        call_apply ret_def num_or_def truthy_num_def js_eq_def)
qed

definition no_env :: penv where
  "no_env = (\<lambda>k. None)"

text \<open>A node that reports one deep UTXO of 10000 satoshi at height 100 under tip 120.\<close>

definition toy_chain :: outside where
  "toy_chain = silent\<lparr>o_tip := (\<lambda>h u. Response 200 (Some (show_int 120))),
                      o_utxos := (\<lambda>h u. Response 200 (Some (UtxoArray [toy_raw])))\<rparr>"

theorem deposit_credited_witness:
  "fst (checkAddressForDeposits toy_chain no_env ''signet'' ''tb1q'' fed_init)
     = Inr (Some (JInt 10000, ''ab''))"
proof -
  have "deep 120 1 toy_raw" "utxo_sats toy_raw = 10000" "whole_utxo toy_raw"
    "ru_txid toy_raw = Some ''ab''"
    by (simp_all add: deep_def utxo_height_def utxo_sats_def whole_utxo_def toy_raw_def)
  then show ?thesis
    using deposit_credited [of no_env "''signet''" "''https://esplora.signet.drivechain.info''" 1
        973728 toy_chain fed_init "''tb1q''" 120 "[toy_raw]"]
    by (simp add: ESPLORA_URLS_def MIN_CONFIRMATIONS_def ECASH_MAINNET_FORK_HEIGHT_def env_num_def
        env_or_def str_or_def no_env_def answers_def toy_chain_def fed_init_def Let_def)
qed

subsection \<open>The mint call\<close>

lemma digit_val_lower: "digit_val (to_lower_char c) = digit_val c"
  by (auto simp: digit_val_def to_lower_char_def Let_def of_char_of)

lemma parse_base_lower: "parse_base b (to_lower s) = parse_base b s"
  by (induction s rule: rev_induct) (simp_all add: to_lower_def digit_val_lower)

text \<open>
  C27. The calldata is the ABI encoding of \<open>mintNativeCoin(address,uint256)\<close>: for an address of 20
  bytes in hexadecimal (any case, with the \<open>0x\<close> prefix) and an amount below \<open>2 ^ 256\<close> it is the
  4-byte selector and two 32-byte words, which read back as the address and the amount.
\<close>

theorem encodeMintCall_abi:
  assumes "toAddress = ''0x'' @ hex" "length hex = 40" "0 \<le> amount" "amount < 2 ^ 256"
  shows "length (encodeMintCall toAddress amount) = 2 + 2 * (4 + 32 + 32) \<and>
         take 10 (encodeMintCall toAddress amount) = MINT_SELECTOR \<and>
         parse_base 16 (take 64 (drop 10 (encodeMintCall toAddress amount))) = parse_base 16 hex \<and>
         parse_base 16 (drop 74 (encodeMintCall toAddress amount)) = nat amount"
proof -
  let ?w1 = "replicate 24 (CHR ''0'') @ to_lower hex"
  let ?w2 = "pad_start 64 (CHR ''0'') (show_bigint 16 amount)"
  have "(2 :: int) ^ 256 = 16 ^ 64" by simp
  then have "nat amount < 16 ^ 64" using assms(3,4) by (simp add: nat_less_iff)
  then have l: "length (show_bigint 16 amount) \<le> 64"
    using assms(3) length_show_base_le [of 16 "nat amount" 64] by (simp add: show_bigint_def)
  have e: "encodeMintCall toAddress amount = MINT_SELECTOR @ ?w1 @ ?w2"
    using assms(1,2)
    by (simp add: encodeMintCall_def Let_def to_lower_def to_lower_char_def starts_with_Cons
        pad_start_def)
  have w1: "length ?w1 = 64" using assms(2) by (simp add: to_lower_def)
  have w2: "length ?w2 = 64" using l by (simp add: length_pad_start)
  have sel: "length MINT_SELECTOR = 10" by (simp add: MINT_SELECTOR_def)
  have "parse_base 16 ?w1 = parse_base 16 hex" "parse_base 16 ?w2 = nat amount"
    using assms(3) by (simp_all add: parse_base_lower pad_start_def show_bigint_def parse_show_base)
  then show ?thesis using w1 w2 sel by (simp add: e del: append_assoc)
qed


theorem encodeMintCall_abi_witness:
  "parse_base 16 (drop 74 (encodeMintCall (''0x'' @ replicate 40 (CHR ''F'')) (10 ^ 18))) = 10 ^ 18"
  using encodeMintCall_abi [of "''0x'' @ replicate 40 (CHR ''F'')" "replicate 40 (CHR ''F'')" "10 ^ 18"]
  by (simp add: nat_power_eq)

subsection \<open>Assigning addresses\<close>

lemma time_index_range: "0 \<le> t \<Longrightarrow> time_index t = t div 1000 mod 1000000"
  by (simp add: time_index_def js_rem_nonneg)

definition address_patch :: "string \<Rightarrow> int \<Rightarrow> deposit_patch" where
  "address_patch addr index =
     no_deposit_patch\<lparr>dp_ecash_address := Some addr, dp_derivation_index := Some index\<rparr>"

lemma handle_unassigned:
  assumes "wallet s = Some w" "d_ecash_address d = None"
    and "deriveDepositAddress c w (d_network d) (time_index (o_now out (trace s))) = Inr addr"
  shows "\<exists>r. handle_deposit out acc c env d s =
    (Inr (), s\<lparr>trace := trace s @ [ENow (o_now out (trace s)),
       EPatchDeposit (d_id d) (address_patch addr (time_index (o_now out (trace s)))) r]\<rparr>)"
  using assms
  by (auto simp: handle_deposit_def assignDepositAddress_def now_def getWallet_def bindE_def
      call_apply getS_def ret_def liftE_def Let_def apiPatch_deposit_def catchE_def address_patch_def
      api_result_def throw_def split: reply.splits option.splits)

text \<open>
  C32. Two deposits handled within the same second are told to pay to the same address: the
  derivation index is the clock in seconds modulo a million, so both PATCH requests carry the same
  address and index, and whatever is paid there later counts as the payment of both.
\<close>

theorem same_second_same_address:
  assumes "wallet s = Some w" "d_ecash_address d1 = None" "d_ecash_address d2 = None"
    and "d_network d1 = network" "d_network d2 = network"
    and clock: "\<And>h. o_now out h div 1000 = k" "0 \<le> k"
    and addr: "deriveDepositAddress c w network (k mod 1000000) = Inr addr"
  shows "\<exists>t1 t2 r1 r2. trace (snd (forE [d1, d2] (handle_deposit out acc c env) s)) =
    trace s @ [ENow t1, EPatchDeposit (d_id d1) (address_patch addr (k mod 1000000)) r1,
               ENow t2, EPatchDeposit (d_id d2) (address_patch addr (k mod 1000000)) r2]"
proof -
  have "0 \<le> o_now out h" for h using clock(1) [of h] clock(2) by presburger
  then have i: "time_index (o_now out h) = k mod 1000000" for h
    using clock(1) by (simp add: time_index_range)
  obtain r1 where r1: "handle_deposit out acc c env d1 s =
    (Inr (), s\<lparr>trace := trace s @ [ENow (o_now out (trace s)),
       EPatchDeposit (d_id d1) (address_patch addr (k mod 1000000)) r1]\<rparr>)" (is "_ = (_, ?s1)")
    using handle_unassigned [of s w d1 c out addr acc env] assms i by auto
  obtain r2 where r2: "handle_deposit out acc c env d2 ?s1 =
    (Inr (), ?s1\<lparr>trace := trace ?s1 @ [ENow (o_now out (trace ?s1)),
       EPatchDeposit (d_id d2) (address_patch addr (k mod 1000000)) r2]\<rparr>)"
    using handle_unassigned [of ?s1 w d2 c out addr acc env] assms i by auto
  show ?thesis using r2 by (simp add: seqE_def bindE_def r1 ret_def)
qed

definition toy_deposit :: Deposit where
  "toy_deposit =
     \<lparr>d_id = ''d1'', d_network = ''signet'', d_snowside_address = ''0xabc'', d_ecash_address = None,
      d_derivation_index = None, d_amount_sats = None, d_amount_ecx = None,
      d_ecash_tx_hash = None, d_mint_tx_hash = None, d_status = ''pending'', d_created_at = 0\<rparr>"

theorem same_second_same_address_witness:
  "\<exists>addr t1 t2 r1 r2.
     trace (snd (forE [toy_deposit, toy_deposit\<lparr>d_id := ''d2''\<rparr>]
       (handle_deposit silent Inr toy_crypto no_env) (fed_init\<lparr>wallet := Some toy_wallet\<rparr>))) =
     [ENow t1, EPatchDeposit ''d1'' (address_patch addr 0) r1,
      ENow t2, EPatchDeposit ''d2'' (address_patch addr 0) r2]"
proof -
  have "\<exists>addr. deriveDepositAddress toy_crypto toy_wallet ''signet'' (1700000000 mod 1000000) = Inr addr"
    by (simp add: deriveDepositAddress_def DERIVATION_PATHS_def toy_crypto_def Let_def
        encodeSegwitAddress_def)
  then obtain addr where
    "deriveDepositAddress toy_crypto toy_wallet ''signet'' (1700000000 mod 1000000) = Inr addr" ..
  from same_second_same_address [OF _ _ _ _ _ _ _ this, of "fed_init\<lparr>wallet := Some toy_wallet\<rparr>"
      toy_deposit "toy_deposit\<lparr>d_id := ''d2''\<rparr>" silent Inr no_env]
  show ?thesis by (auto simp: toy_deposit_def silent_def fed_init_def)
qed

subsection \<open>A mint whose record is lost is repeated\<close>

definition is_mint :: "event \<Rightarrow> bool" where
  "is_mint e \<longleftrightarrow> (case e of ESendTx n t d r \<Rightarrow> True | _ \<Rightarrow> False)"

definition toy_env :: penv where
  "toy_env = [''MINTER_PRIVATE_KEY'' \<mapsto> ''0x01'', ''SIGNET_RPC'' \<mapsto> ''http://localhost'',
              ''HD_MNEMONIC'' \<mapsto> ''words'']"

definition confirmed_deposit :: Deposit where
  "confirmed_deposit = toy_deposit\<lparr>d_ecash_address := Some ''tb1q'', d_status := ''confirmed''\<rparr>"

text \<open>
  A world in which everything works except that the API refuses (status 500) to record the mint.
\<close>

definition toy_patch_fails :: outside where
  "toy_patch_fails = toy_chain\<lparr>
     o_deposits := (\<lambda>h. Response 200 (Some [confirmed_deposit])),
     o_patch_deposit := (\<lambda>h i p. Response 500 None),
     o_send_tx := (\<lambda>h n t d. Inr ''0xhash''),
     o_receipt := (\<lambda>h n x. Inr ''success'')\<rparr>"

lemma getAccount_quiet:
  "\<exists>a t. getAccount Inr toy_env s = (Inr a, t) \<and> trace t = trace s"
  by (cases "account s")
    (simp_all add: getAccount_def Let_def bindE_def seqE_def getS_def ret_def modS_def liftE_def
      MINTER_PRIVATE_KEY_def env_or_def str_or_def toy_env_def)

lemma getWalletClient_quiet:
  "\<exists>t. getWalletClient Inr toy_env ''signet'' s = (Inr ''signet'', t) \<and> trace t = trace s"
  using getAccount_quiet [of s]
  by (auto simp: getWalletClient_def bindE_def seqE_def getS_def ret_def modS_def
      RPC_URLS_def env_or_def str_or_def toy_env_def)

lemma getPublicClient_quiet:
  "\<exists>t. getPublicClient toy_env ''signet'' s = (Inr ''signet'', t) \<and> trace t = trace s"
  by (auto simp: getPublicClient_def bindE_def seqE_def getS_def ret_def modS_def
      RPC_URLS_def env_or_def str_or_def toy_env_def)

lemma toy_mint:
  "\<exists>t d. mintEcx toy_patch_fails Inr toy_env ''signet'' a (JInt n) s = (Inr (Some ''0xhash''), t) \<and>
     trace t = trace s @ [ESendTx ''signet'' NATIVE_MINTER d (Inr ''0xhash''),
                          EReceipt ''signet'' ''0xhash'' (Inr ''success'')]"
proof -
  obtain t1 where t1: "getWalletClient Inr toy_env ''signet'' s = (Inr ''signet'', t1)"
    "trace t1 = trace s" using getWalletClient_quiet by blast
  obtain acc t2 where t2: "getAccount Inr toy_env t1 = (Inr acc, t2)" "trace t2 = trace t1"
    using getAccount_quiet by blast
  let ?ev = "ESendTx ''signet'' NATIVE_MINTER
      (encodeMintCall a (n * satsToEcxMultiplier ''signet'')) (Inr ''0xhash'')"
  obtain t3 where t3: "getPublicClient toy_env ''signet'' (t2\<lparr>trace := trace t2 @ [?ev]\<rparr>)
      = (Inr ''signet'', t3)" "trace t3 = trace t2 @ [?ev]"
    using getPublicClient_quiet [of "t2\<lparr>trace := trace t2 @ [?ev]\<rparr>"] by auto
  have "truthy_str (RPC_URLS toy_env ''signet'')" "MINTER_PRIVATE_KEY toy_env \<noteq> []"
    by (simp_all add: RPC_URLS_def MINTER_PRIVATE_KEY_def env_or_def str_or_def toy_env_def)
  then show ?thesis
    using t1 t2 t3
    by (simp add: mintEcx_def Let_def bindE_def catchE_def call_apply liftE_def ret_def
        toy_patch_fails_def)
qed


lemma toy_check:
  "\<exists>t e1 e2. checkAddressForDeposits toy_patch_fails toy_env ''signet'' ''tb1q'' s
       = (Inr (Some (JInt 10000, ''ab'')), t) \<and> trace t = trace s @ [e1, e2] \<and>
     \<not> is_mint e1 \<and> \<not> is_mint e2"
proof -
  have n: "num_of_string (show_int 120) = JInt 120" by (intro num_of_show) (simp_all add: safe_int_def)
  have w: "whole_utxo toy_raw" "deep 120 1 toy_raw" "list_all whole_utxo [toy_raw]"
    "utxo_sats toy_raw = 10000" "ru_txid toy_raw = Some ''ab''"
    by (simp_all add: deep_def utxo_height_def utxo_sats_def whole_utxo_def toy_raw_def)
  have "enough_confs (JInt 120) (JInt 1) toy_raw" "sum_values [toy_raw] = JInt 10000"
    using enough_confs_deep [OF w(1), of 120 1] w sum_values_whole [OF w(3)] by simp_all
  then show ?thesis
    using w n
    by (simp add: checkAddressForDeposits_def getTipHeight_def Let_def bindE_def call_apply ret_def
        toy_patch_fails_def toy_chain_def num_or_def truthy_num_def js_eq_def ESPLORA_URLS_def
        env_or_def str_or_def toy_env_def MIN_CONFIRMATIONS_def env_num_def is_mint_def)
qed

lemma toy_handle:
  "\<exists>t es. handle_deposit toy_patch_fails Inr toy_crypto toy_env confirmed_deposit s = (Inr (), t) \<and>
     trace t = trace s @ es \<and> length (filter is_mint es) = 1"
proof -
  obtain t e1 e2 where c: "checkAddressForDeposits toy_patch_fails toy_env ''signet'' ''tb1q'' s
       = (Inr (Some (JInt 10000, ''ab'')), t)" "trace t = trace s @ [e1, e2]"
     "\<not> is_mint e1" "\<not> is_mint e2" using toy_check by blast
  obtain u d where m: "mintEcx toy_patch_fails Inr toy_env ''signet'' ''0xabc'' (JInt 10000) t
      = (Inr (Some ''0xhash''), u)"
    "trace u = trace t @ [ESendTx ''signet'' NATIVE_MINTER d (Inr ''0xhash''),
                          EReceipt ''signet'' ''0xhash'' (Inr ''success'')]"
    using toy_mint by blast
  show ?thesis
    using c m
    by (simp add: handle_deposit_def processDeposit_def confirmed_deposit_def toy_deposit_def
        bindE_def seqE_def catchE_def ret_def liftE_def apiPatch_deposit_def call_apply
        api_result_def throw_def toy_patch_fails_def Let_def is_mint_def)
qed

lemma toy_cycle:
  "\<exists>t es. poll_cycle toy_patch_fails Inr toy_crypto toy_lib toy_env s = (Inr (), t) \<and>
     trace t = trace s @ es \<and> length (filter is_mint es) = 1"
proof -
  let ?s1 = "s\<lparr>trace := trace s @ [ECheckin NetError,
                 EGetDeposits (Response 200 (Some [confirmed_deposit]))]\<rparr>"
  obtain t es where h: "handle_deposit toy_patch_fails Inr toy_crypto toy_env confirmed_deposit ?s1
      = (Inr (), t)" "trace t = trace ?s1 @ es" "length (filter is_mint es) = 1"
    using toy_handle by blast
  then show ?thesis
    by (auto simp: poll_cycle_def checkIn_def apiPost_checkin_def processPendingDeposits_def
        apiGet_deposits_def processPendingWithdrawals_def apiGet_withdrawals_def bindE_def seqE_def
        catchE_def ret_def call_apply api_result_def throw_def toy_patch_fails_def toy_chain_def
        silent_def is_mint_def)
qed


subsection \<open>A burn pays every withdrawal that names it\<close>

definition is_payout :: "event \<Rightarrow> bool" where
  "is_payout e \<longleftrightarrow> (case e of EBroadcast u x r \<Rightarrow> True | _ \<Rightarrow> False)"

text \<open>\<open>n\<close> withdrawals of 5000 satoshi with ids of their own and one and the same burn hash.\<close>

definition reusing :: "nat \<Rightarrow> Withdrawal list" where
  "reusing n = map (\<lambda>i. toy_withdrawal\<lparr>w_id := show_int (int i)\<rparr>) [0..<n]"

definition toy_reuse :: "nat \<Rightarrow> outside" where
  "toy_reuse n = toy_out\<lparr>
     o_withdrawals := (\<lambda>h. Response 200 (Some (reusing n))),
     o_get_tx := (\<lambda>h net x. if x = ''0xburn'' then Inr True else Inl ''not found''),
     o_funded := (\<lambda>h. Response 200 (Some toy_funded)),
     o_patch_withdraw := (\<lambda>h i p. Response 200 (Some ()))\<rparr>"

lemma toy_build:
  "\<exists>t u r. buildSignAndBroadcastWithdrawal (toy_reuse n) toy_crypto toy_lib ''signet''
       (toy_withdrawal\<lparr>w_id := i\<rparr>) toy_funded base w chg s = (Inr (Some ''txhash''), t) \<and>
     trace t = trace s @ [u, EBroadcast (base @ ''/tx'') ''00ff'' r] \<and> \<not> is_payout u"
  by (simp add: toy_run_simps toy_reuse_def is_payout_def)


lemma toy_getWallet:
  "\<exists>w t. getWallet toy_crypto toy_env s = (Inr w, t) \<and> trace t = trace s"
  by (cases "wallet s")
    (simp_all add: getWallet_def bindE_def seqE_def getS_def ret_def modS_def liftE_def
      HD_MNEMONIC_def env_or_def str_or_def toy_env_def newHDWallet_def toy_crypto_def)

lemma toy_verify:
  "\<exists>t. verifyBurnTx (toy_reuse n) toy_env ''signet'' ''0xburn'' s = (Inr True, t) \<and>
     trace t = trace s @ [EGetTx ''signet'' ''0xburn'' (Inr True)]"
  using getPublicClient_quiet [of s]
  by (auto simp: verifyBurnTx_def bindE_def catchE_def call_apply liftE_def ret_def toy_reuse_def)

lemma toy_change: "\<exists>a. deriveDepositAddress toy_crypto w ''signet'' i = Inr a"
  by (simp add: deriveDepositAddress_def DERIVATION_PATHS_def toy_crypto_def Let_def
      encodeSegwitAddress_def)

lemma toy_handle_withdrawal:
  "\<exists>t es. handle_withdrawal (toy_reuse n) toy_crypto toy_lib toy_env ts (toy_withdrawal\<lparr>w_id := i\<rparr>) s
       = (Inr (), t) \<and> trace t = trace s @ es \<and> length (filter is_payout es) = 1"
proof -
  let ?wd = "toy_withdrawal\<lparr>w_id := i\<rparr>"
  let ?e2 = "EGetFunded (Response 200 (Some toy_funded))"
  obtain t1 where v: "verifyBurnTx (toy_reuse n) toy_env ''signet'' ''0xburn'' s = (Inr True, t1)"
    "trace t1 = trace s @ [EGetTx ''signet'' ''0xburn'' (Inr True)]" using toy_verify by blast
  let ?t2 = "t1\<lparr>trace := trace t1 @ [?e2, ENow 1700000000000]\<rparr>"
  obtain w t3 where g: "getWallet toy_crypto toy_env ?t2 = (Inr w, t3)" "trace t3 = trace ?t2"
    using toy_getWallet by blast
  obtain chg where a: "deriveDepositAddress toy_crypto w ''signet'' (time_index 1700000000000) = Inr chg"
    using toy_change by blast
  obtain base where b: "ESPLORA_URLS toy_env ''signet'' = Some base" "base \<noteq> []"
    by (simp add: ESPLORA_URLS_def env_or_def str_or_def toy_env_def)
  obtain t4 u r where p: "buildSignAndBroadcastWithdrawal (toy_reuse n) toy_crypto toy_lib ''signet''
       ?wd toy_funded base w chg t3 = (Inr (Some ''txhash''), t4)"
    "trace t4 = trace t3 @ [u, EBroadcast (base @ ''/tx'') ''00ff'' r]" "\<not> is_payout u"
    using toy_build by blast
  have f: "toy_funded \<noteq> []" "w_status ?wd = ''pending''" "w_burn_tx_hash ?wd = Some ''0xburn''"
    "w_network ?wd = ''signet''" "w_created_at ?wd = 0" "MINTER_PRIVATE_KEY toy_env \<noteq> []"
    by (simp_all add: toy_funded_def toy_withdrawal_def MINTER_PRIVATE_KEY_def env_or_def str_or_def
        toy_env_def)
  show ?thesis
    using v g a b p f
    by (simp add: handle_withdrawal_def processWithdrawal_def Let_def fetchFundedDeposits_def now_def
        bindE_def catchE_def call_apply liftE_def ret_def toy_reuse_def toy_out_def silent_def
        apiPatch_withdraw_def api_result_def is_payout_def)
qed

lemma toy_loop:
  "\<exists>t es. forE (map (\<lambda>i. toy_withdrawal\<lparr>w_id := f i\<rparr>) is)
       (handle_withdrawal (toy_reuse n) toy_crypto toy_lib toy_env ts) s = (Inr (), t) \<and>
     trace t = trace s @ es \<and> length (filter is_payout es) = length is"
proof (induction "is" arbitrary: s)
  case (Cons i "is")
  obtain t es where h: "handle_withdrawal (toy_reuse n) toy_crypto toy_lib toy_env ts
      (toy_withdrawal\<lparr>w_id := f i\<rparr>) s = (Inr (), t)" "trace t = trace s @ es"
    "length (filter is_payout es) = 1" using toy_handle_withdrawal by blast
  obtain u fs where "forE (map (\<lambda>i. toy_withdrawal\<lparr>w_id := f i\<rparr>) is)
       (handle_withdrawal (toy_reuse n) toy_crypto toy_lib toy_env ts) t = (Inr (), u)"
    "trace u = trace t @ fs" "length (filter is_payout fs) = length is" using Cons by blast
  with h show ?case by (simp add: seqE_Inr)
qed (simp add: ret_def)


end
