(* ===== verification/Js_Json.thy ===== *)
theory Js_Json
  imports Js_String
begin

text \<open>
  Values of \<open>JSON.parse\<close> and what the sources do with them: property access, truthiness, \<open>String\<close>,
  spreading into an object and \<open>BigInt\<close>. The keys of an object are distinct and their order is
  immaterial (of a repeated key \<open>JSON.parse\<close> keeps one).
\<close>

datatype json =
    JsNull
  | JsBool bool
  | JsNum jnum
  | JsStr string
  | JsArr "json list"
  | JsObj "(string \<times> json) list"

definition field :: "json \<Rightarrow> string \<Rightarrow> json option" where
  "field j k = (case j of JsObj kvs \<Rightarrow> map_of kvs k | _ \<Rightarrow> None)"

text \<open>A value is falsy when it is absent, \<open>null\<close>, \<open>false\<close>, zero, \<open>NaN\<close> or the empty string.\<close>

definition truthy_json :: "json option \<Rightarrow> bool" where
  "truthy_json j =
     (case j of
        None \<Rightarrow> False
      | Some JsNull \<Rightarrow> False
      | Some (JsBool b) \<Rightarrow> b
      | Some (JsNum x) \<Rightarrow> truthy_num x
      | Some (JsStr s) \<Rightarrow> s \<noteq> []
      | Some _ \<Rightarrow> True)"

fun join_str :: "string \<Rightarrow> string list \<Rightarrow> string" where
  "join_str sep [] = []"
| "join_str sep [x] = x"
| "join_str sep (x # y # xs) = x @ sep @ join_str sep (y # xs)"

fun js_string :: "json \<Rightarrow> string" where
  "js_string JsNull = ''null''"
| "js_string (JsBool b) = (if b then ''true'' else ''false'')"
| "js_string (JsNum x) = show_num x"
| "js_string (JsStr s) = s"
| "js_string (JsArr xs) =
     join_str '','' (map (\<lambda>x. case x of JsNull \<Rightarrow> [] | _ \<Rightarrow> js_string x) xs)"
| "js_string (JsObj kvs) = ''[object Object]''"

definition js_string_opt :: "json option \<Rightarrow> string" where
  "js_string_opt j = (case j of None \<Rightarrow> ''undefined'' | Some v \<Rightarrow> js_string v)"

text \<open>\<open>v.length\<close>.\<close>

fun js_length :: "json \<Rightarrow> json option" where
  "js_length (JsStr s) = Some (JsNum (JInt (int (length s))))"
| "js_length (JsArr xs) = Some (JsNum (JInt (int (length xs))))"
| "js_length (JsObj kvs) = map_of kvs ''length''"
| "js_length _ = None"

text \<open>\<open>BigInt(v)\<close>; objects are converted to strings first.\<close>

definition bigint_of_json :: "json option \<Rightarrow> error + int" where
  "bigint_of_json j =
     (case j of
        None \<Rightarrow> Inl ''TypeError''
      | Some JsNull \<Rightarrow> Inl ''TypeError''
      | Some (JsBool b) \<Rightarrow> Inr (if b then 1 else 0)
      | Some (JsNum x) \<Rightarrow> bigint_of_num x
      | Some v \<Rightarrow> bigint_of_string (js_string v))"

text \<open>\<open>put k v obj\<close> assigns a property; \<open>{...a, ...b}\<close> assigns the own properties of \<open>b\<close> to a copy of \<open>a\<close>.\<close>

fun put :: "string \<Rightarrow> json \<Rightarrow> (string \<times> json) list \<Rightarrow> (string \<times> json) list" where
  "put k v [] = [(k, v)]"
| "put k v (kw # kvs) = (if fst kw = k then (k, v) # kvs else kw # put k v kvs)"

definition own_props :: "json option \<Rightarrow> (string \<times> json) list" where
  "own_props j =
     (case j of
        Some (JsObj kvs) \<Rightarrow> kvs
      | Some (JsArr xs) \<Rightarrow> map (\<lambda>i. (show_int (int i), xs ! i)) [0..<length xs]
      | Some (JsStr s) \<Rightarrow> map (\<lambda>i. (show_int (int i), JsStr [s ! i])) [0..<length s]
      | _ \<Rightarrow> [])"

definition spread :: "(string \<times> json) list \<Rightarrow> (string \<times> json) list \<Rightarrow> (string \<times> json) list" where
  "spread a b = fold (\<lambda>(k, v). put k v) b a"

subsection \<open>Properties of objects\<close>

lemma put_keys: "map fst (put k v kvs) = (if k \<in> fst ` set kvs then map fst kvs else map fst kvs @ [k])"
  by (induction kvs) auto

lemma map_of_put [simp]: "map_of (put k v kvs) = (map_of kvs)(k \<mapsto> v)"
  by (induction kvs) (auto simp: fun_eq_iff)

lemma distinct_put: "distinct (map fst kvs) \<Longrightarrow> distinct (map fst (put k v kvs))"
  by (auto simp: put_keys)

lemma put_append: "k \<notin> fst ` set kvs \<Longrightarrow> put k v (kvs @ r) = kvs @ put k v r"
  by (induction kvs) auto

lemma map_of_spread: "distinct (map fst b) \<Longrightarrow> map_of (spread a b) = map_of a ++ map_of b"
proof (induction b arbitrary: a)
  case (Cons kv b)
  then have "fst kv \<notin> dom (map_of b)" by (simp add: dom_map_of_conv_image_fst)
  with Cons show ?case
    by (cases kv) (auto simp: spread_def fun_eq_iff map_add_def split: option.splits)
qed (simp add: spread_def)

lemma distinct_spread: "distinct (map fst a) \<Longrightarrow> distinct (map fst (spread a b))"
  by (induction b arbitrary: a) (auto simp: spread_def distinct_put split: prod.splits)

text \<open>Spreading an object over one that has its first keys, in the same order, gives it back.\<close>

lemma spread_prefix:
  assumes "distinct (map fst (done @ kvs))" "map fst base = take (length base) (map fst kvs)"
  shows "spread (done @ base) kvs = done @ kvs"
  using assms
proof (induction kvs arbitrary: "done" base)
  case (Cons kv kvs)
  obtain k v where kv: "kv = (k, v)" by (cases kv)
  have "put k v (done @ base) = (done @ [(k, v)]) @ tl base"
  proof (cases base)
    case Nil
    with Cons.prems kv put_append [of k "done" v "[]"] show ?thesis by simp
  next
    case (Cons b bs)
    with Cons.prems kv show ?thesis by (simp add: put_append)
  qed
  moreover have "map fst (tl base) = take (length (tl base)) (map fst kvs)"
    using Cons.prems(2) by (cases base) simp_all
  ultimately show ?case
    using Cons.IH [of "done @ [(k, v)]" "tl base"] Cons.prems(1) kv
    by (simp add: spread_def)
qed (simp add: spread_def)

end
