(* ===== verification/Bridge_Api.thy ===== *)
theory Bridge_Api
  imports Js_Json Bridge_World "HOL-Library.Multiset"
begin

text \<open>
  \<open>packages/api/src/index.ts\<close> and \<open>schema.sql\<close>: the Worker that keeps the bridge's database. A
  request is a method, a path, the \<open>Authorization\<close> header and a parsed JSON body; the response is a
  status and a payload. The database is the list of rows of each table. What the runtime supplies
  per request (\<open>Date.now()\<close>, \<open>crypto.randomUUID()\<close>) and the engine's conversion of the text bound to
  the INTEGER column \<open>amount_ecx\<close> are parameters. A statement throws when the database is down;
  an error nobody catches is the framework's status 500.
\<close>

subsection \<open>Database\<close>

text \<open>The columns the federation reads, and those only the API uses.\<close>

record deposit_row = Deposit +
  d_confirmed_at :: "int option"
  d_minted_at :: "int option"

record withdrawal_row = Withdrawal +
  w_completed_at :: "int option"

record db =
  t_deposits :: "deposit_row list"
  t_withdrawals :: "withdrawal_row list"
  t_meta :: "string \<Rightarrow> string option"
  db_up :: bool

definition empty_db :: db where
  "empty_db = \<lparr>t_deposits = [], t_withdrawals = [], t_meta = (\<lambda>k. None), db_up = True\<rparr>"

definition stmt :: "(db \<Rightarrow> 'a) \<Rightarrow> (db, 'a) comp" where
  "stmt q s = (if db_up s then (Inr (q s), s) else (Inl ''D1_ERROR'', s))"

definition exec :: "(db \<Rightarrow> db) \<Rightarrow> (db, unit) comp" where
  "exec u s = (if db_up s then (Inr (), u s) else (Inl ''D1_ERROR'', s))"

subsection \<open>Requests and responses\<close>

datatype verb = GET | POST | PATCH | OPTIONS | OTHER

record request =
  r_verb :: verb
  r_path :: string
  r_search :: string
  r_auth :: "string option"
  r_body :: "json option"
  r_now :: int
  r_uuid :: string

datatype payload =
    PError string
  | PStatus string string
  | PBridge bool "jnum option"
  | PCreated string
  | POk
  | PDeposit deposit_row
  | PDeposits "deposit_row list"
  | PWithdrawals "withdrawal_row list"
  | PDocs
  | PNone

text \<open>\<open>Forwarded url st\<close>: the request was sent on to \<open>url\<close>, whose response (status \<open>st\<close>) is returned.\<close>

datatype response = Reply nat payload | Forwarded string nat

record api_env =
  FEDERATION_TOKEN :: "string option"
  int_affinity :: "string \<Rightarrow> amount"
  upstream :: "string \<Rightarrow> nat option"

subsection \<open>Validation\<close>

text \<open>
  The zod schemas of the request bodies. A schema object keeps the keys it declares and drops
  others; a required key must be there with the right type, an optional one may be absent.
\<close>

definition z_string :: "json \<Rightarrow> string \<Rightarrow> string option" where
  "z_string j k = (case field j k of Some (JsStr s) \<Rightarrow> Some s | _ \<Rightarrow> None)"

definition z_network :: "json \<Rightarrow> string \<Rightarrow> string option" where
  "z_network j k =
     (case z_string j k of
        Some s \<Rightarrow> if s \<in> {''mainnet'', ''testnet'', ''signet''} then Some s else None
      | None \<Rightarrow> None)"

text \<open>Optional keys: the outer \<open>option\<close> is validity, the inner presence.\<close>

definition z_opt_string :: "json \<Rightarrow> string \<Rightarrow> string option option" where
  "z_opt_string j k =
     (case field j k of None \<Rightarrow> Some None | Some (JsStr s) \<Rightarrow> Some (Some s) | _ \<Rightarrow> None)"

definition z_opt_number :: "json \<Rightarrow> string \<Rightarrow> jnum option option" where
  "z_opt_number j k =
     (case field j k of None \<Rightarrow> Some None | Some (JsNum x) \<Rightarrow> Some (Some x) | _ \<Rightarrow> None)"

definition invalid :: response where
  "invalid = Reply 400 (PError ''validation'')"

definition missing_fields :: response where
  "missing_fields = Reply 400 (PError ''Missing fields'')"

subsection \<open>System and bridge routes\<close>

definition ESPLORA_URLS_api :: "string \<Rightarrow> string option" where
  "ESPLORA_URLS_api network =
     (if network = ''mainnet'' then Some ''https://esplora.mainnet.drivechain.dev''
      else if network = ''testnet'' then Some ''https://esplora.drynet4.drivechain.dev''
      else if network = ''signet'' then Some ''https://esplora.signet.drivechain.info''
      else None)"

definition get_status :: "(db, response) comp" where
  "get_status = ret (Reply 200 (PStatus ''ok'' (the (ESPLORA_URLS_api ''testnet''))))"

definition get_bridge_status :: "int \<Rightarrow> (db, response) comp" where
  "get_bridge_status t =
     catchE
       (bindE (stmt (\<lambda>s. t_meta s ''fed_last_checkin'')) (\<lambda>row.
          let lastCheckin = map_option num_of_string row;
              online = (case lastCheckin of
                          None \<Rightarrow> False | Some l \<Rightarrow> js_less (js_sub (JInt t) l) (JInt 60000))
          in ret (Reply 200 (PBridge online lastCheckin))))
       (\<lambda>err. ret (Reply 200 (PBridge False None)))"

definition new_deposit :: "string \<Rightarrow> string \<Rightarrow> string \<Rightarrow> int \<Rightarrow> deposit_row" where
  "new_deposit i network snowsideAddress t =
     \<lparr>d_id = i, d_network = network, d_snowside_address = snowsideAddress, d_ecash_address = None,
      d_derivation_index = None, d_amount_sats = None, d_amount_ecx = None,
      d_ecash_tx_hash = None, d_mint_tx_hash = None, d_status = ''pending'', d_created_at = t,
      d_confirmed_at = None, d_minted_at = None\<rparr>"

text \<open>An INSERT whose primary key exists already is refused.\<close>

definition insert_deposit :: "deposit_row \<Rightarrow> (db, unit) comp" where
  "insert_deposit r = bindE (stmt t_deposits) (\<lambda>rows.
     if d_id r \<in> d_id ` set rows then throw ''UNIQUE constraint failed: deposits.id''
     else exec (\<lambda>s. s\<lparr>t_deposits := t_deposits s @ [r]\<rparr>))"

definition insert_withdrawal :: "withdrawal_row \<Rightarrow> (db, unit) comp" where
  "insert_withdrawal r = bindE (stmt t_withdrawals) (\<lambda>rows.
     if w_id r \<in> w_id ` set rows then throw ''UNIQUE constraint failed: withdrawals.id''
     else exec (\<lambda>s. s\<lparr>t_withdrawals := t_withdrawals s @ [r]\<rparr>))"

definition post_deposit :: "request \<Rightarrow> (db, response) comp" where
  "post_deposit r =
     (case r_body r of
        None \<Rightarrow> ret invalid
      | Some body \<Rightarrow>
          (case (z_string body ''snowsideAddress'', z_network body ''network'') of
             (Some snowsideAddress, Some network) \<Rightarrow>
               if snowsideAddress = [] \<or> network = [] then ret missing_fields
               else seqE (insert_deposit (new_deposit (r_uuid r) network snowsideAddress (r_now r)))
                      (ret (Reply 200 (PCreated (r_uuid r))))
           | _ \<Rightarrow> ret invalid))"

definition get_deposit :: "string \<Rightarrow> (db, response) comp" where
  "get_deposit i =
     bindE (stmt (\<lambda>s. find (\<lambda>d. d_id d = i) (t_deposits s))) (\<lambda>row.
       case row of Some d \<Rightarrow> ret (Reply 200 (PDeposit d)) | None \<Rightarrow> ret (Reply 404 (PError ''Not found'')))"

text \<open>\<open>ORDER BY\<close> sorts the rows in table order stably; the order of equal keys is the engine's choice.\<close>

definition get_deposits :: "string \<Rightarrow> (db, response) comp" where
  "get_deposits address =
     bindE (stmt (\<lambda>s. sort_key (\<lambda>d. - d_created_at d)
                        (filter (\<lambda>d. d_snowside_address d = address) (t_deposits s))))
       (\<lambda>results. ret (Reply 200 (PDeposits results)))"

definition new_withdrawal ::
  "string \<Rightarrow> string \<Rightarrow> string \<Rightarrow> string \<Rightarrow> amount \<Rightarrow> string option \<Rightarrow> int \<Rightarrow> withdrawal_row" where
  "new_withdrawal i network snowsideAddress ecashAddress amt burn t =
     \<lparr>w_id = i, w_network = network, w_snowside_address = snowsideAddress,
      w_ecash_address = ecashAddress, w_amount_ecx = amt, w_amount_sats = None,
      w_burn_tx_hash = burn, w_ecash_tx_hash = None, w_status = ''pending'', w_created_at = t,
      w_completed_at = None\<rparr>"

definition post_withdraw :: "api_env \<Rightarrow> request \<Rightarrow> (db, response) comp" where
  "post_withdraw env r =
     (case r_body r of
        None \<Rightarrow> ret invalid
      | Some body \<Rightarrow>
          (case (z_string body ''snowsideAddress'', z_string body ''ecashAddress'',
                 z_string body ''amountEcx'', z_network body ''network'',
                 z_opt_string body ''burnTxHash'') of
             (Some snowsideAddress, Some ecashAddress, Some amountEcx, Some network,
              Some burnTxHash) \<Rightarrow>
               if snowsideAddress = [] \<or> ecashAddress = [] \<or> amountEcx = [] \<or> network = []
               then ret missing_fields
               else seqE (insert_withdrawal
                            (new_withdrawal (r_uuid r) network snowsideAddress ecashAddress
                               (int_affinity env amountEcx)
                               (if truthy_str burnTxHash then burnTxHash else None) (r_now r)))
                      (ret (Reply 200 (PCreated (r_uuid r))))
           | _ \<Rightarrow> ret invalid))"

definition get_withdrawals :: "string \<Rightarrow> (db, response) comp" where
  "get_withdrawals address =
     bindE (stmt (\<lambda>s. sort_key (\<lambda>w. - w_created_at w)
                        (filter (\<lambda>w. w_snowside_address w = address) (t_withdrawals s))))
       (\<lambda>results. ret (Reply 200 (PWithdrawals results)))"

subsection \<open>Federation routes\<close>

definition authorized :: "api_env \<Rightarrow> request \<Rightarrow> bool" where
  "authorized env r \<longleftrightarrow>
     r_auth r = Some (''Bearer '' @
       (if truthy_str (FEDERATION_TOKEN env) then the (FEDERATION_TOKEN env) else ''dev-secret''))"

definition post_checkin :: "int \<Rightarrow> (db, response) comp" where
  "post_checkin t =
     seqE (exec (\<lambda>s. s\<lparr>t_meta := (t_meta s)(''fed_last_checkin'' \<mapsto> show_int t)\<rparr>))
       (ret (Reply 200 POk))"

definition pending_deposits :: "db \<Rightarrow> deposit_row list" where
  "pending_deposits s =
     sort_key d_created_at (filter (\<lambda>d. d_status d \<in> {''pending'', ''confirmed''}) (t_deposits s))"

definition get_pending_deposits :: "(db, response) comp" where
  "get_pending_deposits =
     bindE (stmt pending_deposits) (\<lambda>results. ret (Reply 200 (PDeposits results)))"

definition funded_deposits :: "db \<Rightarrow> deposit_row list" where
  "funded_deposits s =
     sort_key d_created_at
       (filter (\<lambda>d. d_amount_sats d \<noteq> None \<and> d_ecash_address d \<noteq> None \<and> d_derivation_index d \<noteq> None)
          (t_deposits s))"

definition get_funded_deposits :: "(db, response) comp" where
  "get_funded_deposits =
     bindE (stmt funded_deposits) (\<lambda>results. ret (Reply 200 (PDeposits results)))"

definition pending_withdrawals :: "db \<Rightarrow> withdrawal_row list" where
  "pending_withdrawals s =
     sort_key w_created_at (filter (\<lambda>w. w_status w = ''pending'') (t_withdrawals s))"

definition get_pending_withdrawals :: "(db, response) comp" where
  "get_pending_withdrawals =
     bindE (stmt pending_withdrawals) (\<lambda>results. ret (Reply 200 (PWithdrawals results)))"


text \<open>
  The PATCH handlers build a list of columns and values: the allowed keys of the body in schema
  order, then the time stamp a new status brings.
\<close>

datatype sqlval = SText string | SNum jnum | SInt int

definition col :: "string \<Rightarrow> ('a \<Rightarrow> sqlval) \<Rightarrow> 'a option \<Rightarrow> (string \<times> sqlval) list" where
  "col k f x = (case x of None \<Rightarrow> [] | Some v \<Rightarrow> [(k, f v)])"

definition deposit_entries :: "deposit_patch \<Rightarrow> (string \<times> sqlval) list" where
  "deposit_entries p =
     col ''ecash_address'' SText (dp_ecash_address p) @
     col ''derivation_index'' SInt (dp_derivation_index p) @
     col ''amount_sats'' SNum (dp_amount_sats p) @
     col ''amount_ecx'' SNum (dp_amount_ecx p) @
     col ''ecash_tx_hash'' SText (dp_ecash_tx_hash p) @
     col ''mint_tx_hash'' SText (dp_mint_tx_hash p) @
     col ''status'' SText (dp_status p)"

definition allowed_deposit :: "string list" where
  "allowed_deposit = [''ecash_address'', ''derivation_index'', ''amount_sats'', ''amount_ecx'',
     ''ecash_tx_hash'', ''mint_tx_hash'', ''status'']"

definition deposit_updates :: "deposit_patch \<Rightarrow> int \<Rightarrow> (string \<times> sqlval) list" where
  "deposit_updates p t =
     filter (\<lambda>(k, v). k \<in> set allowed_deposit) (deposit_entries p) @
     (if dp_status p = Some ''confirmed'' then [(''confirmed_at'', SInt t)] else []) @
     (if dp_status p = Some ''minted'' then [(''minted_at'', SInt t)] else [])"

text \<open>\<open>SET key = ?\<close> for the columns of \<open>schema.sql\<close>.\<close>

fun set_deposit :: "string \<times> sqlval \<Rightarrow> deposit_row \<Rightarrow> deposit_row" where
  "set_deposit (k, SText v) d =
     (if k = ''ecash_address'' then d\<lparr>d_ecash_address := Some v\<rparr>
      else if k = ''ecash_tx_hash'' then d\<lparr>d_ecash_tx_hash := Some v\<rparr>
      else if k = ''mint_tx_hash'' then d\<lparr>d_mint_tx_hash := Some v\<rparr>
      else if k = ''status'' then d\<lparr>d_status := v\<rparr> else d)"
| "set_deposit (k, SNum v) d =
     (if k = ''amount_sats'' then d\<lparr>d_amount_sats := Some v\<rparr>
      else if k = ''amount_ecx'' then d\<lparr>d_amount_ecx := Some v\<rparr> else d)"
| "set_deposit (k, SInt v) d =
     (if k = ''derivation_index'' then d\<lparr>d_derivation_index := Some v\<rparr>
      else if k = ''confirmed_at'' then d\<lparr>d_confirmed_at := Some v\<rparr>
      else if k = ''minted_at'' then d\<lparr>d_minted_at := Some v\<rparr> else d)"

definition update_deposits :: "string \<Rightarrow> (string \<times> sqlval) list \<Rightarrow> db \<Rightarrow> db" where
  "update_deposits i ups s =
     s\<lparr>t_deposits := map (\<lambda>d. if d_id d = i then fold set_deposit ups d else d) (t_deposits s)\<rparr>"

definition no_valid_fields :: response where
  "no_valid_fields = Reply 400 (PError ''No valid fields'')"

definition patch_deposit :: "string \<Rightarrow> deposit_patch \<Rightarrow> int \<Rightarrow> (db, response) comp" where
  "patch_deposit i p t =
     (let updates = deposit_updates p t
      in if updates = [] then ret no_valid_fields
         else seqE (exec (update_deposits i updates)) (ret (Reply 200 POk)))"

text \<open>The index a derivation path takes is a whole number; only such bodies are modelled.\<close>

definition z_deposit_patch :: "json \<Rightarrow> deposit_patch option" where
  "z_deposit_patch j =
     (case (z_opt_string j ''ecash_address'', z_opt_number j ''derivation_index'',
            z_opt_number j ''amount_sats'', z_opt_number j ''amount_ecx'',
            z_opt_string j ''ecash_tx_hash'', z_opt_string j ''mint_tx_hash'',
            z_opt_string j ''status'', j) of
        (Some a, Some i, Some s, Some e, Some x, Some m, Some st, JsObj kvs) \<Rightarrow>
          Some \<lparr>dp_ecash_address = a,
                dp_derivation_index = (case i of Some (JFin q) \<Rightarrow> Some \<lfloor>q\<rfloor> | _ \<Rightarrow> None),
                dp_amount_sats = s, dp_amount_ecx = e, dp_ecash_tx_hash = x, dp_mint_tx_hash = m,
                dp_status = st\<rparr>
      | _ \<Rightarrow> None)"

definition withdraw_entries :: "withdraw_patch \<Rightarrow> (string \<times> sqlval) list" where
  "withdraw_entries p =
     col ''amount_sats'' SNum (wp_amount_sats p) @
     col ''ecash_tx_hash'' SText (wp_ecash_tx_hash p) @
     col ''status'' SText (wp_status p)"

definition allowed_withdraw :: "string list" where
  "allowed_withdraw = [''amount_sats'', ''ecash_tx_hash'', ''status'']"

definition withdraw_updates :: "withdraw_patch \<Rightarrow> int \<Rightarrow> (string \<times> sqlval) list" where
  "withdraw_updates p t =
     filter (\<lambda>(k, v). k \<in> set allowed_withdraw) (withdraw_entries p) @
     (if wp_status p = Some ''completed'' then [(''completed_at'', SInt t)] else [])"

fun set_withdrawal :: "string \<times> sqlval \<Rightarrow> withdrawal_row \<Rightarrow> withdrawal_row" where
  "set_withdrawal (k, SText v) w =
     (if k = ''ecash_tx_hash'' then w\<lparr>w_ecash_tx_hash := Some v\<rparr>
      else if k = ''status'' then w\<lparr>w_status := v\<rparr> else w)"
| "set_withdrawal (k, SNum v) w = (if k = ''amount_sats'' then w\<lparr>w_amount_sats := Some v\<rparr> else w)"
| "set_withdrawal (k, SInt v) w = (if k = ''completed_at'' then w\<lparr>w_completed_at := Some v\<rparr> else w)"

definition update_withdrawals :: "string \<Rightarrow> (string \<times> sqlval) list \<Rightarrow> db \<Rightarrow> db" where
  "update_withdrawals i ups s =
     s\<lparr>t_withdrawals :=
         map (\<lambda>w. if w_id w = i then fold set_withdrawal ups w else w) (t_withdrawals s)\<rparr>"

definition patch_withdraw :: "string \<Rightarrow> withdraw_patch \<Rightarrow> int \<Rightarrow> (db, response) comp" where
  "patch_withdraw i p t =
     (let updates = withdraw_updates p t
      in if updates = [] then ret no_valid_fields
         else seqE (exec (update_withdrawals i updates)) (ret (Reply 200 POk)))"

text \<open>The schema has no \<open>completed_at\<close>: a body's key of that name is dropped.\<close>

definition z_withdraw_patch :: "json \<Rightarrow> withdraw_patch option" where
  "z_withdraw_patch j =
     (case (z_opt_number j ''amount_sats'', z_opt_string j ''ecash_tx_hash'',
            z_opt_string j ''status'', j) of
        (Some s, Some x, Some st, JsObj kvs) \<Rightarrow>
          Some \<lparr>wp_amount_sats = s, wp_ecash_tx_hash = x, wp_status = st, wp_completed_at = None\<rparr>
      | _ \<Rightarrow> None)"

definition with_body :: "('p option) \<Rightarrow> ('p \<Rightarrow> (db, response) comp) \<Rightarrow> (db, response) comp" where
  "with_body b k = (case b of None \<Rightarrow> ret invalid | Some p \<Rightarrow> k p)"

subsection \<open>Proxies\<close>

definition RPC_UPSTREAMS :: "string \<Rightarrow> string option" where
  "RPC_UPSTREAMS network =
     (if network \<in> {''mainnet'', ''testnet'', ''signet''}
      then Some (''https://rpc.snowside.network/'' @ network) else None)"

text \<open>
  \<open>fetch\<close> with the request's method, headers and body; the response passes through with its status
  and the CORS headers set. The library may reject.
\<close>

definition pass_through :: "api_env \<Rightarrow> string \<Rightarrow> string \<Rightarrow> response" where
  "pass_through env target failed =
     (case upstream env target of
        None \<Rightarrow> Reply 502 (PError failed) | Some st \<Rightarrow> Forwarded target st)"

definition rpcProxy :: "api_env \<Rightarrow> string \<Rightarrow> response" where
  "rpcProxy env target = pass_through env target ''RPC upstream fetch failed''"

definition word_char :: "char \<Rightarrow> bool" where
  "word_char c \<longleftrightarrow>
     (let n = of_char c :: nat
      in 48 \<le> n \<and> n \<le> 57 \<or> 65 \<le> n \<and> n \<le> 90 \<or> 97 \<le> n \<and> n \<le> 122 \<or> n = 95)"

text \<open>\<open>path.match(/^\/esplora\/(\w+)(\/.*)?$/)\<close>: the two groups.\<close>

definition esplora_match :: "string \<Rightarrow> (string \<times> string option) option" where
  "esplora_match path =
     (if starts_with path ''/esplora/''
      then (let rest = drop 9 path; network = takeWhile word_char rest;
                tail = dropWhile word_char rest
            in if network = [] then None
               else if tail = [] then Some (network, None)
               else if hd tail = CHR ''/'' then Some (network, Some tail) else None)
      else None)"

text \<open>
  A plain object also answers to the names it inherits; none of those values makes a URL, and the
  URL is built outside the \<open>try\<close>.
\<close>

definition inherited_keys :: "string list" where
  "inherited_keys = [''constructor'', ''__defineGetter__'', ''__defineSetter__'', ''hasOwnProperty'',
     ''__lookupGetter__'', ''__lookupSetter__'', ''isPrototypeOf'', ''propertyIsEnumerable'',
     ''toString'', ''valueOf'', ''__proto__'', ''toLocaleString'']"

definition server_error :: response where
  "server_error = Reply 500 (PError ''Internal Server Error'')"

definition esplora_target :: "string \<Rightarrow> string \<Rightarrow> string option" where
  "esplora_target pathname search =
     (let path = replace_first ''/v1'' [] pathname; testnet = the (ESPLORA_URLS_api ''testnet'')
      in case esplora_match path of
           None \<Rightarrow> Some (testnet @ path @ search)
         | Some (network, tail) \<Rightarrow>
             if network \<in> set inherited_keys then None
             else Some ((case ESPLORA_URLS_api network of None \<Rightarrow> testnet | Some u \<Rightarrow> u) @
                        (case tail of None \<Rightarrow> ''/'' | Some t \<Rightarrow> t) @ search))"

definition esplora_proxy :: "api_env \<Rightarrow> request \<Rightarrow> response" where
  "esplora_proxy env r =
     (case esplora_target (r_path r) (r_search r) of
        None \<Rightarrow> server_error
      | Some target \<Rightarrow> pass_through env target ''Esplora fetch failed'')"

subsection \<open>Dispatch\<close>

text \<open>
  Routes in registration order: middleware and handlers registered earlier win. A path is split at
  its slashes; a \<open>:id\<close> matches one non-empty segment.
\<close>

definition segments :: "request \<Rightarrow> string list" where
  "segments r = tl (split_slash (r_path r))"

definition under :: "string list \<Rightarrow> string list \<Rightarrow> bool" where
  "under prefix segs \<longleftrightarrow> length segs = Suc (length prefix) \<and> butlast segs = prefix \<and> last segs \<noteq> []"

definition public_route :: "api_env \<Rightarrow> request \<Rightarrow> (db, response) comp option" where
  "public_route env r =
     (let segs = segments r; v = r_verb r
      in if v = OPTIONS then Some (ret (Reply 204 PNone))
         else if v = GET \<and> segs \<in> {[''v1''], [''v1'', ''openapi.json'']} then Some (ret (Reply 200 PDocs))
         else if v = GET \<and> segs = [''v1'', ''status''] then Some get_status
         else if v = GET \<and> segs = [''v1'', ''bridge'', ''status'']
              then Some (get_bridge_status (r_now r))
         else if v = POST \<and> segs = [''v1'', ''bridge'', ''deposit''] then Some (post_deposit r)
         else if v = GET \<and> under [''v1'', ''bridge'', ''deposit''] segs
              then Some (get_deposit (last segs))
         else if v = GET \<and> under [''v1'', ''bridge'', ''deposits''] segs
              then Some (get_deposits (last segs))
         else if v = POST \<and> segs = [''v1'', ''bridge'', ''withdraw''] then Some (post_withdraw env r)
         else if v = GET \<and> under [''v1'', ''bridge'', ''withdrawals''] segs
              then Some (get_withdrawals (last segs))
         else None)"

definition is_fed_path :: "string list \<Rightarrow> bool" where
  "is_fed_path segs \<longleftrightarrow> take 2 segs = [''v1'', ''fed'']"

definition fed_route :: "api_env \<Rightarrow> request \<Rightarrow> (db, response) comp option" where
  "fed_route env r =
     (let segs = segments r; v = r_verb r
      in if v = POST \<and> segs = [''v1'', ''fed'', ''checkin''] then Some (post_checkin (r_now r))
         else if v = GET \<and> segs = [''v1'', ''fed'', ''deposits'', ''pending'']
              then Some get_pending_deposits
         else if v = PATCH \<and> under [''v1'', ''fed'', ''deposit''] segs
              then Some (with_body (Option.bind (r_body r) z_deposit_patch)
                           (\<lambda>p. patch_deposit (last segs) p (r_now r)))
         else if v = GET \<and> segs = [''v1'', ''fed'', ''deposits'', ''funded'']
              then Some get_funded_deposits
         else if v = GET \<and> segs = [''v1'', ''fed'', ''withdrawals'', ''pending'']
              then Some get_pending_withdrawals
         else if v = PATCH \<and> under [''v1'', ''fed'', ''withdraw''] segs
              then Some (with_body (Option.bind (r_body r) z_withdraw_patch)
                           (\<lambda>p. patch_withdraw (last segs) p (r_now r)))
         else None)"

definition proxy_route :: "api_env \<Rightarrow> request \<Rightarrow> response" where
  "proxy_route env r =
     (let segs = segments r
      in case (if segs = [] then None else RPC_UPSTREAMS (hd segs)) of
           Some u \<Rightarrow> rpcProxy env u
         | None \<Rightarrow> if take 1 segs = [''v1''] then esplora_proxy env r
                   else Reply 404 (PError ''404 Not Found''))"

definition unauthorized :: response where
  "unauthorized = Reply 401 (PError ''Unauthorized'')"

definition dispatch :: "api_env \<Rightarrow> request \<Rightarrow> (db, response) comp" where
  "dispatch env r =
     (case public_route env r of
        Some h \<Rightarrow> h
      | None \<Rightarrow>
          if is_fed_path (segments r) \<and> \<not> authorized env r then ret unauthorized
          else (case fed_route env r of
                  Some h \<Rightarrow> h
                | None \<Rightarrow> ret (proxy_route env r)))"

definition handle :: "api_env \<Rightarrow> request \<Rightarrow> db \<Rightarrow> response \<times> db" where
  "handle env r s =
     (case dispatch env r s of (Inl e, t) \<Rightarrow> (server_error, t) | (Inr resp, t) \<Rightarrow> (resp, t))"

fun handle_all :: "api_env \<Rightarrow> request list \<Rightarrow> db \<Rightarrow> db" where
  "handle_all env [] s = s"
| "handle_all env (r # rs) s = handle_all env rs (snd (handle env r s))"

subsection \<open>Tables with a primary key\<close>

text \<open>
  What the handlers need of a table: rows with a key, insertion at the end, and an update of the
  rows with a given key that keeps their keys.
\<close>

locale keyed_table =
  fixes key :: "'r \<Rightarrow> string"
    and rows :: "'s \<Rightarrow> 'r list"
    and insert_row :: "'r \<Rightarrow> 's \<Rightarrow> 's"
    and update_row :: "string \<Rightarrow> ('r \<Rightarrow> 'r) \<Rightarrow> 's \<Rightarrow> 's"
  assumes rows_insert: "rows (insert_row r s) = rows s @ [r]"
    and rows_update: "rows (update_row i f s) = map (\<lambda>r. if key r = i then f r else r) (rows s)"
begin

definition unique :: "'s \<Rightarrow> bool" where
  "unique s \<longleftrightarrow> distinct (map key (rows s))"

lemma unique_insert: "unique s \<Longrightarrow> key r \<notin> key ` set (rows s) \<Longrightarrow> unique (insert_row r s)"
  by (auto simp: unique_def rows_insert)

lemma keys_update:
  assumes "\<And>r. key (f r) = key r"
  shows "map key (rows (update_row i f s)) = map key (rows s)"
  using assms by (simp add: rows_update)

lemma unique_update: "(\<And>r. key (f r) = key r) \<Longrightarrow> unique s \<Longrightarrow> unique (update_row i f s)"
  by (simp add: unique_def keys_update)

lemma find_key: "unique s \<Longrightarrow> r \<in> set (rows s) \<Longrightarrow> find (\<lambda>r'. key r' = key r) (rows s) = Some r"
proof -
  have "distinct (map key xs) \<Longrightarrow> r \<in> set xs \<Longrightarrow> find (\<lambda>r'. key r' = key r) xs = Some r" for xs
    by (induction xs) force+
  then show "unique s \<Longrightarrow> r \<in> set (rows s) \<Longrightarrow> find (\<lambda>r'. key r' = key r) (rows s) = Some r"
    by (simp add: unique_def)
qed

lemma row_updated: "r \<in> set (rows s) \<Longrightarrow> f r \<in> set (rows (update_row (key r) f s))"
  by (force simp: rows_update)

lemma row_kept: "r \<in> set (rows s) \<Longrightarrow> key r \<noteq> i \<Longrightarrow> r \<in> set (rows (update_row i f s))"
  by (force simp: rows_update)

lemma update_all:
  assumes "\<And>r. P (f r)" "\<And>r. key (f r) = key r" "r \<in> set (rows (update_row i f s))" "key r = i"
  shows "P r"
  using assms by (auto simp: rows_update split: if_splits)

end

interpretation deposits: keyed_table d_id t_deposits
    "\<lambda>r s. s\<lparr>t_deposits := t_deposits s @ [r]\<rparr>"
    "\<lambda>i f s. s\<lparr>t_deposits := map (\<lambda>d. if d_id d = i then f d else d) (t_deposits s)\<rparr>"
  by unfold_locales simp_all

interpretation withdrawals: keyed_table w_id t_withdrawals
    "\<lambda>r s. s\<lparr>t_withdrawals := t_withdrawals s @ [r]\<rparr>"
    "\<lambda>i f s. s\<lparr>t_withdrawals := map (\<lambda>w. if w_id w = i then f w else w) (t_withdrawals s)\<rparr>"
  by unfold_locales simp_all

subsection \<open>Invariants of the database\<close>

lemma keeps_stmt [comp_rules]: "keeps I (stmt q)"
  by (simp add: keeps_def stmt_def)

lemma keeps_exec: "(\<And>s. I s \<Longrightarrow> I (u s)) \<Longrightarrow> keeps I (exec u)"
  by (simp add: keeps_def exec_def)

lemma keeps_with_body [comp_rules]: "(\<And>p. b = Some p \<Longrightarrow> keeps I (k p)) \<Longrightarrow> keeps I (with_body b k)"
  by (simp add: with_body_def keeps_ret split: option.split)

text \<open>What every handler that only reads leaves: the state.\<close>

lemmas reading_defs = get_status_def get_bridge_status_def get_deposit_def get_deposits_def
  get_withdrawals_def get_pending_deposits_def get_funded_deposits_def get_pending_withdrawals_def

lemma keeps_reading [comp_rules]:
  "keeps I get_status" "keeps I (get_bridge_status t)" "keeps I (get_deposit i)"
  "keeps I (get_deposits a)" "keeps I (get_withdrawals a)" "keeps I get_pending_deposits"
  "keeps I get_funded_deposits" "keeps I get_pending_withdrawals"
  unfolding reading_defs Let_def by (intro comp_rules)+

lemma set_deposit_id [simp]: "d_id (set_deposit kv d) = d_id d"
  by (cases "(kv, d)" rule: set_deposit.cases) simp_all

lemma fold_set_deposit_id [simp]: "d_id (fold set_deposit kvs d) = d_id d"
  by (induction kvs arbitrary: d) simp_all

lemma set_withdrawal_id [simp]: "w_id (set_withdrawal kv w) = w_id w"
  by (cases "(kv, w)" rule: set_withdrawal.cases) simp_all

lemma fold_set_withdrawal_id [simp]: "w_id (fold set_withdrawal kvs w) = w_id w"
  by (induction kvs arbitrary: w) simp_all

definition unique_ids :: "db \<Rightarrow> bool" where
  "unique_ids s \<longleftrightarrow> distinct (map d_id (t_deposits s)) \<and> distinct (map w_id (t_withdrawals s))"

lemma unique_ids_tables: "unique_ids s \<longleftrightarrow> deposits.unique s \<and> withdrawals.unique s"
  by (simp add: unique_ids_def deposits.unique_def withdrawals.unique_def)

lemma keeps_insert_deposit: "keeps unique_ids (insert_deposit r)"
  by (rule keepsI)
    (auto simp: insert_deposit_def bindE_def stmt_def exec_def throw_def unique_ids_def)

lemma keeps_insert_withdrawal: "keeps unique_ids (insert_withdrawal r)"
  by (rule keepsI)
    (auto simp: insert_withdrawal_def bindE_def stmt_def exec_def throw_def unique_ids_def)

lemma unique_update_deposits: "unique_ids s \<Longrightarrow> unique_ids (update_deposits i ups s)"
  using deposits.unique_update [of "fold set_deposit ups" s i]
  by (simp add: unique_ids_tables update_deposits_def withdrawals.unique_def)

lemma unique_update_withdrawals: "unique_ids s \<Longrightarrow> unique_ids (update_withdrawals i ups s)"
  using withdrawals.unique_update [of "fold set_withdrawal ups" s i]
  by (simp add: unique_ids_tables update_withdrawals_def deposits.unique_def)

lemma under_iff: "under p segs \<longleftrightarrow> (\<exists>x. segs = p @ [x] \<and> x \<noteq> [])"
  unfolding under_def by (metis append_butlast_last_id butlast_snoc last_snoc length_append_singleton
      length_0_conv nat.distinct(1))

lemma fed_route_path: "fed_route env r = Some h \<Longrightarrow> is_fed_path (segments r)"
  by (auto simp: fed_route_def is_fed_path_def Let_def under_iff split: if_splits)

lemma z_network_range: "z_network j k = Some n \<Longrightarrow> n \<in> {''mainnet'', ''testnet'', ''signet''}"
  by (auto simp: z_network_def split: option.splits if_splits)

lemma keeps_dispatch:
  assumes post: "\<And>n a. n \<in> {''mainnet'', ''testnet'', ''signet''} \<Longrightarrow>
      keeps I (insert_deposit (new_deposit (r_uuid r) n a (r_now r)))"
    and wd: "\<And>n a e m b. n \<in> {''mainnet'', ''testnet'', ''signet''} \<Longrightarrow>
      keeps I (insert_withdrawal (new_withdrawal (r_uuid r) n a e m b (r_now r)))"
    and fed: "\<And>h. is_fed_path (segments r) \<Longrightarrow> authorized env r \<Longrightarrow> fed_route env r = Some h \<Longrightarrow> keeps I h"
  shows "keeps I (dispatch env r)"
proof (cases "public_route env r")
  case (Some h)
  have "keeps I (post_deposit r)"
    using post z_network_range
    by (auto simp: post_deposit_def split: option.split intro!: comp_rules)
  moreover have "keeps I (post_withdraw env r)"
    using wd z_network_range by (auto simp: post_withdraw_def split: option.split intro!: comp_rules)
  ultimately have "keeps I h"
    using Some by (auto simp: public_route_def Let_def comp_rules split: if_splits)
  with Some show ?thesis by (simp add: dispatch_def)
next
  case None
  with fed fed_route_path [of env r] show ?thesis
    by (auto simp: dispatch_def None comp_rules split: option.split)
qed

lemma keeps_fed_unique:
  assumes "fed_route env r = Some h"
  shows "keeps unique_ids h"
  using assms
  by (auto simp: fed_route_def Let_def post_checkin_def patch_deposit_def patch_withdraw_def
      unique_ids_def [where s = "_\<lparr>t_meta := _\<rparr>"]
      intro!: comp_rules keeps_exec unique_update_deposits unique_update_withdrawals
      split: if_splits) (auto simp: unique_ids_def)

lemma handle_keeps: "keeps I (dispatch env r) \<Longrightarrow> I s \<Longrightarrow> I (snd (handle env r s))"
  by (auto simp: handle_def keeps_def split: prod.split sum.split dest!: spec [of _ s])

lemma unique_handle: "unique_ids s \<Longrightarrow> unique_ids (snd (handle env r s))"
  by (rule handle_keeps [OF keeps_dispatch])
    (auto intro: keeps_insert_deposit keeps_insert_withdrawal keeps_fed_unique)

lemma unique_handle_all: "unique_ids s \<Longrightarrow> unique_ids (handle_all env rs s)"
  by (induction rs arbitrary: s) (simp_all add: unique_handle)

text \<open>
  Ids are primary keys whatever is sent: after any sequence of requests on an empty database
  (also when \<open>randomUUID\<close> were to repeat an id) no two deposits and no two withdrawals have the
  same id.
\<close>

theorem ids_stay_unique: "unique_ids (handle_all env rs empty_db)"
  by (rule unique_handle_all) (simp add: unique_ids_def empty_db_def)

subsection \<open>What a client without the token can do\<close>

definition fresh_deposit :: "deposit_row \<Rightarrow> bool" where
  "fresh_deposit d \<longleftrightarrow>
     d_status d = ''pending'' \<and> d_ecash_address d = None \<and> d_derivation_index d = None \<and>
     d_amount_sats d = None \<and> d_mint_tx_hash d = None \<and>
     d_network d \<in> {''mainnet'', ''testnet'', ''signet''}"

definition fresh_withdrawal :: "withdrawal_row \<Rightarrow> bool" where
  "fresh_withdrawal w \<longleftrightarrow>
     w_status w = ''pending'' \<and> w_amount_sats w = None \<and> w_ecash_tx_hash w = None \<and>
     w_network w \<in> {''mainnet'', ''testnet'', ''signet''}"

definition only_added :: "db \<Rightarrow> db \<Rightarrow> bool" where
  "only_added s t \<longleftrightarrow>
     (\<exists>ds ws. t_deposits t = t_deposits s @ ds \<and> list_all fresh_deposit ds \<and>
              t_withdrawals t = t_withdrawals s @ ws \<and> list_all fresh_withdrawal ws) \<and>
     t_meta t = t_meta s"

lemma only_added_trans: "only_added s t \<Longrightarrow> only_added t u \<Longrightarrow> only_added s u"
  unfolding only_added_def by (metis append.assoc list_all_append)

lemma only_added_refl [simp]: "only_added s s"
  by (simp add: only_added_def)

lemma handle_unauthorized:
  assumes "\<not> authorized env r"
  shows "only_added s (snd (handle env r s))"
proof (rule handle_keeps [OF keeps_dispatch])
  show "keeps (only_added s) (insert_deposit (new_deposit (r_uuid r) n a (r_now r)))"
    if "n \<in> {''mainnet'', ''testnet'', ''signet''}" for n a
    using that
    by (intro keepsI) (auto simp: insert_deposit_def bindE_def stmt_def exec_def throw_def
        only_added_def fresh_deposit_def new_deposit_def)
  show "keeps (only_added s) (insert_withdrawal (new_withdrawal (r_uuid r) n a e m b (r_now r)))"
    if "n \<in> {''mainnet'', ''testnet'', ''signet''}" for n a e m b
    using that
    by (intro keepsI) (auto simp: insert_withdrawal_def bindE_def stmt_def exec_def throw_def
        only_added_def fresh_withdrawal_def new_withdrawal_def)
qed (use assms in simp_all)

lemma handle_all_unauthorized:
  "list_all (\<lambda>r. \<not> authorized env r) rs \<Longrightarrow> only_added s (handle_all env rs s)"
proof (induction rs arbitrary: s)
  case (Cons r rs)
  then show ?case
    using only_added_trans [OF handle_unauthorized [of env r s]] by simp
qed simp

text \<open>
  C19. Without the federation token nothing that is in the database can be changed or removed: after
  any sequence of requests none of which carries the token, every row and the check-in stamp are as
  they were, and all that was added are pending rows of a known network with no address, amount or
  transaction.
\<close>

theorem no_token_only_adds:
  assumes "list_all (\<lambda>r. \<not> authorized env r) rs"
  shows "only_added s (handle_all env rs s)"
  using assms by (rule handle_all_unauthorized)

definition toy_api :: api_env where
  "toy_api = \<lparr>FEDERATION_TOKEN = Some ''secret'', int_affinity = AmtStr, upstream = (\<lambda>u. Some 200)\<rparr>"

definition toy_request :: "verb \<Rightarrow> string \<Rightarrow> string option \<Rightarrow> json option \<Rightarrow> request" where
  "toy_request v p a b =
     \<lparr>r_verb = v, r_path = p, r_search = [], r_auth = a, r_body = b, r_now = 1000, r_uuid = ''id1''\<rparr>"

definition toy_post :: request where
  "toy_post = toy_request POST ''/v1/bridge/deposit'' None
     (Some (JsObj [(''snowsideAddress'', JsStr ''0xabc''), (''network'', JsStr ''signet'')]))"

lemma toy_post_segments: "segments toy_post = [''v1'', ''bridge'', ''deposit'']"
  by (simp add: segments_def toy_post_def toy_request_def)

lemma toy_post_fields:
  "r_verb toy_post = POST" "r_auth toy_post = None" "r_now toy_post = 1000" "r_uuid toy_post = ''id1''"
  "r_body toy_post = Some (JsObj [(''snowsideAddress'', JsStr ''0xabc''), (''network'', JsStr ''signet'')])"
  by (simp_all add: toy_post_def toy_request_def)

theorem no_token_only_adds_witness:
  "only_added empty_db (handle_all toy_api [toy_post] empty_db) \<and>
   handle_all toy_api [toy_post] empty_db =
     empty_db\<lparr>t_deposits := [new_deposit ''id1'' ''signet'' ''0xabc'' 1000]\<rparr>"
proof
  show "only_added empty_db (handle_all toy_api [toy_post] empty_db)"
    by (rule no_token_only_adds) (simp add: authorized_def toy_post_fields)
  show "handle_all toy_api [toy_post] empty_db =
     empty_db\<lparr>t_deposits := [new_deposit ''id1'' ''signet'' ''0xabc'' 1000]\<rparr>"
    using toy_post_segments
    by (simp add: handle_def dispatch_def public_route_def toy_post_fields
        post_deposit_def z_string_def z_network_def field_def insert_deposit_def
        bindE_def seqE_def stmt_def exec_def ret_def empty_db_def)
qed

lemma public_route_fed:
  assumes "is_fed_path (segments r)" "r_verb r \<noteq> OPTIONS"
  shows "public_route env r = None"
proof -
  have segs: "segments r = ''v1'' # ''fed'' # drop 2 (segments r)"
    using assms(1) unfolding is_fed_path_def by (metis append_Cons append_Nil append_take_drop_id)
  show "public_route env r = None"
    using assms(2) unfolding public_route_def Let_def by (subst (1 2 3 4 5 6 7 8 9 10) segs) (simp add: under_iff)
qed

text \<open>
  The federation's routes are closed: any request below \<open>/v1/fed\<close> (whatever its method and
  whether or not such a route exists) that does not carry exactly the configured bearer token gets
  401 and changes nothing; only a CORS preflight is answered without one.
\<close>

theorem fed_routes_need_token:
  assumes "is_fed_path (segments r)" "\<not> authorized env r" "r_verb r \<noteq> OPTIONS"
  shows "handle env r s = (unauthorized, s)"
proof -
  have "public_route env r = None" using assms(1,3) by (rule public_route_fed)
  with assms show ?thesis by (simp add: handle_def dispatch_def ret_def)
qed

theorem fed_routes_need_token_witness:
  "handle toy_api (toy_request PATCH ''/v1/fed/deposit/id1'' (Some ''Bearer wrong'')
     (Some (JsObj [(''status'', JsStr ''minted'')]))) empty_db = (unauthorized, empty_db)"
  by (rule fed_routes_need_token)
    (simp_all add: is_fed_path_def segments_def toy_request_def authorized_def toy_api_def)

subsection \<open>Updates\<close>

definition or_else :: "'a option \<Rightarrow> 'a option \<Rightarrow> 'a option" where
  "or_else x y = (case x of None \<Rightarrow> y | Some v \<Rightarrow> Some v)"

definition or_keep :: "'a option \<Rightarrow> 'a \<Rightarrow> 'a" where
  "or_keep x y = (case x of None \<Rightarrow> y | Some v \<Rightarrow> v)"

text \<open>The meaning of a deposit PATCH as a merge of records.\<close>

definition merge_deposit :: "deposit_patch \<Rightarrow> int \<Rightarrow> deposit_row \<Rightarrow> deposit_row" where
  "merge_deposit p t d = d\<lparr>
     d_ecash_address := or_else (dp_ecash_address p) (d_ecash_address d),
     d_derivation_index := or_else (dp_derivation_index p) (d_derivation_index d),
     d_amount_sats := or_else (dp_amount_sats p) (d_amount_sats d),
     d_amount_ecx := or_else (dp_amount_ecx p) (d_amount_ecx d),
     d_ecash_tx_hash := or_else (dp_ecash_tx_hash p) (d_ecash_tx_hash d),
     d_mint_tx_hash := or_else (dp_mint_tx_hash p) (d_mint_tx_hash d),
     d_status := or_keep (dp_status p) (d_status d),
     d_confirmed_at := (if dp_status p = Some ''confirmed'' then Some t else d_confirmed_at d),
     d_minted_at := (if dp_status p = Some ''minted'' then Some t else d_minted_at d)\<rparr>"

definition merge_withdrawal :: "withdraw_patch \<Rightarrow> int \<Rightarrow> withdrawal_row \<Rightarrow> withdrawal_row" where
  "merge_withdrawal p t w = w\<lparr>
     w_amount_sats := or_else (wp_amount_sats p) (w_amount_sats w),
     w_ecash_tx_hash := or_else (wp_ecash_tx_hash p) (w_ecash_tx_hash w),
     w_status := or_keep (wp_status p) (w_status w),
     w_completed_at := (if wp_status p = Some ''completed'' then Some t else w_completed_at w)\<rparr>"

lemma filter_col:
  "filter (\<lambda>(k, v). P k) (col k f x) = (if P k then col k f x else [])"
  by (simp add: col_def split: option.split)

lemma allowed_deposit_all: "filter (\<lambda>(k, v). k \<in> set allowed_deposit) (deposit_entries p) = deposit_entries p"
  unfolding deposit_entries_def allowed_deposit_def by (simp add: filter_col)

lemma fold_col: "fold g (col k f x) d = (case x of None \<Rightarrow> d | Some v \<Rightarrow> g (k, f v) d)"
  by (simp add: col_def split: option.split)

text \<open>One column at a time.\<close>

lemma fold_deposit_cols:
  "fold set_deposit (col ''ecash_address'' SText a) d = d\<lparr>d_ecash_address := or_else a (d_ecash_address d)\<rparr>"
  "fold set_deposit (col ''derivation_index'' SInt n) d = d\<lparr>d_derivation_index := or_else n (d_derivation_index d)\<rparr>"
  "fold set_deposit (col ''amount_sats'' SNum x) d = d\<lparr>d_amount_sats := or_else x (d_amount_sats d)\<rparr>"
  "fold set_deposit (col ''amount_ecx'' SNum x) d = d\<lparr>d_amount_ecx := or_else x (d_amount_ecx d)\<rparr>"
  "fold set_deposit (col ''ecash_tx_hash'' SText a) d = d\<lparr>d_ecash_tx_hash := or_else a (d_ecash_tx_hash d)\<rparr>"
  "fold set_deposit (col ''mint_tx_hash'' SText a) d = d\<lparr>d_mint_tx_hash := or_else a (d_mint_tx_hash d)\<rparr>"
  "fold set_deposit (col ''status'' SText a) d =
     d\<lparr>d_status := or_keep a (d_status d)\<rparr>"
  by (simp_all add: fold_col or_else_def or_keep_def split: option.split)

lemma fold_deposit_updates: "fold set_deposit (deposit_updates p t) d = merge_deposit p t d"
  unfolding deposit_updates_def allowed_deposit_all
  by (cases "dp_status p = Some ''confirmed''")
    (simp_all add: deposit_entries_def fold_deposit_cols merge_deposit_def)

lemma col_empty: "col k f x = [] \<longleftrightarrow> x = None"
  by (simp add: col_def split: option.split)

lemma deposit_updates_empty: "deposit_updates p t = [] \<longleftrightarrow> p = no_deposit_patch"
  unfolding deposit_updates_def allowed_deposit_all
  by (cases p) (auto simp: deposit_entries_def col_empty no_deposit_patch_def)

lemma fold_withdraw_updates: "fold set_withdrawal (withdraw_updates p t) w = merge_withdrawal p t w"
  by (simp add: withdraw_updates_def withdraw_entries_def allowed_withdraw_def filter_col fold_col
      merge_withdrawal_def or_else_def or_keep_def split: option.split)

lemma withdraw_updates_empty:
  "withdraw_updates p t = [] \<longleftrightarrow> wp_amount_sats p = None \<and> wp_ecash_tx_hash p = None \<and> wp_status p = None"
  by (auto simp: withdraw_updates_def withdraw_entries_def allowed_withdraw_def filter_col col_empty)

lemma patch_deposit_run:
  "patch_deposit i p t s =
     (if p = no_deposit_patch then (Inr no_valid_fields, s)
      else if \<not> db_up s then (Inl ''D1_ERROR'', s)
      else (Inr (Reply 200 POk),
            s\<lparr>t_deposits := map (\<lambda>d. if d_id d = i then merge_deposit p t d else d) (t_deposits s)\<rparr>))"
  by (simp add: patch_deposit_def Let_def deposit_updates_empty seqE_def bindE_def exec_def ret_def
      update_deposits_def fold_deposit_updates)

text \<open>
  A deposit PATCH is a merge: with no field it is refused and changes nothing; otherwise the
  rows with that id, and no others, take exactly the fields the body has and keep the rest, and a
  body with status \<open>confirmed\<close> or \<open>minted\<close> stamps the time of that event.
\<close>

theorem patch_deposit_merges:
  "patch_deposit i p t s =
     (if p = no_deposit_patch then (Inr no_valid_fields, s)
      else if \<not> db_up s then (Inl ''D1_ERROR'', s)
      else (Inr (Reply 200 POk),
            s\<lparr>t_deposits := map (\<lambda>d. if d_id d = i then merge_deposit p t d else d) (t_deposits s)\<rparr>))"
  by (rule patch_deposit_run)

text \<open>
  A withdrawal PATCH is a merge as well. Only status \<open>completed\<close> sets \<open>completed_at\<close>, and it
  sets it to the server's time: the time the federation sends along is ignored, so a withdrawal
  that is marked failed keeps \<open>completed_at\<close> as it was.
\<close>

theorem patch_withdraw_merges:
  "patch_withdraw i p t s =
     (if wp_amount_sats p = None \<and> wp_ecash_tx_hash p = None \<and> wp_status p = None
      then (Inr no_valid_fields, s)
      else if \<not> db_up s then (Inl ''D1_ERROR'', s)
      else (Inr (Reply 200 POk),
            s\<lparr>t_withdrawals :=
               map (\<lambda>w. if w_id w = i then merge_withdrawal p t w else w) (t_withdrawals s)\<rparr>)) \<and>
   patch_withdraw i (p\<lparr>wp_completed_at := x\<rparr>) t s = patch_withdraw i p t s \<and>
   w_completed_at (merge_withdrawal (p\<lparr>wp_status := Some ''failed''\<rparr>) t w) = w_completed_at w"
proof (intro conjI)
  have "withdraw_updates (p\<lparr>wp_completed_at := x\<rparr>) t = withdraw_updates p t"
    by (simp add: withdraw_updates_def withdraw_entries_def)
  then show "patch_withdraw i (p\<lparr>wp_completed_at := x\<rparr>) t s = patch_withdraw i p t s"
    by (simp add: patch_withdraw_def)
qed (simp_all add: patch_withdraw_def Let_def withdraw_updates_empty seqE_def bindE_def exec_def
    ret_def update_withdrawals_def fold_withdraw_updates merge_withdrawal_def)

subsection \<open>What the federation is told\<close>

lemma merge_deposit_id [simp]: "d_id (merge_deposit p t d) = d_id d"
  by (simp add: merge_deposit_def)

lemma minted_unlisted:
  assumes "dp_status p = Some ''minted''"
  shows "i \<notin> d_id ` set (pending_deposits (update_deposits i (deposit_updates p t) s))"
proof
  assume "i \<in> d_id ` set (pending_deposits (update_deposits i (deposit_updates p t) s))"
  then obtain d where d: "d \<in> set (t_deposits (update_deposits i (deposit_updates p t) s))"
    "d_id d = i" "d_status d \<in> {''pending'', ''confirmed''}"
    by (auto simp: pending_deposits_def)
  have "d_status d = ''minted''"
    using deposits.update_all [of "\<lambda>d. d_status d = ''minted''" "fold set_deposit (deposit_updates p t)"
        d i s] d assms
    by (simp add: update_deposits_def fold_deposit_updates merge_deposit_def or_keep_def)
  with d(3) show False by simp
qed

text \<open>
  Once the federation's final PATCH of a deposit (status \<open>minted\<close>) has been accepted, the
  deposit is in no work list that is asked for before another PATCH of it: the next poll cannot
  mint it again.
\<close>

theorem minted_deposit_unlisted:
  assumes "dp_status p = Some ''minted''" "patch_deposit i p t s = (Inr (Reply 200 POk), s')"
  shows "i \<notin> d_id ` set (pending_deposits s')"
proof -
  have "s' = update_deposits i (deposit_updates p t) s"
    using assms by (auto simp: patch_deposit_def Let_def seqE_def bindE_def exec_def ret_def
        no_valid_fields_def split: if_splits)
  with minted_unlisted [OF assms(1)] show ?thesis by simp
qed

theorem minted_deposit_unlisted_witness:
  "\<exists>s'. patch_deposit ''id1'' (no_deposit_patch\<lparr>dp_status := Some ''minted''\<rparr>) 5
      (empty_db\<lparr>t_deposits := [new_deposit ''id1'' ''signet'' ''0xabc'' 1]\<rparr>) = (Inr (Reply 200 POk), s') \<and>
    ''id1'' \<notin> d_id ` set (pending_deposits s')"
proof -
  let ?p = "no_deposit_patch\<lparr>dp_status := Some ''minted''\<rparr>"
  obtain s' where s': "patch_deposit ''id1'' ?p 5
      (empty_db\<lparr>t_deposits := [new_deposit ''id1'' ''signet'' ''0xabc'' 1]\<rparr>) = (Inr (Reply 200 POk), s')"
    by (simp add: patch_deposit_run no_deposit_patch_def empty_db_def)
  with minted_deposit_unlisted [OF _ s'] show ?thesis by simp
qed

text \<open>
  The PATCH handler knows no order of states: a minted deposit can be set back to \<open>pending\<close> by a
  later PATCH (with the token), and then it is in the work list again and is minted again.
\<close>

theorem minted_can_go_back:
  assumes "db_up s" "d \<in> set (t_deposits s)" "d_status d = ''minted''"
  shows "d_id d \<in> d_id ` set (pending_deposits (snd (patch_deposit (d_id d)
           (no_deposit_patch\<lparr>dp_status := Some ''pending''\<rparr>) t s)))"
proof -
  let ?p = "no_deposit_patch\<lparr>dp_status := Some ''pending''\<rparr>"
  have ne: "?p \<noteq> no_deposit_patch" by (simp add: no_deposit_patch_def)
  have "merge_deposit ?p t d \<in> set (pending_deposits (snd (patch_deposit (d_id d) ?p t s)))"
    using assms ne deposits.row_updated [OF assms(2), of "merge_deposit ?p t"]
    by (simp add: patch_deposit_run pending_deposits_def merge_deposit_def no_deposit_patch_def
        or_keep_def)
  then show ?thesis by (metis image_eqI merge_deposit_id)
qed

theorem minted_can_go_back_witness:
  "''id1'' \<in> d_id ` set (pending_deposits (snd (patch_deposit ''id1''
     (no_deposit_patch\<lparr>dp_status := Some ''pending''\<rparr>) 9
     (empty_db\<lparr>t_deposits := [(new_deposit ''id1'' ''signet'' ''0xabc'' 1)\<lparr>d_status := ''minted''\<rparr>]\<rparr>))))"
  using minted_can_go_back [of "empty_db\<lparr>t_deposits := [(new_deposit ''id1'' ''signet'' ''0xabc'' 1)
      \<lparr>d_status := ''minted''\<rparr>]\<rparr>" "(new_deposit ''id1'' ''signet'' ''0xabc'' 1)\<lparr>d_status := ''minted''\<rparr>" 9]
  by (simp add: empty_db_def new_deposit_def)

text \<open>
  The heartbeat: after a check-in at time \<open>t0\<close>, the bridge status at time \<open>t\<close> reports that time
  and says online exactly when less than a minute has passed; with the database down it reports
  offline instead of failing.
\<close>

theorem heartbeat:
  assumes "0 \<le> t0" "t0 \<le> 2 ^ 52" "0 \<le> t" "t \<le> 2 ^ 52" "db_up s"
  shows "fst (get_bridge_status t (snd (post_checkin t0 s))) =
           Inr (Reply 200 (PBridge (t - t0 < 60000) (Some (JInt t0)))) \<and>
         fst (get_bridge_status t (s\<lparr>db_up := False\<rparr>)) = Inr (Reply 200 (PBridge False None))"
proof -
  have "num_of_string (show_int t0) = JInt t0"
    using assms by (intro num_of_show) (simp_all add: safe_int_def)
  moreover have "js_sub (JInt t) (JInt t0) = JInt (t - t0)"
    using assms by (intro js_sub_int) (simp add: safe_int_def)
  moreover have "js_less (JInt (t - t0)) (JInt 60000) \<longleftrightarrow> t - t0 < 60000"
    by (simp only: js_less_int)
  ultimately show ?thesis
    using assms(5)
    by (simp add: get_bridge_status_def post_checkin_def catchE_def bindE_def seqE_def stmt_def
        exec_def ret_def Let_def del: of_int_diff)
qed

theorem heartbeat_witness:
  "fst (get_bridge_status 100000 (snd (post_checkin 50000 empty_db))) =
     Inr (Reply 200 (PBridge True (Some (JInt 50000))))"
  using heartbeat [of 50000 100000 empty_db] by (simp add: empty_db_def)

lemma find_last: "\<forall>x \<in> set xs. \<not> P x \<Longrightarrow> P y \<Longrightarrow> find P (xs @ [y]) = Some y"
  by (induction xs) auto

text \<open>
  A created deposit can be found: when the id is new and the database is up, the POST answers
  with the id, and afterwards the id's page shows the pending row, the address's list contains it,
  and the federation's work list contains it.
\<close>

theorem created_deposit_found:
  assumes "db_up s" "r_uuid r \<notin> d_id ` set (t_deposits s)"
    and body: "r_body r = Some body" "z_string body ''snowsideAddress'' = Some a" "a \<noteq> []"
      "z_network body ''network'' = Some n"
    and s': "post_deposit r s = (resp, s')"
  shows "resp = Inr (Reply 200 (PCreated (r_uuid r))) \<and>
    get_deposit (r_uuid r) s' = (Inr (Reply 200 (PDeposit (new_deposit (r_uuid r) n a (r_now r)))), s') \<and>
    (\<exists>rows. get_deposits a s' = (Inr (Reply 200 (PDeposits rows)), s') \<and>
       new_deposit (r_uuid r) n a (r_now r) \<in> set rows) \<and>
    new_deposit (r_uuid r) n a (r_now r) \<in> set (pending_deposits s')"
proof -
  let ?d = "new_deposit (r_uuid r) n a (r_now r)"
  have n: "n \<noteq> []" using z_network_range [OF body(4)] by auto
  have run: "resp = Inr (Reply 200 (PCreated (r_uuid r)))" "s' = s\<lparr>t_deposits := t_deposits s @ [?d]\<rparr>"
    using s' assms(1,2) body n
    by (auto simp: post_deposit_def insert_deposit_def bindE_def seqE_def stmt_def exec_def ret_def
        new_deposit_def)
  have "find (\<lambda>d. d_id d = r_uuid r) (t_deposits s @ [?d]) = Some ?d"
  proof (rule find_last)
    show "\<forall>d \<in> set (t_deposits s). d_id d \<noteq> r_uuid r" using assms(2) by (metis imageI)
  qed (simp add: new_deposit_def)
  then show ?thesis
    using assms(1)
    by (auto simp: run get_deposit_def get_deposits_def bindE_def stmt_def ret_def
        pending_deposits_def) (simp_all add: new_deposit_def)
qed


theorem created_deposit_found_witness:
  "get_deposit ''id1'' (empty_db\<lparr>t_deposits := [new_deposit ''id1'' ''signet'' ''0xabc'' 1000]\<rparr>) =
     (Inr (Reply 200 (PDeposit (new_deposit ''id1'' ''signet'' ''0xabc'' 1000))),
      empty_db\<lparr>t_deposits := [new_deposit ''id1'' ''signet'' ''0xabc'' 1000]\<rparr>)"
proof -
  have run: "post_deposit toy_post empty_db = (Inr (Reply 200 (PCreated ''id1'')),
      empty_db\<lparr>t_deposits := [new_deposit ''id1'' ''signet'' ''0xabc'' 1000]\<rparr>)"
    by (simp add: toy_post_fields post_deposit_def z_string_def z_network_def field_def
        insert_deposit_def bindE_def seqE_def stmt_def exec_def ret_def empty_db_def)
  show ?thesis
    using created_deposit_found [OF _ _ _ _ _ _ run]
    by (simp add: toy_post_fields z_string_def z_network_def field_def empty_db_def)
qed

subsection \<open>The Esplora proxy\<close>

lemma replace_v1: "replace_first ''/v1'' [] (''/v1'' @ p) = p"
  by (simp add: starts_with_Cons)

lemma esplora_match_network:
  assumes "network \<noteq> []" "list_all word_char network" "tail = [] \<or> hd tail = CHR ''/''"
  shows "esplora_match (''/esplora/'' @ network @ tail) =
           Some (network, if tail = [] then None else Some tail)"
proof -
  have "\<not> word_char (CHR ''/'')" by (simp add: word_char_def)
  with assms have tk: "takeWhile word_char (network @ tail) = network"
    "dropWhile word_char (network @ tail) = tail"
    by (cases tail; auto simp: list_all_iff takeWhile_append2 dropWhile_append2)+
  have "starts_with (''/esplora/'' @ network @ tail) ''/esplora/''"
    "drop 9 (''/esplora/'' @ network @ tail) = network @ tail"
    by (simp_all add: starts_with_Cons)
  then show ?thesis
    using assms(1,3) unfolding esplora_match_def by (simp only: tk Let_def if_True if_False split: if_split) auto
qed

text \<open>
  The Esplora proxy routes by network: \<open>/v1/esplora/<network>/rest\<close> goes to that network's
  Esplora at \<open>/rest\<close> with the query kept; an unknown network, or any other path below \<open>/v1\<close>, goes to
  testnet's; and a network name that every JavaScript object inherits (such as \<open>constructor\<close>)
  has no target: the request fails with status 500 instead of falling back.
\<close>

theorem esplora_routing:
  assumes "network \<noteq> []" "list_all word_char network" "tail = [] \<or> hd tail = CHR ''/''"
  shows "esplora_target (''/v1/esplora/'' @ network @ tail) search =
    (if network \<in> set inherited_keys then None
     else Some ((case ESPLORA_URLS_api network of None \<Rightarrow> the (ESPLORA_URLS_api ''testnet'') | Some u \<Rightarrow> u) @
                (if tail = [] then ''/'' else tail) @ search))"
  using esplora_match_network [OF assms] replace_v1 [of "''/esplora/'' @ network @ tail"]
  by (simp add: esplora_target_def Let_def split: option.split)

theorem esplora_routing_witness:
  "esplora_target ''/v1/esplora/signet/tx/ab'' ''?x'' =
     Some ''https://esplora.signet.drivechain.info/tx/ab?x'' \<and>
   esplora_target ''/v1/esplora/constructor'' [] = None"
  using esplora_routing [of "''signet''" "''/tx/ab''" "''?x''"]
    esplora_routing [of "''constructor''" "[]" "[]"]
  by (simp add: word_char_def Let_def ESPLORA_URLS_api_def inherited_keys_def)

end
