(* ===== verification/Bridge_System.thy ===== *)
theory Bridge_System
  imports Federation Bridge_Api
begin

text \<open>
  The federation service against the bridge API. The locale \<open>deposit_ledger\<close> is the interface between
  the two: what the service may rely on when its PATCH requests are accepted. Inside it the peg is
  proved for the service: successful mints and deposits marked minted go together. The
  interpretation gives the API's own handlers, run over the history, as the ledger.
\<close>

subsection \<open>Successful mints\<close>

definition mint_ok :: "event \<Rightarrow> bool" where
  "mint_ok e \<longleftrightarrow> (case e of EReceipt n h (Inr st) \<Rightarrow> h \<noteq> [] \<and> st = ''success'' | _ \<Rightarrow> False)"

abbreviation mints :: "event list \<Rightarrow> nat" where
  "mints es \<equiv> length (filter mint_ok es)"

lemma quiet_trace:
  "getWalletClient acc env network s = (r, t) \<Longrightarrow> trace t = trace s"
  "getAccount acc env s = (r', t) \<Longrightarrow> trace t = trace s"
  "getPublicClient env network s = (r, t) \<Longrightarrow> trace t = trace s"
  by (rule only_none, rule only_getWalletClient only_getAccount only_getPublicClient, assumption)+

text \<open>\<open>mintEcx\<close> reports a hash exactly when it saw one successful receipt.\<close>

lemma mintEcx_mints:
  "\<exists>r es t. mintEcx out acc env network a sat s = (Inr r, t) \<and> trace t = trace s @ es \<and>
     mints es = (if truthy_str r then 1 else 0) \<and>
     (\<forall>i p q. EPatchDeposit i p q \<notin> set es) \<and>
     (r \<noteq> None \<longrightarrow> (\<exists>n. bigint_of_num sat = Inr n))"
proof (cases "\<not> truthy_str (RPC_URLS env network) \<or> MINTER_PRIVATE_KEY env = []")
  case True
  then show ?thesis by (auto simp: mintEcx_def ret_def)
next
  case False
  then show ?thesis
    by (auto simp: mintEcx_def Let_def catchE_def bindE_def call_apply liftE_def ret_def mint_ok_def
        dest!: quiet_trace split: sum.splits prod.splits)
qed

subsection \<open>The ledger a service can rely on\<close>

text \<open>
  \<open>st\<close> is the ledger's state after a history. It lists deposits without repetition, never one it
  holds minted; it accepts every PATCH; a PATCH to \<open>minted\<close> of a known deposit makes that one
  minted, one without a status changes nothing of that kind, and one to \<open>confirmed\<close> of a deposit not
  minted neither; nothing else touches it.
\<close>

locale deposit_ledger =
  fixes out :: outside
    and st :: "event list \<Rightarrow> 'db"
    and ids :: "'db \<Rightarrow> string set"
    and minted :: "'db \<Rightarrow> string set"
    and listed :: "'db \<Rightarrow> Deposit list"
  assumes lists: "o_deposits out h = Response 200 (Some (listed (st h)))"
    and accepts: "i \<in> ids (st h) \<Longrightarrow> p \<noteq> no_deposit_patch \<Longrightarrow> o_patch_deposit out h i p = Response 200 (Some ())"
    and listed_distinct: "distinct (map d_id (listed (st h)))"
    and listed_open: "d \<in> set (listed (st h)) \<Longrightarrow> d_id d \<in> ids (st h) - minted (st h)"
    and minted_known: "minted (st h) \<subseteq> ids (st h)"
    and ids_finite: "finite (ids (st h))"
    and ids_kept: "ids (st (h @ [e])) = ids (st h)"
    and minted_set: "i \<in> ids (st h) \<Longrightarrow> dp_status p = Some ''minted'' \<Longrightarrow>
      minted (st (h @ [EPatchDeposit i p (Response 200 (Some ()))])) = insert i (minted (st h))"
    and minted_kept: "i \<notin> minted (st h) \<Longrightarrow> dp_status p = Some ''confirmed'' \<Longrightarrow>
      minted (st (h @ [EPatchDeposit i p r])) = minted (st h)"
    and minted_plain: "dp_status p = None \<Longrightarrow> minted (st (h @ [EPatchDeposit i p r])) = minted (st h)"
    and minted_other: "(\<And>i p r. e \<noteq> EPatchDeposit i p r) \<Longrightarrow> minted (st (h @ [e])) = minted (st h)"
begin

text \<open>\<open>pegged s t\<close>: from \<open>s\<close> to \<open>t\<close> as many mints succeeded as deposits became minted.\<close>

definition pegged :: "fed \<Rightarrow> fed \<Rightarrow> bool" where
  "pegged s t \<longleftrightarrow> (\<exists>es. trace t = trace s @ es \<and> minted (st (trace s)) \<subseteq> minted (st (trace t)) \<and>
     card (minted (st (trace t))) = card (minted (st (trace s))) + mints es)"

lemma pegged_trans: "pegged s t \<Longrightarrow> pegged t u \<Longrightarrow> pegged s u"
  by (fastforce simp: pegged_def)

lemma ids_append: "ids (st (h @ es)) = ids (st h)"
proof (induction es rule: rev_induct)
  case (snoc e es)
  have "ids (st ((h @ es) @ [e])) = ids (st h)" by (simp only: ids_kept snoc)
  then show ?case by simp
qed simp

text \<open>Events that leave the minted deposits alone, when deposit \<open>i\<close> is not minted.\<close>

definition harmless :: "string \<Rightarrow> event \<Rightarrow> bool" where
  "harmless i e \<longleftrightarrow> \<not> mint_ok e \<and>
     (\<forall>j p r. e = EPatchDeposit j p r \<longrightarrow> dp_status p = None \<or> j = i \<and> dp_status p = Some ''confirmed'')"

lemma harmless_minted:
  "\<forall>e \<in> set es. harmless i e \<Longrightarrow> i \<notin> minted (st h) \<Longrightarrow>
   minted (st (h @ es)) = minted (st h) \<and> mints es = 0"
proof (induction es rule: rev_induct)
  case (snoc e es)
  then have IH: "minted (st (h @ es)) = minted (st h)" "mints es = 0" and e: "harmless i e" by auto
  have "minted (st ((h @ es) @ [e])) = minted (st (h @ es))"
  proof (cases "\<exists>j p r. e = EPatchDeposit j p r")
    case True
    then obtain j p r where ev: "e = EPatchDeposit j p r" by blast
    have "dp_status p = None \<or> j = i \<and> dp_status p = Some ''confirmed''"
      using e unfolding ev harmless_def by simp
    then consider "dp_status p = None" | "j = i" "dp_status p = Some ''confirmed''" by auto
    then show ?thesis
    proof cases
      case 1
      then show ?thesis unfolding ev by (rule minted_plain)
    next
      case 2
      have "i \<notin> minted (st (h @ es))" using IH(1) snoc.prems(2) by simp
      then show ?thesis using 2 unfolding ev by (intro minted_kept) simp_all
    qed
  next
    case False
    then show ?thesis by (intro minted_other) blast
  qed
  then have "minted (st (h @ es @ [e])) = minted (st h)" using IH(1) by simp
  with IH(2) e show ?case by (simp add: harmless_def)
qed simp

lemma only_pegged:
  assumes "only L m" "\<And>e. e \<in> L \<Longrightarrow> harmless i e" "i \<notin> minted (st (trace s))"
  shows "pegged s (snd (m s)) \<and> minted (st (trace (snd (m s)))) = minted (st (trace s))"
proof -
  obtain es where es: "trace (snd (m s)) = trace s @ es" "set es \<subseteq> L"
    using assms(1) unfolding only_def by blast
  then have "minted (st (trace s @ es)) = minted (st (trace s)) \<and> mints es = 0"
    using assms(2,3) by (intro harmless_minted [where i = i]) auto
  with es show ?thesis by (auto simp: pegged_def)
qed

end

context deposit_ledger
begin

text \<open>\<open>calm i s t\<close>: from \<open>s\<close> to \<open>t\<close> the peg holds and no deposit but \<open>i\<close> became minted.\<close>

definition calm :: "string \<Rightarrow> fed \<Rightarrow> fed \<Rightarrow> bool" where
  "calm i s t \<longleftrightarrow> pegged s t \<and> minted (st (trace t)) \<subseteq> insert i (minted (st (trace s)))"

lemma calm_refl: "calm i s s"
  by (auto simp: calm_def pegged_def)

lemma calm_trans: "calm i s t \<Longrightarrow> calm i t u \<Longrightarrow> calm i s u"
  unfolding calm_def using pegged_trans by blast

lemma no_patch_minted:
  "(\<forall>i p q. EPatchDeposit i p q \<notin> set es) \<Longrightarrow> minted (st (h @ es)) = minted (st h)"
proof (induction es rule: rev_induct)
  case (snoc e es)
  have "minted (st ((h @ es) @ [e])) = minted (st (h @ es))"
    using snoc.prems by (intro minted_other) auto
  with snoc show ?case by simp
qed simp

lemma finite_minted: "finite (minted (st h))"
  using minted_known ids_finite finite_subset by blast

lemma patch_accepted:
  "i \<in> ids (st (trace s)) \<Longrightarrow> p \<noteq> no_deposit_patch \<Longrightarrow> apiPatch_deposit out i p s =
     (Inr (), s\<lparr>trace := trace s @ [EPatchDeposit i p (Response 200 (Some ()))]\<rparr>)"
  by (simp add: apiPatch_deposit_def bindE_def call_apply accepts api_result_def ret_def)

lemma mint_and_patch_calm:
  assumes i: "d_id d \<in> ids (st (trace s))" "d_id d \<notin> minted (st (trace s))"
  shows "calm (d_id d) s (snd (bindE (mintEcx out acc env (d_network d) (d_snowside_address d) amount)
        (\<lambda>mintTxHash.
           if truthy_str mintTxHash
           then bindE (liftE (bigint_of_num amount)) (\<lambda>sats.
                apiPatch_deposit out (d_id d)
                     (no_deposit_patch\<lparr>dp_status := Some ''minted'',
                        dp_amount_ecx := Some (num_of_bigint (sats * satsToEcxMultiplier (d_network d))),
                        dp_mint_tx_hash := mintTxHash\<rparr>))
           else ret ()) s))"
proof -
  obtain r es t where m:
    "mintEcx out acc env (d_network d) (d_snowside_address d) amount s = (Inr r, t)"
    "trace t = trace s @ es" "mints es = (if truthy_str r then 1 else 0)"
    "\<forall>i p q. EPatchDeposit i p q \<notin> set es"
    "r \<noteq> None \<longrightarrow> (\<exists>n. bigint_of_num amount = Inr n)"
    using mintEcx_mints by blast
  have same: "minted (st (trace t)) = minted (st (trace s))"
    using no_patch_minted [OF m(4)] m(2) by simp
  show ?thesis
  proof (cases "truthy_str r")
    case False
    with m same show ?thesis
      by (auto simp: bindE_def ret_def calm_def pegged_def)
  next
    case True
    then obtain x where Some: "r = Some x" and x: "x \<noteq> []" by (cases r) auto
    with m(5) obtain n where n: "bigint_of_num amount = Inr n" by blast
    let ?p = "no_deposit_patch\<lparr>dp_status := Some ''minted'',
        dp_amount_ecx := Some (num_of_bigint (n * satsToEcxMultiplier (d_network d))),
        dp_mint_tx_hash := Some x\<rparr>"
    let ?ev = "EPatchDeposit (d_id d) ?p (Response 200 (Some ()))"
    have p: "?p \<noteq> no_deposit_patch" "dp_status ?p = Some ''minted''" by (simp_all add: no_deposit_patch_def)
    have known: "d_id d \<in> ids (st (trace t))" using i(1) m(2) ids_append by simp
    from minted_set [OF this p(2)]
    have ins: "minted (st (trace t @ [?ev])) = insert (d_id d) (minted (st (trace s)))"
      using same by simp
    have fin: "card (insert (d_id d) (minted (st (trace s)))) = Suc (card (minted (st (trace s))))"
      using i(2) finite_minted by simp
    have "calm (d_id d) s (t\<lparr>trace := trace t @ [?ev]\<rparr>)"
      using ins fin m(2,3) Some x unfolding calm_def pegged_def
      by (auto intro!: exI [of _ "es @ [?ev]"] simp: mint_ok_def)
    then show ?thesis
      using m(1) Some x n p known by (simp add: bindE_def liftE_def patch_accepted)
  qed
qed

lemma only_calm:
  assumes "only L m" "\<And>e. e \<in> L \<Longrightarrow> harmless i e" "i \<notin> minted (st (trace s))"
  shows "calm i s (snd (m s)) \<and> minted (st (trace (snd (m s)))) = minted (st (trace s))"
  using only_pegged [OF assms] by (auto simp: calm_def)

lemma snd_bindE: "snd (bindE m f s) = (case m s of (Inl e, t) \<Rightarrow> t | (Inr a, t) \<Rightarrow> snd (f a t))"
  by (simp add: bindE_def split: prod.split sum.split)

lemma calm_bind:
  assumes "only L m" "\<And>e. e \<in> L \<Longrightarrow> harmless i e"
    and "i \<in> ids (st (trace s))" "i \<notin> minted (st (trace s))"
    and "\<And>a t. i \<in> ids (st (trace t)) \<Longrightarrow> i \<notin> minted (st (trace t)) \<Longrightarrow> calm i t (snd (f a t))"
  shows "calm i s (snd (bindE m f s))"
proof -
  obtain r t where m: "m s = (r, t)" by (cases "m s")
  have c: "calm i s t" "minted (st (trace t)) = minted (st (trace s))"
    using only_calm [OF assms(1,2,4)] m by simp_all
  moreover have "ids (st (trace t)) = ids (st (trace s))"
    using assms(1) m ids_append unfolding only_def by (metis snd_conv)
  ultimately show ?thesis
    using assms(3,4) assms(5) [where t = t] calm_trans by (cases r) (simp_all add: snd_bindE m)
qed

lemma snd_catch_ret: "snd (catchE m (\<lambda>e. ret ()) s) = snd (m s)"
  by (simp add: catchE_def ret_def split: prod.split sum.split)

lemma calm_processDeposit:
  assumes "d_id d \<in> ids (st (trace s))" "d_id d \<notin> minted (st (trace s))"
  shows "calm (d_id d) s (snd (processDeposit out acc env d s))"
proof (cases "\<not> truthy_str (d_ecash_address d) \<or> d_status d = ''minted''")
  case True
  then show ?thesis by (auto simp: processDeposit_def ret_def calm_refl)
next
  case False
  show ?thesis
    unfolding processDeposit_def if_not_P [OF False]
  proof (rule calm_bind [OF only_checkAddress _ assms])
    show "harmless (d_id d) e" if "e \<in> {e. (\<exists>u r. e = ETip u r) \<or> (\<exists>u r. e = EUtxos u r)}" for e
      using that by (auto simp: harmless_def mint_ok_def)
  next
    fix a :: "(jnum \<times> string) option" and t :: fed
    assume t: "d_id d \<in> ids (st (trace t))" "d_id d \<notin> minted (st (trace t))"
    show "calm (d_id d) t (snd ((case a of None \<Rightarrow> ret ()
        | Some (amount, txHash) \<Rightarrow>
            seqE (if d_status d = ''pending''
                  then apiPatch_deposit out (d_id d)
                         (no_deposit_patch\<lparr>dp_status := Some ''confirmed'',
                                           dp_amount_sats := Some amount,
                                           dp_ecash_tx_hash := Some txHash\<rparr>)
                  else ret ())
              (bindE (mintEcx out acc env (d_network d) (d_snowside_address d) amount)
                (\<lambda>mintTxHash.
                   if truthy_str mintTxHash
                   then bindE (liftE (bigint_of_num amount)) (\<lambda>sats.
                        let ecxAmount =
                              num_of_bigint (sats * satsToEcxMultiplier (d_network d))
                        in apiPatch_deposit out (d_id d)
                             (no_deposit_patch\<lparr>dp_status := Some ''minted'',
                                               dp_amount_ecx := Some ecxAmount,
                                               dp_mint_tx_hash := mintTxHash\<rparr>))
                   else ret ()))) t))"
    proof (cases a)
      case (Some x)
      let ?L = "{e. \<exists>p r. e = EPatchDeposit (d_id d) p r \<and> dp_status p = Some ''confirmed''}"
      have only: "only ?L (if d_status d = ''pending''
                  then apiPatch_deposit out (d_id d)
                         (no_deposit_patch\<lparr>dp_status := Some ''confirmed'',
                                           dp_amount_sats := Some (fst x),
                                           dp_ecash_tx_hash := Some (snd x)\<rparr>)
                  else ret ())"
        by (intro only_if only_ret only_mono [OF only_apiPatch_deposit]) (auto simp: no_deposit_patch_def)
      have "harmless (d_id d) e" if "e \<in> ?L" for e
        using that by (auto simp: harmless_def mint_ok_def)
      note bind = calm_bind [OF only this t]
      show ?thesis
        unfolding Some option.case case_prod_beta seqE_def Let_def
        by (rule bind) (assumption, rule mint_and_patch_calm)
    qed (simp add: ret_def calm_refl)
  qed
qed

lemma calm_handle_deposit:
  assumes "d_id d \<in> ids (st (trace s))" "d_id d \<notin> minted (st (trace s))"
  shows "calm (d_id d) s (snd (handle_deposit out acc c env d s))"
proof -
  have "harmless (d_id d) e" if "e \<in> {e. (\<exists>t. e = ENow t) \<or>
      (\<exists>i p r. e = EPatchDeposit i p r \<and> dp_status p = None)}" for e
    using that by (auto simp: harmless_def mint_ok_def)
  from only_calm [OF only_assign this assms(2)]
  have "calm (d_id d) s (snd (assignDepositAddress out c env d s))" by blast
  with calm_processDeposit [OF assms] show ?thesis
    by (simp add: handle_deposit_def snd_catch_ret)
qed

lemma calm_ids: "calm i s t \<Longrightarrow> ids (st (trace t)) = ids (st (trace s))"
  by (auto simp: calm_def pegged_def ids_append)

lemma open_after: "x \<notin> A \<Longrightarrow> A \<subseteq> I - M \<Longrightarrow> M' \<subseteq> insert x M \<Longrightarrow> A \<subseteq> I - M'"
  by blast

text \<open>The loop over a list of different open deposits keeps the peg.\<close>

lemma pegged_loop:
  assumes "distinct (map d_id ds)" "d_id ` set ds \<subseteq> ids (st (trace s)) - minted (st (trace s))"
  shows "pegged s (snd (forE ds (handle_deposit out acc c env) s))"
  using assms
proof (induction ds arbitrary: s)
  case (Cons d ds)
  obtain t where t: "handle_deposit out acc c env d s = (Inr (), t)"
    using returns_unit [OF returns_handlers(1)] by (metis prod.collapse)
  have calm: "calm (d_id d) s t"
  proof -
    have "d_id d \<in> ids (st (trace s))" "d_id d \<notin> minted (st (trace s))"
      using Cons.prems(2) by auto
    from calm_handle_deposit [OF this]
    have "calm (d_id d) s (snd (handle_deposit out acc c env d s))" .
    then show ?thesis by (simp add: t)
  qed
  have "d_id ` set ds \<subseteq> ids (st (trace t)) - minted (st (trace t))"
  proof -
    have "d_id d \<notin> d_id ` set ds" "d_id ` set ds \<subseteq> ids (st (trace s)) - minted (st (trace s))"
      using Cons.prems by auto
    moreover have "minted (st (trace t)) \<subseteq> insert (d_id d) (minted (st (trace s)))"
      using calm by (simp add: calm_def)
    ultimately show ?thesis unfolding calm_ids [OF calm] by (metis open_after)
  qed
  then have "pegged t (snd (forE ds (handle_deposit out acc c env) t))"
    using Cons.IH Cons.prems(1) by simp
  moreover have "pegged s t" using calm by (simp add: calm_def)
  ultimately have "pegged s (snd (forE ds (handle_deposit out acc c env) t))"
    by (metis pegged_trans)
  then show ?case by (simp add: seqE_Inr [where m = "handle_deposit out acc c env d", OF t])
qed (auto simp: ret_def pegged_def)


lemma only_quiet_pegged:
  assumes "only L m" "\<And>e. e \<in> L \<Longrightarrow> \<not> mint_ok e" "\<And>i p r. EPatchDeposit i p r \<notin> L"
  shows "pegged s (snd (m s))"
proof -
  obtain es where es: "trace (snd (m s)) = trace s @ es" "set es \<subseteq> L"
    using assms(1) unfolding only_def by blast
  moreover have "mints es = 0" using es(2) assms(2) by (auto simp: filter_empty_conv)
  moreover have "minted (st (trace s @ es)) = minted (st (trace s))"
    using es(2) assms(3) by (intro no_patch_minted) blast
  ultimately show ?thesis by (auto simp: pegged_def)
qed

lemma pegged_pending_deposits: "pegged s (snd (processPendingDeposits out acc c env s))"
proof -
  let ?t = "s\<lparr>trace := trace s @ [EGetDeposits (Response 200 (Some (listed (st (trace s)))))]\<rparr>"
  have "minted (st (trace s @ [EGetDeposits r])) = minted (st (trace s))" for r
    by (rule minted_other) simp
  moreover have "ids (st (trace s @ [EGetDeposits r])) = ids (st (trace s))" for r
    by (rule ids_kept)
  ultimately have "d_id ` set (listed (st (trace s))) \<subseteq> ids (st (trace ?t)) - minted (st (trace ?t))"
    using listed_open by auto
  then have "pegged ?t (snd (forE (listed (st (trace s))) (handle_deposit out acc c env) ?t))"
    by (intro pegged_loop listed_distinct) simp_all
  moreover have "pegged s (snd (call (o_deposits out) EGetDeposits s))"
    by (rule only_quiet_pegged [where L = "range EGetDeposits"])
      (auto intro!: only_call simp: mint_ok_def)
  then have "pegged s ?t" by (simp add: call_apply lists)
  ultimately have "pegged s (snd (forE (listed (st (trace s))) (handle_deposit out acc c env) ?t))"
    by (rule pegged_trans [rotated])
  then show ?thesis
    by (simp add: processPendingDeposits_def snd_catch_ret snd_bindE apiGet_deposits_def bindE_def
        call_apply lists api_result_def ret_def)
qed

lemma only_pending_withdrawals:
  "only {e. \<not> mint_ok e \<and> (\<forall>i p r. e \<noteq> EPatchDeposit i p r)}
     (processPendingWithdrawals out c lib env)"
  unfolding processPendingWithdrawals_def apiGet_withdrawals_def now_def handle_withdrawal_def
    processWithdrawal_def Let_def
  by (intro comp_rules only_call only_api_result only_getWallet only_mono [OF only_verifyBurnTx]
      only_mono [OF only_fetchFunded] only_mono [OF only_buildSignAndBroadcast]
      only_mono [OF only_apiPatch_withdraw])
    (auto simp: mint_ok_def withdraw_events_def)

lemma pegged_cycle: "pegged s (snd (poll_cycle out acc c lib env s))"
proof -
  obtain t where t: "checkIn out s = (Inr (), t)"
    using returns_unit [OF returns_checkIn] by (metis prod.collapse)
  obtain u where u: "processPendingDeposits out acc c env t = (Inr (), u)"
    using returns_unit [OF returns_pending(1)] by (metis prod.collapse)
  have "only {ECheckin r | r. True} (checkIn out)"
    unfolding checkIn_def apiPost_checkin_def by (intro comp_rules only_call only_api_result) auto
  then have "pegged s (snd (checkIn out s))" by (rule only_quiet_pegged) (auto simp: mint_ok_def)
  then have "pegged s t" by (simp add: t)
  moreover have "pegged t u" using pegged_pending_deposits [of t acc c env] by (simp add: u)
  moreover have "pegged u (snd (processPendingWithdrawals out c lib env u))"
    by (rule only_quiet_pegged [OF only_pending_withdrawals]) auto
  ultimately have "pegged s (snd (processPendingWithdrawals out c lib env u))"
    by (metis pegged_trans)
  then show ?thesis
    by (simp add: poll_cycle_def snd_catch_ret seqE_def bindE_def t u)
qed

lemma pegged_main_loop: "pegged s (snd (main_loop out acc c lib env n s))"
proof (induction n arbitrary: s)
  case (Suc n)
  obtain t where t: "poll_cycle out acc c lib env s = (Inr (), t)"
    using returns_unit [of "poll_cycle out acc c lib env"]
    by (metis poll_cycle_def prod.collapse returns_catchE returns_ret)
  have "pegged s t" using pegged_cycle [of s acc c lib env] by (simp add: t)
  with Suc [of t] show ?case by (simp add: seqE_def bindE_def t) (metis pegged_trans)
qed (auto simp: ret_def pegged_def)

text \<open>No more mints succeed than there are deposits, and each belongs to a deposit of its own.\<close>

lemma mints_are_minted:
  assumes h_def: "h = trace (snd (main_loop out acc c lib env n fed_init))"
  shows "card (minted (st h)) = card (minted (st [])) + mints h"
    and "mints h \<le> card (ids (st []) - minted (st []))"
proof -
  have "pegged fed_init (snd (main_loop out acc c lib env n fed_init))" by (rule pegged_main_loop)
  then show c: "card (minted (st h)) = card (minted (st [])) + mints h"
    by (auto simp: pegged_def h_def fed_init_def)
  have "minted (st h) \<subseteq> ids (st [])" using minted_known [of h] ids_append [of "[]" h] by simp
  then have "card (minted (st h)) \<le> card (ids (st []))" using ids_finite card_mono by metis
  then show "mints h \<le> card (ids (st []) - minted (st []))"
    using c card_Diff_subset [OF finite_minted minted_known, of "[]"] by simp
qed

end

subsection \<open>The federation's requests, answered by the API\<close>

text \<open>\<open>JSON.stringify(body)\<close> of the two PATCH bodies: absent keys do not appear.\<close>

definition json_col :: "string \<Rightarrow> ('a \<Rightarrow> json) \<Rightarrow> 'a option \<Rightarrow> (string \<times> json) list" where
  "json_col k f x = (case x of None \<Rightarrow> [] | Some v \<Rightarrow> [(k, f v)])"

definition json_of_deposit_patch :: "deposit_patch \<Rightarrow> json" where
  "json_of_deposit_patch p = JsObj (
     json_col ''status'' JsStr (dp_status p) @
     json_col ''amount_sats'' JsNum (dp_amount_sats p) @
     json_col ''ecash_tx_hash'' JsStr (dp_ecash_tx_hash p) @
     json_col ''ecash_address'' JsStr (dp_ecash_address p) @
     json_col ''derivation_index'' (\<lambda>n. JsNum (JInt n)) (dp_derivation_index p) @
     json_col ''amount_ecx'' JsNum (dp_amount_ecx p) @
     json_col ''mint_tx_hash'' JsStr (dp_mint_tx_hash p))"

definition json_of_withdraw_patch :: "withdraw_patch \<Rightarrow> json" where
  "json_of_withdraw_patch p = JsObj (
     json_col ''status'' JsStr (wp_status p) @
     json_col ''ecash_tx_hash'' JsStr (wp_ecash_tx_hash p) @
     json_col ''amount_sats'' JsNum (wp_amount_sats p) @
     json_col ''completed_at'' (\<lambda>n. JsNum (JInt n)) (wp_completed_at p))"

text \<open>The headers and URLs of \<open>apiGet\<close>, \<open>apiPatch\<close> and \<open>apiPost\<close>.\<close>

definition bearer :: "penv \<Rightarrow> string" where
  "bearer env = ''Bearer '' @ env_or env ''FEDERATION_TOKEN'' ''dev-secret''"

definition fed_request :: "penv \<Rightarrow> verb \<Rightarrow> string \<Rightarrow> json option \<Rightarrow> int \<Rightarrow> request" where
  "fed_request env v path body t =
     \<lparr>r_verb = v, r_path = ''/v1'' @ path, r_search = [], r_auth = Some (bearer env),
      r_body = body, r_now = t, r_uuid = []\<rparr>"

lemma or_else_None [simp]: "or_else x None = x"
  by (simp add: or_else_def split: option.split)

lemma json_col_field:
  "map_of (json_col k f x @ xs) k' =
     (if k = k' then or_else (map_option f x) (map_of xs k') else map_of xs k')"
  by (cases x) (simp_all add: json_col_def or_else_def)

lemma json_col_last: "map_of (json_col k f x) k' = (if k = k' then map_option f x else None)"
  by (cases x) (simp_all add: json_col_def)

lemma z_opt_string_col: "field j k = map_option JsStr x \<Longrightarrow> z_opt_string j k = Some x"
  by (cases x) (simp_all add: z_opt_string_def)

lemma z_opt_number_col:
  "field j k = map_option (\<lambda>n. JsNum (g n)) x \<Longrightarrow> z_opt_number j k = Some (map_option g x)"
  by (cases x) (simp_all add: z_opt_number_def)

lemma parse_deposit_patch: "z_deposit_patch (json_of_deposit_patch p) = Some p"
proof -
  let ?j = "json_of_deposit_patch p"
  have "field ?j ''status'' = map_option JsStr (dp_status p)"
    "field ?j ''ecash_tx_hash'' = map_option JsStr (dp_ecash_tx_hash p)"
    "field ?j ''ecash_address'' = map_option JsStr (dp_ecash_address p)"
    "field ?j ''mint_tx_hash'' = map_option JsStr (dp_mint_tx_hash p)"
    by (simp_all add: field_def json_of_deposit_patch_def json_col_field json_col_last
      del: map_of_append)
  note strs = this [THEN z_opt_string_col]
  have "field ?j ''amount_sats'' = map_option (\<lambda>x. JsNum x) (dp_amount_sats p)"
    "field ?j ''amount_ecx'' = map_option (\<lambda>x. JsNum x) (dp_amount_ecx p)"
    "field ?j ''derivation_index'' = map_option (\<lambda>n. JsNum (JInt n)) (dp_derivation_index p)"
    by (simp_all add: field_def json_of_deposit_patch_def json_col_field json_col_last
      del: map_of_append)
  note nums = this [THEN z_opt_number_col]
  show ?thesis
    unfolding z_deposit_patch_def strs nums
    by (cases p; cases "dp_derivation_index p")
      (simp_all add: option.map_ident json_of_deposit_patch_def)
qed

lemma parse_withdraw_patch:
  "z_withdraw_patch (json_of_withdraw_patch p) = Some (p\<lparr>wp_completed_at := None\<rparr>)"
proof -
  let ?j = "json_of_withdraw_patch p"
  have "field ?j ''status'' = map_option JsStr (wp_status p)"
    "field ?j ''ecash_tx_hash'' = map_option JsStr (wp_ecash_tx_hash p)"
    by (simp_all add: field_def json_of_withdraw_patch_def json_col_field json_col_last
      del: map_of_append)
  note strs = this [THEN z_opt_string_col]
  have "field ?j ''amount_sats'' = map_option (\<lambda>x. JsNum x) (wp_amount_sats p)"
    by (simp add: field_def json_of_withdraw_patch_def json_col_field json_col_last
      del: map_of_append)
  note num = this [THEN z_opt_number_col]
  show ?thesis
    unfolding z_withdraw_patch_def strs num
    by (simp add: option.map_ident json_of_withdraw_patch_def)
qed

text \<open>
  What the federation sends is what the API understands: the JSON of any deposit PATCH body
  passes the API's validation and reads back as the same patch; that of a withdrawal PATCH reads
  back as the patch without the completion time, which the schema does not know.
\<close>

theorem patch_bodies_roundtrip:
  "z_deposit_patch (json_of_deposit_patch p) = Some p \<and>
   z_withdraw_patch (json_of_withdraw_patch q) = Some (q\<lparr>wp_completed_at := None\<rparr>)"
  by (simp add: parse_deposit_patch parse_withdraw_patch)

subsection \<open>The API as the world of the service\<close>

lemma handle_fed:
  assumes "is_fed_path (segments r)" "r_verb r \<noteq> OPTIONS" "authorized aenv r"
    and "fed_route aenv r = Some h"
  shows "handle aenv r s = (case h s of (Inl e, t) \<Rightarrow> (server_error, t) | (Inr resp, t) \<Rightarrow> (resp, t))"
  using public_route_fed [OF assms(1,2)] assms by (simp add: handle_def dispatch_def)

text \<open>One deployment: the service and the API are given the same secret.\<close>

definition same_secret :: "penv \<Rightarrow> api_env \<Rightarrow> bool" where
  "same_secret env aenv \<longleftrightarrow> FEDERATION_TOKEN aenv = env ''FEDERATION_TOKEN''"

lemma fed_authorized: "same_secret env aenv \<Longrightarrow> authorized aenv (fed_request env v path body t)"
  by (simp add: same_secret_def authorized_def fed_request_def bearer_def env_or_def str_or_def)

definition patch_deposit_request :: "penv \<Rightarrow> string \<Rightarrow> deposit_patch \<Rightarrow> int \<Rightarrow> request" where
  "patch_deposit_request env i p t =
     fed_request env PATCH (''/fed/deposit/'' @ i) (Some (json_of_deposit_patch p)) t"

definition patch_withdraw_request :: "penv \<Rightarrow> string \<Rightarrow> withdraw_patch \<Rightarrow> int \<Rightarrow> request" where
  "patch_withdraw_request env i p t =
     fed_request env PATCH (''/fed/withdraw/'' @ i) (Some (json_of_withdraw_patch p)) t"

definition pending_deposits_request :: "penv \<Rightarrow> int \<Rightarrow> request" where
  "pending_deposits_request env t = fed_request env GET ''/fed/deposits/pending'' None t"

definition plain_id :: "string \<Rightarrow> bool" where
  "plain_id i \<longleftrightarrow> i \<noteq> [] \<and> CHR ''/'' \<notin> set i"

lemma split_slash_single: "split_slash i = [x] \<longleftrightarrow> CHR ''/'' \<notin> set i \<and> x = i"
proof
  assume "split_slash i = [x]"
  then show "CHR ''/'' \<notin> set i \<and> x = i"
  proof (induction i arbitrary: x)
    case (Cons c i)
    then show ?case by (auto split: list.splits if_splits)
  qed simp
qed (auto simp: split_slash_plain)

lemma patch_segments:
  "segments (patch_deposit_request env i p t) = ''v1'' # ''fed'' # ''deposit'' # split_slash i"
  "segments (patch_withdraw_request env i q t) = ''v1'' # ''fed'' # ''withdraw'' # split_slash i"
  using split_slash_nonempty [of i]
  by (simp_all add: segments_def patch_deposit_request_def patch_withdraw_request_def
      fed_request_def split: list.split)

lemma patch_routes:
  "fed_route aenv (patch_deposit_request env i p t) =
     (if plain_id i then Some (patch_deposit i p t) else None)"
  "fed_route aenv (patch_withdraw_request env i q t) =
     (if plain_id i then Some (patch_withdraw i (q\<lparr>wp_completed_at := None\<rparr>) t) else None)"
proof -
  have "r_verb (patch_deposit_request env i p t) = PATCH" "r_now (patch_deposit_request env i p t) = t"
    "r_body (patch_deposit_request env i p t) = Some (json_of_deposit_patch p)"
    "r_verb (patch_withdraw_request env i q t) = PATCH" "r_now (patch_withdraw_request env i q t) = t"
    "r_body (patch_withdraw_request env i q t) = Some (json_of_withdraw_patch q)"
    by (simp_all add: patch_deposit_request_def patch_withdraw_request_def fed_request_def)
  then show "fed_route aenv (patch_deposit_request env i p t) =
     (if plain_id i then Some (patch_deposit i p t) else None)"
    "fed_route aenv (patch_withdraw_request env i q t) =
     (if plain_id i then Some (patch_withdraw i (q\<lparr>wp_completed_at := None\<rparr>) t) else None)"
    by (auto simp: fed_route_def Let_def patch_segments under_iff split_slash_single split_slash_plain
        parse_deposit_patch parse_withdraw_patch with_body_def plain_id_def)
qed

lemma handle_patch:
  assumes "same_secret env aenv" "r = patch_deposit_request env i p t \<or> r = patch_withdraw_request env i q t"
  shows "handle aenv r s = (case fed_route aenv r of
      None \<Rightarrow> (proxy_route aenv r, s)
    | Some h \<Rightarrow> (case h s of (Inl e, t) \<Rightarrow> (server_error, t) | (Inr resp, t) \<Rightarrow> (resp, t)))"
proof -
  have "is_fed_path (segments r)" using assms(2) by (auto simp: patch_segments is_fed_path_def)
  moreover have "r_verb r \<noteq> OPTIONS" "authorized aenv r"
    using assms(2) fed_authorized [OF assms(1)]
    by (auto simp: patch_deposit_request_def patch_withdraw_request_def)
      (simp_all add: fed_request_def)
  ultimately show ?thesis
    using public_route_fed [of r aenv] by (simp add: handle_def dispatch_def ret_def split: option.split)
qed

lemma api_pending_deposits:
  assumes "same_secret env aenv" "db_up s"
  shows "handle aenv (pending_deposits_request env t) s = (Reply 200 (PDeposits (pending_deposits s)), s)"
proof -
  let ?r = "pending_deposits_request env t"
  have segs: "segments ?r = [''v1'', ''fed'', ''deposits'', ''pending'']"
    by (simp add: segments_def pending_deposits_request_def fed_request_def)
  have v: "r_verb ?r = GET" by (simp add: pending_deposits_request_def fed_request_def)
  have "fed_route aenv ?r = Some get_pending_deposits" by (simp add: fed_route_def Let_def segs v)
  moreover have "authorized aenv ?r"
    using fed_authorized [OF assms(1)] by (simp add: pending_deposits_request_def)
  ultimately show ?thesis
    using handle_fed [of ?r aenv get_pending_deposits s] assms(2)
    by (simp add: segs v is_fed_path_def get_pending_deposits_def bindE_def stmt_def ret_def)
qed

text \<open>
  The API's state after a history of the service: every PATCH was a request to it, sent at the time
  the clock shows for that event; other events are not its business. The replies a history records
  do not matter: a PATCH whose reply was lost has been applied as well.
\<close>

definition api_step :: "penv \<Rightarrow> api_env \<Rightarrow> int \<Rightarrow> event \<Rightarrow> db \<Rightarrow> db" where
  "api_step env aenv t e s =
     (case e of
        EPatchDeposit i p r \<Rightarrow> snd (handle aenv (patch_deposit_request env i p t) s)
      | EPatchWithdraw i p r \<Rightarrow> snd (handle aenv (patch_withdraw_request env i p t) s)
      | _ \<Rightarrow> s)"

definition api_after :: "penv \<Rightarrow> api_env \<Rightarrow> (nat \<Rightarrow> int) \<Rightarrow> db \<Rightarrow> event list \<Rightarrow> db" where
  "api_after env aenv clk s h = fold (\<lambda>(n, e). api_step env aenv (clk n) e) (enumerate 0 h) s"

lemma api_after_Nil [simp]: "api_after env aenv clk s [] = s"
  by (simp add: api_after_def)

lemma api_after_snoc:
  "api_after env aenv clk s (h @ [e]) =
     api_step env aenv (clk (length h)) e (api_after env aenv clk s h)"
  by (simp add: api_after_def enumerate_append_eq)

fun deposits_reply :: "response \<Rightarrow> Deposit list reply" where
  "deposits_reply (Reply st (PDeposits ds)) = Response st (Some (map Deposit.truncate ds))"
| "deposits_reply (Reply st p) = Response st None"
| "deposits_reply (Forwarded u st) = Response st None"

fun ok_reply :: "response \<Rightarrow> unit reply" where
  "ok_reply (Reply st POk) = Response st (Some ())"
| "ok_reply (Reply st p) = Response st None"
| "ok_reply (Forwarded u st) = Response st None"

text \<open>
  The world \<open>w\<close> with the API in the place of its answers on deposits; Esplora, the node, the
  clocks and the answers on withdrawals stay arbitrary.
\<close>

definition with_api :: "penv \<Rightarrow> api_env \<Rightarrow> (nat \<Rightarrow> int) \<Rightarrow> db \<Rightarrow> outside \<Rightarrow> outside" where
  "with_api env aenv clk s w = w\<lparr>
     o_deposits := (\<lambda>h. deposits_reply (fst (handle aenv
       (pending_deposits_request env (clk (length h))) (api_after env aenv clk s h)))),
     o_patch_deposit := (\<lambda>h i p. ok_reply (fst (handle aenv
       (patch_deposit_request env i p (clk (length h))) (api_after env aenv clk s h))))\<rparr>"


lemma merge_nothing: "merge_deposit no_deposit_patch t d = d"
  by (simp add: merge_deposit_def no_deposit_patch_def or_else_def or_keep_def)

lemma merge_nothing_rows:
  "map (\<lambda>d. if d_id d = i then merge_deposit no_deposit_patch t d else d) ds = ds"
  by (induction ds) (simp_all add: merge_nothing)

lemma api_step_deposits:
  assumes "same_secret env aenv" "db_up s"
  shows "t_deposits (api_step env aenv t e s) =
    (case e of EPatchDeposit i p r \<Rightarrow>
       if plain_id i then map (\<lambda>d. if d_id d = i then merge_deposit p t d else d) (t_deposits s)
       else t_deposits s | _ \<Rightarrow> t_deposits s) \<and> db_up (api_step env aenv t e s)"
proof (cases e)
  case (EPatchDeposit i p r)
  then show ?thesis
    using handle_patch [OF assms(1), of "patch_deposit_request env i p t" i p t _ s] assms(2)
    by (auto simp: api_step_def patch_routes patch_deposit_run merge_nothing_rows)
next
  case (EPatchWithdraw i q r)
  then show ?thesis
    using handle_patch [OF assms(1), of "patch_withdraw_request env i q t" i _ t q s] assms(2)
    by (auto simp: api_step_def patch_routes patch_withdraw_def Let_def exec_def seqE_def bindE_def
        ret_def update_withdrawals_def)
qed (use assms in \<open>simp_all add: api_step_def\<close>)


subsection \<open>The API is such a ledger\<close>

text \<open>
  A database the service can start on: it is up, ids are unique and (as UUIDs are) neither empty
  nor with a slash. \<open>start\<close> is the given database if it is so, and an empty one otherwise.
\<close>

definition good_db :: "db \<Rightarrow> bool" where
  "good_db s \<longleftrightarrow> db_up s \<and> distinct (map d_id (t_deposits s)) \<and>
     list_all plain_id (map d_id (t_deposits s))"

definition start :: "db \<Rightarrow> db" where
  "start s = (if good_db s then s else empty_db)"

definition deposit_ids :: "db \<Rightarrow> string set" where
  "deposit_ids s = d_id ` set (t_deposits s)"

definition minted_ids :: "db \<Rightarrow> string set" where
  "minted_ids s = d_id ` {d \<in> set (t_deposits s). d_status d = ''minted''}"

definition listed_deposits :: "db \<Rightarrow> Deposit list" where
  "listed_deposits s = map Deposit.truncate (pending_deposits s)"

definition with_secret :: "penv \<Rightarrow> api_env \<Rightarrow> api_env" where
  "with_secret env aenv = aenv\<lparr>FEDERATION_TOKEN := env ''FEDERATION_TOKEN''\<rparr>"

lemma same_secret: "same_secret env (with_secret env aenv)"
  by (simp add: same_secret_def with_secret_def)

lemma good_start: "good_db (start s)"
  by (simp add: start_def good_db_def empty_db_def)

lemma truncate_fields [simp]:
  "d_id (Deposit.truncate d) = d_id d" "d_status (Deposit.truncate d) = d_status d"
  by (simp_all add: Deposit.truncate_def)

lemma step_deposits:
  assumes "good_db s"
  shows "t_deposits (api_step env (with_secret env aenv) t e s) =
      (case e of EPatchDeposit i p r \<Rightarrow>
         map (\<lambda>d. if d_id d = i then merge_deposit p t d else d) (t_deposits s) | _ \<Rightarrow> t_deposits s)"
    and "db_up (api_step env (with_secret env aenv) t e s)"
proof -
  have up: "db_up s" using assms by (simp add: good_db_def)
  note step = api_step_deposits [OF same_secret up, of env aenv t e]
  then show "db_up (api_step env (with_secret env aenv) t e s)" by simp
  have "map (\<lambda>d. if d_id d = i then merge_deposit p t d else d) (t_deposits s) = t_deposits s"
    if "\<not> plain_id i" for i p
    using assms that by (intro map_idI) (auto simp: good_db_def list_all_iff)
  with step show "t_deposits (api_step env (with_secret env aenv) t e s) =
      (case e of EPatchDeposit i p r \<Rightarrow>
         map (\<lambda>d. if d_id d = i then merge_deposit p t d else d) (t_deposits s) | _ \<Rightarrow> t_deposits s)"
    by (auto split: event.split)
qed

lemma step_ids:
  assumes "good_db s"
  shows "map d_id (t_deposits (api_step env (with_secret env aenv) t e s)) = map d_id (t_deposits s)"
  unfolding step_deposits(1) [OF assms] by (auto split: event.split)

lemma good_step: "good_db s \<Longrightarrow> good_db (api_step env (with_secret env aenv) t e s)"
  using step_deposits(2) [of s env aenv t e] step_ids [of s env aenv t e]
  unfolding good_db_def by metis

lemma good_after: "good_db (api_after env (with_secret env aenv) clk (start s) h)"
  by (induction h rule: rev_induct) (simp_all add: good_start api_after_snoc good_step)

lemma minted_member: "x \<in> minted_ids s \<longleftrightarrow> (\<exists>d \<in> set (t_deposits s). d_id d = x \<and> d_status d = ''minted'')"
  by (auto simp: minted_ids_def)

lemma deposit_member: "x \<in> deposit_ids s \<longleftrightarrow> (\<exists>d \<in> set (t_deposits s). d_id d = x)"
  by (auto simp: deposit_ids_def)

lemma merge_status: "d_status (merge_deposit p t d) = or_keep (dp_status p) (d_status d)"
  by (simp add: merge_deposit_def)

lemma minted_rows:
  assumes "t_deposits s' = map (\<lambda>d. if d_id d = i then merge_deposit p t d else d) (t_deposits s)"
  shows "x \<in> minted_ids s' \<longleftrightarrow>
    (if x = i then x \<in> deposit_ids s \<and> dp_status p = Some ''minted'' \<or>
                   x \<in> minted_ids s \<and> dp_status p = None
     else x \<in> minted_ids s)"
proof -
  define f where "f d = (if d_id d = i then merge_deposit p t d else d)" for d
  have f: "d_id (f d) = d_id d" for d by (simp add: f_def)
  have rows: "t_deposits s' = map f (t_deposits s)" by (simp add: assms f_def)
  have iff: "x \<in> minted_ids s' \<longleftrightarrow>
      (\<exists>d \<in> set (t_deposits s). d_id d = x \<and> d_status (f d) = ''minted'')"
    by (simp add: minted_member rows f)
  show ?thesis
  proof (cases "x = i")
    case True
    then have "x \<in> minted_ids s' \<longleftrightarrow> (\<exists>d \<in> set (t_deposits s). d_id d = i \<and>
        or_keep (dp_status p) (d_status d) = ''minted'')"
      unfolding iff by (intro bex_cong refl) (auto simp: f_def merge_status)
    then show ?thesis
      using True by (cases "dp_status p") (auto simp: or_keep_def minted_member deposit_member)
  next
    case False
    then have "x \<in> minted_ids s' \<longleftrightarrow>
        (\<exists>d \<in> set (t_deposits s). d_id d = x \<and> d_status d = ''minted'')"
      unfolding iff by (intro bex_cong refl) (auto simp: f_def)
    then have "x \<in> minted_ids s' \<longleftrightarrow> x \<in> minted_ids s" by (simp add: minted_member)
    with False show ?thesis by simp
  qed
qed

lemma minted_step_patch:
  assumes "good_db s"
  shows "x \<in> minted_ids (api_step env (with_secret env aenv) t (EPatchDeposit i p r) s) \<longleftrightarrow>
    (if x = i then x \<in> deposit_ids s \<and> dp_status p = Some ''minted'' \<or>
                   x \<in> minted_ids s \<and> dp_status p = None
     else x \<in> minted_ids s)"
  using step_deposits(1) [OF assms, of env aenv t "EPatchDeposit i p r"]
  by (intro minted_rows [where t = t]) simp

lemma minted_step_other:
  assumes "good_db s" "\<And>i p r. e \<noteq> EPatchDeposit i p r"
  shows "minted_ids (api_step env (with_secret env aenv) t e s) = minted_ids s"
proof -
  have "t_deposits (api_step env (with_secret env aenv) t e s) = t_deposits s"
    unfolding step_deposits(1) [OF assms(1)] using assms(2) by (auto split: event.split)
  then show ?thesis by (simp add: minted_ids_def)
qed

abbreviation after :: "penv \<Rightarrow> api_env \<Rightarrow> (nat \<Rightarrow> int) \<Rightarrow> db \<Rightarrow> event list \<Rightarrow> db" where
  "after env aenv clk s h \<equiv> api_after env (with_secret env aenv) clk (start s) h"

lemma open_listed:
  assumes "good_db s" "d \<in> set (listed_deposits s)"
  shows "d_id d \<in> deposit_ids s - minted_ids s"
proof -
  from assms(2) obtain r where r: "r \<in> set (t_deposits s)" "d_id r = d_id d"
    "d_status r \<in> {''pending'', ''confirmed''}"
    by (auto simp: listed_deposits_def pending_deposits_def)
  have "inj_on d_id (set (t_deposits s))" using assms(1) by (simp add: good_db_def distinct_map)
  then have same: "q = r" if "q \<in> set (t_deposits s)" "d_id q = d_id d" for q
    using that r(1,2) by (metis inj_onD)
  have "d_id d \<notin> minted_ids s"
  proof
    assume "d_id d \<in> minted_ids s"
    then obtain q where "q \<in> set (t_deposits s)" "d_id q = d_id d" "d_status q = ''minted''"
      unfolding minted_member by blast
    with same r(3) show False by fastforce
  qed
  moreover have "d_id d \<in> deposit_ids s" using r(1,2) unfolding deposit_member by blast
  ultimately show ?thesis by blast
qed

lemma distinct_listed:
  assumes "good_db s"
  shows "distinct (map d_id (listed_deposits s))"
proof -
  have "map d_id (listed_deposits s) = map d_id (pending_deposits s)"
    by (simp add: listed_deposits_def)
  moreover have "distinct (map d_id (pending_deposits s))"
    using assms unfolding pending_deposits_def good_db_def
    by (auto simp: distinct_map inj_on_def)
  ultimately show ?thesis by simp
qed

interpretation api: deposit_ledger
    "with_api env (with_secret env aenv) clk (start s) w" "after env aenv clk s"
    deposit_ids minted_ids listed_deposits
    for env aenv clk s w
proof
  fix h :: "event list" and i :: string and p :: deposit_patch and r :: "unit reply" and e :: event
  have good: "good_db (after env aenv clk s h)" by (rule good_after)
  then have up: "db_up (after env aenv clk s h)" by (simp add: good_db_def)
  show "o_deposits (with_api env (with_secret env aenv) clk (start s) w) h =
      Response 200 (Some (listed_deposits (after env aenv clk s h)))"
    using api_pending_deposits [OF same_secret up] by (simp add: with_api_def listed_deposits_def)
  show "o_patch_deposit (with_api env (with_secret env aenv) clk (start s) w) h i p = Response 200 (Some ())"
    if "i \<in> deposit_ids (after env aenv clk s h)" "p \<noteq> no_deposit_patch"
  proof -
    have "plain_id i" using that(1) good by (auto simp: good_db_def deposit_ids_def list_all_iff)
    then show ?thesis
      using handle_patch [OF same_secret, of "patch_deposit_request env i p t" env i p t _ aenv
          "after env aenv clk s h" for t] that(2) up
      by (simp add: with_api_def patch_routes patch_deposit_run)
  qed
  show "distinct (map d_id (listed_deposits (after env aenv clk s h)))"
    using good by (rule distinct_listed)
  show "d_id d \<in> deposit_ids (after env aenv clk s h) - minted_ids (after env aenv clk s h)"
    if "d \<in> set (listed_deposits (after env aenv clk s h))" for d
    using good that by (rule open_listed)
  show "minted_ids (after env aenv clk s h) \<subseteq> deposit_ids (after env aenv clk s h)"
    by (auto simp: minted_ids_def deposit_ids_def)
  show "finite (deposit_ids (after env aenv clk s h))" by (simp add: deposit_ids_def)
  show "deposit_ids (after env aenv clk s (h @ [e])) = deposit_ids (after env aenv clk s h)"
    using step_ids [OF good] unfolding api_after_snoc deposit_ids_def by (metis set_map)
  show "minted_ids (after env aenv clk s (h @ [EPatchDeposit i p (Response 200 (Some ()))])) =
      insert i (minted_ids (after env aenv clk s h))"
    if "i \<in> deposit_ids (after env aenv clk s h)" "dp_status p = Some ''minted''"
    using that by (auto simp: api_after_snoc minted_step_patch [OF good] split: if_splits)
  show "minted_ids (after env aenv clk s (h @ [EPatchDeposit i p r])) = minted_ids (after env aenv clk s h)"
    if "i \<notin> minted_ids (after env aenv clk s h)" "dp_status p = Some ''confirmed''"
    using that by (auto simp: api_after_snoc minted_step_patch [OF good] split: if_splits)
  show "minted_ids (after env aenv clk s (h @ [EPatchDeposit i p r])) = minted_ids (after env aenv clk s h)"
    if "dp_status p = None"
    using that by (auto simp: api_after_snoc minted_step_patch [OF good] split: if_splits)
  show "minted_ids (after env aenv clk s (h @ [e])) = minted_ids (after env aenv clk s h)"
    if "\<And>i p r. e \<noteq> EPatchDeposit i p r"
    using minted_step_other [OF good that] by (simp add: api_after_snoc)
qed



definition toy_db :: db where
  "toy_db = empty_db\<lparr>t_deposits :=
     [(new_deposit ''id1'' ''signet'' ''0xabc'' 1)\<lparr>d_ecash_address := Some ''tb1q'',
        d_status := ''confirmed''\<rparr>]\<rparr>"


end
