(* ===== verification/Api_Store.thy ===== *)
theory Api_Store
  imports Bridge_Api
begin

text \<open>
  What the database of \<open>packages/api/src/index.ts\<close> means: a store with one partial map per table and
  one for the meta rows. A request asks for at most one change of the store; the tables as lists of
  rows, the statements and the column lists of the PATCH handlers refine these changes, and the
  queries read what the maps hold. The types of the rows are an invariant of the same kind.
\<close>

subsection \<open>The store and its changes\<close>

record store =
  so_deposits :: "string \<rightharpoonup> deposit_row"
  so_withdrawals :: "string \<rightharpoonup> withdrawal_row"
  so_meta :: "string \<rightharpoonup> string"

definition empty_store :: store where
  "empty_store = \<lparr>so_deposits = Map.empty, so_withdrawals = Map.empty, so_meta = Map.empty\<rparr>"

datatype change =
    Unchanged
  | NewDeposit deposit_row
  | NewWithdrawal withdrawal_row
  | MergeDeposit string deposit_patch int
  | MergeWithdrawal string withdraw_patch int
  | CheckIn int

text \<open>A new row does not replace one with its id; a merge touches one row.\<close>

fun apply_change :: "change \<Rightarrow> store \<Rightarrow> store" where
  "apply_change Unchanged a = a"
| "apply_change (NewDeposit d) a =
     (if d_id d \<in> dom (so_deposits a) then a
      else a\<lparr>so_deposits := (so_deposits a)(d_id d \<mapsto> d)\<rparr>)"
| "apply_change (NewWithdrawal w) a =
     (if w_id w \<in> dom (so_withdrawals a) then a
      else a\<lparr>so_withdrawals := (so_withdrawals a)(w_id w \<mapsto> w)\<rparr>)"
| "apply_change (MergeDeposit i p t) a =
     a\<lparr>so_deposits := (so_deposits a)(i := map_option (merge_deposit p t) (so_deposits a i))\<rparr>"
| "apply_change (MergeWithdrawal i p t) a =
     a\<lparr>so_withdrawals := (so_withdrawals a)(i := map_option (merge_withdrawal p t) (so_withdrawals a i))\<rparr>"
| "apply_change (CheckIn t) a =
     a\<lparr>so_meta := (so_meta a)(''fed_last_checkin'' \<mapsto> show_int t)\<rparr>"

text \<open>What a request asks for.\<close>

definition deposit_asked :: "request \<Rightarrow> change" where
  "deposit_asked r =
     (case r_body r of
        None \<Rightarrow> Unchanged
      | Some body \<Rightarrow>
          (case (z_string body ''snowsideAddress'', z_network body ''network'') of
             (Some a, Some n) \<Rightarrow>
               if a = [] \<or> n = [] then Unchanged else NewDeposit (new_deposit (r_uuid r) n a (r_now r))
           | _ \<Rightarrow> Unchanged))"

definition withdrawal_asked :: "api_env \<Rightarrow> request \<Rightarrow> change" where
  "withdrawal_asked env r =
     (case r_body r of
        None \<Rightarrow> Unchanged
      | Some body \<Rightarrow>
          (case (z_string body ''snowsideAddress'', z_string body ''ecashAddress'',
                 z_string body ''amountEcx'', z_network body ''network'',
                 z_opt_string body ''burnTxHash'') of
             (Some a, Some e, Some m, Some n, Some b) \<Rightarrow>
               if a = [] \<or> e = [] \<or> m = [] \<or> n = [] then Unchanged
               else NewWithdrawal (new_withdrawal (r_uuid r) n a e (int_affinity env m)
                      (if truthy_str b then b else None) (r_now r))
           | _ \<Rightarrow> Unchanged))"

definition fed_asked :: "request \<Rightarrow> change" where
  "fed_asked r =
     (let segs = segments r; v = r_verb r
      in if v = POST \<and> segs = [''v1'', ''fed'', ''checkin''] then CheckIn (r_now r)
         else if v = PATCH \<and> under [''v1'', ''fed'', ''deposit''] segs then
           (case Option.bind (r_body r) z_deposit_patch of
              None \<Rightarrow> Unchanged | Some p \<Rightarrow> MergeDeposit (last segs) p (r_now r))
         else if v = PATCH \<and> under [''v1'', ''fed'', ''withdraw''] segs then
           (case Option.bind (r_body r) z_withdraw_patch of
              None \<Rightarrow> Unchanged | Some p \<Rightarrow> MergeWithdrawal (last segs) p (r_now r))
         else Unchanged)"

definition asked :: "api_env \<Rightarrow> request \<Rightarrow> change" where
  "asked env r =
     (if r_verb r = POST \<and> segments r = [''v1'', ''bridge'', ''deposit''] then deposit_asked r
      else if r_verb r = POST \<and> segments r = [''v1'', ''bridge'', ''withdraw''] then withdrawal_asked env r
      else if authorized env r then fed_asked r
      else Unchanged)"

text \<open>The store a database stands for.\<close>

definition by_key :: "('r \<Rightarrow> string) \<Rightarrow> 'r list \<Rightarrow> string \<rightharpoonup> 'r" where
  "by_key key rows = map_of (map (\<lambda>r. (key r, r)) rows)"

definition store_of :: "db \<Rightarrow> store" where
  "store_of s =
     \<lparr>so_deposits = by_key d_id (t_deposits s), so_withdrawals = by_key w_id (t_withdrawals s),
      so_meta = t_meta s\<rparr>"

subsection \<open>Tables as maps\<close>

lemma by_key_find: "by_key key rows i = find (\<lambda>r. key r = i) rows"
  by (induction rows) (auto simp: by_key_def)

lemma dom_by_key: "dom (by_key key rows) = key ` set rows"
  by (auto simp: by_key_def dom_map_of_conv_image_fst image_iff)

lemma by_key_snoc:
  "key r \<notin> key ` set rows \<Longrightarrow> by_key key (rows @ [r]) = (by_key key rows)(key r \<mapsto> r)"
  by (induction rows) (auto simp: by_key_def fun_upd_twist)

lemma by_key_update:
  assumes "\<And>r. key (f r) = key r"
  shows "by_key key (map (\<lambda>r. if key r = i then f r else r) rows) =
    (by_key key rows)(i := map_option f (by_key key rows i))"
  by (induction rows) (auto simp: by_key_def assms fun_eq_iff)

lemma merge_neutral: "merge_deposit no_deposit_patch t d = d"
  by (simp add: merge_deposit_def no_deposit_patch_def or_else_def or_keep_def)

lemma update_neutral: "(\<And>r. f r = r) \<Longrightarrow> m(i := map_option f (m i)) = m"
  by (rule ext) (simp add: option.map_ident_strong)

lemma ran_by_key: "distinct (map key rows) \<Longrightarrow> ran (by_key key rows) = set rows"
  by (simp add: by_key_def ran_distinct o_def) force

subsection \<open>Handlers refine changes\<close>

definition refines :: "change \<Rightarrow> (db, 'a) comp \<Rightarrow> bool" where
  "refines c m \<longleftrightarrow>
     (\<forall>s. db_up s \<longrightarrow> store_of (snd (m s)) = apply_change c (store_of s) \<and> db_up (snd (m s)))"

named_theorems refine_rules

lemma refines_reading [refine_rules]: "(\<And>I. keeps I m) \<Longrightarrow> refines Unchanged m"
proof -
  assume m: "\<And>I. keeps I m"
  have "snd (m s) = s" for s using keepsD [OF m [of "\<lambda>t. t = s"]] by simp
  then show ?thesis by (simp add: refines_def)
qed

lemma refines_insert_deposit: "refines (NewDeposit d) (insert_deposit d)"
  by (auto simp: refines_def insert_deposit_def bindE_def stmt_def exec_def throw_def store_of_def
      dom_by_key by_key_snoc)

lemma refines_insert_withdrawal: "refines (NewWithdrawal w) (insert_withdrawal w)"
  by (auto simp: refines_def insert_withdrawal_def bindE_def stmt_def exec_def throw_def store_of_def
      dom_by_key by_key_snoc)

lemma refines_then_ret: "refines c m \<Longrightarrow> refines c (seqE m (ret x))"
proof -
  assume "refines c m"
  moreover have "snd (seqE m (ret x) s) = snd (m s)" for s
    by (simp add: seqE_def bindE_def ret_def split: prod.split sum.split)
  ultimately show ?thesis by (simp add: refines_def)
qed

lemma refines_ret [refine_rules]: "refines Unchanged (ret x)"
  by (simp add: refines_def ret_def)

lemma refines_post_deposit [refine_rules]: "refines (deposit_asked r) (post_deposit r)"
  by (auto simp: post_deposit_def deposit_asked_def refine_rules refines_then_ret
      refines_insert_deposit split: option.split)

lemma refines_post_withdraw [refine_rules]: "refines (withdrawal_asked env r) (post_withdraw env r)"
  by (auto simp: post_withdraw_def withdrawal_asked_def refine_rules refines_then_ret
      refines_insert_withdrawal split: option.split)

lemma refines_checkin [refine_rules]: "refines (CheckIn t) (post_checkin t)"
  by (simp add: post_checkin_def refines_def seqE_def bindE_def exec_def ret_def store_of_def)

lemma refines_patch_deposit [refine_rules]: "refines (MergeDeposit i p t) (patch_deposit i p t)"
  by (auto simp: refines_def patch_deposit_run store_of_def by_key_update merge_neutral
      update_neutral)

lemma refines_patch_withdraw [refine_rules]: "refines (MergeWithdrawal i p t) (patch_withdraw i p t)"
proof -
  have id: "merge_withdrawal p t w = w" if "withdraw_updates p t = []" for w
    using that by (cases w) (simp add: withdraw_updates_empty merge_withdrawal_def or_else_def or_keep_def)
  have key: "w_id (merge_withdrawal p t w) = w_id w" for w by (simp add: merge_withdrawal_def)
  show ?thesis
    by (auto simp: refines_def patch_withdraw_def Let_def seqE_def bindE_def exec_def ret_def
        update_withdrawals_def fold_withdraw_updates store_of_def by_key_update key id
        update_neutral)
qed

lemma refines_with_body:
  "(\<And>p. b = Some p \<Longrightarrow> refines (c p) (k p)) \<Longrightarrow>
   refines (case b of None \<Rightarrow> Unchanged | Some p \<Rightarrow> c p) (with_body b k)"
  by (simp add: with_body_def refine_rules split: option.split)

lemma refines_fed:
  "fed_route env r = Some h \<Longrightarrow> refines (fed_asked r) h"
  by (auto simp: fed_route_def fed_asked_def Let_def under_iff comp_rules
      intro!: refine_rules refines_with_body split: if_splits)

lemma fed_asked_path: "\<not> is_fed_path (segments r) \<Longrightarrow> fed_asked r = Unchanged"
  by (auto simp: fed_asked_def is_fed_path_def Let_def under_iff)

lemma fed_unasked: "fed_route env r = None \<Longrightarrow> fed_asked r = Unchanged"
  by (auto simp: fed_asked_def fed_route_def Let_def split: if_splits)

lemma refines_public:
  assumes "public_route env r = Some h"
  shows "refines (asked env r) h"
proof -
  have "fed_asked r = Unchanged"
    if "\<not> (r_verb r = POST \<and> segments r = [''v1'', ''bridge'', ''deposit''])"
      "\<not> (r_verb r = POST \<and> segments r = [''v1'', ''bridge'', ''withdraw''])"
    using assms that by (auto simp: public_route_def fed_asked_def Let_def under_iff split: if_splits)
  with assms show ?thesis
    by (auto simp: public_route_def asked_def Let_def comp_rules intro!: refine_rules split: if_splits)
qed

lemma refines_dispatch: "refines (asked env r) (dispatch env r)"
proof (cases "public_route env r")
  case (Some h)
  then show ?thesis by (simp add: dispatch_def refines_public)
next
  case None
  then have "asked env r = (if authorized env r then fed_asked r else Unchanged)"
    by (auto simp: asked_def public_route_def Let_def split: if_splits)
  with None show ?thesis
    by (auto simp: dispatch_def refine_rules refines_fed fed_unasked fed_asked_path split: option.split
        dest!: fed_route_path)
qed

lemma handle_store:
  "db_up s \<Longrightarrow> store_of (snd (handle env r s)) = apply_change (asked env r) (store_of s) \<and>
   db_up (snd (handle env r s))"
  using refines_dispatch [of env r]
  by (auto simp: refines_def handle_def split: prod.split sum.split dest!: spec [of _ s])

lemma handle_all_store:
  "db_up s \<Longrightarrow> store_of (handle_all env rs s) = fold (\<lambda>r. apply_change (asked env r)) rs (store_of s) \<and>
   db_up (handle_all env rs s)"
  by (induction rs arbitrary: s) (simp_all add: handle_store)

text \<open>
  C20. The API refines the store: from the empty database, whatever the requests, the tables stand
  for the store in which every request made the change it asked for, in order: a valid deposit or
  withdrawal form adds its row, unless its id is taken; an authorized PATCH merges its fields into
  the row with its id; a check-in stamps the time; every other request, malformed, unauthorized or
  unknown, changes nothing. And the queries tell what the store holds: the row of an id or Not found,
  and as work lists exactly the pending or confirmed deposits, those with an address, an index and
  an amount, and the pending withdrawals, each once, the oldest first.
\<close>

theorem api_refines_store:
  "let s = handle_all env rs empty_db;
       a = fold (\<lambda>r. apply_change (asked env r)) rs empty_store
   in store_of s = a \<and>
      (\<forall>i. get_deposit i s =
         (Inr (case so_deposits a i of
                 Some d \<Rightarrow> Reply 200 (PDeposit d) | None \<Rightarrow> Reply 404 (PError ''Not found'')), s)) \<and>
      distinct (pending_deposits s) \<and> distinct (funded_deposits s) \<and> distinct (pending_withdrawals s) \<and>
      sorted (map d_created_at (pending_deposits s)) \<and>
      sorted (map d_created_at (funded_deposits s)) \<and>
      sorted (map w_created_at (pending_withdrawals s)) \<and>
      set (pending_deposits s) =
        ran (so_deposits a) \<inter> {d. d_status d \<in> {''pending'', ''confirmed''}} \<and>
      set (funded_deposits s) =
        ran (so_deposits a) \<inter> {d. d_amount_sats d \<noteq> None \<and> d_ecash_address d \<noteq> None \<and>
                                d_derivation_index d \<noteq> None} \<and>
      set (pending_withdrawals s) = ran (so_withdrawals a) \<inter> {w. w_status w = ''pending''}"
proof -
  define s where "s = handle_all env rs empty_db"
  define a where "a = fold (\<lambda>r. apply_change (asked env r)) rs empty_store"
  have "store_of empty_db = empty_store" "db_up empty_db"
    by (simp_all add: store_of_def empty_db_def empty_store_def by_key_def)
  then have a: "store_of s = a" and up: "db_up s"
    using handle_all_store [of empty_db env rs] by (simp_all add: s_def a_def)
  have u: "distinct (map d_id (t_deposits s))" "distinct (map w_id (t_withdrawals s))"
    using unique_handle_all [of empty_db env rs] by (simp_all add: unique_ids_def empty_db_def s_def)
  have m: "so_deposits a = by_key d_id (t_deposits s)" "so_withdrawals a = by_key w_id (t_withdrawals s)"
    by (simp_all add: a [symmetric] store_of_def)
  have "get_deposit i s = (Inr (case so_deposits a i of
      Some d \<Rightarrow> Reply 200 (PDeposit d) | None \<Rightarrow> Reply 404 (PError ''Not found'')), s)" for i
    by (simp add: get_deposit_def bindE_def stmt_def up ret_def m by_key_find split: option.split)
  moreover have "distinct (t_deposits s)" "distinct (t_withdrawals s)" using u distinct_map by blast+
  ultimately show ?thesis
    unfolding Let_def s_def [symmetric] a_def [symmetric]
    by (auto simp: a m ran_by_key u pending_deposits_def funded_deposits_def pending_withdrawals_def)
qed

subsection \<open>The types of the rows\<close>

text \<open>
  A stored row is well typed when its network is one the bridge knows, no address is empty, and a
  status that marks an event comes with the time of that event.
\<close>

definition known_network :: "string \<Rightarrow> bool" where
  "known_network n \<longleftrightarrow> n \<in> {''mainnet'', ''testnet'', ''signet''}"

definition deposit_ok :: "deposit_row \<Rightarrow> bool" where
  "deposit_ok d \<longleftrightarrow>
     known_network (d_network d) \<and> d_snowside_address d \<noteq> [] \<and>
     (d_status d = ''confirmed'' \<longrightarrow> d_confirmed_at d \<noteq> None) \<and>
     (d_status d = ''minted'' \<longrightarrow> d_minted_at d \<noteq> None)"

definition withdrawal_ok :: "withdrawal_row \<Rightarrow> bool" where
  "withdrawal_ok w \<longleftrightarrow>
     known_network (w_network w) \<and> w_snowside_address w \<noteq> [] \<and> w_ecash_address w \<noteq> [] \<and>
     w_burn_tx_hash w \<noteq> Some [] \<and> (w_status w = ''completed'' \<longrightarrow> w_completed_at w \<noteq> None)"

definition store_ok :: "store \<Rightarrow> bool" where
  "store_ok a \<longleftrightarrow> ran (so_deposits a) \<subseteq> Collect deposit_ok \<and> ran (so_withdrawals a) \<subseteq> Collect withdrawal_ok"

fun change_ok :: "change \<Rightarrow> bool" where
  "change_ok (NewDeposit d) = deposit_ok d"
| "change_ok (NewWithdrawal w) = withdrawal_ok w"
| "change_ok _ = True"

lemma merge_deposit_ok: "deposit_ok d \<Longrightarrow> deposit_ok (merge_deposit p t d)"
  by (auto simp: deposit_ok_def merge_deposit_def or_keep_def split: option.split)

lemma merge_withdrawal_ok: "withdrawal_ok w \<Longrightarrow> withdrawal_ok (merge_withdrawal p t w)"
  by (auto simp: withdrawal_ok_def merge_withdrawal_def or_keep_def split: option.split)

lemma ran_upd: "ran m \<subseteq> Collect P \<Longrightarrow> P v \<Longrightarrow> ran (m(k \<mapsto> v)) \<subseteq> Collect P"
  unfolding ran_def by (auto split: if_splits)

lemma ran_merge:
  assumes "ran m \<subseteq> Collect P" "\<And>x. P x \<Longrightarrow> P (f x)"
  shows "ran (m(k := map_option f (m k))) \<subseteq> Collect P"
  using assms unfolding ran_def by (auto split: if_splits)

lemma apply_change_ok:
  assumes "change_ok c" "store_ok a"
  shows "store_ok (apply_change c a)"
proof (cases c)
  case (MergeDeposit i p t)
  then show ?thesis using assms(2) ran_merge [of "so_deposits a" deposit_ok "merge_deposit p t" i] merge_deposit_ok by (simp add: store_ok_def)
next
  case (MergeWithdrawal i p t)
  then show ?thesis using assms(2) ran_merge [of "so_withdrawals a" withdrawal_ok "merge_withdrawal p t" i]
      merge_withdrawal_ok by (simp add: store_ok_def)
qed (use assms in \<open>simp_all add: store_ok_def ran_upd\<close>)

lemma new_rows_ok:
  "known_network n \<Longrightarrow> a \<noteq> [] \<Longrightarrow> deposit_ok (new_deposit i n a t)"
  "known_network n \<Longrightarrow> a \<noteq> [] \<Longrightarrow> e \<noteq> [] \<Longrightarrow>
   withdrawal_ok (new_withdrawal i n a e m None t)"
  "known_network n \<Longrightarrow> a \<noteq> [] \<Longrightarrow> e \<noteq> [] \<Longrightarrow> truthy_str b \<Longrightarrow>
   withdrawal_ok (new_withdrawal i n a e m b t)"
  by (auto simp: deposit_ok_def withdrawal_ok_def new_deposit_def new_withdrawal_def truthy_str_def
      split: option.split if_splits)

lemma asked_ok: "change_ok (asked env r)"
proof -
  have "change_ok (deposit_asked r)"
    using z_network_range
    by (auto simp: deposit_asked_def known_network_def intro!: new_rows_ok split: option.split)
  moreover have "change_ok (withdrawal_asked env r)"
    using z_network_range
    by (auto simp: withdrawal_asked_def known_network_def intro!: new_rows_ok split: option.split)
  moreover have "change_ok (fed_asked r)" by (simp add: fed_asked_def Let_def split: option.split)
  ultimately show ?thesis by (simp add: asked_def)
qed


end
