(* ===== verification/Desktop_Store.thy ===== *)
theory Desktop_Store
  imports Js_Json
begin

text \<open>
  \<open>packages/desktop/src/lib/\<close>: networks, settings and their storage, the log, the formatters and the
  poller hook of the desktop client. The variables of the modules are one record, \<open>desk\<close>. What
  \<open>localStorage\<close> holds under the settings key is given by what \<open>JSON.parse\<close> makes of it.
\<close>

subsection \<open>Networks\<close>

datatype NetworkId = Mainnet | Testnet | Signet

fun net_id :: "NetworkId \<Rightarrow> string" where
  "net_id Mainnet = ''mainnet''"
| "net_id Testnet = ''testnet''"
| "net_id Signet = ''signet''"

record NetworkDef =
  net_label :: string
  net_chainIdHint :: int
  net_rpcUrl :: string
  net_apiUrl :: string
  net_explorerUrl :: string
  net_esploraLabel :: string

fun NETWORKS :: "NetworkId \<Rightarrow> NetworkDef" where
  "NETWORKS Mainnet =
     \<lparr>net_label = ''Mainnet'', net_chainIdHint = 32904,
      net_rpcUrl = ''https://snowside.network/mainnet'', net_apiUrl = ''https://snowside.network/v1'',
      net_explorerUrl = ''https://explorer.snowside.network'', net_esploraLabel = ''eCash mainnet''\<rparr>"
| "NETWORKS Testnet =
     \<lparr>net_label = ''Testnet'', net_chainIdHint = 33160,
      net_rpcUrl = ''https://snowside.network/testnet'', net_apiUrl = ''https://snowside.network/v1'',
      net_explorerUrl = ''https://explorer-testnet.snowside.network'',
      net_esploraLabel = ''eCash drynet4''\<rparr>"
| "NETWORKS Signet =
     \<lparr>net_label = ''Signet'', net_chainIdHint = 33416,
      net_rpcUrl = ''https://snowside.network/signet'', net_apiUrl = ''https://snowside.network/v1'',
      net_explorerUrl = ''https://explorer-signet.snowside.network'',
      net_esploraLabel = ''Bitcoin signet''\<rparr>"

definition NETWORK_ORDER :: "NetworkId list" where
  "NETWORK_ORDER = [Mainnet, Testnet, Signet]"

definition TOKEN_SYMBOL :: string where
  "TOKEN_SYMBOL = ''ECX''"

definition TOKEN_DECIMALS :: int where
  "TOKEN_DECIMALS = 18"

subsection \<open>State of the modules\<close>

datatype Theme = Dark | Light

record Settings =
  theme :: Theme
  activeNetwork :: NetworkId
  rpcUrls :: "(string \<times> json) list"
  apiUrl :: string

datatype LogLevel = Debug | Info | Err

record LogEntry =
  le_ts :: int
  le_level :: LogLevel
  le_source :: string
  le_message :: string

text \<open>
  \<open>ls_settings\<close> and \<open>ls_wallet_pk\<close> are the two storage items, \<open>ls_ok\<close> says whether storage is
  available (otherwise its methods throw). \<open>settings_calls\<close> and \<open>log_calls\<close> are the listeners that
  were called, \<open>sent\<close> the HTTP requests that were made, \<open>clock\<close> is \<open>Date.now()\<close>.
\<close>

record desk =
  ls_settings :: "json option option"
  ls_wallet_pk :: "string option"
  ls_ok :: bool
  settings :: Settings
  settings_listeners :: "nat list"
  settings_calls :: "nat list"
  entries :: "LogEntry list"
  log_listeners :: "nat list"
  log_calls :: "nat list"
  nextId :: int
  clock :: int
  sent :: "(string \<times> json option) list"

subsection \<open>Log\<close>

definition MAX_ENTRIES :: nat where
  "MAX_ENTRIES = 500"

definition emit :: "desk \<Rightarrow> desk" where
  "emit d = d\<lparr>log_calls := log_calls d @ log_listeners d\<rparr>"

text \<open>\<open>xs.slice(-n)\<close> for positive \<open>n\<close>.\<close>

definition slice_last :: "nat \<Rightarrow> 'a list \<Rightarrow> 'a list" where
  "slice_last n xs = drop (length xs - n) xs"

definition log_entry :: "LogLevel \<Rightarrow> string \<Rightarrow> string \<Rightarrow> desk \<Rightarrow> desk" where
  "log_entry level source message d =
     emit (d\<lparr>entries := slice_last (MAX_ENTRIES - 1) (entries d) @
       [\<lparr>le_ts = clock d, le_level = level, le_source = source, le_message = message\<rparr>]\<rparr>)"

definition getLogs :: "desk \<Rightarrow> LogEntry list" where
  "getLogs d = entries d"

definition clearLogs :: "desk \<Rightarrow> desk" where
  "clearLogs d = emit (d\<lparr>entries := []\<rparr>)"

text \<open>A \<open>Set\<close> of listeners keeps the order of insertion; the result of subscribing removes it again.\<close>

definition subscribeLogs :: "nat \<Rightarrow> desk \<Rightarrow> desk" where
  "subscribeLogs l d = d\<lparr>log_listeners := if l \<in> set (log_listeners d) then log_listeners d
                                           else log_listeners d @ [l]\<rparr>"

definition unsubscribeLogs :: "nat \<Rightarrow> desk \<Rightarrow> desk" where
  "unsubscribeLogs l d = d\<lparr>log_listeners := filter (\<lambda>k. k \<noteq> l) (log_listeners d)\<rparr>"

subsection \<open>Settings\<close>

definition default_urls :: "(string \<times> json) list" where
  "default_urls = map (\<lambda>n. (net_id n, JsStr (net_rpcUrl (NETWORKS n)))) NETWORK_ORDER"

definition defaults :: Settings where
  "defaults = \<lparr>theme = Dark, activeNetwork = Mainnet, rpcUrls = default_urls,
               apiUrl = net_apiUrl (NETWORKS Mainnet)\<rparr>"

definition parse_settings :: "json \<Rightarrow> Settings" where
  "parse_settings parsed =
     \<lparr>theme = (if field parsed ''theme'' = Some (JsStr ''light'') then Light else Dark),
      activeNetwork =
        (if field parsed ''activeNetwork'' = Some (JsStr ''testnet'') then Testnet
         else if field parsed ''activeNetwork'' = Some (JsStr ''signet'') then Signet else Mainnet),
      rpcUrls = spread default_urls (own_props (field parsed ''rpcUrls'')),
      apiUrl = (case field parsed ''apiUrl'' of
                  Some (JsStr s) \<Rightarrow> if s \<noteq> [] then s else apiUrl defaults
                | _ \<Rightarrow> apiUrl defaults)\<rparr>"

text \<open>Reading a property of \<open>null\<close> throws, like storage that is not available or text that is not JSON.\<close>

definition load :: "desk \<Rightarrow> Settings" where
  "load d =
     (if \<not> ls_ok d then defaults
      else case ls_settings d of
        None \<Rightarrow> defaults
      | Some None \<Rightarrow> defaults
      | Some (Some parsed) \<Rightarrow> if parsed = JsNull then defaults else parse_settings parsed)"

definition settings_json :: "Settings \<Rightarrow> json" where
  "settings_json s =
     JsObj [(''theme'', JsStr (case theme s of Dark \<Rightarrow> ''dark'' | Light \<Rightarrow> ''light'')),
            (''activeNetwork'', JsStr (net_id (activeNetwork s))),
            (''rpcUrls'', JsObj (rpcUrls s)),
            (''apiUrl'', JsStr (apiUrl s))]"

definition call_listeners :: "desk \<Rightarrow> desk" where
  "call_listeners d = d\<lparr>settings_calls := settings_calls d @ settings_listeners d\<rparr>"

definition persist :: "desk \<Rightarrow> desk" where
  "persist d =
     call_listeners (if ls_ok d then d\<lparr>ls_settings := Some (Some (settings_json (settings d)))\<rparr> else d)"

record settings_patch =
  sp_theme :: "Theme option"
  sp_activeNetwork :: "NetworkId option"
  sp_apiUrl :: "string option"

definition apply_patch :: "settings_patch \<Rightarrow> Settings \<Rightarrow> Settings" where
  "apply_patch p s =
     s\<lparr>theme := (case sp_theme p of None \<Rightarrow> theme s | Some x \<Rightarrow> x),
       activeNetwork := (case sp_activeNetwork p of None \<Rightarrow> activeNetwork s | Some x \<Rightarrow> x),
       apiUrl := (case sp_apiUrl p of None \<Rightarrow> apiUrl s | Some x \<Rightarrow> x)\<rparr>"

definition updateSettings :: "settings_patch \<Rightarrow> desk \<Rightarrow> desk" where
  "updateSettings p d = persist (d\<lparr>settings := apply_patch p (settings d)\<rparr>)"

definition setRpcUrl :: "NetworkId \<Rightarrow> string \<Rightarrow> desk \<Rightarrow> desk" where
  "setRpcUrl n url d =
     persist (d\<lparr>settings := (settings d)\<lparr>rpcUrls := put (net_id n) (JsStr url) (rpcUrls (settings d))\<rparr>\<rparr>)"

definition subscribeSettings :: "nat \<Rightarrow> desk \<Rightarrow> desk" where
  "subscribeSettings l d =
     d\<lparr>settings_listeners := if l \<in> set (settings_listeners d) then settings_listeners d
                             else settings_listeners d @ [l]\<rparr>"

definition unsubscribeSettings :: "nat \<Rightarrow> desk \<Rightarrow> desk" where
  "unsubscribeSettings l d =
     d\<lparr>settings_listeners := filter (\<lambda>k. k \<noteq> l) (settings_listeners d)\<rparr>"

definition getWalletKey :: "desk \<Rightarrow> string option" where
  "getWalletKey d = (if ls_ok d then ls_wallet_pk d else None)"

definition setWalletKey :: "string \<Rightarrow> desk \<Rightarrow> desk" where
  "setWalletKey pk d = call_listeners (if ls_ok d then d\<lparr>ls_wallet_pk := Some pk\<rparr> else d)"

definition clearWalletKey :: "desk \<Rightarrow> desk" where
  "clearWalletKey d = call_listeners (if ls_ok d then d\<lparr>ls_wallet_pk := None\<rparr> else d)"

text \<open>Loading the modules: \<open>let settings = load()\<close> and the other first values.\<close>

definition start_desk :: "json option option \<Rightarrow> string option \<Rightarrow> bool \<Rightarrow> int \<Rightarrow> desk" where
  "start_desk item pk ok now =
     (let d = \<lparr>ls_settings = item, ls_wallet_pk = pk, ls_ok = ok, settings = defaults,
               settings_listeners = [], settings_calls = [], entries = [], log_listeners = [],
               log_calls = [], nextId = 1, clock = now, sent = []\<rparr>
      in d\<lparr>settings := load d\<rparr>)"

text \<open>\<open>settings.rpcUrls[net.id] || net.rpcUrl\<close>.\<close>

definition rpc_url :: "Settings \<Rightarrow> NetworkId \<Rightarrow> string" where
  "rpc_url s n =
     (case map_of (rpcUrls s) (net_id n) of
        Some j \<Rightarrow> if truthy_json (Some j) then js_string j else net_rpcUrl (NETWORKS n)
      | None \<Rightarrow> net_rpcUrl (NETWORKS n))"

subsection \<open>Formatters\<close>

text \<open>\<open>s.replace(/\.?0+$/, '')\<close>: the trailing zeros, with the point before them.\<close>

definition strip_zeros :: "string \<Rightarrow> string" where
  "strip_zeros s =
     (let r = dropWhile (\<lambda>c. c = CHR ''0'') (rev s)
      in if length r = length s then s
         else rev (case r of c # t \<Rightarrow> if c = CHR ''.'' then t else r | [] \<Rightarrow> r))"

definition index_of :: "char \<Rightarrow> string \<Rightarrow> nat option" where
  "index_of c s = (let k = length (takeWhile (\<lambda>d. d \<noteq> c) s) in if k < length s then Some k else None)"

text \<open>\<open>formatEther\<close> is the library's.\<close>

definition fmtEcx :: "(int \<Rightarrow> string) \<Rightarrow> int \<Rightarrow> nat \<Rightarrow> string" where
  "fmtEcx formatEther wei maxDecimals =
     (let s = formatEther wei
      in case index_of (CHR ''.'') s of
           None \<Rightarrow> s
         | Some dot \<Rightarrow>
             (let trimmed = strip_zeros (take (dot + maxDecimals + 1) s)
              in if trimmed = [] then ''0'' else trimmed))"

text \<open>\<open>x.toFixed(f)\<close>; of two nearest decimals it takes the larger.\<close>

definition js_to_fixed :: "nat \<Rightarrow> jnum \<Rightarrow> string" where
  "js_to_fixed f x =
     (case x of
        JFin a \<Rightarrow>
          if 10 ^ 21 \<le> \<bar>a\<bar> then show_num x
          else (let n = nat \<lfloor>\<bar>a\<bar> * 10 ^ f + 1 / 2\<rfloor>;
                    ds = pad_start (f + 1) (CHR ''0'') (show_base 10 n);
                    k = length ds - f;
                    body = (if f = 0 then ds else take k ds @ ''.'' @ drop k ds)
                in if a < 0 then CHR ''-'' # body else body)
      | _ \<Rightarrow> show_num x)"

definition fmtGwei :: "int \<Rightarrow> string" where
  "fmtGwei wei =
     (let gwei = js_div (num_of_bigint wei) (JInt (10 ^ 9))
      in js_to_fixed (if js_less gwei (JInt 10) then 2 else 0) gwei)"

text \<open>Addresses are ASCII.\<close>

definition shortAddr :: "string \<Rightarrow> nat \<Rightarrow> string" where
  "shortAddr addr chars =
     (if length addr \<le> chars * 2 + 2 then addr
      else take (chars + 2) addr @ ellipsis @ (if chars = 0 then addr else slice_last chars addr))"

definition fmtTime :: "(jnum \<Rightarrow> string) \<Rightarrow> jnum option \<Rightarrow> string" where
  "fmtTime toLocaleString ts =
     (case ts of None \<Rightarrow> dash | Some t \<Rightarrow> if truthy_num t then toLocaleString t else dash)"

definition ago_text :: "int \<Rightarrow> jnum \<Rightarrow> string" where
  "ago_text now t =
     (let s = js_max (JInt 0) (js_floor (js_div (js_sub (JInt now) t) (JInt 1000)));
          per = (\<lambda>k. show_num (js_floor (js_div s (JInt k))))
      in if js_less s (JInt 60) then show_num s @ ''s ago''
         else if js_less s (JInt 3600) then per 60 @ ''m ago''
         else if js_less s (JInt 86400) then per 3600 @ ''h ago''
         else per 86400 @ ''d ago'')"

definition fmtAgo :: "int \<Rightarrow> jnum option \<Rightarrow> string" where
  "fmtAgo now ts =
     (case ts of
        None \<Rightarrow> ''never''
      | Some t \<Rightarrow> if \<not> truthy_num t then ''never'' else ago_text now t)"

subsection \<open>The poller hook\<close>

text \<open>
  \<open>usePoller\<close>: \<open>running\<close> is the ref that all effects of a component share; \<open>live\<close> is the effect whose
  \<open>stopped\<close> is still false; \<open>invoked\<close> lists the effects whose function was called, and \<open>in_flight\<close>
  counts the calls that have not settled.
\<close>

record poller =
  running :: bool
  live :: "nat option"
  next_effect :: nat
  invoked :: "nat list"
  in_flight :: nat

datatype poll_event = Effect | Interval nat | Settle | Unmount

definition tick :: "nat \<Rightarrow> poller \<Rightarrow> poller" where
  "tick e s =
     (if running s \<or> live s \<noteq> Some e then s
      else s\<lparr>running := True, invoked := invoked s @ [e], in_flight := in_flight s + 1\<rparr>)"

fun poll_step :: "poll_event \<Rightarrow> poller \<Rightarrow> poller" where
  "poll_step Effect s =
     tick (next_effect s) (s\<lparr>live := Some (next_effect s), next_effect := next_effect s + 1\<rparr>)"
| "poll_step (Interval e) s = tick e s"
| "poll_step Settle s =
     (if in_flight s = 0 then s else s\<lparr>running := False, in_flight := in_flight s - 1\<rparr>)"
| "poll_step Unmount s = s\<lparr>live := None\<rparr>"

definition usePoller :: "poll_event list \<Rightarrow> poller" where
  "usePoller evs = fold poll_step evs
     \<lparr>running = False, live = None, next_effect = 0, invoked = [], in_flight = 0\<rparr>"

definition no_overlap :: "poller \<Rightarrow> bool" where
  "no_overlap s \<longleftrightarrow> in_flight s = (if running s then 1 else 0)"

lemma no_overlap_step: "no_overlap s \<Longrightarrow> no_overlap (poll_step e s)"
  by (cases e) (auto simp: no_overlap_def tick_def)

lemma no_overlap_usePoller: "no_overlap (usePoller evs)"
proof -
  have "no_overlap s \<Longrightarrow> no_overlap (fold poll_step evs s)" for s
    by (induction evs arbitrary: s) (auto intro: no_overlap_step)
  then show ?thesis by (simp add: usePoller_def no_overlap_def)
qed

text \<open>
  C28. Polls never overlap: over any run of effects, timers, completions and unmounts at most one call
  of the function is in flight, also across changes of its dependencies. The price: when the
  dependencies change while a call is in flight, the immediate poll of the new effect is skipped,
  and its first poll waits for the timer.
\<close>

theorem poller_no_overlap:
  "in_flight (usePoller evs) \<le> 1 \<and>
   invoked (usePoller (evs @ [Effect])) =
     (if in_flight (usePoller evs) = 0 then invoked (usePoller evs) @ [next_effect (usePoller evs)]
      else invoked (usePoller evs)) \<and>
   invoked (usePoller (evs @ [Unmount, Interval e])) = invoked (usePoller evs)"
  using no_overlap_usePoller [of evs]
  by (simp add: no_overlap_def usePoller_def tick_def)

subsection \<open>The log keeps the last entries\<close>

lemma slice_last_twice: "slice_last n (slice_last n xs @ ys) = slice_last n (xs @ ys)"
proof (cases "length xs \<le> n")
  case False
  then have "length xs - n + (length xs + length ys - n - (length xs - n)) = length xs + length ys - n"
    by simp
  with False show ?thesis by (simp add: slice_last_def add.commute)
qed (simp add: slice_last_def)

definition entry_of :: "desk \<Rightarrow> LogLevel \<times> string \<times> string \<Rightarrow> LogEntry" where
  "entry_of d m = \<lparr>le_ts = clock d, le_level = fst m, le_source = fst (snd m), le_message = snd (snd m)\<rparr>"

definition log_all :: "(LogLevel \<times> string \<times> string) list \<Rightarrow> desk \<Rightarrow> desk" where
  "log_all ms d = fold (\<lambda>(l, src, msg). log_entry l src msg) ms d"

lemma log_entry_fields [simp]:
  "clock (log_entry l a b d) = clock d" "log_listeners (log_entry l a b d) = log_listeners d"
  "log_calls (log_entry l a b d) = log_calls d @ log_listeners d"
  "entries (log_entry l a b d) = slice_last 499 (entries d) @ [entry_of d (l, a, b)]"
  by (simp_all add: log_entry_def emit_def MAX_ENTRIES_def entry_of_def)

lemma slice_last_snoc: "slice_last (Suc n) (xs @ [x]) = slice_last n xs @ [x]"
  by (cases "length xs \<le> n") (simp_all add: slice_last_def Suc_diff_le)

text \<open>
  The log is a window on the last 500 entries: after any messages, from any state with at most
  500 entries, it holds the last 500 of the old entries followed by the new ones, in order, and
  every listener was called once for each message.
\<close>

theorem log_keeps_last:
  assumes "length (entries d) \<le> 500"
  shows "entries (log_all ms d) = slice_last 500 (entries d @ map (entry_of d) ms) \<and>
    log_calls (log_all ms d) = log_calls d @ concat (replicate (length ms) (log_listeners d))"
  using assms
proof (induction ms arbitrary: d)
  case (Cons m ms)
  obtain l a b where m: "m = (l, a, b)" by (cases m)
  let ?d = "log_entry l a b d"
  have short: "length (entries ?d) \<le> 500" by (simp add: slice_last_def)
  have eo: "entry_of ?d = entry_of d" by (simp add: fun_eq_iff entry_of_def)
  have "entries (log_all (m # ms) d) = slice_last 500 (entries ?d @ map (entry_of d) ms)"
    using Cons.IH [OF short] by (simp add: m log_all_def eo)
  also have "entries ?d = slice_last 500 (entries d @ [entry_of d m])"
    using slice_last_snoc [of 499 "entries d" "entry_of d m"] by (simp add: m)
  also have "slice_last 500 (slice_last 500 (entries d @ [entry_of d m]) @ map (entry_of d) ms) =
      slice_last 500 (entries d @ map (entry_of d) (m # ms))"
    by (simp add: slice_last_twice)
  finally show ?case
    using Cons.IH [OF short] by (simp add: m log_all_def)
qed (simp add: log_all_def slice_last_def)

theorem log_keeps_last_witness:
  "entries (log_all [(Info, ''wallet'', ''New wallet created''), (Debug, ''rpc'', ''x'')]
     (start_desk None None True 7)) =
   [\<lparr>le_ts = 7, le_level = Info, le_source = ''wallet'', le_message = ''New wallet created''\<rparr>,
    \<lparr>le_ts = 7, le_level = Debug, le_source = ''rpc'', le_message = ''x''\<rparr>]"
  using log_keeps_last [of "start_desk None None True 7"]
  by (simp add: start_desk_def Let_def slice_last_def entry_of_def)

subsection \<open>Settings survive a restart\<close>

definition url_keys :: "(string \<times> json) list \<Rightarrow> bool" where
  "url_keys kvs \<longleftrightarrow> distinct (map fst kvs) \<and> take 3 (map fst kvs) = map fst default_urls"

lemma default_keys: "map fst default_urls = [''mainnet'', ''testnet'', ''signet'']"
  by (simp add: default_urls_def NETWORK_ORDER_def)

lemma url_keys_default [simp]: "url_keys default_urls"
  by (simp add: url_keys_def default_keys)

lemma take_put_keys: "n \<le> length kvs \<Longrightarrow> take n (map fst (put k v kvs)) = take n (map fst kvs)"
  by (simp add: put_keys)

lemma url_keys_put: "url_keys kvs \<Longrightarrow> url_keys (put k v kvs)"
proof -
  assume k: "url_keys kvs"
  then have "length (take 3 (map fst kvs)) = 3" by (simp add: url_keys_def default_keys)
  then have "3 \<le> length kvs" by simp
  with k show ?thesis by (simp add: url_keys_def distinct_put take_put_keys)
qed

lemma url_keys_spread: "url_keys a \<Longrightarrow> url_keys (spread a b)"
  by (induction b arbitrary: a) (auto simp: spread_def url_keys_put split: prod.splits)

lemma url_keys_load: "url_keys (rpcUrls (load d))"
  by (auto simp: load_def defaults_def parse_settings_def url_keys_spread split: option.split)

lemma spread_own:
  assumes "url_keys kvs"
  shows "spread default_urls kvs = kvs"
proof -
  have "length default_urls = 3" by (simp add: default_urls_def NETWORK_ORDER_def)
  then show ?thesis
    using spread_prefix [of "[]" kvs default_urls] assms by (simp add: url_keys_def take_map)
qed

lemma load_saved:
  assumes "url_keys (rpcUrls s)"
  shows "parse_settings (settings_json s) =
           (if apiUrl s = [] then s\<lparr>apiUrl := apiUrl defaults\<rparr> else s)"
proof -
  have "theme s = Light \<or> theme s = Dark" by (cases "theme s") simp_all
  moreover have "activeNetwork s = Mainnet \<or> activeNetwork s = Testnet \<or> activeNetwork s = Signet"
    by (cases "activeNetwork s") simp_all
  ultimately show ?thesis
    using spread_own [OF assms]
    by (auto simp: parse_settings_def settings_json_def field_def own_props_def)
qed

datatype setting_op = Update settings_patch | SetRpc NetworkId string

fun setting_step :: "setting_op \<Rightarrow> desk \<Rightarrow> desk" where
  "setting_step (Update p) d = updateSettings p d"
| "setting_step (SetRpc n url) d = setRpcUrl n url d"

lemma setting_step_saves:
  assumes "ls_ok d" "url_keys (rpcUrls (settings d))"
  shows "ls_ok (setting_step op d) \<and> url_keys (rpcUrls (settings (setting_step op d))) \<and>
    ls_settings (setting_step op d) = Some (Some (settings_json (settings (setting_step op d))))"
  using assms
  by (cases op) (simp_all add: updateSettings_def setRpcUrl_def persist_def call_listeners_def
      apply_patch_def url_keys_put)

text \<open>
  C29. Settings survive a restart: whatever the storage item held at the start (nothing, text that is
  not JSON, any JSON), after one or more changes of the settings a restart loads exactly the
  settings that were in use, except that an empty API URL comes back as the default.
\<close>

theorem settings_survive_restart:
  assumes "d = fold setting_step (ops @ [op]) (start_desk item pk True now)"
  shows "settings (start_desk (ls_settings d) pk True later) =
    (if apiUrl (settings d) = [] then (settings d)\<lparr>apiUrl := apiUrl defaults\<rparr> else settings d)"
proof -
  have start: "ls_ok (start_desk item pk True now)"
    "url_keys (rpcUrls (settings (start_desk item pk True now)))"
    by (simp_all add: start_desk_def Let_def url_keys_load)
  have "ls_ok (fold setting_step xs d0) \<and> url_keys (rpcUrls (settings (fold setting_step xs d0)))"
    if "ls_ok d0" "url_keys (rpcUrls (settings d0))" for xs d0
    using that by (induction xs arbitrary: d0) (simp_all add: setting_step_saves)
  from this [OF start, of ops] setting_step_saves [of _ op]
  have d: "ls_settings d = Some (Some (settings_json (settings d)))"
    "url_keys (rpcUrls (settings d))"
    by (simp_all add: assms)
  then show ?thesis
    using load_saved [OF d(2)]
    by (simp add: start_desk_def Let_def load_def) (simp add: settings_json_def)
qed

theorem settings_survive_restart_witness:
  "settings (start_desk (ls_settings (setRpcUrl Signet ''http://localhost:9650''
      (start_desk None None True 0))) None True 9) =
   settings (setRpcUrl Signet ''http://localhost:9650'' (start_desk None None True 0))"
  using settings_survive_restart [OF refl, of "[]" "SetRpc Signet ''http://localhost:9650''" None None 0 9]
  by (simp add: setRpcUrl_def persist_def call_listeners_def start_desk_def Let_def load_def
      defaults_def)

end
