(* ===== verification/Desktop_Client.thy ===== *)
theory Desktop_Client
  imports Desktop_Store Bridge_Api
begin

text \<open>
  \<open>packages/desktop/src/lib/rpc.ts\<close>, \<open>bridge.ts\<close> and \<open>wallet.ts\<close>: the JSON-RPC client, the client
  of the bridge API and the wallet of the desktop application, as computations on \<open>desk\<close>.
\<close>

subsection \<open>HTTP\<close>

text \<open>
  A reply has a status, its text, and the JSON of its body unless that is not JSON. Both fetch
  functions (of the web view and of Tauri) are parameters: given the URL, the JSON sent along, what
  was sent before and the time, they answer and say how late it is then.
\<close>

datatype http_reply = NetFail string | HttpReply nat string "json option"

type_synonym fetcher =
  "(string \<times> json option) list \<Rightarrow> string \<Rightarrow> json option \<Rightarrow> int \<Rightarrow> http_reply \<times> int"

record desk_env =
  isTauri :: bool
  tauriFetch :: fetcher
  webFetch :: fetcher

definition http_ok :: "nat \<Rightarrow> bool" where
  "http_ok st \<longleftrightarrow> 200 \<le> st \<and> st \<le> 299"

definition send_request :: "string \<Rightarrow> json option \<Rightarrow> (desk, unit) comp" where
  "send_request url body = modS (\<lambda>d. d\<lparr>sent := sent d @ [(url, body)]\<rparr>)"

definition httpFetch :: "desk_env \<Rightarrow> string \<Rightarrow> json option \<Rightarrow> (desk, nat \<times> string \<times> json option) comp" where
  "httpFetch env url body = bindE getS (\<lambda>d.
     let (reply, t) = (if isTauri env then tauriFetch env (sent d) url body (clock d)
                       else webFetch env (sent d) url body (clock d))
     in seqE (modS (\<lambda>d. d\<lparr>clock := t\<rparr>))
          (case reply of
             NetFail msg \<Rightarrow> throw msg
           | HttpReply st txt j \<Rightarrow> ret (st, txt, j)))"

definition log_comp :: "LogLevel \<Rightarrow> string \<Rightarrow> string \<Rightarrow> (desk, unit) comp" where
  "log_comp level source message = modS (log_entry level source message)"

subsection \<open>JSON-RPC\<close>

text \<open>
  A call has two parts, so that \<open>Promise.all\<close> can start several before any is answered: \<open>rpc_start\<close>
  logs and sends, \<open>rpc_finish\<close> waits for the reply.
\<close>

definition rpc_body :: "int \<Rightarrow> string \<Rightarrow> json list \<Rightarrow> json" where
  "rpc_body i method params =
     JsObj [(''jsonrpc'', JsStr ''2.0''), (''id'', JsNum (JInt i)), (''method'', JsStr method),
            (''params'', JsArr params)]"

definition rpc_start :: "string \<Rightarrow> string \<Rightarrow> json list \<Rightarrow> (desk, int \<times> json) comp" where
  "rpc_start url method params = bindE getS (\<lambda>d0.
     seqE (log_comp Debug ''rpc'' (method @ '' -> '' @ url))
     (bindE getS (\<lambda>d.
        let body = rpc_body (nextId d) method params
        in seqE (modS (\<lambda>d. d\<lparr>nextId := nextId d + 1\<rparr>))
           (seqE (send_request url (Some body)) (ret (clock d0, body))))))"

definition rpc_result :: "(nat \<times> string \<times> json option) \<Rightarrow> error + json option" where
  "rpc_result resp =
     (case resp of (st, txt, j) \<Rightarrow>
        if \<not> http_ok st then Inl (''HTTP '' @ show_int (int st) @ '' '' @ txt)
        else (case j of
                None \<Rightarrow> Inl ''SyntaxError''
              | Some JsNull \<Rightarrow> Inl ''TypeError''
              | Some v \<Rightarrow>
                  if truthy_json (field v ''error'')
                  then Inl (''RPC '' @ js_string_opt (Option.bind (field v ''error'') (\<lambda>e. field e ''code''))
                            @ '': '' @ js_string_opt (Option.bind (field v ''error'') (\<lambda>e. field e ''message'')))
                  else Inr (field v ''result'')))"

definition rpc_finish :: "desk_env \<Rightarrow> string \<Rightarrow> string \<Rightarrow> int \<times> json \<Rightarrow> (desk, json option) comp" where
  "rpc_finish env url method started =
     catchE
       (bindE (httpFetch env url (Some (snd started))) (\<lambda>resp.
        bindE (liftE (rpc_result resp)) (\<lambda>res.
        bindE getS (\<lambda>d.
        seqE (log_comp Debug ''rpc'' (method @ '' ok ('' @ show_int (clock d - fst started) @ ''ms)''))
             (ret res)))))
       (\<lambda>err. seqE (log_comp Err ''rpc'' (method @ '' failed: '' @ err)) (throw err))"

definition rpcCall :: "desk_env \<Rightarrow> string \<Rightarrow> string \<Rightarrow> json list \<Rightarrow> (desk, json option) comp" where
  "rpcCall env url method params =
     bindE (rpc_start url method params) (rpc_finish env url method)"

definition hexToNumber :: "json option \<Rightarrow> jnum" where
  "hexToNumber hex = parse_int 16 (js_string_opt hex)"

definition hexToBigInt :: "json option \<Rightarrow> error + int" where
  "hexToBigInt hex = bigint_of_json hex"

record ChainStats =
  chainId :: jnum
  blockNumber :: jnum
  gasPriceWei :: int

text \<open>
  \<open>Promise.all\<close>: the calls are started in order and answered in the order \<open>arrival\<close>; the first
  rejection to arrive rejects the whole, but the other calls go on.
\<close>

definition attempt :: "(desk, 'a) comp \<Rightarrow> (desk, error + 'a) comp" where
  "attempt m d = (case m d of (r, d') \<Rightarrow> (Inr r, d'))"

fun start_all :: "string \<Rightarrow> string list \<Rightarrow> (desk, (string \<times> int \<times> json) list) comp" where
  "start_all url [] = ret []"
| "start_all url (m # ms) =
     bindE (rpc_start url m []) (\<lambda>p. bindE (start_all url ms) (\<lambda>ps. ret ((m, p) # ps)))"

fun finish_all ::
  "desk_env \<Rightarrow> string \<Rightarrow> (string \<times> int \<times> json) list \<Rightarrow> nat list \<Rightarrow>
   (desk, (nat \<times> (error + json option)) list) comp" where
  "finish_all env url ps [] = ret []"
| "finish_all env url ps (k # ks) =
     bindE (attempt (rpc_finish env url (fst (ps ! k)) (snd (ps ! k)))) (\<lambda>r.
     bindE (finish_all env url ps ks) (\<lambda>rs. ret ((k, r) # rs)))"

definition all_results :: "(nat \<times> (error + json option)) list \<Rightarrow> error + (nat \<Rightarrow> json option)" where
  "all_results rs =
     (case filter (\<lambda>r. isl (snd r)) rs of
        (k, e) # _ \<Rightarrow> Inl (projl e)
      | [] \<Rightarrow> Inr (\<lambda>k. case map_of rs k of Some r \<Rightarrow> projr r | None \<Rightarrow> None))"

definition getChainStats :: "desk_env \<Rightarrow> nat list \<Rightarrow> string \<Rightarrow> (desk, ChainStats) comp" where
  "getChainStats env arrival url =
     bindE (start_all url [''eth_chainId'', ''eth_blockNumber'', ''eth_gasPrice'']) (\<lambda>ps.
     bindE (finish_all env url ps arrival) (\<lambda>rs.
     bindE (liftE (all_results rs)) (\<lambda>hex.
     bindE (liftE (hexToBigInt (hex 2))) (\<lambda>gas.
       ret \<lparr>chainId = hexToNumber (hex 0), blockNumber = hexToNumber (hex 1), gasPriceWei = gas\<rparr>))))"

definition getBalance :: "desk_env \<Rightarrow> string \<Rightarrow> string \<Rightarrow> (desk, int) comp" where
  "getBalance env url address =
     bindE (rpcCall env url ''eth_getBalance'' [JsStr address, JsStr ''latest'']) (\<lambda>hex.
       liftE (hexToBigInt hex))"

subsection \<open>Bridge API\<close>

definition baseUrl :: "desk \<Rightarrow> string" where
  "baseUrl d = rev (dropWhile (\<lambda>c. c = CHR ''/'') (rev (apiUrl (settings d))))"

definition error_detail :: "nat \<Rightarrow> json option \<Rightarrow> string" where
  "error_detail st j =
     (let e = Option.bind j (\<lambda>body. field body ''error'')
      in if truthy_json e then js_string_opt e else ''HTTP '' @ show_int (int st))"

definition bridge_call :: "desk_env \<Rightarrow> string \<Rightarrow> string \<Rightarrow> json option \<Rightarrow> (desk, json) comp" where
  "bridge_call env method path body = bindE getS (\<lambda>d.
     let url = baseUrl d @ path
     in seqE (log_comp Debug ''bridge'' (method @ '' '' @ path))
        (seqE (send_request url body)
        (bindE (httpFetch env url body) (\<lambda>(st, txt, j).
           if \<not> http_ok st
           then seqE (log_comp Err ''bridge'' (path @ '' failed: '' @ error_detail st j))
                     (throw (error_detail st j))
           else (case j of None \<Rightarrow> throw ''SyntaxError'' | Some v \<Rightarrow> ret v)))))"

definition bridge_status :: "desk_env \<Rightarrow> (desk, json) comp" where
  "bridge_status env = bridge_call env ''GET'' ''/v1/bridge/status'' None"

definition createDeposit :: "desk_env \<Rightarrow> string \<Rightarrow> NetworkId \<Rightarrow> (desk, json) comp" where
  "createDeposit env snowsideAddress network =
     bridge_call env ''POST'' ''/v1/bridge/deposit''
       (Some (JsObj [(''snowsideAddress'', JsStr snowsideAddress), (''network'', JsStr (net_id network))]))"

definition getDeposit :: "desk_env \<Rightarrow> string \<Rightarrow> (desk, json) comp" where
  "getDeposit env i = bridge_call env ''GET'' (''/v1/bridge/deposit/'' @ i) None"

definition listDeposits :: "desk_env \<Rightarrow> string \<Rightarrow> (desk, json) comp" where
  "listDeposits env address = bridge_call env ''GET'' (''/v1/bridge/deposits/'' @ address) None"

definition createWithdrawal ::
  "desk_env \<Rightarrow> string \<Rightarrow> string \<Rightarrow> string \<Rightarrow> NetworkId \<Rightarrow> string option \<Rightarrow> (desk, json) comp" where
  "createWithdrawal env snowsideAddress ecashAddress amountEcx network burnTxHash =
     bridge_call env ''POST'' ''/v1/bridge/withdraw''
       (Some (JsObj ([(''snowsideAddress'', JsStr snowsideAddress), (''ecashAddress'', JsStr ecashAddress),
                      (''amountEcx'', JsStr amountEcx), (''network'', JsStr (net_id network))] @
                     (case burnTxHash of None \<Rightarrow> [] | Some h \<Rightarrow> [(''burnTxHash'', JsStr h)]))))"

definition listWithdrawals :: "desk_env \<Rightarrow> string \<Rightarrow> (desk, json) comp" where
  "listWithdrawals env address = bridge_call env ''GET'' (''/v1/bridge/withdrawals/'' @ address) None"

subsection \<open>Wallet\<close>

text \<open>
  viem is a parameter: accounts, addresses and amounts are functions, and each call of a client is
  a computation that is given the transport (\<open>rpcCall\<close> with the URL of the network).
\<close>

type_synonym transport = "string \<Rightarrow> json list \<Rightarrow> (desk, json option) comp"

record chain_def =
  cd_id :: int
  cd_name :: string
  cd_symbol :: string
  cd_decimals :: int
  cd_rpcUrl :: string

record eth_tx =
  tx_to :: string
  tx_value :: int
  tx_gas :: int
  tx_gasPrice :: int

record viem =
  generatePrivateKey :: "nat \<Rightarrow> string"
  privateKeyToAccount :: "string \<Rightarrow> error + string"
  isAddress :: "string \<Rightarrow> bool"
  parseEther :: "string \<Rightarrow> error + int"
  formatEther :: "int \<Rightarrow> string"
  vGetChainId :: "transport \<Rightarrow> (desk, int) comp"
  vGetGasPrice :: "transport \<Rightarrow> (desk, int) comp"
  vEstimateGas :: "transport \<Rightarrow> string \<Rightarrow> string \<Rightarrow> int \<Rightarrow> (desk, int) comp"
  vSendTransaction :: "transport \<Rightarrow> string \<Rightarrow> chain_def \<Rightarrow> eth_tx \<Rightarrow> (desk, string) comp"
  vWaitReceipt :: "transport \<Rightarrow> string \<Rightarrow> int \<Rightarrow> (desk, unit) comp"

definition hasWallet :: "desk \<Rightarrow> bool" where
  "hasWallet d \<longleftrightarrow> getWalletKey d \<noteq> None"

definition normalizePk :: "string \<Rightarrow> string" where
  "normalizePk pk = (let trimmed = trim pk in if starts_with trimmed ''0x'' then trimmed else ''0x'' @ trimmed)"

definition walletAddress :: "viem \<Rightarrow> desk \<Rightarrow> string option" where
  "walletAddress v d =
     (if \<not> truthy_str (getWalletKey d) then None
      else case privateKeyToAccount v (normalizePk (the (getWalletKey d))) of
             Inl e \<Rightarrow> None | Inr a \<Rightarrow> Some a)"

text \<open>\<open>seed\<close> stands for the randomness.\<close>

definition createWallet :: "viem \<Rightarrow> nat \<Rightarrow> (desk, string) comp" where
  "createWallet v seed =
     (let pk = generatePrivateKey v seed
      in seqE (modS (setWalletKey pk))
         (seqE (log_comp Info ''wallet'' ''New wallet created'')
               (liftE (privateKeyToAccount v pk))))"

definition importWallet :: "viem \<Rightarrow> string \<Rightarrow> (desk, string) comp" where
  "importWallet v pk =
     (let normalized = normalizePk pk
      in bindE (liftE (privateKeyToAccount v normalized)) (\<lambda>account.
         seqE (modS (setWalletKey normalized))
         (seqE (log_comp Info ''wallet'' ''Wallet imported'') (ret account))))"

definition deleteWallet :: "(desk, unit) comp" where
  "deleteWallet =
     seqE (modS clearWalletKey) (log_comp Info ''wallet'' ''Wallet removed from this device'')"

definition revealKey :: "desk \<Rightarrow> string option" where
  "revealKey d = getWalletKey d"

definition chainDef :: "int \<Rightarrow> string \<Rightarrow> string \<Rightarrow> chain_def" where
  "chainDef i rpcUrl name =
     \<lparr>cd_id = i, cd_name = name, cd_symbol = TOKEN_SYMBOL, cd_decimals = TOKEN_DECIMALS,
      cd_rpcUrl = rpcUrl\<rparr>"

definition transportFor :: "desk_env \<Rightarrow> string \<Rightarrow> transport" where
  "transportFor env rpcUrl method params = rpcCall env rpcUrl method params"

text \<open>The gas price and the estimate are asked for together; the estimate is answered last here.\<close>

definition sendEcx :: "desk_env \<Rightarrow> viem \<Rightarrow> string \<Rightarrow> string \<Rightarrow> (desk, string) comp" where
  "sendEcx env v to amountEcx = bindE getS (\<lambda>d.
     if \<not> truthy_str (getWalletKey d)
     then throw (''No wallet '' @ dash @ '' create or import one first'')
     else if \<not> isAddress v to then throw (''Invalid recipient address: '' @ to)
     else
       let pk = the (getWalletKey d); net = activeNetwork (settings d);
           rpcUrl = rpc_url (settings d) net; transport = transportFor env rpcUrl
       in bindE (liftE (privateKeyToAccount v (normalizePk pk))) (\<lambda>account.
          bindE (vGetChainId v transport) (\<lambda>chainId.
            let chain = chainDef chainId rpcUrl (net_label (NETWORKS net))
            in bindE (liftE (parseEther v amountEcx)) (\<lambda>value.
               bindE (vGetGasPrice v transport) (\<lambda>gasPrice.
               bindE (vEstimateGas v transport account to value) (\<lambda>gas.
               bindE (vSendTransaction v transport account chain
                        \<lparr>tx_to = to, tx_value = value, tx_gas = gas, tx_gasPrice = gasPrice\<rparr>) (\<lambda>hash.
               seqE (log_comp Info ''wallet''
                       (''Sent '' @ amountEcx @ '' '' @ TOKEN_SYMBOL @ '' -> '' @ to @ '' (tx '' @ hash @ '')''))
                    (ret hash))))))))"

definition waitForReceipt :: "desk_env \<Rightarrow> viem \<Rightarrow> string \<Rightarrow> (desk, unit) comp" where
  "waitForReceipt env v hash = bindE getS (\<lambda>d.
     vWaitReceipt v (transportFor env (rpc_url (settings d) (activeNetwork (settings d)))) hash 60000)"

subsection \<open>Request ids\<close>

definition request_id :: "string \<times> json option \<Rightarrow> json option" where
  "request_id r = Option.bind (snd r) (\<lambda>b. field b ''id'')"

text \<open>Since the modules were loaded only JSON-RPC requests were sent, numbered from 1.\<close>

definition numbered :: "desk \<Rightarrow> bool" where
  "numbered d \<longleftrightarrow>
     map request_id (sent d) = map (\<lambda>i. Some (JsNum (JInt i))) [1..nextId d - 1] \<and> 1 \<le> nextId d"

lemma numbered_cong:
  "sent d = sent e \<Longrightarrow> nextId d = nextId e \<Longrightarrow> numbered d = numbered e"
  by (simp add: numbered_def)

lemma log_entry_more [simp]:
  "sent (log_entry l a b d) = sent d" "nextId (log_entry l a b d) = nextId d"
  "settings (log_entry l a b d) = settings d" "ls_ok (log_entry l a b d) = ls_ok d"
  "ls_wallet_pk (log_entry l a b d) = ls_wallet_pk d"
  by (simp_all add: log_entry_def emit_def)

lemma numbered_log: "keeps numbered (log_comp l a b)"
  by (simp add: keeps_def log_comp_def numbered_def modS_def)

lemma numbered_fetch: "keeps numbered (httpFetch env url body)"
  by (auto simp: keeps_def httpFetch_def bindE_def seqE_def getS_def modS_def throw_def ret_def
      Let_def numbered_def split: prod.splits http_reply.splits)

lemma upto_snoc: "1 \<le> n \<Longrightarrow> [1..n - 1] @ [n] = [1..n :: int]"
  using upto_rec2 [of 1 n] by simp

lemma numbered_start: "keeps numbered (rpc_start url method params)"
  by (simp add: keeps_def rpc_start_def bindE_def seqE_def log_comp_def send_request_def
      Let_def numbered_def ret_def getS_def modS_def)
    (simp add: request_id_def rpc_body_def field_def flip: upto_snoc)

lemma numbered_finish: "keeps numbered (rpc_finish env url method started)"
  unfolding rpc_finish_def
  by (intro keeps_catchE keeps_bindE keeps_seqE numbered_fetch numbered_log
      keeps_liftE keeps_getS keeps_ret keeps_throw)

lemma numbered_rpcCall: "keeps numbered (rpcCall env url method params)"
  unfolding rpcCall_def by (intro keeps_bindE numbered_start numbered_finish)

lemma keeps_attempt: "keeps P m \<Longrightarrow> keeps P (attempt m)"
  by (auto simp: keeps_def attempt_def split: prod.splits sum.splits)

lemma numbered_start_all: "keeps numbered (start_all url ms)"
  by (induction ms) (auto intro!: keeps_ret keeps_bindE numbered_start)

lemma numbered_finish_all: "keeps numbered (finish_all env url ps ks)"
  by (induction ks) (auto intro!: keeps_ret keeps_bindE keeps_attempt numbered_finish)

lemma numbered_stats: "keeps numbered (getChainStats env arrival url)"
  unfolding getChainStats_def
  by (intro keeps_bindE numbered_start_all numbered_finish_all keeps_liftE keeps_ret)

lemma numbered_balance: "keeps numbered (getBalance env url a)"
  unfolding getBalance_def by (intro keeps_bindE numbered_rpcCall keeps_liftE)

datatype rpc_op =
    OpCall string string "json list"
  | OpStats "nat list" string
  | OpBalance string string

fun rpc_run :: "desk_env \<Rightarrow> rpc_op \<Rightarrow> desk \<Rightarrow> desk" where
  "rpc_run env (OpCall url m ps) d = snd (rpcCall env url m ps d)"
| "rpc_run env (OpStats arrival url) d = snd (getChainStats env arrival url d)"
| "rpc_run env (OpBalance url a) d = snd (getBalance env url a d)"

lemma numbered_op: "numbered d \<Longrightarrow> numbered (rpc_run env op d)"
  by (cases op) (auto intro: keepsD [OF numbered_rpcCall] keepsD [OF numbered_stats]
      keepsD [OF numbered_balance])

text \<open>
  Request ids are never reused: after any sequence of calls, statistics (their three requests
  answered in any order, or failing) and balance queries, whatever the endpoints answer, the
  requests sent carry the ids 1, 2, 3 and so on without gaps.
\<close>

theorem rpc_ids_consecutive:
  "let d = fold (rpc_run env) ops (start_desk item pk ok t)
   in map request_id (sent d) = map (\<lambda>i. Some (JsNum (JInt i))) [1..int (length (sent d))]"
proof -
  have "numbered (fold (rpc_run env) ops d)" if "numbered d" for d
    using that by (induction ops arbitrary: d) (simp_all add: numbered_op)
  from this [of "start_desk item pk ok t"]
  have n: "numbered (fold (rpc_run env) ops (start_desk item pk ok t))"
    by (simp add: numbered_def start_desk_def Let_def)
  let ?d = "fold (rpc_run env) ops (start_desk item pk ok t)"
  have "length (sent ?d) = length [1..nextId ?d - 1]"
    using n unfolding numbered_def by (metis length_map)
  then have "int (length (sent ?d)) = nextId ?d - 1" using n by (simp add: numbered_def)
  with n show ?thesis by (simp add: numbered_def Let_def)
qed

subsection \<open>The default settings miss the API\<close>

lemma sent_fetch: "sent (snd (httpFetch env url body d)) = sent d"
  by (auto simp: httpFetch_def bindE_def seqE_def Let_def getS_def modS_def throw_def ret_def split: prod.splits http_reply.splits)

lemma sent_bridge_call:
  "sent (snd (bridge_call env m path body d)) = sent d @ [(baseUrl d @ path, body)]"
proof -
  let ?url = "baseUrl d @ path"
  let ?d = "(log_entry Debug ''bridge'' (m @ '' '' @ path) d)
      \<lparr>sent := sent d @ [(?url, body)]\<rparr>"
  have "sent (snd (httpFetch env ?url body ?d)) = sent d @ [(?url, body)]"
    by (simp add: sent_fetch)
  then show ?thesis
    by (auto simp: bridge_call_def bindE_def seqE_def log_comp_def send_request_def Let_def ret_def
        throw_def getS_def modS_def split: prod.splits sum.splits option.splits if_splits)
qed

definition pathname :: "string \<Rightarrow> string" where
  "pathname url = drop (length ''https://snowside.network'') url"

lemma twice_v1_segments:
  "r_path r = ''/v1/v1/bridge'' @ rest \<Longrightarrow> \<exists>xs. segments r = ''v1'' # ''v1'' # xs"
  using split_slash_seg [of "''v1''" "''v1/bridge'' @ rest"] split_slash_seg [of "''v1''" "''bridge'' @ rest"]
    split_slash_nonempty [of "''bridge'' @ rest"]
  by (simp add: segments_def split: list.splits)

text \<open>
  With the default settings no call of the desktop client reaches the bridge: the base URL
  already ends in \<open>/v1\<close> and every path starts with \<open>/v1\<close>, so the Worker sees \<open>/v1/v1/bridge/...\<close>,
  which no bridge route matches: the request goes to the testnet Esplora and the database stays as
  it is.
\<close>

theorem desktop_default_misses_api:
  assumes "apiUrl (settings d) = apiUrl defaults" "r_verb r \<noteq> OPTIONS"
    and "r_path r = pathname (fst (last (sent (snd (bridge_call env m (''/v1/bridge'' @ rest) body d)))))"
  shows "handle aenv r s =
    (pass_through aenv (''https://esplora.drynet4.drivechain.dev/v1/bridge'' @ rest @ r_search r)
       ''Esplora fetch failed'', s)"
proof -
  have path: "r_path r = ''/v1/v1/bridge'' @ rest"
    using assms(1,3) by (simp add: sent_bridge_call baseUrl_def defaults_def pathname_def)
  obtain xs where segs: "segments r = ''v1'' # ''v1'' # xs" using twice_v1_segments [OF path] by blast
  have no: "\<not> under (''v1'' # ''bridge'' # ys) (segments r)" "\<not> under (''v1'' # ''fed'' # ys) (segments r)" for ys
    by (auto simp: under_def segs split: if_splits)
  have "public_route aenv r = None" "fed_route aenv r = None"
    using assms(2) no by (simp_all add: public_route_def fed_route_def Let_def segs [symmetric])
      (simp_all add: segs)
  moreover have "\<not> is_fed_path (segments r)" by (simp add: is_fed_path_def segs)
  moreover have "esplora_target (r_path r) (r_search r) =
      Some (''https://esplora.drynet4.drivechain.dev/v1/bridge'' @ rest @ r_search r)"
    by (simp add: path esplora_target_def Let_def starts_with_Cons esplora_match_def ESPLORA_URLS_api_def)
  ultimately show ?thesis
    by (simp add: handle_def dispatch_def ret_def proxy_route_def segs RPC_UPSTREAMS_def esplora_proxy_def
        Let_def)
qed

definition toy_get :: request where
  "toy_get = toy_request GET ''/v1/v1/bridge/status'' None None"

theorem desktop_default_misses_api_witness:
  "handle toy_api toy_get empty_db =
     (pass_through toy_api ''https://esplora.drynet4.drivechain.dev/v1/bridge/status''
        ''Esplora fetch failed'', empty_db)"
proof -
  let ?d = "start_desk None None True 0"
  let ?env = "\<lparr>isTauri = False, tauriFetch = (\<lambda>h u j t. (NetFail [], t)),
                webFetch = (\<lambda>h u j t. (NetFail [], t))\<rparr>"
  have s: "apiUrl (settings ?d) = apiUrl defaults" by (simp add: start_desk_def Let_def load_def)
  have "r_verb toy_get \<noteq> OPTIONS" "r_search toy_get = []"
    by (simp_all add: toy_get_def toy_request_def)
  moreover have "r_path toy_get =
      pathname (fst (last (sent (snd (bridge_call ?env ''GET'' (''/v1/bridge'' @ ''/status'') None ?d)))))"
    using s by (simp add: sent_bridge_call baseUrl_def defaults_def pathname_def toy_get_def toy_request_def)
  ultimately show ?thesis
    using desktop_default_misses_api [OF s] by fastforce
qed

end
