(* ===== verification/Desktop_Tabs.thy ===== *)
theory Desktop_Tabs
  imports Desktop_Client
begin

text \<open>
  \<open>packages/desktop/src/tabs/\<close>: what the tabs of the desktop application do. A component's state is a
  record; a handler takes it and the state of the modules and gives both back. A handler awaits
  its calls one after the other, and while it is busy its buttons are disabled, so each handler is
  one step. What is shown is in \<open>Desktop_View\<close>, except for the texts computed here.
\<close>

subsection \<open>Amounts and states\<close>

definition BURN_ADDRESS :: string where
  "BURN_ADDRESS = ''0x0000000000000000000000000000000000000000''"

definition statusColor :: "string \<Rightarrow> string" where
  "statusColor status =
     (if status = ''minted'' \<or> status = ''completed'' then ''ok''
      else if status = ''pending'' \<or> status = ''confirmed'' \<or> status = ''processing'' then ''warn''
      else ''err'')"

text \<open>\<open>/^\d+(\.\d+)?$/.test(s)\<close>\<close>

definition decimal_text :: "string \<Rightarrow> bool" where
  "decimal_text s \<longleftrightarrow>
     (let r = dropWhile is_digit s
      in takeWhile is_digit s \<noteq> [] \<and>
         (r = [] \<or> hd r = CHR ''.'' \<and> tl r \<noteq> [] \<and> list_all is_digit (tl r)))"

definition amountValid :: "string \<Rightarrow> bool" where
  "amountValid amount \<longleftrightarrow> decimal_text amount \<and> js_less (JInt 0) (num_of_string amount)"

text \<open>\<open>const { id } = value\<close>.\<close>

definition destructure_id :: "json \<Rightarrow> error + json option" where
  "destructure_id j = (if j = JsNull then Inl ''TypeError'' else Inr (field j ''id''))"

subsection \<open>Deposit pane\<close>

record deposit_pane =
  dv_snowsideAddr :: string
  dv_network :: NetworkId
  dv_deposit :: "json option"
  dv_busy :: bool
  dv_error :: "string option"

definition open_deposit :: "string option \<Rightarrow> desk \<Rightarrow> deposit_pane" where
  "open_deposit address d =
     \<lparr>dv_snowsideAddr = (case address of None \<Rightarrow> [] | Some a \<Rightarrow> a),
      dv_network = activeNetwork (settings d), dv_deposit = None, dv_busy = False, dv_error = None\<rparr>"

definition create_clicked :: "desk_env \<Rightarrow> viem \<Rightarrow> deposit_pane \<Rightarrow> desk \<Rightarrow> deposit_pane \<times> desk" where
  "create_clicked env v p d =
     (if \<not> isAddress v (dv_snowsideAddr p) \<or> dv_busy p then (p, d)
      else let p1 = p\<lparr>dv_busy := True, dv_error := None\<rparr>
           in case bindE (createDeposit env (dv_snowsideAddr p) (dv_network p)) (\<lambda>j.
                   bindE (liftE (destructure_id j)) (\<lambda>i. getDeposit env (js_string_opt i))) d of
                (Inr dep, d1) \<Rightarrow> (p1\<lparr>dv_deposit := Some dep, dv_busy := False\<rparr>, d1)
              | (Inl e, d1) \<Rightarrow> (p1\<lparr>dv_error := Some e, dv_busy := False\<rparr>, d1))"

text \<open>The timer polls the deposit until it is minted; errors are ignored.\<close>

definition deposit_timer :: "desk_env \<Rightarrow> deposit_pane \<Rightarrow> desk \<Rightarrow> deposit_pane \<times> desk" where
  "deposit_timer env p d =
     (case dv_deposit p of
        None \<Rightarrow> (p, d)
      | Some dep \<Rightarrow>
          if \<not> truthy_json (Some dep) \<or> field dep ''status'' = Some (JsStr ''minted'') then (p, d)
          else (case getDeposit env (js_string_opt (field dep ''id'')) d of
                  (Inr dep', d1) \<Rightarrow> (p\<lparr>dv_deposit := Some dep'\<rparr>, d1)
                | (Inl e, d1) \<Rightarrow> (p, d1)))"

text \<open>The amount of a row, with \<open>toLocaleString\<close> as a parameter.\<close>

definition deposit_amount :: "(jnum \<Rightarrow> string) \<Rightarrow> jnum option \<Rightarrow> string \<Rightarrow> string \<Rightarrow> string" where
  "deposit_amount toLocaleString amount_sats suffix none =
     (case amount_sats of
        None \<Rightarrow> none | Some x \<Rightarrow> toLocaleString (js_div x (JInt 100)) @ suffix)"

subsection \<open>Withdraw pane\<close>

record withdraw_pane =
  wv_snowsideAddr :: string
  wv_ecashAddr :: string
  wv_amount :: string
  wv_burnTx :: string
  wv_busy :: "string option"
  wv_error :: "string option"
  wv_done :: "json option"

definition open_withdraw :: "string option \<Rightarrow> withdraw_pane" where
  "open_withdraw address =
     \<lparr>wv_snowsideAddr = (case address of None \<Rightarrow> [] | Some a \<Rightarrow> a), wv_ecashAddr = [], wv_amount = [],
      wv_burnTx = [], wv_busy = None, wv_error = None, wv_done = None\<rparr>"

definition doBurn ::
  "desk_env \<Rightarrow> viem \<Rightarrow> string option \<Rightarrow> withdraw_pane \<Rightarrow> desk \<Rightarrow> string option \<times> withdraw_pane \<times> desk" where
  "doBurn env v address p d =
     (if \<not> truthy_str address
      then (None, p\<lparr>wv_error := Some (''No wallet in this app '' @ dash @
              '' burn from your own wallet and paste the tx hash below.'')\<rparr>, d)
      else let p1 = p\<lparr>wv_busy := Some ''burn'', wv_error := None\<rparr>
           in case sendEcx env v BURN_ADDRESS (wv_amount p) d of
                (Inr hash, d1) \<Rightarrow>
                  (Some hash, p1\<lparr>wv_burnTx := hash, wv_busy := None\<rparr>,
                   snd (attempt (waitForReceipt env v hash) d1))
              | (Inl e, d1) \<Rightarrow> (None, p1\<lparr>wv_error := Some e, wv_busy := None\<rparr>, d1))"

text \<open>\<open>submit\<close> also gives the hash of the burn it made and that of the burn it handed in.\<close>

definition hand_in ::
  "desk_env \<Rightarrow> string \<Rightarrow> withdraw_pane \<Rightarrow> desk \<Rightarrow> string option \<times> withdraw_pane \<times> desk" where
  "hand_in env hash p d =
     (let p1 = p\<lparr>wv_busy := Some ''submit''\<rparr>
      in case bindE (createWithdrawal env (wv_snowsideAddr p) (wv_ecashAddr p) (wv_amount p)
                       (activeNetwork (settings d)) (Some hash)) (\<lambda>j. liftE (destructure_id j)) d of
           (Inr i, d1) \<Rightarrow>
             (Some hash, p1\<lparr>wv_done := i, wv_amount := [], wv_ecashAddr := [], wv_burnTx := [],
                           wv_busy := None\<rparr>, d1)
         | (Inl e, d1) \<Rightarrow> (None, p1\<lparr>wv_error := Some e, wv_busy := None\<rparr>, d1))"

definition submit ::
  "desk_env \<Rightarrow> viem \<Rightarrow> string option \<Rightarrow> withdraw_pane \<Rightarrow> desk \<Rightarrow>
   (string option \<times> string option) \<times> withdraw_pane \<times> desk" where
  "submit env v address p d =
     (let p0 = p\<lparr>wv_error := None, wv_done := None\<rparr>; typed = trim (wv_burnTx p)
      in if typed \<noteq> []
         then (case hand_in env typed p0 d of (s, p1, d1) \<Rightarrow> ((None, s), p1, d1))
         else (case doBurn env v address p0 d of
                 (h, p1, d1) \<Rightarrow>
                   if \<not> truthy_str h then ((h, None), p1, d1)
                   else (case hand_in env (the h) p1 d1 of
                           (s, p2, d2) \<Rightarrow> ((h, s), p2, d2))))"

datatype withdraw_event =
    TypeSnowside string
  | TypeEcash string
  | TypeAmount string
  | TypeBurn string
  | BurnClick
  | SubmitClick

record withdraw_run =
  wr_pane :: withdraw_pane
  wr_desk :: desk
  wr_burned :: "string list"
  wr_submitted :: "string list"

definition opt_list :: "'a option \<Rightarrow> 'a list" where
  "opt_list x = (case x of None \<Rightarrow> [] | Some a \<Rightarrow> [a])"

fun withdraw_step ::
  "desk_env \<Rightarrow> viem \<Rightarrow> string option \<Rightarrow> withdraw_event \<Rightarrow> withdraw_run \<Rightarrow> withdraw_run" where
  "withdraw_step env v a (TypeSnowside s) r = r\<lparr>wr_pane := (wr_pane r)\<lparr>wv_snowsideAddr := s\<rparr>\<rparr>"
| "withdraw_step env v a (TypeEcash s) r = r\<lparr>wr_pane := (wr_pane r)\<lparr>wv_ecashAddr := s\<rparr>\<rparr>"
| "withdraw_step env v a (TypeAmount s) r = r\<lparr>wr_pane := (wr_pane r)\<lparr>wv_amount := s\<rparr>\<rparr>"
| "withdraw_step env v a (TypeBurn s) r = r\<lparr>wr_pane := (wr_pane r)\<lparr>wv_burnTx := s\<rparr>\<rparr>"
| "withdraw_step env v a BurnClick r =
     (let p = wr_pane r
      in if \<not> amountValid (wv_amount p) \<or> \<not> truthy_str a \<or> wv_busy p \<noteq> None then r
         else (case doBurn env v a p (wr_desk r) of
                 (h, p1, d1) \<Rightarrow>
                   r\<lparr>wr_pane := p1, wr_desk := d1, wr_burned := wr_burned r @ opt_list h\<rparr>))"
| "withdraw_step env v a SubmitClick r =
     (let p = wr_pane r
      in if \<not> isAddress v (wv_snowsideAddr p) \<or> wv_ecashAddr p = [] \<or>
            \<not> amountValid (wv_amount p) \<or> wv_busy p \<noteq> None then r
         else (case submit env v a p (wr_desk r) of
                 ((h, s), p1, d1) \<Rightarrow>
                   r\<lparr>wr_pane := p1, wr_desk := d1, wr_burned := wr_burned r @ opt_list h,
                     wr_submitted := wr_submitted r @ opt_list s\<rparr>))"

definition withdraw_session ::
  "desk_env \<Rightarrow> viem \<Rightarrow> string option \<Rightarrow> desk \<Rightarrow> withdraw_event list \<Rightarrow> withdraw_run" where
  "withdraw_session env v a d evs =
     fold (withdraw_step env v a) evs
       \<lparr>wr_pane = open_withdraw a, wr_desk = d, wr_burned = [], wr_submitted = []\<rparr>"

subsection \<open>History pane\<close>

record history_pane =
  hv_deposits :: json
  hv_withdrawals :: json
  hv_error :: "string option"

text \<open>Both lists are asked for; the first failure is shown.\<close>

definition history_poll :: "desk_env \<Rightarrow> string option \<Rightarrow> history_pane \<Rightarrow> desk \<Rightarrow> history_pane \<times> desk" where
  "history_poll env address p d =
     (if \<not> truthy_str address then (p, d)
      else case attempt (listDeposits env (the address)) d of
             (rd, d1) \<Rightarrow>
               (case attempt (listWithdrawals env (the address)) d1 of
                  (rw, d2) \<Rightarrow>
                    (case (projr rd, projr rw) of
                       (Inl e, _) \<Rightarrow> (p\<lparr>hv_error := Some e\<rparr>, d2)
                     | (Inr ds, Inl e) \<Rightarrow> (p\<lparr>hv_error := Some e\<rparr>, d2)
                     | (Inr ds, Inr ws) \<Rightarrow>
                         (p\<lparr>hv_deposits := ds, hv_withdrawals := ws, hv_error := None\<rparr>, d2))))"

definition num_of_json :: "json \<Rightarrow> jnum" where
  "num_of_json j =
     (case j of
        JsNum x \<Rightarrow> x
      | JsBool b \<Rightarrow> JInt (if b then 1 else 0)
      | JsNull \<Rightarrow> JInt 0
      | _ \<Rightarrow> num_of_string (js_string j))"

text \<open>
  The amount of a withdrawal row; \<open>BigInt\<close> throws a \<open>RangeError\<close> for what is not an integer, and a
  throw while rendering takes the whole application down.
\<close>

definition withdrawal_amount :: "(int \<Rightarrow> string) \<Rightarrow> json option \<Rightarrow> error + string" where
  "withdrawal_amount fe amount_ecx =
     (if \<not> truthy_json amount_ecx then Inr dash
      else map_sum id (\<lambda>n. fmtEcx fe n 4 @ '' ECX'')
             (bigint_of_num (js_floor (js_mul (num_of_json (the amount_ecx)) (JInt (10 ^ 18))))))"

definition render_withdrawals :: "(int \<Rightarrow> string) \<Rightarrow> json list \<Rightarrow> error + string list" where
  "render_withdrawals fe ws =
     foldr (\<lambda>w acc. case withdrawal_amount fe (field w ''amount_ecx'') of
                      Inl e \<Rightarrow> Inl e
                    | Inr s \<Rightarrow> map_sum id (\<lambda>ss. s # ss) acc) ws (Inr [])"

subsection \<open>Wallet tab\<close>

definition create_wallet_clicked :: "viem \<Rightarrow> nat \<Rightarrow> desk \<Rightarrow> string option \<times> desk" where
  "create_wallet_clicked v seed d = (let d1 = snd (createWallet v seed d) in (walletAddress v d1, d1))"

text \<open>The new address of the tab (if the import worked), the error shown, the modules.\<close>

definition import_clicked ::
  "viem \<Rightarrow> string \<Rightarrow> string option \<Rightarrow> desk \<Rightarrow> string option \<times> string option \<times> desk" where
  "import_clicked v importValue error d =
     (if trim importValue = [] then (None, error, d)
      else case importWallet v importValue d of
             (Inr a, d1) \<Rightarrow> (walletAddress v d1, error, d1)
           | (Inl e, d1) \<Rightarrow> (None, Some ''Invalid private key'', d1))"

definition balance_poll :: "desk_env \<Rightarrow> string \<Rightarrow> string \<Rightarrow> int option \<Rightarrow> desk \<Rightarrow> int option \<times> desk" where
  "balance_poll env rpcUrl address balance d =
     (case getBalance env rpcUrl address d of
        (Inr b, d1) \<Rightarrow> (Some b, d1) | (Inl e, d1) \<Rightarrow> (balance, d1))"

record send_card =
  sv_to :: string
  sv_amount :: string
  sv_busy :: bool
  sv_txHash :: "string option"
  sv_error :: "string option"

definition send_clicked :: "desk_env \<Rightarrow> viem \<Rightarrow> send_card \<Rightarrow> desk \<Rightarrow> send_card \<times> desk" where
  "send_clicked env v p d =
     (if \<not> isAddress v (sv_to p) \<or> \<not> amountValid (sv_amount p) \<or> sv_busy p then (p, d)
      else let p1 = p\<lparr>sv_busy := True, sv_error := None, sv_txHash := None\<rparr>
           in case sendEcx env v (sv_to p) (sv_amount p) d of
                (Inr hash, d1) \<Rightarrow>
                  (p1\<lparr>sv_txHash := Some hash, sv_to := [], sv_amount := [], sv_busy := False\<rparr>,
                   snd (attempt (waitForReceipt env v hash) d1))
              | (Inl e, d1) \<Rightarrow> (p1\<lparr>sv_error := Some e, sv_busy := False\<rparr>, d1))"

subsection \<open>Overview, network, console and settings tabs\<close>

record overview =
  ov_stats :: "ChainStats option"
  ov_statsError :: "string option"
  ov_balance :: "int option"
  ov_bridge :: "json option"

definition overview_poll ::
  "desk_env \<Rightarrow> nat list \<Rightarrow> string \<Rightarrow> string option \<Rightarrow> overview \<Rightarrow> desk \<Rightarrow> overview \<times> desk" where
  "overview_poll env arrival rpcUrl address o0 d0 =
     (let (o1, d1) = (case getChainStats env arrival rpcUrl d0 of
                        (Inr st, d) \<Rightarrow> (o0\<lparr>ov_stats := Some st, ov_statsError := None\<rparr>, d)
                      | (Inl e, d) \<Rightarrow> (o0\<lparr>ov_stats := None, ov_statsError := Some e\<rparr>, d));
          (o2, d2) = (if \<not> truthy_str address then (o1, d1)
                      else case getBalance env rpcUrl (the address) d1 of
                             (Inr b, d) \<Rightarrow> (o1\<lparr>ov_balance := Some b\<rparr>, d) | (Inl e, d) \<Rightarrow> (o1, d))
      in case bridge_status env d2 of
           (Inr b, d) \<Rightarrow> (o2\<lparr>ov_bridge := Some b\<rparr>, d) | (Inl e, d) \<Rightarrow> (o2\<lparr>ov_bridge := None\<rparr>, d))"

definition bridge_label :: "json option \<Rightarrow> string" where
  "bridge_label b =
     (case b of
        None \<Rightarrow> ''API unreachable''
      | Some JsNull \<Rightarrow> ''API unreachable''
      | Some j \<Rightarrow> if truthy_json (field j ''federation_online'') then ''Online'' else ''Offline'')"

text \<open>
  The networks are probed at the same time; here one after the other, which gives the same probes
  when an endpoint's answers do not depend on the requests to the others.
\<close>

fun network_poll ::
  "desk_env \<Rightarrow> nat list \<Rightarrow> NetworkId list \<Rightarrow> desk \<Rightarrow> (NetworkId \<times> ChainStats option) list \<times> desk" where
  "network_poll env arrival [] d = ([], d)"
| "network_poll env arrival (n # ns) d =
     (case getChainStats env arrival (rpc_url (settings d) n) d of
        (r, d1) \<Rightarrow>
          (case network_poll env arrival ns d1 of
             (ps, d2) \<Rightarrow> ((n, case r of Inr st \<Rightarrow> Some st | Inl e \<Rightarrow> None) # ps, d2)))"

definition probe_label :: "(NetworkId \<times> ChainStats option) list \<Rightarrow> NetworkId \<Rightarrow> string" where
  "probe_label probes n =
     (case map_of probes n of
        None \<Rightarrow> ''probing'' @ ellipsis
      | Some (Some st) \<Rightarrow> ''online''
      | Some None \<Rightarrow> ''offline'')"

text \<open>The console; \<open>JSON.parse\<close> and the indented \<open>JSON.stringify\<close> are parameters.\<close>

definition console_call ::
  "desk_env \<Rightarrow> (string \<Rightarrow> json option) \<Rightarrow> (json option \<Rightarrow> string) \<Rightarrow> string \<Rightarrow> string \<Rightarrow> desk \<Rightarrow>
   string option \<times> desk" where
  "console_call env parse pretty method params d =
     (if trim method = [] then (None, d)
      else let net = activeNetwork (settings d); url = rpc_url (settings d) net;
               call = bindE (liftE (if trim params = [] then Inr (JsArr [])
                                    else case parse params of
                                           None \<Rightarrow> Inl ''SyntaxError'' | Some j \<Rightarrow> Inr j)) (\<lambda>parsed.
                      case parsed of
                        JsArr ps \<Rightarrow> rpcCall env url (trim method) ps
                      | _ \<Rightarrow> throw ''Params must be a JSON array'')
           in case call d of
                (Inr res, d1) \<Rightarrow> (Some (pretty res), d1)
              | (Inl msg, d1) \<Rightarrow> (Some (''Error: '' @ msg), log_entry Err ''console'' msg d1))"

record settings_tab =
  tv_revealed :: "string option"
  tv_confirmDelete :: bool

datatype settings_event = Reveal | AskDelete | CancelDelete | ConfirmDelete

text \<open>The confirm and cancel buttons are shown only after \<open>AskDelete\<close>.\<close>

fun settings_click :: "settings_event \<Rightarrow> settings_tab \<Rightarrow> desk \<Rightarrow> settings_tab \<times> desk" where
  "settings_click Reveal t d = (t\<lparr>tv_revealed := revealKey d\<rparr>, d)"
| "settings_click AskDelete t d = (t\<lparr>tv_confirmDelete := True\<rparr>, d)"
| "settings_click CancelDelete t d = (t\<lparr>tv_confirmDelete := False\<rparr>, d)"
| "settings_click ConfirmDelete t d =
     (if \<not> tv_confirmDelete t then (t, d)
      else (t\<lparr>tv_confirmDelete := False, tv_revealed := None\<rparr>,
            log_entry Info ''settings'' (''Wallet deleted '' @ dash @ '' reload the Wallet tab'')
              (snd (deleteWallet d))))"

subsection \<open>A burn is handed in once\<close>

text \<open>
  Hashes of transactions have no surrounding white space and are not empty.
\<close>

definition sane_hashes :: "viem \<Rightarrow> bool" where
  "sane_hashes v \<longleftrightarrow>
     (\<forall>t a c x d h d'. vSendTransaction v t a c x d = (Inr h, d') \<longrightarrow> h \<noteq> [] \<and> trim h = h)"

lemma bindE_Inr_cases:
  "bindE m f s = (Inr b, t) \<Longrightarrow> (\<And>a u. m s = (Inr a, u) \<Longrightarrow> f a u = (Inr b, t) \<Longrightarrow> P) \<Longrightarrow> P"
  by (auto simp: bindE_def split: prod.splits sum.splits)

lemma sendEcx_hash:
  assumes "sane_hashes v" "sendEcx env v to amount d = (Inr h, d')"
  shows "h \<noteq> [] \<and> trim h = h"
proof -
  obtain t a c x e e' where "vSendTransaction v t a c x e = (Inr h, e')"
    using assms(2) unfolding sendEcx_def
    by (auto simp: Let_def seqE_def throw_def ret_def getS_def modS_def log_comp_def
        split: if_splits elim!: bindE_Inr_cases)
  with assms(1) show ?thesis unfolding sane_hashes_def by blast
qed

text \<open>Every burn but the last was handed in; the last one is in the field as long as it was not.\<close>

definition burns_kept :: "withdraw_run \<Rightarrow> bool" where
  "burns_kept r \<longleftrightarrow>
     (if wv_burnTx (wr_pane r) = [] then wr_burned r = wr_submitted r
      else trim (wv_burnTx (wr_pane r)) = wv_burnTx (wr_pane r) \<and>
           wr_burned r = wr_submitted r @ [wv_burnTx (wr_pane r)])"

lemma doBurn_cases:
  assumes "doBurn env v a p d = (h, p1, d1)" "sane_hashes v"
  shows "(h = None \<and> wv_burnTx p1 = wv_burnTx p) \<or>
    (\<exists>x. h = Some x \<and> x \<noteq> [] \<and> trim x = x \<and> wv_burnTx p1 = x)"
  using assms(1) sendEcx_hash [OF assms(2)]
  by (auto simp: doBurn_def Let_def split: if_splits prod.splits sum.splits)

lemma hand_in_cases:
  assumes "hand_in env x p d = (s, p1, d1)"
  shows "(s = None \<and> wv_burnTx p1 = wv_burnTx p) \<or> (s = Some x \<and> wv_burnTx p1 = [])"
  using assms by (auto simp: hand_in_def Let_def split: prod.splits sum.splits)

lemma submit_cases:
  assumes "submit env v a p d = ((h, s), p1, d1)" "sane_hashes v"
    and "wv_burnTx p = [] \<or> trim (wv_burnTx p) = wv_burnTx p"
  shows "(wv_burnTx p \<noteq> [] \<and> h = None \<and>
            (s = None \<and> wv_burnTx p1 = wv_burnTx p \<or> s = Some (wv_burnTx p) \<and> wv_burnTx p1 = [])) \<or>
    (wv_burnTx p = [] \<and> h = None \<and> s = None \<and> wv_burnTx p1 = []) \<or>
    (\<exists>x. wv_burnTx p = [] \<and> h = Some x \<and> x \<noteq> [] \<and> trim x = x \<and>
            (s = None \<and> wv_burnTx p1 = x \<or> s = Some x \<and> wv_burnTx p1 = []))"
proof -
  let ?p0 = "p\<lparr>wv_error := None, wv_done := None\<rparr>"
  have "trim [] = []" by (simp add: trim_def)
  show ?thesis
  proof (cases "wv_burnTx p = []")
    case True
    obtain h' p2 d2 where b: "doBurn env v a ?p0 d = (h', p2, d2)" by (metis prod_cases3)
    from doBurn_cases [OF b assms(2)] True
    consider "h' = None" "wv_burnTx p2 = []" | x where "h' = Some x" "x \<noteq> []" "trim x = x" "wv_burnTx p2 = x"
      by auto
    then show ?thesis
    proof cases
      case 1
      with assms(1) True b \<open>trim [] = []\<close> show ?thesis by (auto simp: submit_def)
    next
      case (2 x)
      obtain s' p3 d3 where hi: "hand_in env x p2 d2 = (s', p3, d3)" by (metis prod_cases3)
      with assms(1) True b 2 \<open>trim [] = []\<close> have "h = Some x" "s = s'" "p1 = p3"
        by (auto simp: submit_def)
      with hand_in_cases [OF hi] 2 True show ?thesis by auto
    qed
  next
    case False
    with assms(3) have t: "trim (wv_burnTx p) = wv_burnTx p" by blast
    obtain s' p3 d3 where hi: "hand_in env (wv_burnTx p) ?p0 d = (s', p3, d3)" by (metis prod_cases3)
    with assms(1) False t have "h = None" "s = s'" "p1 = p3" by (auto simp: submit_def)
    with hand_in_cases [OF hi] False show ?thesis by auto
  qed
qed

lemma burns_kept_step:
  assumes "burns_kept r" "sane_hashes v" "e \<noteq> BurnClick" "\<And>s. e \<noteq> TypeBurn s"
  shows "burns_kept (withdraw_step env v a e r)"
proof (cases e)
  case SubmitClick
  obtain h s p1 d1 where sub: "submit env v a (wr_pane r) (wr_desk r) = ((h, s), p1, d1)"
    by (metis surj_pair)
  have "wv_burnTx (wr_pane r) = [] \<or> trim (wv_burnTx (wr_pane r)) = wv_burnTx (wr_pane r)"
    using assms(1) by (auto simp: burns_kept_def split: if_splits)
  from submit_cases [OF sub assms(2) this] assms(1) show ?thesis
    by (auto simp: SubmitClick Let_def sub burns_kept_def opt_list_def split: if_splits)
qed (use assms in \<open>auto simp: burns_kept_def\<close>)


definition toy_viem :: viem where
  "toy_viem = \<lparr>generatePrivateKey = (\<lambda>n. ''0x01''), privateKeyToAccount = Inr,
     isAddress = (\<lambda>a. True), parseEther = (\<lambda>s. Inr 1), formatEther = (\<lambda>n. ''1''),
     vGetChainId = (\<lambda>t. ret 33416), vGetGasPrice = (\<lambda>t. ret 1),
     vEstimateGas = (\<lambda>t a b c. ret 21000), vSendTransaction = (\<lambda>t a c x. ret ''0xaa''),
     vWaitReceipt = (\<lambda>t h n. ret ())\<rparr>"

definition toy_desk_env :: desk_env where
  "toy_desk_env = \<lparr>isTauri = False, tauriFetch = (\<lambda>h u j t. (NetFail [], t)),
     webFetch = (\<lambda>h u j t. (NetFail [], t))\<rparr>"

definition toy_presses :: "withdraw_event list" where
  "toy_presses = [TypeEcash ''bc1q'', TypeAmount ''1.5'', SubmitClick, SubmitClick]"

abbreviation toy_run :: withdraw_run where
  "toy_run \<equiv> withdraw_session toy_desk_env toy_viem (Some ''0x02'') (start_desk None (Some ''01'') True 0)
     toy_presses"


subsection \<open>A withdrawal that breaks the history\<close>

text \<open>A row as the API sends it.\<close>

fun amount_json :: "amount \<Rightarrow> json" where
  "amount_json AmtNull = JsNull"
| "amount_json (AmtStr s) = JsStr s"
| "amount_json (AmtNum x) = JsNum x"

definition or_null :: "('a \<Rightarrow> json) \<Rightarrow> 'a option \<Rightarrow> json" where
  "or_null f x = (case x of None \<Rightarrow> JsNull | Some a \<Rightarrow> f a)"

definition withdrawal_json :: "withdrawal_row \<Rightarrow> json" where
  "withdrawal_json w = JsObj
     [(''id'', JsStr (w_id w)), (''network'', JsStr (w_network w)),
      (''snowside_address'', JsStr (w_snowside_address w)),
      (''ecash_address'', JsStr (w_ecash_address w)), (''amount_ecx'', amount_json (w_amount_ecx w)),
      (''amount_sats'', or_null JsNum (w_amount_sats w)),
      (''burn_tx_hash'', or_null JsStr (w_burn_tx_hash w)),
      (''ecash_tx_hash'', or_null JsStr (w_ecash_tx_hash w)), (''status'', JsStr (w_status w)),
      (''created_at'', JsNum (JInt (w_created_at w))),
      (''completed_at'', or_null (\<lambda>n. JsNum (JInt n)) (w_completed_at w))]"

lemma amount_ecx_field: "field (withdrawal_json w) ''amount_ecx'' = Some (amount_json (w_amount_ecx w))"
  by (simp add: withdrawal_json_def field_def)

lemma withdrawal_amount_error: "withdrawal_amount fe j = Inl e \<Longrightarrow> e = ''RangeError''"
proof -
  have "bigint_of_num x = Inl e \<Longrightarrow> e = ''RangeError''" for x by (cases x) (auto split: if_splits)
  then show "withdrawal_amount fe j = Inl e \<Longrightarrow> e = ''RangeError''"
    by (auto simp: withdrawal_amount_def map_sum_def split: if_splits sum.splits)
qed

lemma render_Cons:
  "render_withdrawals fe (w # ws) =
     (case withdrawal_amount fe (field w ''amount_ecx'') of
        Inl e \<Rightarrow> Inl e
      | Inr s \<Rightarrow> map_sum id (\<lambda>ss. s # ss) (render_withdrawals fe ws))"
  unfolding render_withdrawals_def by simp

lemma render_fails:
  assumes "w \<in> set ws" "withdrawal_amount fe (field w ''amount_ecx'') = Inl e"
  shows "render_withdrawals fe ws = Inl ''RangeError''"
  using assms(1)
proof (induction ws)
  case (Cons x ws)
  show ?case
  proof (cases "withdrawal_amount fe (field x ''amount_ecx'')")
    case (Inl e')
    with withdrawal_amount_error [OF Inl] show ?thesis by (simp add: render_Cons)
  next
    case (Inr s)
    with assms(2) Cons.prems have "w \<in> set ws" by auto
    with Cons.IH Inr show ?thesis by (simp add: render_Cons)
  qed
qed simp

lemma letters_not_digits: "\<not> is_digit (CHR ''a'')" "\<not> is_space (CHR ''a'')"
    "\<not> is_space (CHR ''b'')" "\<not> is_space (CHR ''c'')"
  by (simp_all add: is_digit_of_def digit_val_def is_space_def)

lemma not_a_number: "num_of_string ''abc'' = JNaN"
proof -
  have "trim ''abc'' = ''abc''" by (rule trim_none) (auto simp: letters_not_digits)
  moreover have "parse_udec ''abc'' = None"
    by (simp add: parse_udec_def letters_not_digits split: prod.split)
  moreover have "radix_prefix ''abc'' = None" by (simp add: radix_prefix_def)
  moreover have "split_sign ''abc'' = (1, ''abc'')" by (simp add: split_sign_def)
  moreover have "\<not> starts_with ''abc'' ''Infinity''" by (simp add: starts_with_Cons)
  ultimately show ?thesis by (simp add: num_of_string_def parse_sdec_def)
qed

lemma abc_fails: "withdrawal_amount fe (Some (JsStr ''abc'')) = Inl ''RangeError''"
  by (simp add: withdrawal_amount_def truthy_json_def num_of_json_def not_a_number)

text \<open>Any request for a withdrawal that passes the validation is listed for its address.\<close>

lemma withdrawal_listed:
  assumes "db_up s" "r_uuid r \<notin> w_id ` set (t_withdrawals s)"
    and "r_verb r = POST" "segments r = [''v1'', ''bridge'', ''withdraw'']"
    and "r_body r = Some body" "z_string body ''snowsideAddress'' = Some a" "a \<noteq> []"
      "z_string body ''ecashAddress'' = Some e" "e \<noteq> []" "z_network body ''network'' = Some n"
      "z_string body ''amountEcx'' = Some m" "m \<noteq> []" "z_opt_string body ''burnTxHash'' = Some b"
  shows "\<exists>s' rows. handle aenv r s = (Reply 200 (PCreated (r_uuid r)), s') \<and>
    get_withdrawals a s' = (Inr (Reply 200 (PWithdrawals rows)), s') \<and>
    new_withdrawal (r_uuid r) n a e (int_affinity aenv m) (if truthy_str b then b else None) (r_now r)
      \<in> set rows"
proof -
  let ?w = "new_withdrawal (r_uuid r) n a e (int_affinity aenv m) (if truthy_str b then b else None) (r_now r)"
  let ?s = "s\<lparr>t_withdrawals := t_withdrawals s @ [?w]\<rparr>"
  let ?rows = "sort_key (\<lambda>w. - w_created_at w)
    (filter (\<lambda>w. w_snowside_address w = a) (t_withdrawals ?s))"
  have n: "n \<noteq> []" using z_network_range [OF assms(10)] by auto
  have w: "w_snowside_address ?w = a" "w_id ?w = r_uuid r" by (simp_all add: new_withdrawal_def)
  have "post_withdraw aenv r s = (Inr (Reply 200 (PCreated (r_uuid r))), ?s)"
    using assms n by (simp add: post_withdraw_def insert_withdrawal_def seqE_def bindE_def stmt_def
        exec_def ret_def w)
  then have "handle aenv r s = (Reply 200 (PCreated (r_uuid r)), ?s)"
    using assms(3,4) by (simp add: handle_def dispatch_def public_route_def under_def)
  moreover have "get_withdrawals a ?s = (Inr (Reply 200 (PWithdrawals ?rows)), ?s)"
    using assms(1) by (simp add: get_withdrawals_def bindE_def stmt_def ret_def)
  moreover have "?w \<in> set ?rows" using w(1) by simp
  ultimately show ?thesis by blast
qed

text \<open>
  Anyone can break anyone's history: a withdrawal request for any Snowside address with the
  amount \<open>abc\<close> (no token, no signature) is accepted by the API, and from then on the list of
  withdrawals of that address makes the desktop client throw while it renders the history.
\<close>

theorem history_can_be_broken:
  assumes "db_up s" "r_uuid r \<notin> w_id ` set (t_withdrawals s)"
    and "r_verb r = POST" "segments r = [''v1'', ''bridge'', ''withdraw'']"
    and "r_body r = Some body" "z_string body ''snowsideAddress'' = Some a" "a \<noteq> []"
      "z_string body ''ecashAddress'' = Some e" "e \<noteq> []" "z_network body ''network'' = Some n"
      "z_string body ''amountEcx'' = Some ''abc''" "z_opt_string body ''burnTxHash'' = Some b"
    and "int_affinity aenv ''abc'' = AmtStr ''abc''"
  shows "\<exists>s' rows. handle aenv r s = (Reply 200 (PCreated (r_uuid r)), s') \<and>
    get_withdrawals a s' = (Inr (Reply 200 (PWithdrawals rows)), s') \<and>
    render_withdrawals fe (map withdrawal_json rows) = Inl ''RangeError''"
proof -
  let ?w = "new_withdrawal (r_uuid r) n a e (AmtStr ''abc'') (if truthy_str b then b else None) (r_now r)"
  from withdrawal_listed [OF assms(1-11) _ assms(12), of aenv] assms(13) obtain s' rows where
    h: "handle aenv r s = (Reply 200 (PCreated (r_uuid r)), s')"
      "get_withdrawals a s' = (Inr (Reply 200 (PWithdrawals rows)), s')" and rows: "?w \<in> set rows"
    by auto
  have w: "w_amount_ecx ?w = AmtStr ''abc''" by (simp add: new_withdrawal_def)
  from rows have "withdrawal_json ?w \<in> set (map withdrawal_json rows)" by simp
  then have "render_withdrawals fe (map withdrawal_json rows) = Inl ''RangeError''"
    by (rule render_fails) (simp add: amount_ecx_field w abc_fails)
  with h show ?thesis by blast
qed

definition toy_bad_body :: json where
  "toy_bad_body = JsObj [(''snowsideAddress'', JsStr ''0xabc''), (''ecashAddress'', JsStr ''x''),
     (''amountEcx'', JsStr ''abc''), (''network'', JsStr ''signet'')]"

definition toy_withdraw :: request where
  "toy_withdraw = toy_request POST ''/v1/bridge/withdraw'' None (Some toy_bad_body)"

theorem history_can_be_broken_witness:
  "\<exists>s' rows. handle toy_api toy_withdraw empty_db = (Reply 200 (PCreated ''id1''), s') \<and>
     get_withdrawals ''0xabc'' s' = (Inr (Reply 200 (PWithdrawals rows)), s') \<and>
     render_withdrawals (\<lambda>n. ''0'') (map withdrawal_json rows) = Inl ''RangeError''"
proof -
  have seg: "segments toy_withdraw = [''v1'', ''bridge'', ''withdraw'']"
    by (simp add: segments_def toy_withdraw_def toy_request_def)
  have r: "r_verb toy_withdraw = POST" "r_body toy_withdraw = Some toy_bad_body"
    "r_uuid toy_withdraw = ''id1''"
    by (simp_all add: toy_withdraw_def toy_request_def)
  have z: "z_string toy_bad_body ''snowsideAddress'' = Some ''0xabc''"
    "z_string toy_bad_body ''ecashAddress'' = Some ''x''"
    "z_network toy_bad_body ''network'' = Some ''signet''"
    "z_string toy_bad_body ''amountEcx'' = Some ''abc''"
    "z_opt_string toy_bad_body ''burnTxHash'' = Some None"
    by (simp_all add: toy_bad_body_def z_string_def z_network_def z_opt_string_def field_def)
  have "int_affinity toy_api ''abc'' = AmtStr ''abc''" by (simp add: toy_api_def)
  with history_can_be_broken [OF _ _ r(1) seg r(2) z(1) _ z(2) _ z(3,4,5)] show ?thesis
    by (simp add: r empty_db_def)
qed

end
