(* ===== verification/Desktop_App.thy ===== *)
theory Desktop_App
  imports Desktop_Tabs
begin

text \<open>
  \<open>packages/desktop/src/App.tsx\<close> and how the tabs of \<open>tabs/\<close> are put together: one tab is mounted at
  a time, opening a tab gives its components their first state and leaving it drops that state; the
  modules of \<open>lib/\<close> live on. An event (a click, a key press, a poll) acts on the tab that is shown,
  through the handlers of \<open>Desktop_Tabs\<close>; an event of a control that is not on screen does nothing.
  \<open>ap_burned\<close> and \<open>ap_submitted\<close> record the burns made and handed in. What is shown, and that rendering
  can fail, is in \<open>Desktop_View\<close>.
\<close>

subsection \<open>Views\<close>

datatype TabId = TOverview | TWallet | TBridge | TNetwork | TConsole | TSettings

text \<open>\<open>WalletTab\<close>: the set-up form, or the wallet of an address with its two sub-tabs.\<close>

datatype wallet_sub = Receive | Send send_card

datatype wallet_view =
    Setup string "string option"
  | Home string wallet_sub "int option"

datatype bridge_view =
    DepositSub deposit_pane
  | WithdrawSub withdraw_pane
  | HistorySub history_pane

record console =
  cv_method :: string
  cv_params :: string
  cv_result :: "string option"

datatype tab_view =
    OverviewView overview
  | WalletView wallet_view
  | BridgeView bridge_view
  | NetworkView "(NetworkId \<times> ChainStats option) list"
  | ConsoleView console
  | SettingsView settings_tab

record app =
  ap_tab :: tab_view
  ap_theme :: Theme
  ap_desk :: desk
  ap_burned :: "string list"
  ap_submitted :: "string list"

fun tab_of :: "tab_view \<Rightarrow> TabId" where
  "tab_of (OverviewView _) = TOverview"
| "tab_of (WalletView _) = TWallet"
| "tab_of (BridgeView _) = TBridge"
| "tab_of (NetworkView _) = TNetwork"
| "tab_of (ConsoleView _) = TConsole"
| "tab_of (SettingsView _) = TSettings"

definition open_send :: send_card where
  "open_send = \<lparr>sv_to = [], sv_amount = [], sv_busy = False, sv_txHash = None, sv_error = None\<rparr>"

text \<open>\<open>if (!address) return <WalletSetup .../>\<close>; the home of an address starts afresh.\<close>

definition wallet_of :: "string option \<Rightarrow> wallet_view \<Rightarrow> wallet_view" where
  "wallet_of address setup = (if truthy_str address then Home (the address) Receive None else setup)"

definition open_history :: history_pane where
  "open_history = \<lparr>hv_deposits = JsArr [], hv_withdrawals = JsArr [], hv_error = None\<rparr>"

fun mount :: "viem \<Rightarrow> TabId \<Rightarrow> desk \<Rightarrow> tab_view" where
  "mount v TOverview d =
     OverviewView \<lparr>ov_stats = None, ov_statsError = None, ov_balance = None, ov_bridge = None\<rparr>"
| "mount v TWallet d = WalletView (wallet_of (walletAddress v d) (Setup [] None))"
| "mount v TBridge d = BridgeView (DepositSub (open_deposit (walletAddress v d) d))"
| "mount v TNetwork d = NetworkView []"
| "mount v TConsole d =
     ConsoleView \<lparr>cv_method = ''eth_blockNumber'', cv_params = ''[]'', cv_result = None\<rparr>"
| "mount v TSettings d = SettingsView \<lparr>tv_revealed = None, tv_confirmDelete = False\<rparr>"

subsection \<open>Events\<close>

datatype wallet_event =
    CreateClick nat
  | TypeImport string
  | ImportClick
  | ForgetClick
  | ShowReceive
  | ShowSend
  | TypeTo string
  | TypeSendAmount string
  | SendClick
  | BalancePoll

datatype bridge_event =
    SelectDeposit
  | SelectWithdraw
  | SelectHistory
  | TypeDepositAddr string
  | PickDepositNetwork NetworkId
  | CreateDepositClick
  | DepositTimer
  | WithdrawEv withdraw_event
  | HistoryPoll

datatype app_event =
    SelectTab TabId
  | OverviewPoll "nat list"
  | WalletEv wallet_event
  | BridgeEv bridge_event
  | NetworkPoll "nat list"
  | PickNetwork NetworkId
  | TypeMethod string
  | TypeParams string
  | CallClick
  | ClearClick
  | SettingsEv settings_event
  | SetTheme Theme
  | SetApiUrl string
  | SetRpcUrl NetworkId string

definition active_url :: "desk \<Rightarrow> string" where
  "active_url d = rpc_url (settings d) (activeNetwork (settings d))"

fun wallet_step :: "desk_env \<Rightarrow> viem \<Rightarrow> wallet_event \<Rightarrow> wallet_view \<Rightarrow> desk \<Rightarrow> wallet_view \<times> desk" where
  "wallet_step env v (CreateClick seed) (Setup i err) d =
     (case create_wallet_clicked v seed d of (a, d1) \<Rightarrow> (wallet_of a (Setup i err), d1))"
| "wallet_step env v (TypeImport s) (Setup i err) d = (Setup s err, d)"
| "wallet_step env v ImportClick (Setup i err) d =
     (case import_clicked v i err d of (a, err1, d1) \<Rightarrow> (wallet_of a (Setup i err1), d1))"
| "wallet_step env v ForgetClick (Home a sub b) d = (Setup [] None, d)"
| "wallet_step env v ShowReceive (Home a sub b) d = (Home a Receive b, d)"
| "wallet_step env v ShowSend (Home a Receive b) d = (Home a (Send open_send) b, d)"
| "wallet_step env v (TypeTo s) (Home a (Send c) b) d = (Home a (Send (c\<lparr>sv_to := s\<rparr>)) b, d)"
| "wallet_step env v (TypeSendAmount s) (Home a (Send c) b) d =
     (Home a (Send (c\<lparr>sv_amount := s\<rparr>)) b, d)"
| "wallet_step env v SendClick (Home a (Send c) b) d =
     (case send_clicked env v c d of (c1, d1) \<Rightarrow> (Home a (Send c1) b, d1))"
| "wallet_step env v BalancePoll (Home a sub b) d =
     (case balance_poll env (active_url d) a b d of (b1, d1) \<Rightarrow> (Home a sub b1, d1))"
| "wallet_step env v e w d = (w, d)"

text \<open>\<open>BridgeTab\<close>: choosing a pane that is shown already keeps it, another one is mounted afresh.\<close>

fun bridge_step ::
  "desk_env \<Rightarrow> viem \<Rightarrow> bridge_event \<Rightarrow> bridge_view \<Rightarrow> app \<Rightarrow> bridge_view \<times> app" where
  "bridge_step env v SelectDeposit b s =
     ((case b of DepositSub p \<Rightarrow> b
        | _ \<Rightarrow> DepositSub (open_deposit (walletAddress v (ap_desk s)) (ap_desk s))), s)"
| "bridge_step env v SelectWithdraw b s =
     ((case b of WithdrawSub p \<Rightarrow> b
        | _ \<Rightarrow> WithdrawSub (open_withdraw (walletAddress v (ap_desk s)))), s)"
| "bridge_step env v SelectHistory b s =
     ((case b of HistorySub p \<Rightarrow> b | _ \<Rightarrow> HistorySub open_history), s)"
| "bridge_step env v (TypeDepositAddr x) (DepositSub p) s = (DepositSub (p\<lparr>dv_snowsideAddr := x\<rparr>), s)"
| "bridge_step env v (PickDepositNetwork n) (DepositSub p) s = (DepositSub (p\<lparr>dv_network := n\<rparr>), s)"
| "bridge_step env v CreateDepositClick (DepositSub p) s =
     (case create_clicked env v p (ap_desk s) of (p1, d1) \<Rightarrow> (DepositSub p1, s\<lparr>ap_desk := d1\<rparr>))"
| "bridge_step env v DepositTimer (DepositSub p) s =
     (case deposit_timer env p (ap_desk s) of (p1, d1) \<Rightarrow> (DepositSub p1, s\<lparr>ap_desk := d1\<rparr>))"
| "bridge_step env v (WithdrawEv e) (WithdrawSub p) s =
     (let r = withdraw_step env v (walletAddress v (ap_desk s)) e
                \<lparr>wr_pane = p, wr_desk = ap_desk s, wr_burned = ap_burned s, wr_submitted = ap_submitted s\<rparr>
      in (WithdrawSub (wr_pane r),
          s\<lparr>ap_desk := wr_desk r, ap_burned := wr_burned r, ap_submitted := wr_submitted r\<rparr>))"
| "bridge_step env v HistoryPoll (HistorySub p) s =
     (case history_poll env (walletAddress v (ap_desk s)) p (ap_desk s) of
        (p1, d1) \<Rightarrow> (HistorySub p1, s\<lparr>ap_desk := d1\<rparr>))"
| "bridge_step env v e b s = (b, s)"

definition no_settings_patch :: settings_patch where
  "no_settings_patch = \<lparr>sp_theme = None, sp_activeNetwork = None, sp_apiUrl = None\<rparr>"

text \<open>The reveal and delete buttons are there only when there is a wallet.\<close>

fun settings_event_step :: "app_event \<Rightarrow> settings_tab \<Rightarrow> desk \<Rightarrow> settings_tab \<times> desk" where
  "settings_event_step (SettingsEv e) t d = (if hasWallet d then settings_click e t d else (t, d))"
| "settings_event_step (SetTheme x) t d = (t, updateSettings (no_settings_patch\<lparr>sp_theme := Some x\<rparr>) d)"
| "settings_event_step (SetApiUrl u) t d = (t, updateSettings (no_settings_patch\<lparr>sp_apiUrl := Some u\<rparr>) d)"
| "settings_event_step (SetRpcUrl n u) t d = (t, setRpcUrl n u d)"
| "settings_event_step e t d = (t, d)"

fun overview_step :: "desk_env \<Rightarrow> viem \<Rightarrow> app_event \<Rightarrow> overview \<Rightarrow> desk \<Rightarrow> overview \<times> desk" where
  "overview_step env v (OverviewPoll arrival) ov d =
     overview_poll env arrival (active_url d) (if hasWallet d then walletAddress v d else None) ov d"
| "overview_step env v e ov d = (ov, d)"

type_synonym probes = "(NetworkId \<times> ChainStats option) list"

fun network_step :: "desk_env \<Rightarrow> app_event \<Rightarrow> probes \<Rightarrow> desk \<Rightarrow> probes \<times> desk" where
  "network_step env (NetworkPoll arrival) ps d = network_poll env arrival NETWORK_ORDER d"
| "network_step env (PickNetwork n) ps d =
     (ps, updateSettings (no_settings_patch\<lparr>sp_activeNetwork := Some n\<rparr>) d)"
| "network_step env e ps d = (ps, d)"

fun console_step ::
  "desk_env \<Rightarrow> (string \<Rightarrow> json option) \<Rightarrow> (json option \<Rightarrow> string) \<Rightarrow> app_event \<Rightarrow> console \<Rightarrow> desk \<Rightarrow>
   console \<times> desk" where
  "console_step env parse pretty (TypeMethod x) c d = (c\<lparr>cv_method := x\<rparr>, d)"
| "console_step env parse pretty (TypeParams x) c d = (c\<lparr>cv_params := x\<rparr>, d)"
| "console_step env parse pretty CallClick c d =
     (if trim (cv_method c) = [] then (c, d)
      else case console_call env parse pretty (cv_method c) (cv_params c) d of
             (res, d1) \<Rightarrow> (c\<lparr>cv_result := res\<rparr>, d1))"
| "console_step env parse pretty ClearClick c d = (c, clearLogs d)"
| "console_step env parse pretty e c d = (c, d)"

subsection \<open>App\<close>

record json_lib =
  jl_parse :: "string \<Rightarrow> json option"
  jl_pretty :: "json option \<Rightarrow> string"

definition show_view :: "tab_view \<times> desk \<Rightarrow> app \<Rightarrow> app" where
  "show_view r s = s\<lparr>ap_tab := fst r, ap_desk := snd r\<rparr>"

definition tab_step :: "desk_env \<Rightarrow> viem \<Rightarrow> json_lib \<Rightarrow> app_event \<Rightarrow> app \<Rightarrow> app" where
  "tab_step env v js e s =
     (case ap_tab s of
        OverviewView ov \<Rightarrow> show_view (apfst OverviewView (overview_step env v e ov (ap_desk s))) s
      | WalletView w \<Rightarrow>
          (case e of
             WalletEv we \<Rightarrow> show_view (apfst WalletView (wallet_step env v we w (ap_desk s))) s
           | _ \<Rightarrow> s)
      | BridgeView b \<Rightarrow>
          (case e of
             BridgeEv be \<Rightarrow> (case bridge_step env v be b s of (b1, s1) \<Rightarrow> s1\<lparr>ap_tab := BridgeView b1\<rparr>)
           | _ \<Rightarrow> s)
      | NetworkView ps \<Rightarrow> show_view (apfst NetworkView (network_step env e ps (ap_desk s))) s
      | ConsoleView c \<Rightarrow>
          show_view (apfst ConsoleView (console_step env (jl_parse js) (jl_pretty js) e c (ap_desk s))) s
      | SettingsView t \<Rightarrow> show_view (apfst SettingsView (settings_event_step e t (ap_desk s))) s)"

text \<open>
  After an event the application renders: the theme goes to the document, and a wallet tab, whose
  \<open>key\<close> is the active network, is mounted again when that has changed.
\<close>

definition render_app :: "viem \<Rightarrow> app \<Rightarrow> app \<Rightarrow> app" where
  "render_app v s0 s =
     (let net = (\<lambda>a. activeNetwork (settings (ap_desk a)));
          s1 = (if tab_of (ap_tab s0) = TWallet \<and> tab_of (ap_tab s) = TWallet \<and> net s \<noteq> net s0
                then s\<lparr>ap_tab := mount v TWallet (ap_desk s)\<rparr> else s)
      in s1\<lparr>ap_theme := theme (settings (ap_desk s))\<rparr>)"

definition app_act :: "desk_env \<Rightarrow> viem \<Rightarrow> json_lib \<Rightarrow> app_event \<Rightarrow> app \<Rightarrow> app" where
  "app_act env v js e s =
     (case e of
        SelectTab t \<Rightarrow> if tab_of (ap_tab s) = t then s else s\<lparr>ap_tab := mount v t (ap_desk s)\<rparr>
      | _ \<Rightarrow> tab_step env v js e s)"

definition app_step :: "desk_env \<Rightarrow> viem \<Rightarrow> json_lib \<Rightarrow> app_event \<Rightarrow> app \<Rightarrow> app" where
  "app_step env v js e s = render_app v s (app_act env v js e s)"

definition app_start :: "viem \<Rightarrow> desk \<Rightarrow> app" where
  "app_start v d =
     \<lparr>ap_tab = mount v TOverview d, ap_theme = theme (settings d), ap_desk = d, ap_burned = [],
      ap_submitted = []\<rparr>"

definition app_run :: "desk_env \<Rightarrow> viem \<Rightarrow> json_lib \<Rightarrow> app_event list \<Rightarrow> app \<Rightarrow> app" where
  "app_run env v js evs s = fold (app_step env v js) evs s"

text \<open>The states the application gets into, whatever the user does and the endpoints answer.\<close>

inductive reachable :: "desk_env \<Rightarrow> viem \<Rightarrow> json_lib \<Rightarrow> desk \<Rightarrow> app \<Rightarrow> bool"
  for env v js d where
  start: "reachable env v js d (app_start v d)"
| step: "reachable env v js d s \<Longrightarrow> reachable env v js d (app_step env v js e s)"

lemma reachable_run: "reachable env v js d s \<Longrightarrow> reachable env v js d (app_run env v js evs s)"
  unfolding app_run_def by (induction evs arbitrary: s) (auto intro: reachable.step)

subsection \<open>The stored key\<close>

text \<open>The part of the modules that \<open>getWalletKey\<close> and \<open>walletAddress\<close> read.\<close>

definition key_part :: "desk \<Rightarrow> string option \<times> bool" where
  "key_part d = (ls_wallet_pk d, ls_ok d)"

lemma getWalletKey_part: "key_part d = key_part d' \<Longrightarrow> getWalletKey d = getWalletKey d'"
  by (auto simp: key_part_def getWalletKey_def)

lemma walletAddress_part: "key_part d = key_part d' \<Longrightarrow> walletAddress v d = walletAddress v d'"
  by (simp add: walletAddress_def getWalletKey_part [of d d'])

definition key_kept :: "(desk, 'a) comp \<Rightarrow> bool" where
  "key_kept m \<longleftrightarrow> (\<forall>k. keeps (\<lambda>d. key_part d = k) m)"

text \<open>The library does not touch the application's storage.\<close>

definition viem_leaves_key :: "viem \<Rightarrow> bool" where
  "viem_leaves_key v \<longleftrightarrow>
     (\<forall>t. (\<forall>m ps. key_kept (t m ps)) \<longrightarrow>
        key_kept (vGetChainId v t) \<and> key_kept (vGetGasPrice v t) \<and>
        (\<forall>a b c. key_kept (vEstimateGas v t a b c)) \<and>
        (\<forall>a c x. key_kept (vSendTransaction v t a c x)) \<and>
        (\<forall>h n. key_kept (vWaitReceipt v t h n)))"

named_theorems key_rules

lemma key_keptD: "key_kept m \<Longrightarrow> key_part (snd (m d)) = key_part d"
  unfolding key_kept_def by (metis (mono_tags, lifting) keepsD)

lemma key_bind [key_rules]: "key_kept m \<Longrightarrow> (\<And>a. key_kept (f a)) \<Longrightarrow> key_kept (bindE m f)"
  unfolding key_kept_def by (blast intro: keeps_bindE)

lemma key_seq [key_rules]: "key_kept m \<Longrightarrow> key_kept n \<Longrightarrow> key_kept (seqE m n)"
  unfolding key_kept_def by (blast intro: keeps_seqE)

lemma key_catch [key_rules]: "key_kept m \<Longrightarrow> (\<And>e. key_kept (h e)) \<Longrightarrow> key_kept (catchE m h)"
  unfolding key_kept_def by (blast intro: keeps_catchE)

lemma key_basic [key_rules]:
  "key_kept (ret a)" "key_kept (throw e)" "key_kept getS" "key_kept (liftE x)"
  unfolding key_kept_def by (blast intro: keeps_ret keeps_throw keeps_getS keeps_liftE)+

lemma key_if [key_rules]: "key_kept m \<Longrightarrow> key_kept n \<Longrightarrow> key_kept (if b then m else n)"
  by simp

lemma key_attempt [key_rules]: "key_kept m \<Longrightarrow> key_kept (attempt m)"
  unfolding key_kept_def by (blast intro: keeps_attempt)

lemma key_mod: "(\<And>d. key_part (f d) = key_part d) \<Longrightarrow> key_kept (modS f)"
  by (simp add: key_kept_def keeps_def modS_def)

lemma key_log [simp]: "key_part (log_entry l a b d) = key_part d"
  by (simp add: key_part_def)

lemma key_log_comp [key_rules]: "key_kept (log_comp l a b)"
  unfolding log_comp_def by (rule key_mod) simp

lemma key_send_request [key_rules]: "key_kept (send_request u b)"
  unfolding send_request_def by (rule key_mod) (simp add: key_part_def)

lemma key_fetch [key_rules]: "key_kept (httpFetch env url body)"
  by (auto simp: key_kept_def keeps_def httpFetch_def bindE_def seqE_def getS_def modS_def throw_def
      ret_def Let_def key_part_def split: prod.splits http_reply.splits)

lemma key_split [key_rules]: "(\<And>a b. key_kept (f a b)) \<Longrightarrow> key_kept (case x of (a, b) \<Rightarrow> f a b)"
  by (cases x) simp

lemma key_option [key_rules]:
  "key_kept m \<Longrightarrow> (\<And>a. key_kept (f a)) \<Longrightarrow> key_kept (case x of None \<Rightarrow> m | Some a \<Rightarrow> f a)"
  by (cases x) simp_all

lemma key_start [key_rules]: "key_kept (rpc_start url m ps)"
  unfolding rpc_start_def Let_def by (intro key_rules key_mod) (simp add: key_part_def)

lemma key_finish [key_rules]: "key_kept (rpc_finish env url m st)"
  unfolding rpc_finish_def by (intro key_rules)

lemma key_rpcCall [key_rules]: "key_kept (rpcCall env url m ps)"
  unfolding rpcCall_def by (intro key_rules)

lemma key_start_all [key_rules]: "key_kept (start_all url ms)"
  by (induction ms) (auto intro!: key_rules)

lemma key_finish_all [key_rules]: "key_kept (finish_all env url ps ks)"
  by (induction ks) (auto intro!: key_rules)

lemma key_stats [key_rules]: "key_kept (getChainStats env arrival url)"
  unfolding getChainStats_def by (intro key_rules)

lemma key_balance [key_rules]: "key_kept (getBalance env url a)"
  unfolding getBalance_def by (intro key_rules)

lemma key_bridge_call [key_rules]: "key_kept (bridge_call env m path body)"
  unfolding bridge_call_def Let_def by (intro key_rules)

lemma key_transport: "key_kept (transportFor env u m ps)"
  unfolding transportFor_def by (rule key_rpcCall)

lemma key_viem:
  assumes "viem_leaves_key v"
  shows "key_kept (vGetChainId v (transportFor env u))" "key_kept (vGetGasPrice v (transportFor env u))"
    "key_kept (vEstimateGas v (transportFor env u) a b n)"
    "key_kept (vSendTransaction v (transportFor env u) a c x)"
    "key_kept (vWaitReceipt v (transportFor env u) h k)"
  using assms key_transport unfolding viem_leaves_key_def by blast+

lemma key_sendEcx: "viem_leaves_key v \<Longrightarrow> key_kept (sendEcx env v to a)"
  unfolding sendEcx_def Let_def by (intro key_rules key_viem)

lemma key_wait: "viem_leaves_key v \<Longrightarrow> key_kept (waitForReceipt env v h)"
  unfolding waitForReceipt_def by (intro key_rules key_viem)

lemma key_run: "m d = (r, d1) \<Longrightarrow> key_kept m \<Longrightarrow> key_part d1 = key_part d"
  using key_keptD [of m d] by simp

lemma key_send_clicked: "viem_leaves_key v \<Longrightarrow> key_part (snd (send_clicked env v c d)) = key_part d"
  using key_run [OF _ key_sendEcx] key_keptD [OF key_attempt [OF key_wait]]
  by (auto simp: send_clicked_def Let_def split: prod.splits sum.splits)

lemma key_balance_poll: "key_part (snd (balance_poll env u a b d)) = key_part d"
  using key_run [OF _ key_balance] by (auto simp: balance_poll_def split: prod.splits sum.splits)

lemma key_create_clicked: "key_part (snd (create_clicked env v p d)) = key_part d"
proof -
  have "key_kept (bindE (createDeposit env a n) (\<lambda>j. bindE (liftE (destructure_id j))
      (\<lambda>i. getDeposit env (js_string_opt i))))" for a n
    unfolding createDeposit_def getDeposit_def by (intro key_rules)
  from key_run [OF _ this] show ?thesis
    by (auto simp: create_clicked_def Let_def split: prod.splits sum.splits)
qed

lemma key_deposit_timer: "key_part (snd (deposit_timer env p d)) = key_part d"
proof -
  have "key_kept (getDeposit env i)" for i unfolding getDeposit_def by (intro key_rules)
  from key_run [OF _ this] show ?thesis
    by (auto simp: deposit_timer_def split: prod.splits sum.splits option.splits)
qed

lemma key_doBurn: "viem_leaves_key v \<Longrightarrow> doBurn env v a p d = (h, p1, d1) \<Longrightarrow> key_part d1 = key_part d"
  using key_run [OF _ key_sendEcx] key_keptD [OF key_attempt [OF key_wait]]
  by (auto simp: doBurn_def Let_def split: prod.splits sum.splits if_splits)

lemma key_hand_in: "hand_in env h p d = (x, p1, d1) \<Longrightarrow> key_part d1 = key_part d"
proof -
  have "key_kept (bindE (createWithdrawal env a e m n b) (\<lambda>j. liftE (destructure_id j)))" for a e m n b
    unfolding createWithdrawal_def by (intro key_rules)
  from key_run [OF _ this] show "hand_in env h p d = (x, p1, d1) \<Longrightarrow> key_part d1 = key_part d"
    by (auto simp: hand_in_def Let_def split: prod.splits sum.splits)
qed

lemma key_submit:
  assumes "viem_leaves_key v" "submit env v a p d = (hs, p1, d1)"
  shows "key_part d1 = key_part d"
proof -
  let ?p = "p\<lparr>wv_error := None, wv_done := None\<rparr>"
  obtain h p2 d2 where b: "doBurn env v a ?p d = (h, p2, d2)" by (metis prod_cases3)
  obtain x p3 d3 where i: "hand_in env (trim (wv_burnTx p)) ?p d = (x, p3, d3)" by (metis prod_cases3)
  obtain y p4 d4 where j: "hand_in env (the h) p2 d2 = (y, p4, d4)" by (metis prod_cases3)
  show ?thesis
    using assms(2) key_doBurn [OF assms(1) b] key_hand_in [OF i] key_hand_in [OF j]
    by (auto simp: submit_def b i j Let_def split: if_splits)
qed

lemma key_withdraw_step:
  assumes "viem_leaves_key v"
  shows "key_part (wr_desk (withdraw_step env v a e r)) = key_part (wr_desk r)"
  using key_doBurn [OF assms] key_submit [OF assms]
  by (cases e) (auto simp: Let_def split: prod.splits)

lemma key_history: "key_part (snd (history_poll env a p d)) = key_part d"
proof -
  have "key_kept (attempt (listDeposits env x))" "key_kept (attempt (listWithdrawals env x))" for x
    unfolding listDeposits_def listWithdrawals_def by (intro key_rules)+
  from key_run [OF _ this(1)] key_run [OF _ this(2)] show ?thesis
    by (auto simp: history_poll_def split: prod.split sum.split)
qed

lemma key_overview: "key_part (snd (overview_step env v e ov d)) = key_part d"
proof -
  have "key_kept (bridge_status env)" unfolding bridge_status_def by (intro key_rules)
  from key_run [OF _ this] show ?thesis
    using key_run [OF _ key_stats] key_run [OF _ key_balance]
    by (cases e) (auto simp: overview_poll_def Let_def split: prod.splits sum.splits if_splits)
qed

lemma key_settings_calls [simp]:
  "key_part (updateSettings p d) = key_part d" "key_part (setRpcUrl n u d) = key_part d"
  by (simp_all add: key_part_def updateSettings_def setRpcUrl_def persist_def call_listeners_def)

lemma key_network: "key_part (snd (network_step env e ps d)) = key_part d"
proof -
  have "key_part (snd (network_poll env arrival ns d)) = key_part d" for arrival ns
    using key_run [OF _ key_stats]
    by (induction ns arbitrary: d) (auto split: prod.splits, metis snd_conv)
  then show ?thesis by (cases e) simp_all
qed

lemma key_console: "key_part (snd (console_step env parse pretty e c d)) = key_part d"
proof (cases e)
  case CallClick
  have k: "key_kept (bindE (liftE x) (\<lambda>parsed. case parsed of
      JsArr ps \<Rightarrow> rpcCall env u m ps | _ \<Rightarrow> throw msg))" for x u m msg
    by (intro key_rules) (auto split: json.split intro: key_rules)
  show ?thesis using key_run [OF _ k] CallClick
    by (auto simp: console_call_def Let_def split: prod.splits sum.splits)
qed (auto simp: clearLogs_def emit_def key_part_def)

subsection \<open>What is shown of the wallet is what is stored\<close>

definition home_ok :: "viem \<Rightarrow> wallet_view \<Rightarrow> desk \<Rightarrow> bool" where
  "home_ok v w d \<longleftrightarrow> (\<forall>a sub b. w = Home a sub b \<longrightarrow> walletAddress v d = Some a)"

lemma home_ok_Setup [simp]: "home_ok v (Setup i e) d"
  by (simp add: home_ok_def)

lemma home_ok_Home [simp]: "home_ok v (Home a sub b) d \<longleftrightarrow> walletAddress v d = Some a"
  by (simp add: home_ok_def)

lemma home_ok_of: "home_ok v (wallet_of (walletAddress v d) (Setup i e)) d"
  by (auto simp: wallet_of_def truthy_str_def home_ok_def)

lemma home_ok_wallet_step:
  assumes v: "viem_leaves_key v" and ok: "home_ok v w d"
  shows "case wallet_step env v e w d of (w1, d1) \<Rightarrow> home_ok v w1 d1"
proof -
  have import: "case wallet_step env v ImportClick (Setup i err) d of (w1, d1) \<Rightarrow> home_ok v w1 d1" for i err
    by (auto simp: import_clicked_def wallet_of_def truthy_str_def split: prod.split sum.split)
  have create: "case wallet_step env v (CreateClick n) (Setup i err) d of (w1, d1) \<Rightarrow> home_ok v w1 d1" for n i err
    using home_ok_of by (simp add: create_wallet_clicked_def Let_def)
  have send: "send_clicked env v c d = (c1, d1) \<Longrightarrow> walletAddress v d1 = walletAddress v d" for c c1 d1
    using walletAddress_part [of d1 d v] key_send_clicked [OF v, of env c d] by simp
  have balance: "balance_poll env u a b d = (b1, d1) \<Longrightarrow> walletAddress v d1 = walletAddress v d" for u a b b1 d1
    using walletAddress_part [of d1 d v] key_balance_poll [of env u a b d] by simp
  show ?thesis
  proof (cases w)
    case (Setup i err)
    show ?thesis unfolding Setup using import create by (cases e) simp_all
  next
    case (Home a sub b)
    show ?thesis unfolding Home
      by (cases e; cases sub) (use ok Home in \<open>auto split: prod.split dest: send balance\<close>)
  qed
qed

definition view_ok :: "viem \<Rightarrow> app \<Rightarrow> bool" where
  "view_ok v s \<longleftrightarrow>
     (case ap_tab s of
        WalletView w \<Rightarrow> home_ok v w (ap_desk s)
      | SettingsView t \<Rightarrow> tv_revealed t \<in> {None, getWalletKey (ap_desk s)}
      | _ \<Rightarrow> True)"

lemma settings_step_ok:
  assumes "tv_revealed t \<in> {None, getWalletKey d}"
  shows "case settings_event_step e t d of (t1, d1) \<Rightarrow> tv_revealed t1 \<in> {None, getWalletKey d1}"
proof (cases e)
  case (SettingsEv x)
  then show ?thesis using assms by (cases x) (auto simp: revealKey_def)
qed (use assms in \<open>auto simp: getWalletKey_part [OF key_settings_calls(1)] getWalletKey_part [OF key_settings_calls(2)]\<close>)

lemma view_ok_mount: "view_ok v (s\<lparr>ap_tab := mount v t (ap_desk s)\<rparr>)"
  by (cases t) (simp_all add: view_ok_def home_ok_of)

lemma view_ok_tab_step:
  assumes "viem_leaves_key v" "view_ok v s"
  shows "view_ok v (tab_step env v js e s)"
proof (cases "ap_tab s")
  case (WalletView w)
  show ?thesis
  proof (cases e)
    case (WalletEv we)
    from home_ok_wallet_step [OF assms(1), of w "ap_desk s" env we] assms(2) WalletView show ?thesis
      by (simp add: tab_step_def view_ok_def show_view_def WalletEv split: prod.splits)
  qed (use assms(2) WalletView in \<open>simp_all add: tab_step_def\<close>)
next
  case (SettingsView t)
  then show ?thesis using assms(2) settings_step_ok [of t "ap_desk s" e]
    by (auto simp: tab_step_def view_ok_def show_view_def split: prod.splits)
qed (auto simp: tab_step_def view_ok_def show_view_def split: prod.splits app_event.splits)

lemma view_ok_act: "viem_leaves_key v \<Longrightarrow> view_ok v s \<Longrightarrow> view_ok v (app_act env v js e s)"
  by (cases e) (simp_all add: app_act_def view_ok_tab_step view_ok_mount)

lemma view_ok_theme [simp]: "view_ok v (s\<lparr>ap_theme := t\<rparr>) = view_ok v s"
  by (simp add: view_ok_def split: tab_view.split)

lemma view_ok_render: "view_ok v s \<Longrightarrow> view_ok v (render_app v s0 s)"
  by (simp add: render_app_def Let_def view_ok_mount del: mount.simps)

lemma view_ok_step: "viem_leaves_key v \<Longrightarrow> view_ok v s \<Longrightarrow> view_ok v (app_step env v js e s)"
  by (simp add: app_step_def view_ok_render view_ok_act)

lemma view_ok_reachable: "reachable env v js d s \<Longrightarrow> viem_leaves_key v \<Longrightarrow> view_ok v s"
proof (induction rule: reachable.induct)
  case start
  show ?case by (simp add: view_ok_def app_start_def)
next
  case (step s e)
  then show ?case by (simp add: view_ok_step)
qed

lemma theme_reachable: "reachable env v js d s \<Longrightarrow> ap_theme s = theme (settings (ap_desk s))"
  by (cases rule: reachable.cases) (auto simp: app_start_def app_step_def render_app_def Let_def)

lemma walletAddress_account:
  "walletAddress v d = Some a \<Longrightarrow>
   \<exists>pk. getWalletKey d = Some pk \<and> privateKeyToAccount v (normalizePk pk) = Inr a"
  by (auto simp: walletAddress_def truthy_str_def split: if_splits sum.splits)

text \<open>
  C9. What the application shows of the wallet is what it stores, in every state it can reach:
  the address of the wallet tab is that of the stored key, so what is sent there is sent from the
  address shown, though the tab reads it only when it is opened; a private key shown in the settings
  is the stored one; and the document has the theme of the settings.
\<close>

theorem app_shows_stored_wallet:
  assumes "viem_leaves_key v" "reachable env v js d s"
  shows "ap_theme s = theme (settings (ap_desk s)) \<and>
    (case ap_tab s of
       WalletView (Home a sub b) \<Rightarrow>
         (\<exists>pk. getWalletKey (ap_desk s) = Some pk \<and> privateKeyToAccount v (normalizePk pk) = Inr a)
     | SettingsView t \<Rightarrow> tv_revealed t = None \<or> tv_revealed t = getWalletKey (ap_desk s)
     | _ \<Rightarrow> True)"
proof -
  have "view_ok v s" "ap_theme s = theme (settings (ap_desk s))"
    using assms by (blast intro: view_ok_reachable theme_reachable)+
  then show ?thesis
    by (auto simp: view_ok_def dest!: walletAddress_account split: tab_view.splits wallet_view.splits)
qed

lemma toy_viem_leaves_key: "viem_leaves_key toy_viem"
  by (auto simp: viem_leaves_key_def toy_viem_def intro: key_rules)

definition toy_json :: json_lib where
  "toy_json = \<lparr>jl_parse = (\<lambda>s. None), jl_pretty = (\<lambda>j. [])\<rparr>"

theorem app_shows_stored_wallet_witness:
  "case ap_tab (app_run toy_desk_env toy_viem toy_json [SelectTab TWallet, WalletEv (CreateClick 7)]
      (app_start toy_viem (start_desk None None True 0))) of
     WalletView (Home a sub b) \<Rightarrow> a = ''0x01'' | _ \<Rightarrow> False"
proof -
  let ?s = "app_run toy_desk_env toy_viem toy_json [SelectTab TWallet, WalletEv (CreateClick 7)]
      (app_start toy_viem (start_desk None None True 0))"
  have tab: "ap_tab ?s = WalletView (Home ''0x01'' Receive None)"
    by (simp add: app_run_def app_start_def app_step_def app_act_def render_app_def Let_def tab_step_def
        show_view_def toy_viem_def start_desk_def load_def walletAddress_def wallet_of_def getWalletKey_def
        create_wallet_clicked_def createWallet_def setWalletKey_def call_listeners_def seqE_def bindE_def
        modS_def log_comp_def liftE_def normalizePk_def trim_def is_space_def starts_with_Cons)
  have "reachable toy_desk_env toy_viem toy_json (start_desk None None True 0) ?s"
    by (rule reachable_run [OF reachable.start])
  from app_shows_stored_wallet [OF toy_viem_leaves_key this] tab
  show ?thesis by simp
qed

subsection \<open>When the stored key changes\<close>

lemma snd_case_pair:
  "snd (case x of (a, b) \<Rightarrow> (f a, b)) = snd x"
  "ap_desk (snd (case x of (a, b) \<Rightarrow> (g a, s\<lparr>ap_desk := b\<rparr>))) = snd x"
  by (simp_all split: prod.split)

lemma key_bridge_step:
  assumes "viem_leaves_key v"
  shows "key_part (ap_desk (snd (bridge_step env v e b s))) = key_part (ap_desk s)"
  by (cases e; cases b)
    (simp_all add: Let_def snd_case_pair key_create_clicked key_deposit_timer key_history
      key_withdraw_step [OF assms])

lemma key_wallet_step:
  assumes "viem_leaves_key v" "key_part (snd (wallet_step env v e w d)) \<noteq> key_part d"
  shows "\<exists>i err. w = Setup i err \<and> (e = ImportClick \<or> (\<exists>seed. e = CreateClick seed))"
proof (cases w)
  case (Setup i err)
  then show ?thesis using assms(2) by (cases e) simp_all
next
  case (Home a sub b)
  then show ?thesis using assms(2)
    by (cases e; cases sub) (simp_all add: snd_case_pair key_send_clicked [OF assms(1)] key_balance_poll)
qed

lemma key_settings_step:
  assumes "key_part (snd (settings_event_step e t d)) \<noteq> key_part d"
  shows "e = SettingsEv ConfirmDelete \<and> tv_confirmDelete t"
proof (cases e)
  case (SettingsEv x)
  then show ?thesis using assms by (cases x) (auto split: if_splits)
qed (use assms in auto)

lemma key_tab_step:
  assumes v: "viem_leaves_key v" and "key_part (ap_desk (tab_step env v js e s)) \<noteq> key_part (ap_desk s)"
  shows "(\<exists>t. ap_tab s = SettingsView t \<and> tv_confirmDelete t \<and> e = SettingsEv ConfirmDelete) \<or>
    (\<exists>i err. ap_tab s = WalletView (Setup i err) \<and>
       (e = WalletEv ImportClick \<or> (\<exists>seed. e = WalletEv (CreateClick seed))))"
proof (cases "ap_tab s")
  case (WalletView w)
  then obtain we where "e = WalletEv we" "key_part (snd (wallet_step env v we w (ap_desk s))) \<noteq> key_part (ap_desk s)"
    using assms(2) by (cases e) (auto simp: tab_step_def show_view_def)
  with key_wallet_step [OF v] WalletView show ?thesis by blast
next
  case (SettingsView t)
  then show ?thesis using assms(2) key_settings_step [of e t "ap_desk s"]
    by (simp add: tab_step_def show_view_def)
next
  case (BridgeView b)
  then show ?thesis using assms(2) key_bridge_step [OF v]
    by (cases e) (simp_all add: tab_step_def split_beta)
qed (use assms(2) in \<open>simp_all add: tab_step_def show_view_def key_overview key_network key_console\<close>)

lemma render_desk [simp]: "ap_desk (render_app v s0 s) = ap_desk s"
  by (simp add: render_app_def Let_def)

text \<open>
  C10. The stored private key changes only where the user asks for it: by the second of the two
  clicks that delete the wallet, or by creating or importing one in the set-up form. No send, poll,
  bridge or console action, no change of tab, network or setting touches it.
\<close>

theorem key_changes:
  assumes "viem_leaves_key v"
    and "getWalletKey (ap_desk (app_step env v js e s)) \<noteq> getWalletKey (ap_desk s)"
  shows "(\<exists>t. ap_tab s = SettingsView t \<and> tv_confirmDelete t \<and> e = SettingsEv ConfirmDelete) \<or>
    (\<exists>i err. ap_tab s = WalletView (Setup i err) \<and>
       (e = WalletEv ImportClick \<or> (\<exists>seed. e = WalletEv (CreateClick seed))))"
proof -
  have act: "key_part (ap_desk (app_act env v js e s)) \<noteq> key_part (ap_desk s)"
    using assms(2) getWalletKey_part [of "ap_desk (app_act env v js e s)" "ap_desk s"]
    by (auto simp: app_step_def)
  then have "app_act env v js e s = tab_step env v js e s"
    by (cases e) (auto simp: app_act_def split: if_splits)
  with act key_tab_step [OF assms(1)] show ?thesis by simp
qed

definition toy_deletion :: app where
  "toy_deletion = (app_start toy_viem (start_desk None (Some ''0x01'') True 0))
     \<lparr>ap_tab := SettingsView \<lparr>tv_revealed = None, tv_confirmDelete = True\<rparr>\<rparr>"

theorem key_changes_witness:
  "getWalletKey (ap_desk toy_deletion) = Some ''0x01'' \<and>
   getWalletKey (ap_desk (app_step toy_desk_env toy_viem toy_json (SettingsEv ConfirmDelete) toy_deletion)) = None \<and>
   (\<exists>t. ap_tab toy_deletion = SettingsView t \<and> tv_confirmDelete t)"
proof -
  let ?s = "app_step toy_desk_env toy_viem toy_json (SettingsEv ConfirmDelete) toy_deletion"
  have k: "getWalletKey (ap_desk toy_deletion) = Some ''0x01''"
    by (simp add: toy_deletion_def app_start_def start_desk_def Let_def getWalletKey_def)
  have "hasWallet (ap_desk toy_deletion)" by (simp add: hasWallet_def k)
  then have d: "getWalletKey (ap_desk ?s) = None"
    by (simp add: app_step_def app_act_def tab_step_def show_view_def toy_deletion_def)
      (simp add: app_start_def start_desk_def Let_def deleteWallet_def seqE_def bindE_def modS_def
        log_comp_def clearWalletKey_def call_listeners_def getWalletKey_def)
  then have "getWalletKey (ap_desk ?s) \<noteq> getWalletKey (ap_desk toy_deletion)" using k by simp
  from key_changes [OF toy_viem_leaves_key this] k d show ?thesis
    by (simp add: toy_deletion_def)
qed

text \<open>
  C11. The set-up form is also reached from a wallet in use, and there one click destroys its key:
  \<open>Use Different Wallet\<close> forgets only what is shown, and \<open>Create Wallet\<close> then overwrites the stored
  key with a new one, without the confirmation that deleting a wallet takes. Afterwards the old key
  is in neither of the storage items and not shown.
\<close>

theorem create_overwrites_key:
  assumes "ap_tab s = WalletView (Home a sub b)" "ls_ok (ap_desk s)"
    and "s1 = app_run env v js [WalletEv ForgetClick, WalletEv (CreateClick n)] s"
  shows "getWalletKey (ap_desk s1) = Some (generatePrivateKey v n) \<and>
    ls_settings (ap_desk s1) = ls_settings (ap_desk s) \<and> tab_of (ap_tab s1) = TWallet"
proof -
  let ?t = "app_step env v js (WalletEv ForgetClick) s"
  have t: "ap_tab ?t = WalletView (Setup [] None)" "ap_desk ?t = ap_desk s"
    using assms(1) by (simp_all add: app_step_def app_act_def tab_step_def show_view_def render_app_def Let_def)
  have c: "getWalletKey (snd (create_wallet_clicked v n d)) = Some (generatePrivateKey v n) \<and>
      ls_settings (snd (create_wallet_clicked v n d)) = ls_settings d" if "ls_ok d" for d
    using that by (simp add: create_wallet_clicked_def Let_def createWallet_def seqE_def bindE_def modS_def
        log_comp_def log_entry_def emit_def liftE_def setWalletKey_def call_listeners_def getWalletKey_def split: sum.split)
  have "ap_desk (app_step env v js (WalletEv (CreateClick n)) u) = snd (create_wallet_clicked v n (ap_desk u)) \<and>
      tab_of (ap_tab (app_step env v js (WalletEv (CreateClick n)) u)) = TWallet"
    if "ap_tab u = WalletView (Setup [] None)" for u
    using that by (simp add: app_step_def app_act_def tab_step_def show_view_def render_app_def Let_def
        split: prod.split)
  from this [OF t(1)] c [OF assms(2)] t(2) show ?thesis
    by (simp add: assms(3) app_run_def)
qed

definition toy_home :: app where
  "toy_home = (app_start toy_viem (start_desk None (Some ''0x09'') True 0))
     \<lparr>ap_tab := WalletView (Home ''0x09'' Receive None)\<rparr>"

theorem create_overwrites_key_witness:
  "getWalletKey (ap_desk toy_home) = Some ''0x09'' \<and>
   getWalletKey (ap_desk (app_run toy_desk_env toy_viem toy_json
     [WalletEv ForgetClick, WalletEv (CreateClick 1)] toy_home)) = Some ''0x01''"
proof -
  have "ap_tab toy_home = WalletView (Home ''0x09'' Receive None)" "ls_ok (ap_desk toy_home)"
    by (simp_all add: toy_home_def app_start_def start_desk_def Let_def)
  from create_overwrites_key [OF this refl, of toy_desk_env toy_viem toy_json 1] show ?thesis
    by (simp add: toy_viem_def toy_home_def app_start_def start_desk_def Let_def getWalletKey_def)
qed

subsection \<open>Leaving the withdraw pane\<close>

lemma submit_typed: "trim (wv_burnTx p) \<noteq> [] \<Longrightarrow> fst (fst (submit env v a p d)) = None"
  by (simp add: submit_def Let_def split: prod.split)

lemma submit_burns:
  assumes "trim (wv_burnTx p) = []" "truthy_str a"
    and "sendEcx env v BURN_ADDRESS (wv_amount p) d = (Inr h, d1)" "h \<noteq> []"
  shows "fst (fst (submit env v a p d)) = Some h"
  using assms by (simp add: submit_def Let_def doBurn_def truthy_str_def split: prod.split)

definition can_submit :: "viem \<Rightarrow> withdraw_pane \<Rightarrow> bool" where
  "can_submit v p \<longleftrightarrow> isAddress v (wv_snowsideAddr p) \<and> wv_ecashAddr p \<noteq> [] \<and>
     amountValid (wv_amount p) \<and> wv_busy p = None"

lemma submit_burned:
  "wr_burned (withdraw_step env v a SubmitClick r) =
     (if can_submit v (wr_pane r)
      then wr_burned r @ opt_list (fst (fst (submit env v a (wr_pane r) (wr_desk r)))) else wr_burned r)"
  by (auto simp: can_submit_def Let_def split: prod.split)

text \<open>The steps of the withdraw pane within the application.\<close>

definition pane_app :: "withdraw_pane \<Rightarrow> app \<Rightarrow> app \<Rightarrow> bool" where
  "pane_app p s0 s \<longleftrightarrow> ap_tab s = BridgeView (WithdrawSub p) \<and> ap_desk s = ap_desk s0 \<and> ap_burned s = ap_burned s0"

lemma pane_app_type:
  assumes "pane_app p s0 s"
  shows "pane_app (p\<lparr>wv_ecashAddr := x\<rparr>) s0 (app_step env v js (BridgeEv (WithdrawEv (TypeEcash x))) s)"
    "pane_app (p\<lparr>wv_amount := x\<rparr>) s0 (app_step env v js (BridgeEv (WithdrawEv (TypeAmount x))) s)"
  using assms
  by (simp_all add: pane_app_def app_step_def app_act_def tab_step_def render_app_def Let_def)

lemma pane_app_submit:
  assumes "pane_app p s0 s"
  shows "ap_burned (app_step env v js (BridgeEv (WithdrawEv SubmitClick)) s) =
    (if can_submit v p
     then ap_burned s0 @ opt_list (fst (fst (submit env v (walletAddress v (ap_desk s0)) p (ap_desk s0))))
     else ap_burned s0)"
  using assms
  by (simp add: pane_app_def app_step_def app_act_def tab_step_def render_app_def Let_def submit_burned
      del: withdraw_step.simps)

lemma pane_app_reopen:
  assumes "ap_tab s = BridgeView (WithdrawSub p)"
  shows "pane_app (open_withdraw (walletAddress v (ap_desk s))) s
    (app_step env v js (BridgeEv SelectWithdraw) (app_step env v js (BridgeEv SelectHistory) s))"
  using assms by (simp add: pane_app_def app_step_def app_act_def tab_step_def render_app_def Let_def)

text \<open>
  A burn is forgotten when the user looks elsewhere: as long as the withdraw pane is shown, its
  button hands in the burn in the field and makes no other; but to open the history and come back
  empties the field, and with the same entries the button burns the amount again, with one more
  transaction.
\<close>

theorem burn_lost_by_leaving:
  assumes "ap_tab s = BridgeView (WithdrawSub p)" "trim (wv_burnTx p) \<noteq> []"
    and "walletAddress v (ap_desk s) = Some a" "a \<noteq> []" "isAddress v a"
    and "wv_ecashAddr p \<noteq> []" "amountValid (wv_amount p)"
    and "sendEcx env v BURN_ADDRESS (wv_amount p) (ap_desk s) = (Inr h, d1)" "h \<noteq> []"
  shows "ap_burned (app_step env v js (BridgeEv (WithdrawEv SubmitClick)) s) = ap_burned s \<and>
    ap_burned (app_run env v js
      [BridgeEv SelectHistory, BridgeEv SelectWithdraw, BridgeEv (WithdrawEv (TypeEcash (wv_ecashAddr p))),
       BridgeEv (WithdrawEv (TypeAmount (wv_amount p))), BridgeEv (WithdrawEv SubmitClick)] s) =
      ap_burned s @ [h]"
proof
  have "pane_app p s s" using assms(1) by (simp add: pane_app_def)
  from pane_app_submit [OF this] submit_typed [OF assms(2)]
  show "ap_burned (app_step env v js (BridgeEv (WithdrawEv SubmitClick)) s) = ap_burned s"
    by (simp add: opt_list_def)
  let ?q = "(open_withdraw (Some a))\<lparr>wv_ecashAddr := wv_ecashAddr p, wv_amount := wv_amount p\<rparr>"
  have q: "can_submit v ?q" using assms by (simp add: can_submit_def open_withdraw_def)
  have "trim (wv_burnTx ?q) = []" by (simp add: open_withdraw_def trim_def)
  then have burn: "fst (fst (submit env v (Some a) ?q (ap_desk s))) = Some h"
    by (rule submit_burns) (use assms in \<open>simp_all add: truthy_str_def\<close>)
  note reopen = pane_app_reopen [OF assms(1), of v env js, unfolded assms(3)]
  show "ap_burned (app_run env v js
      [BridgeEv SelectHistory, BridgeEv SelectWithdraw, BridgeEv (WithdrawEv (TypeEcash (wv_ecashAddr p))),
       BridgeEv (WithdrawEv (TypeAmount (wv_amount p))), BridgeEv (WithdrawEv SubmitClick)] s) =
      ap_burned s @ [h]"
    using pane_app_submit [OF pane_app_type(2) [OF pane_app_type(1) [OF reopen]]] q burn
    by (simp add: app_run_def assms(3) opt_list_def)
qed

definition toy_burnt :: app where
  "toy_burnt = (app_start toy_viem (start_desk None (Some ''0x01'') True 0))
     \<lparr>ap_tab := BridgeView (WithdrawSub ((open_withdraw (Some ''0x01''))
        \<lparr>wv_ecashAddr := ''bc1q'', wv_amount := ''5'', wv_burnTx := ''0xbb''\<rparr>)), ap_burned := [''0xbb'']\<rparr>"

theorem burn_lost_by_leaving_witness:
  "ap_burned (app_step toy_desk_env toy_viem toy_json (BridgeEv (WithdrawEv SubmitClick)) toy_burnt) = [''0xbb''] \<and>
   ap_burned (app_run toy_desk_env toy_viem toy_json
      [BridgeEv SelectHistory, BridgeEv SelectWithdraw, BridgeEv (WithdrawEv (TypeEcash ''bc1q'')),
       BridgeEv (WithdrawEv (TypeAmount ''5'')), BridgeEv (WithdrawEv SubmitClick)] toy_burnt) = [''0xbb'', ''0xaa'']"
proof -
  let ?p = "(open_withdraw (Some ''0x01''))\<lparr>wv_ecashAddr := ''bc1q'', wv_amount := ''5'', wv_burnTx := ''0xbb''\<rparr>"
  have key: "walletAddress toy_viem (ap_desk toy_burnt) = Some ''0x01''"
    by (simp add: toy_burnt_def app_start_def start_desk_def Let_def walletAddress_def getWalletKey_def
        toy_viem_def normalizePk_def trim_def is_space_def starts_with_Cons)
  have "sendEcx toy_desk_env toy_viem BURN_ADDRESS ''5'' (ap_desk toy_burnt) =
      (Inr ''0xaa'', snd (sendEcx toy_desk_env toy_viem BURN_ADDRESS ''5'' (ap_desk toy_burnt)))"
    by (simp add: toy_burnt_def app_start_def start_desk_def Let_def getWalletKey_def toy_viem_def
        sendEcx_def bindE_def seqE_def getS_def ret_def liftE_def log_comp_def modS_def)
  moreover have "amountValid ''5''" by code_simp
  moreover have "trim ''0xbb'' \<noteq> []" by (simp add: trim_def is_space_def)
  moreover have "ap_tab toy_burnt = BridgeView (WithdrawSub ?p)" by (simp add: toy_burnt_def)
  moreover have "isAddress toy_viem ''0x01''" by (simp add: toy_viem_def)
  ultimately show ?thesis
    using burn_lost_by_leaving [of toy_burnt ?p toy_viem "''0x01''" toy_desk_env "''0xaa''" _ toy_json] key
    by (simp add: toy_burnt_def open_withdraw_def)
qed

end
