(* ===== verification/Tour_Content.thy ===== *)
theory Tour_Content
  imports Js_String
begin

text \<open>
  \<open>packages/tour/content.mjs\<close>: the texts of the tour, slide by slide. Every export is a record with
  the fields the source gives it; the texts are the source's, characters outside ASCII by their
  UTF-8 bytes.
\<close>

subsection \<open>Shapes\<close>

record card =
  c_kicker :: string
  c_title :: string
  c_body :: string

record revenue_card =
  rv_title :: string
  rv_apy :: string
  rv_note :: string

record compare_row =
  cr_feature :: string
  cr_snowside :: string
  cr_lightning :: string
  cr_base :: string

record risk_item =
  ri_risk :: string
  ri_mitigation :: string

record phase =
  ph_month :: string
  ph_milestone :: string

record faq =
  fq_q :: string
  fq_a :: string

record tour_link =
  tl_icon :: string
  tl_label :: string
  tl_href :: string

record cover_copy =
  cv_kicker :: string
  cv_banner :: string
  cv_bannerAlt :: string
  cv_tagline :: string
  cv_subtitle :: string

record cards_copy =
  cc_heading :: string
  cc_lead :: string
  cc_cards :: "card list"

record assets_copy =
  ta_heading :: string
  ta_lead :: string
  ta_cards :: "card list"
  ta_footnoteStrong :: string
  ta_footnoteRest :: string

record comparison_copy =
  cm_heading :: string
  cm_lead :: string
  cm_columns :: "string list"
  cm_rows :: "compare_row list"

record risks_copy =
  rk_heading :: string
  rk_lead :: string
  rk_items :: "risk_item list"

record roadmap_copy =
  rm_heading :: string
  rm_lead :: string
  rm_phases :: "phase list"

record opportunities_copy =
  op_heading :: string
  op_lead :: string
  op_cards :: "revenue_card list"
  op_footnote :: string

record faqs_copy =
  fa_heading :: string
  fa_lead :: string
  fa_items :: "faq list"

record connect_copy =
  co_heading :: string
  co_lead :: string
  co_links :: "tour_link list"
  co_footer :: "string list"

subsection \<open>Texts\<close>

definition cover :: cover_copy where
  "cover =
     \<lparr>cv_kicker = ''SNOWSIDE TOUR'',
      cv_banner = ''/cover-banner.png'',
      cv_bannerAlt = ''Bitcoin Security at Avalanche Speed'',
      cv_tagline = ''Bitcoin Security<br />at Avalanche Speed'',
      cv_subtitle = ''The eCash Sidechain on Avalanche<br />Native ECX Gas '' @ bullet @
        '' Native USDC Liquidity''\<rparr>"

definition whatIsSnowside :: cards_copy where
  "whatIsSnowside =
     \<lparr>cc_heading = ''What Is Snowside?'',
      cc_lead = ''A dedicated Avalanche Layer-1 blockchain built to host Paul Sztorc'' @ apostrophe @
        ''s upcoming eCash hard-fork. It runs as a clean EVM sidechain where the '' @
        ''**native gas token is ECX** '' @ dash @
        '' no new tokens, no pre-mine, just eCash security via blind merged mining.'',
      cc_cards =
        [\<lparr>c_kicker = ''01 '' @ dash @ '' Gas'',
          c_title = ''Native ECX gas'',
          c_body = ''Fees paid in ECX via BIP-301 blind merged mining.''\<rparr>,
         \<lparr>c_kicker = ''02 '' @ dash @ '' Finality'',
          c_title = ''Sub-second finality'',
          c_body = ''Avalanche Snowman consensus settles in under a second.''\<rparr>,
         \<lparr>c_kicker = ''03 '' @ dash @ '' Bridge'',
          c_title = ''USDC bridging'',
          c_body = ''Native Interchain Messaging from the Avalanche C-Chain.''\<rparr>,
         \<lparr>c_kicker = ''04 '' @ dash @ '' EVM'',
          c_title = ''Full EVM'',
          c_body = ''Remix, Hardhat, Foundry work out-of-the-box.''\<rparr>,
         \<lparr>c_kicker = ''05 '' @ dash @ '' Validation'',
          c_title = ''Community-run validators'',
          c_body = ''Community-operated validator set with low operational cost.''\<rparr>,
         \<lparr>c_kicker = ''06 '' @ dash @ '' Token'',
          c_title = ''No token. No ICO.'',
          c_body = ''Infrastructure, not an investment vehicle.''\<rparr>]\<rparr>"

definition twoAssets :: assets_copy where
  "twoAssets =
     \<lparr>ta_heading = ''Two Native Assets, Zero Friction'',
      ta_lead = ''Bridging eCash and stablecoin economies in one network.'',
      ta_cards =
        [\<lparr>c_kicker = ''Asset 01'',
          c_title = [CHR 0xE2, CHR 0x9A, CHR 0xA1] @ '' Native ECX Gas'',
          c_body = ''Transaction fees paid in real ECX via blind merged mining. No new token, no '' @
            ''pre-mine, no inflation.''\<rparr>,
         \<lparr>c_kicker = ''Asset 02'',
          c_title = [CHR 0xF0, CHR 0x9F, CHR 0x8C, CHR 0x89] @ '' USDC Bridging'',
          c_body = ''Avalanche Interchain Messaging (ICM) bridges USDC from the C-Chain natively. '' @
            ''Stable liquidity from day one.''\<rparr>],
      ta_footnoteStrong = ''No competing token.'',
      ta_footnoteRest = '' Just ECX for gas and USDC for liquidity.''\<rparr>"

definition howItWorks :: cards_copy where
  "howItWorks =
     \<lparr>cc_heading = ''How It Works'',
      cc_lead = ''Four layers of technology, one cohesive sidechain.'',
      cc_cards =
        [\<lparr>c_kicker = ''01'',
          c_title = ''BMM'',
          c_body = ''eCash miners commit to Snowside blocks without running them. They earn ECX '' @
            ''fees while securing the chain with existing hash power.''\<rparr>,
         \<lparr>c_kicker = ''02'',
          c_title = ''Avalanche L1'',
          c_body = ''A dedicated validator set runs Snowside with sub-second finality. Validators '' @
            ''are community-operated.''\<rparr>,
         \<lparr>c_kicker = ''03'',
          c_title = ''ECX Gas Flow'',
          c_body = ''Users pay gas in ECX. Miners collect fees through BMM commitments. The loop '' @
            ''closes entirely within eCash.''\<rparr>,
         \<lparr>c_kicker = ''04'',
          c_title = ''ICM USDC Bridge'',
          c_body = ''Avalanche ICM trustlessly bridges USDC from the C-Chain '' @ dash @
            '' no third-party bridges, no wrapped assets.''\<rparr>]\<rparr>"

definition whyAvalanche :: cards_copy where
  "whyAvalanche =
     \<lparr>cc_heading = ''Why Avalanche Is the Perfect Substrate'',
      cc_lead = [],
      cc_cards =
        [\<lparr>c_kicker = ''01'',
          c_title = ''Sovereign validation'',
          c_body = ''Snowside runs its own validators, ensuring dedicated throughput for eCash '' @
            ''operations.''\<rparr>,
         \<lparr>c_kicker = ''02'',
          c_title = ''Native interoperability'',
          c_body = ''Avalanche ICM allows trust-less bridging of USDC from the C-Chain without '' @
            ''third-party bridges.''\<rparr>,
         \<lparr>c_kicker = ''03'',
          c_title = ''Low operational cost'',
          c_body = ''Avalanche9000'' @ apostrophe @
            ''s subscription model makes community-run validation cheap and feasible.''\<rparr>,
         \<lparr>c_kicker = ''04'',
          c_title = ''Tooling maturity'',
          c_body = ''Full EVM compatibility '' @ dash @
            '' Remix, Hardhat, The Graph, Foundry all work out-of-the-box.''\<rparr>,
         \<lparr>c_kicker = ''05'',
          c_title = ''Proven L1 track record'',
          c_body = ''Multiple Avalanche L1s are already live in production. The infrastructure is '' @
            ''battle-tested.''\<rparr>]\<rparr>"

definition agenticPayments :: cards_copy where
  "agenticPayments =
     \<lparr>cc_heading = ''Agentic Payments'',
      cc_lead = ''Snowside'' @ apostrophe @
        ''s low-fee ECX gas and native USDC bridging make it ideal for autonomous, '' @
        ''machine-to-machine payments.'',
      cc_cards =
        [\<lparr>c_kicker = ''Protocol'',
          c_title = ''x402'',
          c_body = ''An open payment protocol built on the HTTP 402 <em>Payment Required</em> '' @
            ''status code. Agents pay per-request, natively over HTTP '' @ dash @
            '' no gateways, no intermediaries.''\<rparr>,
         \<lparr>c_kicker = ''Settlement'',
          c_title = ''USDC, low fees'',
          c_body = ''Stablecoin settlement via native ICM USDC. Sub-cent transaction fees and no '' @
            ''price volatility '' @ dash @ '' predictable per-call economics for agents.''\<rparr>,
         \<lparr>c_kicker = ''Autonomy'',
          c_title = ''Machines pay machines'',
          c_body = ''Autonomous AI agents discover, negotiate, and pay for services without '' @
            ''human-in-the-loop approvals or custodial wallets.''\<rparr>,
         \<lparr>c_kicker = ''Finality'',
          c_title = ''Instant settlement'',
          c_body = ''Sub-second Avalanche finality means a payment is confirmed before the '' @
            ''response is served '' @ dash @ '' no waiting on block confirmations.''\<rparr>,
         \<lparr>c_kicker = ''Composability'',
          c_title = ''Full EVM'',
          c_body = ''x402 payment flows compose with any EVM contract '' @ dash @
            '' escrows, streaming, programmable spend policies '' @ dash @
            '' all on one chain.''\<rparr>,
         \<lparr>c_kicker = ''No token tax'',
          c_title = ''ECX, not a toll token'',
          c_body = ''Gas is paid in ECX. No protocol token skim on every agent transaction '' @
            dash @ '' just the eCash security fee.''\<rparr>]\<rparr>"

definition comparison :: comparison_copy where
  "comparison =
     \<lparr>cm_heading = ''How Snowside Compares'',
      cm_lead = ''Snowside vs. Lightning Network vs. Base'',
      cm_columns = [''Feature'',
         ''Snowside'',
         ''Lightning'',
         ''Base''],
      cm_rows =
        [\<lparr>cr_feature = ''Consensus mechanism'',
          cr_snowside = ''Avalanche PoS + BMM'',
          cr_lightning = ''Off-chain channels'',
          cr_base = ''Ethereum PoS''\<rparr>,
         \<lparr>cr_feature = ''Finality time'',
          cr_snowside = ''< 1 second'',
          cr_lightning = ''Instant (payment)'',
          cr_base = ''~ 2 seconds''\<rparr>,
         \<lparr>cr_feature = ''Gas token'',
          cr_snowside = ''ECX'',
          cr_lightning = ''BTC'',
          cr_base = ''ETH''\<rparr>,
         \<lparr>cr_feature = ''Smart contracts'',
          cr_snowside = ''Full EVM'',
          cr_lightning = ''Limited (scripts)'',
          cr_base = ''Full EVM''\<rparr>,
         \<lparr>cr_feature = ''Stablecoin support'',
          cr_snowside = ''Native USDC via ICM'',
          cr_lightning = ''None'',
          cr_base = ''Native USDC''\<rparr>,
         \<lparr>cr_feature = ''Node operation'',
          cr_snowside = ''Community-run'',
          cr_lightning = ''Manual'',
          cr_base = ''Manual''\<rparr>,
         \<lparr>cr_feature = ''Maintenance burden'',
          cr_snowside = ''Low'',
          cr_lightning = ''Medium'',
          cr_base = ''Medium''\<rparr>,
         \<lparr>cr_feature = ''Validator sovereignty'',
          cr_snowside = ''Dedicated set'',
          cr_lightning = ''N/A'',
          cr_base = ''Shared with Ethereum''\<rparr>]\<rparr>"

definition risks :: risks_copy where
  "risks =
     \<lparr>rk_heading = ''Risks & Mitigations'',
      rk_lead = [],
      rk_items =
        [\<lparr>ri_risk = ''Low initial validator count'',
          ri_mitigation = ''Launch with community validators. Low operational cost via Avalanche9000 '' @
            ''reduces technical barriers to participation. Validator incentives funded by '' @
            ''ECX gas fees.''\<rparr>,
         \<lparr>ri_risk = ''BMM adoption by miners'',
          ri_mitigation = ''BMM fees are denominated in ECX. Miners earn real revenue with zero '' @
            ''additional hashing cost. The economic incentive is straightforward and '' @
            ''self-sustaining.''\<rparr>,
         \<lparr>ri_risk = ''USDC bridge security'',
          ri_mitigation = ''ICM is a native Avalanche protocol, not a third-party bridge. It uses the '' @
            ''full security of the Avalanche consensus '' @ dash @
            '' the same mechanism securing billions in TVL on the C-Chain.''\<rparr>,
         \<lparr>ri_risk = ''eCash specification changes'',
          ri_mitigation = ''Direct coordination with Paul Sztorc ensures the L1 configuration tracks the '' @
            ''eCash spec. Smart contracts are upgradeable during the initial testnet phase.''\<rparr>,
         \<lparr>ri_risk = ''Long-term maintainability'',
          ri_mitigation = ''EthSide was retired because manual operation was unsustainable. Community-run '' @
            ''validators and low operational cost eliminate the maintenance burden that '' @
            ''killed the predecessor.''\<rparr>,
         \<lparr>ri_risk = ''Regulatory uncertainty'',
          ri_mitigation = ''Snowside uses existing, established assets (ECX, USDC) '' @ dash @
            '' no new token issuance. The chain is fully open source and community-operated.''\<rparr>]\<rparr>"

definition roadmap :: roadmap_copy where
  "roadmap =
     \<lparr>rm_heading = ''From Devnet to Mainnet and Beyond...'',
      rm_lead = [],
      rm_phases =
        [\<lparr>ph_month = ''Devnet'',
          ph_milestone = ''Internal development network. Genesis configuration, precompile integration, '' @
            ''and BMM coordination precompile validation against the Subnet-EVM fork.''\<rparr>,
         \<lparr>ph_month = ''Alphanet'',
          ph_milestone = ''Federated federation bootstrapping. eCash Alphanet BIP-300/301 deposit and '' @
            ''withdrawal flow validation; NativeMinter and DeployerAllowList precompiles '' @
            ''live.''\<rparr>,
         \<lparr>ph_month = ''Betanet'',
          ph_milestone = ''Public testnet with community validators. Security audit of peg smart '' @
            ''contracts; ICM USDC bridge integration with the Avalanche C-Chain; block '' @
            ''explorer deployment.''\<rparr>,
         \<lparr>ph_month = ''Mainnet'',
          ph_milestone = ''Mainnet launch with community validators; public RPC endpoints; developer '' @
            ''documentation released; first eCash dApp deployments.''\<rparr>,
         \<lparr>ph_month = ''Ongoing'',
          ph_milestone = ''Validator growth, protocol maintenance, ecosystem development. Continuous BMM '' @
            ''adoption and USDC liquidity expansion.''\<rparr>]\<rparr>"

definition opportunities :: opportunities_copy where
  "opportunities =
     \<lparr>op_heading = ''Opportunities'',
      op_lead = ''Revenue streams and yield for participants in the Snowside network.'',
      op_cards =
        [\<lparr>rv_title = ''Validator Staking'',
          rv_apy = ''ECX gas fees'',
          rv_note = ''Run a Snowside validator and earn a share of every transaction'' @ apostrophe @
            ''s ECX gas. Sovereign PoS with sub-second finality means consistent, '' @
            ''predictable revenue.''\<rparr>,
         \<lparr>rv_title = ''Miner BMM Yield'',
          rv_apy = ''Sidechain fees'',
          rv_note = ''eCash miners commit to Snowside blocks through Blind Merged Mining '' @ dash @
            '' earn ECX fees from the sidechain with zero additional hashing cost. Pure '' @
            ''incremental revenue on existing hash power.''\<rparr>,
         \<lparr>rv_title = ''USDC Liquidity Provision'',
          rv_apy = ''Bridge fees + yield'',
          rv_note = ''Provide USDC liquidity via the ICM bridge from Avalanche C-Chain. Enable '' @
            ''stablecoin commerce on Snowside and capture bridging fees plus DeFi yield '' @
            ''opportunities.''\<rparr>],
      op_footnote = ''Three ways to earn. Zero new tokens. All revenue denominated in ECX or USDC.''\<rparr>"

definition faqs :: faqs_copy where
  "faqs =
     \<lparr>fa_heading = ''Frequently Asked Questions'',
      fa_lead = [],
      fa_items =
        [\<lparr>fq_q = ''What is Snowside?'',
          fq_a = ''An Avalanche L1 for Paul Sztorc'' @ apostrophe @
            ''s eCash hard-fork. ECX gas, USDC bridge, community-run validators.''\<rparr>,
         \<lparr>fq_q = ''Is there a token?'',
          fq_a = ''No. No token, no pre-mine, no ICO, no airdrop. The network runs on ECX and '' @
            ''USDC only.''\<rparr>,
         \<lparr>fq_q = ''How does ECX gas work?'',
          fq_a = ''eCash miners commit to Snowside blocks via BMM. Users pay gas in ECX. Miners '' @
            ''earn the fees.''\<rparr>,
         \<lparr>fq_q = ''How is USDC bridged?'',
          fq_a = ''Trustlessly from Avalanche C-Chain via Interchain Messaging '' @ dash @
            '' a native Avalanche protocol, not a third-party bridge.''\<rparr>,
         \<lparr>fq_q = ''How do I run a validator?'',
          fq_a = ''Deploy via Nod'' @ [CHR 0xCE, CHR 0x9E] @ ''Runr '' @ dash @
            '' one-click setup, 24/7 monitoring, automatic updates.''\<rparr>,
         \<lparr>fq_q = ''When does mainnet launch?'',
          fq_a = ''Targeted for the Mainnet phase of the roadmap, following Betanet and security '' @
            ''audits.''\<rparr>]\<rparr>"

definition connect :: connect_copy where
  "connect =
     \<lparr>co_heading = ''Connect with Us'',
      co_lead = ''Open source. No token. Powered by Avalanche. Supported by the eCash sidechain '' @
        ''community.'',
      co_links =
        [\<lparr>tl_icon = [CHR 0xF0, CHR 0x9F, CHR 0x93, CHR 0x98],
          tl_label = ''Read the Whitepaper'',
          tl_href = ''https://snowside.network/whitepaper.pdf''\<rparr>,
         \<lparr>tl_icon = [CHR 0xF0, CHR 0x9F, CHR 0x92, CHR 0xBB],
          tl_label = ''View on GitHub'',
          tl_href = ''https://github.com/abitsuite/snowside''\<rparr>,
         \<lparr>tl_icon = [CHR 0xF0, CHR 0x9F, CHR 0x90, CHR 0xA6],
          tl_label = ''Follow on X'',
          tl_href = ''https://x.com/0xShomari''\<rparr>,
         \<lparr>tl_icon = [CHR 0xF0, CHR 0x9F, CHR 0x92, CHR 0xAC],
          tl_label = ''Join our Discord'',
          tl_href = ''https://discord.gg/jVytngEWt''\<rparr>,
         \<lparr>tl_icon = [CHR 0xF0, CHR 0x9F, CHR 0x8C, CHR 0x90],
          tl_label = ''Visit snowside.network'',
          tl_href = ''https://snowside.network''\<rparr>,
         \<lparr>tl_icon = [CHR 0xF0, CHR 0x9F, CHR 0x8F, CHR 0x83],
          tl_label = ''Run a Validator'',
          tl_href = ''https://layer1.run''\<rparr>],
      co_footer = [''Snowside is an independent open-source project.'',
         ''Not affiliated with or endorsed by the Avalanche Foundation.'',
         ''Powered by Avalanche. Secured by eCash. Open to all.'']\<rparr>"

definition BRAND_TITLE :: string where
  "BRAND_TITLE = ''Snowside Tour''"

definition BRAND_TAGLINE :: string where
  "BRAND_TAGLINE = ''Bitcoin Security at Avalanche Speed''"

definition PAGE_TITLE :: string where
  "PAGE_TITLE = BRAND_TITLE @ '' '' @ dash @ '' '' @ BRAND_TAGLINE"

definition PAGE_DESCRIPTION :: string where
  "PAGE_DESCRIPTION = ''The eCash Sidechain on Avalanche. Native ECX Gas '' @ bullet @
     '' Native USDC Liquidity.''"

end
