(* ===== verification/Tour_Slides.thy ===== *)
theory Tour_Slides
  imports Tour_Content
begin

text \<open>
  \<open>packages/tour/slides.mjs\<close>: the list of slides, between the texts and the renderer. A slide has an
  id, a label (which the renderer treats as optional) and the fields of its kind; a block has the
  fields of its type. \<open>UnknownBlock\<close> stands for a block of any other type.
\<close>

datatype block =
    Cards int "card list"
  | Note "string option" "string option"
  | Comparison
  | Risks
  | Roadmap
  | Revenue "revenue_card list"
  | Faqs "faq list"
  | UnknownBlock string

datatype slide_kind =
    CoverSlide (k_kicker: string) (k_banner: string) (k_bannerAlt: string) (k_tagline: string)
      (k_subtitle: string)
  | DefaultSlide (k_heading: string) (k_lead: string) (k_blocks: "block list")
  | ConnectSlide (k_heading: string) (k_lead: string) (k_links: "tour_link list")
      (k_footer: "string list")

record slide =
  sl_id :: string
  sl_label :: "string option"
  sl_kind :: slide_kind

definition slides :: "slide list" where
  "slides =
     [\<lparr>sl_id = ''cover'', sl_label = Some ''Cover'',
       sl_kind = CoverSlide (cv_kicker cover) (cv_banner cover) (cv_bannerAlt cover)
         (cv_tagline cover) (cv_subtitle cover)\<rparr>,
      \<lparr>sl_id = ''what-is-snowside'', sl_label = Some ''What Is Snowside?'',
       sl_kind = DefaultSlide (cc_heading whatIsSnowside) (cc_lead whatIsSnowside)
         [Cards 2 (cc_cards whatIsSnowside)]\<rparr>,
      \<lparr>sl_id = ''two-assets'', sl_label = Some ''Two Native Assets'',
       sl_kind = DefaultSlide (ta_heading twoAssets) (ta_lead twoAssets)
         [Cards 2 (ta_cards twoAssets),
          Note (Some (ta_footnoteStrong twoAssets)) (Some (ta_footnoteRest twoAssets))]\<rparr>,
      \<lparr>sl_id = ''how-it-works'', sl_label = Some ''How It Works'',
       sl_kind = DefaultSlide (cc_heading howItWorks) (cc_lead howItWorks)
         [Cards 4 (cc_cards howItWorks)]\<rparr>,
      \<lparr>sl_id = ''why-avalanche'', sl_label = Some ''Why Avalanche'',
       sl_kind = DefaultSlide (cc_heading whyAvalanche) (cc_lead whyAvalanche)
         [Cards 3 (cc_cards whyAvalanche)]\<rparr>,
      \<lparr>sl_id = ''agentic-payments'', sl_label = Some ''Agentic Payments'',
       sl_kind = DefaultSlide (cc_heading agenticPayments) (cc_lead agenticPayments)
         [Cards 3 (cc_cards agenticPayments)]\<rparr>,
      \<lparr>sl_id = ''comparison'', sl_label = Some ''How Snowside Compares'',
       sl_kind = DefaultSlide (cm_heading comparison) (cm_lead comparison) [Comparison]\<rparr>,
      \<lparr>sl_id = ''risks'', sl_label = Some ''Risks & Mitigations'',
       sl_kind = DefaultSlide (rk_heading risks) (rk_lead risks) [Risks]\<rparr>,
      \<lparr>sl_id = ''roadmap'', sl_label = Some ''Roadmap'',
       sl_kind = DefaultSlide (rm_heading roadmap) (rm_lead roadmap) [Roadmap]\<rparr>,
      \<lparr>sl_id = ''opportunities'', sl_label = Some ''Opportunities'',
       sl_kind = DefaultSlide (op_heading opportunities) (op_lead opportunities)
         [Revenue (op_cards opportunities), Note (Some (op_footnote opportunities)) None]\<rparr>,
      \<lparr>sl_id = ''faqs'', sl_label = Some ''FAQ'',
       sl_kind = DefaultSlide (fa_heading faqs) (fa_lead faqs) [Faqs (fa_items faqs)]\<rparr>,
      \<lparr>sl_id = ''connect'', sl_label = Some ''Connect with Us'',
       sl_kind = ConnectSlide (co_heading connect) (co_lead connect) (co_links connect)
         (co_footer connect)\<rparr>]"

definition totalSlides :: nat where
  "totalSlides = length slides"

end
