(* ===== verification/Tour_Runtime.thy ===== *)
theory Tour_Runtime
  imports Js_String
begin

text \<open>
  \<open>packages/tour/assets/tour.js\<close>: the script that runs the tour in the browser. Its variables and the
  part of the document it writes are one state; every listener it registers is an operation on that
  state, and a session is the list of the inputs it receives. The main results are that whatever
  the visitor does the document shows exactly one slide, the one the variables say, in the layout
  that fits the window, and that the link in the address bar leads back to that slide.
\<close>

subsection \<open>Document and state\<close>

text \<open>
  What the script finds in the document when it starts: the slides (with or without an element that
  scrolls), the dots, and which of the optional elements and browser functions exist.
\<close>

record page =
  p_slides :: "bool list"
  p_dots :: nat
  p_progress :: bool
  p_counter :: bool
  p_prev :: bool
  p_next :: bool
  p_hint :: bool
  p_request_fs :: bool
  p_exit_fs :: bool

abbreviation total :: "page \<Rightarrow> nat" where
  "total p \<equiv> length (p_slides p)"

datatype mode = Deck | Mobile

record tour =
  index :: int
  mode :: mode
  startX :: jnum
  startY :: jnum
  tracking :: bool
  innerWidth :: jnum
  innerHeight :: jnum
  dom_active :: "bool list"
  dom_transform :: string
  dom_scrollTop :: "jnum list"
  dom_progress :: string
  dom_dots :: "bool list"
  dom_counter :: string
  dom_prev_disabled :: bool
  dom_next_disabled :: bool
  dom_hash :: string
  dom_hint_hidden :: bool
  dom_mode :: mode
  dom_scale :: "jnum option"
  dom_fullscreen :: bool
  dom_prevented :: bool

subsection \<open>Scale and mode\<close>

definition MOBILE_SCALE :: jnum where
  "MOBILE_SCALE = to_double (60 / 100)"

definition deckScale :: "tour \<Rightarrow> jnum" where
  "deckScale t = js_min (js_div (innerWidth t) (JInt 980)) (js_div (innerHeight t) (JInt 552))"

definition shouldUseMobile :: "tour \<Rightarrow> bool" where
  "shouldUseMobile t = js_less (deckScale t) MOBILE_SCALE"

definition fitCanvas :: "tour \<Rightarrow> tour" where
  "fitCanvas t = t\<lparr>dom_scale := Some (js_min (js_div (innerWidth t) (JInt 980))
                                          (js_div (innerHeight t) (JInt 552)))\<rparr>"

subsection \<open>Rendering\<close>

definition clamp_index :: "page \<Rightarrow> tour \<Rightarrow> tour" where
  "clamp_index p t =
     (let i = (if index t < 0 then 0 else index t)
      in t\<lparr>index := if int (total p) - 1 < i then int (total p) - 1 else i\<rparr>)"

definition toggle_active :: "nat \<Rightarrow> int \<Rightarrow> bool list" where
  "toggle_active n i = map (\<lambda>k. int k = i) [0..<n]"

definition reset_scroll :: "page \<Rightarrow> int \<Rightarrow> jnum list \<Rightarrow> jnum list" where
  "reset_scroll p i ys =
     map (\<lambda>j. if p_slides p ! j \<and> int j \<noteq> i then JInt 0 else ys ! j) [0..<total p]"

definition translate_x :: "int \<Rightarrow> string" where
  "translate_x i = ''translateX('' @ show_int (- i * 100) @ ''%)''"

definition show_slide :: "page \<Rightarrow> tour \<Rightarrow> tour" where
  "show_slide p t =
     (case mode t of
        Deck \<Rightarrow> t\<lparr>dom_active := toggle_active (total p) (index t)\<rparr>
      | Mobile \<Rightarrow> t\<lparr>dom_transform := translate_x (index t),
                    dom_scrollTop := reset_scroll p (index t) (dom_scrollTop t)\<rparr>)"

definition progress_width :: "page \<Rightarrow> int \<Rightarrow> string" where
  "progress_width p i =
     show_num (js_mul (js_div (JInt (i + 1)) (JInt (int (total p)))) (JInt 100)) @ ''%''"

definition counter_text :: "page \<Rightarrow> int \<Rightarrow> string" where
  "counter_text p i = show_int (i + 1) @ '' / '' @ show_int (int (total p))"

definition link :: "int \<Rightarrow> string" where
  "link i = ''#'' @ show_int (i + 1)"

definition show_position :: "page \<Rightarrow> tour \<Rightarrow> tour" where
  "show_position p t =
     t\<lparr>dom_progress := if p_progress p then progress_width p (index t) else dom_progress t,
       dom_dots := toggle_active (p_dots p) (index t),
       dom_counter := if p_counter p then counter_text p (index t) else dom_counter t,
       dom_prev_disabled := if p_prev p then index t = 0 else dom_prev_disabled t,
       dom_next_disabled := if p_next p then index t = int (total p) - 1 else dom_next_disabled t\<rparr>"

text \<open>
  The hash is replaced when it differs, by \<open>replaceState\<close> or by assignment; the \<open>hashchange\<close> an
  assignment causes does nothing, since \<open>go\<close> returns when the slide is already shown.
\<close>

definition deep_link :: "tour \<Rightarrow> tour" where
  "deep_link t = (if dom_hash t \<noteq> link (index t) then t\<lparr>dom_hash := link (index t)\<rparr> else t)"

definition render :: "page \<Rightarrow> tour \<Rightarrow> tour" where
  "render p t = deep_link (show_position p (show_slide p (clamp_index p t)))"

definition go :: "page \<Rightarrow> int \<Rightarrow> tour \<Rightarrow> tour" where
  "go p n t =
     (if n = index t then t
      else let t1 = render p (t\<lparr>index := n\<rparr>)
           in if p_hint p then t1\<lparr>dom_hint_hidden := True\<rparr> else t1)"

definition next_slide :: "page \<Rightarrow> tour \<Rightarrow> tour" where
  "next_slide p t = go p (index t + 1) t"

definition prev_slide :: "page \<Rightarrow> tour \<Rightarrow> tour" where
  "prev_slide p t = go p (index t - 1) t"

subsection \<open>Mode switching\<close>

definition applyMode :: "page \<Rightarrow> tour \<Rightarrow> tour" where
  "applyMode p t =
     (let nextMode = (if shouldUseMobile t then Mobile else Deck);
          changed = (nextMode \<noteq> mode t);
          t1 = t\<lparr>mode := nextMode, dom_mode := nextMode\<rparr>;
          t2 = (case nextMode of
                  Deck \<Rightarrow> fitCanvas (t1\<lparr>dom_transform := []\<rparr>)
                | Mobile \<Rightarrow> t1\<lparr>dom_scale := None\<rparr>)
      in if changed \<or> nextMode = Mobile then render p t2 else t2)"

subsection \<open>Input\<close>

definition SWIPE_MIN :: jnum where
  "SWIPE_MIN = JInt 45"

text \<open>A touch point is a pair of client coordinates.\<close>

definition onTouchStart :: "(jnum \<times> jnum) list \<Rightarrow> tour \<Rightarrow> tour" where
  "onTouchStart touches t =
     (case touches of
        [(x, y)] \<Rightarrow> t\<lparr>startX := x, startY := y, tracking := True\<rparr>
      | _ \<Rightarrow> t)"

definition onTouchEnd :: "page \<Rightarrow> (jnum \<times> jnum) list \<Rightarrow> tour \<Rightarrow> tour" where
  "onTouchEnd p changedTouches t =
     (if \<not> tracking t then t
      else let t1 = t\<lparr>tracking := False\<rparr>
           in case changedTouches of
                [] \<Rightarrow> t1
              | (x, y) # _ \<Rightarrow>
                  (let dx = js_sub x (startX t); dy = js_sub y (startY t)
                   in if js_less (js_abs dx) SWIPE_MIN \<or> js_less (js_abs dx) (js_abs dy) then t1
                      else if js_less dx (JInt 0) then next_slide p t1
                      else prev_slide p t1))"

definition toggleFullscreen :: "page \<Rightarrow> tour \<Rightarrow> tour" where
  "toggleFullscreen p t =
     (if \<not> dom_fullscreen t
      then (if p_request_fs p then t\<lparr>dom_fullscreen := True\<rparr> else t)
      else if p_exit_fs p then t\<lparr>dom_fullscreen := False\<rparr> else t)"

text \<open>\<open>editable\<close>: the key was pressed in an input, a text area or editable content.\<close>

definition onKey :: "page \<Rightarrow> bool \<Rightarrow> string \<Rightarrow> tour \<Rightarrow> tour" where
  "onKey p editable key t =
     (if editable then t
      else if key \<in> {''ArrowRight'', ''ArrowDown'', ''PageDown'', '' '', ''Spacebar''}
           then next_slide p (t\<lparr>dom_prevented := True\<rparr>)
      else if key \<in> {''ArrowLeft'', ''ArrowUp'', ''PageUp''}
           then prev_slide p (t\<lparr>dom_prevented := True\<rparr>)
      else if key = ''Home'' then go p 0 (t\<lparr>dom_prevented := True\<rparr>)
      else if key = ''End'' then go p (int (total p) - 1) (t\<lparr>dom_prevented := True\<rparr>)
      else if key = ''f'' \<or> key = ''F'' then toggleFullscreen p t
      else t)"

text \<open>\<open>tags\<close>: the tag names from the target up to (not including) the body.\<close>

definition onClick :: "page \<Rightarrow> string list \<Rightarrow> jnum \<Rightarrow> tour \<Rightarrow> tour" where
  "onClick p tags clientX t =
     (if list_ex (\<lambda>tag. tag \<in> {''A'', ''BUTTON'', ''INPUT'', ''TEXTAREA''}) tags then t
      else if mode t = Mobile then next_slide p t
      else if js_less clientX (js_mul (innerWidth t) (to_double (33 / 100))) then prev_slide p t
      else next_slide p t)"

subsection \<open>Boot and sessions\<close>

definition hash_target :: "page \<Rightarrow> string \<Rightarrow> int option" where
  "hash_target p hash =
     (case parse_int 10 (replace_first ''#'' [] hash) of
        JFin n \<Rightarrow> if 1 \<le> n \<and> n \<le> of_nat (total p) then Some (\<lfloor>n\<rfloor> - 1) else None
      | _ \<Rightarrow> None)"

definition onHashChange :: "page \<Rightarrow> tour \<Rightarrow> tour" where
  "onHashChange p t = (case hash_target p (dom_hash t) of Some n \<Rightarrow> go p n t | None \<Rightarrow> t)"

definition init :: "page \<Rightarrow> tour \<Rightarrow> tour" where
  "init p t =
     (let t1 = (case hash_target p (dom_hash t) of Some n \<Rightarrow> t\<lparr>index := n\<rparr> | None \<Rightarrow> t)
      in render p (applyMode p t1))"

text \<open>The document as delivered (\<open>doc\<close>) with the script's variables at their first values.\<close>

definition loaded :: "page \<Rightarrow> tour \<Rightarrow> jnum \<Rightarrow> jnum \<Rightarrow> string \<Rightarrow> tour" where
  "loaded p doc w h hash =
     doc\<lparr>index := 0, mode := Deck, startX := JInt 0, startY := JInt 0, tracking := False,
         innerWidth := w, innerHeight := h, dom_hash := hash, dom_transform := [],
         dom_scrollTop := replicate (total p) (JInt 0)\<rparr>"

definition boot :: "page \<Rightarrow> tour \<Rightarrow> jnum \<Rightarrow> jnum \<Rightarrow> string \<Rightarrow> tour option" where
  "boot p doc w h hash = (if total p = 0 then None else Some (init p (loaded p doc w h hash)))"

datatype input_event =
    Key bool string
  | Click "string list" jnum
  | PrevClick
  | NextClick
  | DotClick nat
  | TouchStart "(jnum \<times> jnum) list"
  | TouchEnd "(jnum \<times> jnum) list"
  | Resize jnum jnum
  | HashChange string
  | Scroll jnum

text \<open>
  The listeners. The browser itself sets the window size before \<open>resize\<close>, the hash before
  \<open>hashchange\<close>, and the scroll position of the slide that is shown. The listeners of the buttons and
  the dots stop the propagation to \<open>onClick\<close>.
\<close>

fun step :: "page \<Rightarrow> input_event \<Rightarrow> tour \<Rightarrow> tour" where
  "step p (Key editable key) t = onKey p editable key (t\<lparr>dom_prevented := False\<rparr>)"
| "step p (Click tags x) t = onClick p tags x t"
| "step p PrevClick t = (if p_prev p then prev_slide p t else t)"
| "step p NextClick t = (if p_next p then next_slide p t else t)"
| "step p (DotClick i) t = (if i < p_dots p then go p (int i) t else t)"
| "step p (TouchStart ts) t = onTouchStart ts t"
| "step p (TouchEnd ts) t = onTouchEnd p ts t"
| "step p (Resize w h) t = applyMode p (t\<lparr>innerWidth := w, innerHeight := h\<rparr>)"
| "step p (HashChange h) t = onHashChange p (t\<lparr>dom_hash := h\<rparr>)"
| "step p (Scroll y) t =
     (if p_slides p ! nat (index t)
      then t\<lparr>dom_scrollTop := (dom_scrollTop t)[nat (index t) := y]\<rparr> else t)"

definition session :: "page \<Rightarrow> input_event list \<Rightarrow> tour \<Rightarrow> tour" where
  "session p evs t = fold (step p) evs t"

subsection \<open>The document shows the slide\<close>

text \<open>
  \<open>displays p t\<close>: the index is a slide; the layout is the one for the window; in the deck exactly that
  slide is active and nothing is translated; on a phone the stage is translated to it and every
  other slide is scrolled to its top; dots, counter, progress bar and buttons agree with it.
\<close>

definition framed :: "page \<Rightarrow> tour \<Rightarrow> bool" where
  "framed p t \<longleftrightarrow>
     length (dom_scrollTop t) = total p \<and>
     (mode t = Mobile \<longleftrightarrow> shouldUseMobile t) \<and> dom_mode t = mode t \<and>
     (case mode t of
        Deck \<Rightarrow> dom_transform t = [] \<and> dom_scale t = Some (deckScale t)
      | Mobile \<Rightarrow> dom_scale t = None)"

definition displays :: "page \<Rightarrow> tour \<Rightarrow> bool" where
  "displays p t \<longleftrightarrow>
     framed p t \<and> 0 \<le> index t \<and> index t < int (total p) \<and>
     (case mode t of
        Deck \<Rightarrow> dom_active t = toggle_active (total p) (index t)
      | Mobile \<Rightarrow> dom_transform t = translate_x (index t) \<and>
                  reset_scroll p (index t) (dom_scrollTop t) = dom_scrollTop t) \<and>
     dom_dots t = toggle_active (p_dots p) (index t) \<and>
     (p_progress p \<longrightarrow> dom_progress t = progress_width p (index t)) \<and>
     (p_counter p \<longrightarrow> dom_counter t = counter_text p (index t)) \<and>
     (p_prev p \<longrightarrow> dom_prev_disabled t = (index t = 0)) \<and>
     (p_next p \<longrightarrow> dom_next_disabled t = (index t = int (total p) - 1))"

lemma reset_scroll_idem [simp]: "reset_scroll p i (reset_scroll p i ys) = reset_scroll p i ys"
  by (simp add: reset_scroll_def)

lemma length_reset_scroll [simp]: "length (reset_scroll p i ys) = total p"
  by (simp add: reset_scroll_def)

lemma displays_framed: "displays p t \<Longrightarrow> framed p t"
  by (simp add: displays_def)

definition clamp :: "page \<Rightarrow> int \<Rightarrow> int" where
  "clamp p i = max 0 (min i (int (total p) - 1))"

lemma clamp_index_index: "p_slides p \<noteq> [] \<Longrightarrow> index (clamp_index p t) = clamp p (index t)"
  by (auto simp: clamp_index_def clamp_def Let_def)

lemma render_index: "p_slides p \<noteq> [] \<Longrightarrow> index (render p t) = clamp p (index t)"
  by (auto simp: render_def deep_link_def show_position_def show_slide_def clamp_index_index
      split: mode.splits)

lemma render_hash: "p_slides p \<noteq> [] \<Longrightarrow> dom_hash (render p t) = link (clamp p (index t))"
  by (auto simp: render_def deep_link_def show_position_def show_slide_def clamp_index_index
      split: mode.splits)

lemma render_window [simp]:
  "innerWidth (render p t) = innerWidth t" "innerHeight (render p t) = innerHeight t"
  "mode (render p t) = mode t" "tracking (render p t) = tracking t"
  by (auto simp: render_def deep_link_def show_position_def show_slide_def clamp_index_def Let_def
      split: mode.splits)

lemma framed_clamp: "framed p t \<Longrightarrow> framed p (clamp_index p t)"
  by (cases "mode t") (simp_all add: framed_def clamp_index_def Let_def shouldUseMobile_def deckScale_def)

lemma framed_show_slide: "framed p t \<Longrightarrow> framed p (show_slide p t)"
  by (cases "mode t") (simp_all add: framed_def show_slide_def shouldUseMobile_def deckScale_def)

lemma framed_show_position: "framed p (show_position p t) = framed p t"
  by (cases "mode t") (simp_all add: framed_def show_position_def shouldUseMobile_def deckScale_def)

lemma framed_deep_link: "framed p (deep_link t) = framed p t"
  by (cases "mode t") (simp_all add: framed_def deep_link_def shouldUseMobile_def deckScale_def)

lemma framed_render: "framed p t \<Longrightarrow> framed p (render p t)"
  by (simp add: render_def framed_deep_link framed_show_position framed_show_slide framed_clamp)

lemma render_displays:
  assumes "p_slides p \<noteq> []" "framed p t"
  shows "displays p (render p t)"
proof -
  have "0 \<le> index (clamp_index p t)" "index (clamp_index p t) < int (total p)"
    using assms(1) by (auto simp: clamp_index_index clamp_def)
  moreover note framed_render [OF assms(2)]
  ultimately show ?thesis
    by (cases "mode (clamp_index p t)")
      (auto simp: displays_def render_def deep_link_def show_position_def show_slide_def)
qed

lemma displays_other [simp]:
  "displays p (t\<lparr>tracking := b\<rparr>) = displays p t"
  "displays p (t\<lparr>startX := x\<rparr>) = displays p t"
  "displays p (t\<lparr>startY := x\<rparr>) = displays p t"
  "displays p (t\<lparr>dom_prevented := b\<rparr>) = displays p t"
  "displays p (t\<lparr>dom_fullscreen := b\<rparr>) = displays p t"
  "displays p (t\<lparr>dom_hint_hidden := b\<rparr>) = displays p t"
  "displays p (t\<lparr>dom_hash := h\<rparr>) = displays p t"
  by (cases "mode t"; simp add: displays_def framed_def shouldUseMobile_def deckScale_def)+

lemma displays_scroll:
  assumes "displays p t"
  shows "displays p (t\<lparr>dom_scrollTop := (dom_scrollTop t)[nat (index t) := y]\<rparr>)"
proof -
  have "reset_scroll p (index t) (ys[nat (index t) := y]) = ys[nat (index t) := y]"
    if "reset_scroll p (index t) ys = ys" for ys
  proof (rule nth_equalityI)
    have len: "length ys = total p" using that by (metis length_reset_scroll)
    then show "length (reset_scroll p (index t) (ys[nat (index t) := y])) =
        length (ys[nat (index t) := y])" by simp
    fix k assume "k < length (reset_scroll p (index t) (ys[nat (index t) := y]))"
    then have k: "k < total p" by simp
    then have "(if p_slides p ! k \<and> int k \<noteq> index t then JInt 0 else ys ! k) = ys ! k"
      using arg_cong [OF that, of "\<lambda>xs. xs ! k"] k by (auto simp: reset_scroll_def split: if_splits)
    then show "reset_scroll p (index t) (ys[nat (index t) := y]) ! k = ys[nat (index t) := y] ! k"
      using k len assms by (auto simp: reset_scroll_def nth_list_update displays_def)
  qed
  with assms show ?thesis
    by (cases "mode t") (simp_all add: displays_def framed_def shouldUseMobile_def deckScale_def)
qed

lemma framed_index [simp]: "framed p (t\<lparr>index := i\<rparr>) = framed p t"
  by (cases "mode t") (simp_all add: framed_def shouldUseMobile_def deckScale_def)

lemma displays_nonempty: "displays p t \<Longrightarrow> p_slides p \<noteq> []"
  by (auto simp: displays_def)

lemma displays_go: "displays p t \<Longrightarrow> displays p (go p n t)"
  using render_displays [of p "t\<lparr>index := n\<rparr>"] displays_nonempty displays_framed
  by (simp add: go_def Let_def)

lemma displays_next: "displays p t \<Longrightarrow> displays p (next_slide p t)"
  and displays_prev: "displays p t \<Longrightarrow> displays p (prev_slide p t)"
  by (simp_all add: next_slide_def prev_slide_def displays_go)

lemma framed_applyMode:
  assumes "length (dom_scrollTop t) = total p"
  shows "framed p (t\<lparr>mode := Deck, dom_mode := Deck, dom_transform := [],
                     dom_scale := Some (deckScale t)\<rparr>) \<or> shouldUseMobile t"
    and "framed p (t\<lparr>mode := Mobile, dom_mode := Mobile, dom_scale := None\<rparr>) \<or> \<not> shouldUseMobile t"
  using assms by (auto simp: framed_def shouldUseMobile_def deckScale_def)

lemma fitCanvas_scale: "fitCanvas t = t\<lparr>dom_scale := Some (deckScale t)\<rparr>"
  by (simp add: fitCanvas_def deckScale_def)

lemma applyMode_cases:
  "applyMode p t =
     (if shouldUseMobile t
      then render p (t\<lparr>mode := Mobile, dom_mode := Mobile, dom_scale := None\<rparr>)
      else let u = t\<lparr>mode := Deck, dom_mode := Deck, dom_transform := [],
                      dom_scale := Some (deckScale t)\<rparr>
           in if mode t = Deck then u else render p u)"
  by (auto simp: applyMode_def Let_def fitCanvas_scale deckScale_def)

lemma displays_resize:
  assumes "displays p t"
  shows "displays p (applyMode p (t\<lparr>innerWidth := w, innerHeight := h\<rparr>))"
proof -
  let ?t = "t\<lparr>innerWidth := w, innerHeight := h\<rparr>"
  have len: "length (dom_scrollTop ?t) = total p" using assms by (simp add: displays_def framed_def)
  consider "shouldUseMobile ?t" | "\<not> shouldUseMobile ?t" "mode t = Deck"
    | "\<not> shouldUseMobile ?t" "mode t \<noteq> Deck" by blast
  then show ?thesis
  proof cases
    case 1
    then show ?thesis
      using framed_applyMode(2) [OF len] render_displays displays_nonempty [OF assms]
      by (simp add: applyMode_cases)
  next
    case 2
    then show ?thesis
      using assms framed_applyMode(1) [OF len]
      by (simp add: applyMode_cases Let_def displays_def)
  next
    case 3
    then show ?thesis
      using framed_applyMode(1) [OF len] render_displays displays_nonempty [OF assms]
      by (simp add: applyMode_cases Let_def)
  qed
qed

lemma displays_step: "displays p t \<Longrightarrow> displays p (step p e t)"
proof (cases e)
  case (TouchEnd ts)
  assume "displays p t"
  then show ?thesis
    by (cases ts) (auto simp: TouchEnd onTouchEnd_def Let_def displays_next displays_prev)
next
  case (TouchStart ts)
  assume "displays p t"
  then show ?thesis
    by (auto simp: TouchStart onTouchStart_def split: list.splits)
qed (auto simp: onKey_def onClick_def onHashChange_def toggleFullscreen_def displays_go displays_next
    displays_prev displays_resize displays_scroll split: option.splits)

lemma displays_session: "displays p t \<Longrightarrow> displays p (session p evs t)"
  unfolding session_def by (induction evs arbitrary: t) (auto intro: displays_step)

lemma displays_boot:
  assumes "p_slides p \<noteq> []"
  shows "displays p (init p (loaded p doc w h hash))"
proof -
  have *: "displays p (render p (applyMode p u))"
    if "length (dom_scrollTop u) = total p" "mode u = Deck" for u
  proof (cases "shouldUseMobile u")
    case True
    then show ?thesis
      using framed_applyMode(2) [OF that(1)] assms by (simp add: applyMode_cases render_displays framed_render)
  next
    case False
    then show ?thesis
      using framed_applyMode(1) [OF that(1)] that(2) assms
      by (simp add: applyMode_cases Let_def render_displays)
  qed
  show ?thesis
    by (simp add: init_def Let_def loaded_def * split: option.split)
qed

text \<open>
  C16. Whatever the visitor does, the document is consistent: a page with slides boots on any window
  size and any hash, and after any sequence of keys, clicks, touches, scrolls, resizes and hash
  changes the index is a slide, the layout is the one for the window, exactly that slide is shown
  and dots, counter, progress bar and buttons agree with it.
\<close>

theorem tour_consistent:
  "case boot p doc w h hash of
     None \<Rightarrow> p_slides p = []
   | Some t \<Rightarrow> displays p (session p evs t)"
  by (simp add: boot_def displays_session displays_boot)

subsection \<open>The link leads back to the slide\<close>

lemma parse_int_show: "0 \<le> n \<Longrightarrow> safe_int n \<Longrightarrow> parse_int 10 (show_int n) = JInt n"
proof -
  assume n: "0 \<le> n" "safe_int n"
  define s where "s = show_int n"
  have s: "all_digits 10 s" "parse_base 10 s = nat n"
    using n(1) by (simp_all add: s_def show_bigint_def all_digits_show parse_show_base)
  then have "list_all is_digit s" "s \<noteq> []" by (simp_all add: all_digits_def)
  moreover from this have "trim_start s = s" "takeWhile is_digit s = s"
    using digit_not_space [of 10]
    by (auto simp: trim_start_def list_all_iff dropWhile_none)
  ultimately show ?thesis
    using s(2) n to_double_int [OF n(2)]
    by (simp add: parse_int_def s_def [symmetric] split_sign_digits Let_def del: takeWhile_eq_all_conv)
qed

lemma hash_target_link:
  assumes "0 \<le> i" "i < int (total p)" "safe_int (int (total p))"
  shows "hash_target p (link i) = Some i"
proof -
  have "parse_int 10 (show_int (i + 1)) = JInt (i + 1)"
    using assms by (intro parse_int_show) (auto simp: safe_int_def)
  moreover have "(1 :: rat) \<le> of_int (i + 1)" "of_int (i + 1) \<le> (of_int (int (total p)) :: rat)"
    using assms(1,2) of_int_le_iff [of 1 "i + 1", where 'a = rat]
      of_int_le_iff [of "i + 1" "int (total p)", where 'a = rat] by simp_all
  ultimately show ?thesis
    by (simp add: hash_target_def link_def starts_with_Cons del: of_int_add)
qed

definition linked :: "tour \<Rightarrow> bool" where
  "linked t \<longleftrightarrow> dom_hash t = link (index t)"

lemma linked_render: "p_slides p \<noteq> [] \<Longrightarrow> linked (render p t)"
  by (simp add: linked_def render_index render_hash)

lemma linked_go: "p_slides p \<noteq> [] \<Longrightarrow> linked t \<Longrightarrow> linked (go p n t)"
  using linked_render [of p "t\<lparr>index := n\<rparr>"] by (simp add: go_def Let_def linked_def)

lemma linked_applyMode: "p_slides p \<noteq> [] \<Longrightarrow> linked t \<Longrightarrow> linked (applyMode p t)"
  by (simp add: applyMode_cases Let_def linked_render) (simp add: linked_def)

lemma linked_step:
  assumes "p_slides p \<noteq> []" "linked t" "\<And>h. e \<noteq> HashChange h"
  shows "linked (step p e t)"
proof -
  have other: "linked (t\<lparr>tracking := b\<rparr>)" "linked (t\<lparr>dom_prevented := b\<rparr>)"
    "linked (t\<lparr>dom_scrollTop := ys\<rparr>)" "linked (t\<lparr>startX := x, startY := y, tracking := b\<rparr>)"
    "linked (t\<lparr>innerWidth := x, innerHeight := y\<rparr>)" "linked (t\<lparr>dom_prevented := b, dom_fullscreen := c\<rparr>)"
    for b c x y ys using assms(2) by (simp_all add: linked_def)
  show ?thesis
  proof (cases e)
    case (TouchEnd ts)
    then show ?thesis
      using assms(1) by (cases ts)
        (auto simp: onTouchEnd_def Let_def next_slide_def prev_slide_def other assms intro!: linked_go)
  next
    case (TouchStart ts)
    then show ?thesis by (auto simp: onTouchStart_def other assms split: list.splits)
  qed (use assms in \<open>auto simp: onKey_def onClick_def toggleFullscreen_def linked_go
      next_slide_def prev_slide_def linked_applyMode other\<close>)
qed

lemma linked_session:
  assumes "p_slides p \<noteq> []" "linked t" "list_all (\<lambda>e. \<forall>h. e \<noteq> HashChange h) evs"
  shows "linked (session p evs t)"
  using assms(2,3)
  unfolding session_def by (induction evs arbitrary: t) (auto intro: linked_step [OF assms(1)])

lemma clamp_displays: "displays p t \<Longrightarrow> clamp p (index t) = index t"
  by (simp add: displays_def clamp_def)

lemma index_applyMode: "displays p t \<Longrightarrow> index (applyMode p t) = index t"
  using clamp_displays [of p t] displays_nonempty [of p t]
  by (simp add: applyMode_cases Let_def render_index)

lemma boot_at_link:
  assumes "0 \<le> i" "i < int (total p)" "safe_int (int (total p))"
  shows "index (init p (loaded p doc w h (link i))) = i"
proof -
  have pos: "p_slides p \<noteq> []" using assms by auto
  have "index (applyMode p (t\<lparr>index := i\<rparr>)) = i" for t
    using assms by (auto simp: applyMode_cases Let_def render_index [OF pos] clamp_def)
  then show ?thesis
    using assms
    by (simp add: init_def Let_def loaded_def hash_target_link render_index [OF pos] clamp_def)
qed


subsection \<open>Moving\<close>

lemma go_index: "displays p t \<Longrightarrow> index (go p n t) = clamp p n"
  by (auto simp: go_def Let_def render_index displays_nonempty) (simp add: displays_def clamp_def)

definition moves :: "page \<Rightarrow> int \<Rightarrow> input_event \<Rightarrow> bool" where
  "moves p k e \<longleftrightarrow> (\<forall>t. displays p t \<longrightarrow> index (step p e t) = clamp p (index t + k))"

lemma moves_replicate:
  assumes "moves p k e" "displays p t" "k = 1 \<or> k = - 1"
  shows "index (session p (replicate n e) t) = clamp p (index t + k * int n)"
  using assms(2)
proof (induction n arbitrary: t)
  case (Suc n)
  have "index (session p (replicate (Suc n) e) t) = clamp p (clamp p (index t + k) + k * int n)"
    using Suc.IH [of "step p e t"] displays_step [OF Suc.prems] assms(1) Suc.prems
    by (simp add: session_def moves_def)
  also have "\<dots> = clamp p (index t + k * int (Suc n))"
  proof -
    have "0 \<le> index t" "index t < int (total p)" using Suc.prems by (simp_all add: displays_def)
    then show ?thesis using assms(3) by (elim disjE) (simp_all add: clamp_def)
  qed
  finally show ?case .
qed (simp add: session_def clamp_displays)

lemma moves_keys:
  "key \<in> {''ArrowRight'', ''ArrowDown'', ''PageDown'', '' '', ''Spacebar''} \<Longrightarrow> moves p 1 (Key False key)"
  "key \<in> {''ArrowLeft'', ''ArrowUp'', ''PageUp''} \<Longrightarrow> moves p (- 1) (Key False key)"
  by (auto simp: moves_def onKey_def next_slide_def prev_slide_def go_index)

lemma session_append: "session p (xs @ ys) t = session p ys (session p xs t)"
  by (simp add: session_def)

text \<open>
  The keys move as far as there are slides: \<open>n\<close> presses of any forward key, a change of the window
  (and with it of the layout, possibly) and \<open>m\<close> presses of any backward key lead from slide \<open>i\<close> to
  slide \<open>min (i + n) (total - 1) - m\<close>, or the first; \<open>Home\<close> and \<open>End\<close> lead to the first and the last.
\<close>

theorem tour_navigation:
  assumes "boot p doc w h hash = Some t"
    and "fwd \<in> {''ArrowRight'', ''ArrowDown'', ''PageDown'', '' '', ''Spacebar''}"
    and "bwd \<in> {''ArrowLeft'', ''ArrowUp'', ''PageUp''}"
  shows "index (session p (replicate n (Key False fwd) @ [Resize w2 h2] @
                           replicate m (Key False bwd)) (session p evs t)) =
           max 0 (min (index (session p evs t) + int n) (int (total p) - 1) - int m) \<and>
    index (step p (Key False ''Home'') (session p evs t)) = 0 \<and>
    index (step p (Key False ''End'') (session p evs t)) = int (total p) - 1"
proof -
  have pos: "p_slides p \<noteq> []" and t: "displays p (session p evs t)"
    using assms(1) by (auto simp: boot_def displays_session displays_boot split: if_splits)
  let ?t = "session p evs t"
  let ?u = "session p (replicate n (Key False fwd)) ?t"
  have u: "displays p ?u" "index ?u = clamp p (index ?t + int n)"
    using displays_session [OF t] moves_replicate [OF moves_keys(1) [OF assms(2)] t] by simp_all
  let ?v = "step p (Resize w2 h2) ?u"
  have v: "displays p ?v" "index ?v = index ?u"
    using displays_step [OF u(1)] index_applyMode displays_resize [OF u(1)] u(1)
    by (auto simp: applyMode_cases Let_def render_index [OF pos] clamp_displays)
  have "index (session p (replicate m (Key False bwd)) ?v) = clamp p (index ?v - int m)"
    using moves_replicate [OF moves_keys(2) [OF assms(3)] v(1)] by simp
  moreover have "session p (replicate n (Key False fwd) @ [Resize w2 h2] @ replicate m (Key False bwd)) ?t =
      session p (replicate m (Key False bwd)) ?v"
    by (simp add: session_def)
  moreover have "clamp p (clamp p (index ?t + int n) - int m) =
      max 0 (min (index ?t + int n) (int (total p) - 1) - int m)"
    using t by (simp add: displays_def clamp_def)
  moreover have one: "1 \<le> int (total p)" using pos by (simp add: Suc_le_eq)
  moreover have "index (step p (Key False ''Home'') ?t) = 0"
    "index (step p (Key False ''End'') ?t) = int (total p) - 1"
    using t one by (simp_all add: onKey_def go_index clamp_def)
  ultimately show ?thesis using u(2) v(2) by simp
qed

definition toy_page :: page where
  "toy_page = \<lparr>p_slides = [False, True, True], p_dots = 3, p_progress = False, p_counter = True,
     p_prev = True, p_next = True, p_hint = True, p_request_fs = False, p_exit_fs = False\<rparr>"

lemma toy_boot: "\<exists>t. boot toy_page doc (JInt 980) (JInt 552) ''#2'' = Some t"
  by (simp add: boot_def toy_page_def)


theorem tour_navigation_witness:
  "\<forall>doc. \<exists>t. boot toy_page doc (JInt 980) (JInt 552) ''#2'' = Some t \<and>
     index (step toy_page (Key False ''End'') (session toy_page [] t)) = 2"
proof
  fix doc
  obtain t where t: "boot toy_page doc (JInt 980) (JInt 552) ''#2'' = Some t" using toy_boot by blast
  with tour_navigation [OF t, of "''PageDown''" "''PageUp''" 1 undefined undefined 1 "[]"]
  show "\<exists>t. boot toy_page doc (JInt 980) (JInt 552) ''#2'' = Some t \<and>
     index (step toy_page (Key False ''End'') (session toy_page [] t)) = 2"
    by (auto simp: toy_page_def)
qed

end
