(* ===== verification/Tour_Build.thy ===== *)
theory Tour_Build
  imports Tour_Slides Tour_Runtime Js_Json
begin

text \<open>
  \<open>packages/tour/scripts/build-tour.mjs\<close>: the renderer that makes the tour's one document out of
  the slides, and what it writes to \<open>dist\<close>. Every template literal of the source is a list of its
  lines. The SHA-256 of the assets is a parameter. A small HTML tokenizer states what well-formed
  output is: tags close in the order they were opened, attribute values end at their quotes.
\<close>

subsection \<open>Escaping and inline formatting\<close>

text \<open>\<open>s.replace(/c/g, r)\<close> for a single character, and for a fixed text.\<close>

definition replace_char :: "char \<Rightarrow> string \<Rightarrow> string \<Rightarrow> string" where
  "replace_char c r s = concat (map (\<lambda>d. if d = c then r else [d]) s)"

function replace_all :: "string \<Rightarrow> string \<Rightarrow> string \<Rightarrow> string" where
  "replace_all p r [] = []"
| "replace_all p r (c # s) =
     (if p \<noteq> [] \<and> starts_with (c # s) p then r @ replace_all p r (drop (length p) (c # s))
      else c # replace_all p r s)"
  by pat_completeness auto
termination by (relation "measure (\<lambda>(p, r, s). length s)") auto

definition esc :: "string \<Rightarrow> string" where
  "esc s =
     replace_char (CHR 0x22) ''&quot;''
       (replace_char (CHR ''>'') ''&gt;''
          (replace_char (CHR ''<'') ''&lt;''
             (replace_char (CHR ''&'') ''&amp;'' s)))"

definition escKeepEm :: "string \<Rightarrow> string" where
  "escKeepEm s = replace_all ''&lt;/em&gt;'' ''</em>'' (replace_all ''&lt;em&gt;'' ''<em>'' (esc s))"

text \<open>\<open>/&lt;br\s*\/?&gt;/\<close> at the start of a text: what follows the match.\<close>

definition match_br :: "string \<Rightarrow> string option" where
  "match_br s =
     (if \<not> starts_with s ''&lt;br'' then None
      else let t = dropWhile is_space (drop 6 s);
               u = (if starts_with t ''/'' then drop 1 t else t)
           in if starts_with u ''&gt;'' then Some (drop 4 u) else None)"

lemma match_br_shorter: "match_br s = Some t \<Longrightarrow> length t < length s"
proof -
  assume m: "match_br s = Some t"
  then obtain x where s: "s = ''&lt;br'' @ x" by (auto simp: match_br_def starts_with_iff split: if_splits)
  have "length (dropWhile is_space x) \<le> length x" by (rule length_dropWhile_le)
  moreover have "length t \<le> length (dropWhile is_space x)"
    using m by (auto simp: match_br_def Let_def s split: if_splits)
  ultimately show ?thesis by (simp add: s)
qed

function replace_br :: "string \<Rightarrow> string" where
  "replace_br [] = []"
| "replace_br (c # s) =
     (case match_br (c # s) of
        Some t \<Rightarrow> ''<br />'' @ replace_br t
      | None \<Rightarrow> c # replace_br s)"
  by pat_completeness auto
termination by (relation "measure length") (auto dest: match_br_shorter)

definition escKeepBr :: "string \<Rightarrow> string" where
  "escKeepBr s = replace_char (CHR 0x0A) ''<br />'' (replace_br (esc s))"

text \<open>\<open>(.+?)\*\*\<close>: the shortest non-empty text without a line break up to two asterisks, and the rest.\<close>

fun span_bold :: "string \<Rightarrow> (string \<times> string) option" where
  "span_bold [] = None"
| "span_bold (c # s) =
     (if c = CHR 0x0A \<or> c = CHR 0x0D then None
      else if starts_with s ''**'' then Some ([c], drop 2 s)
      else map_option (\<lambda>(b, r). (c # b, r)) (span_bold s))"

lemma span_bold_shorter: "span_bold s = Some (b, r) \<Longrightarrow> length r < length s"
  by (induction s arbitrary: b r) (auto split: if_splits)

function bold :: "string \<Rightarrow> string" where
  "bold [] = []"
| "bold (c # s) =
     (case (if starts_with (c # s) ''**'' then span_bold (drop 2 (c # s)) else None) of
        Some (b, r) \<Rightarrow> ''<strong>'' @ b @ ''</strong>'' @ bold r
      | None \<Rightarrow> c # bold s)"
  by pat_completeness auto
termination
  by (relation "measure length") (auto dest!: span_bold_shorter split: if_splits)

definition inline :: "string \<Rightarrow> string" where
  "inline s = bold (escKeepEm s)"

text \<open>\<open>replace(/[^a-z0-9]+/g, '-')\<close>; then a hyphen at either end is dropped.\<close>

definition slug_char :: "char \<Rightarrow> bool" where
  "slug_char c \<longleftrightarrow>
     (let n = (of_char c :: nat) in 97 \<le> n \<and> n \<le> 122 \<or> 48 \<le> n \<and> n \<le> 57)"

fun hyphenate :: "bool \<Rightarrow> string \<Rightarrow> string" where
  "hyphenate gap [] = []"
| "hyphenate gap (c # s) =
     (if slug_char c then c # hyphenate False s
      else if gap then hyphenate True s else CHR ''-'' # hyphenate True s)"

definition slug :: "string \<Rightarrow> string" where
  "slug s =
     (let t = hyphenate False (to_lower s);
          u = (if starts_with t ''-'' then drop 1 t else t)
      in if u \<noteq> [] \<and> last u = CHR ''-'' then butlast u else u)"

subsection \<open>Blocks\<close>

definition lines_of :: "string list \<Rightarrow> string" where
  "lines_of = join_str nl"

definition snow_card :: "card \<Rightarrow> string" where
  "snow_card c = lines_of
      [''          <article class=\"snow-card\">'',
       ''            <div class=\"snow-card-kicker\">'' @ esc (c_kicker c) @ ''</div>'',
       ''            <h3>'' @ esc (c_title c) @ ''</h3>'',
       ''            <p>'' @ escKeepEm (c_body c) @ ''</p>'',
       ''          </article>'']"

definition renderCards :: "int \<Rightarrow> card list \<Rightarrow> string" where
  "renderCards cols cs =
     (let compact = 4 \<le> cols \<or> 4 < length cs;
          gridClass = ''grid'' @ (if compact then '' compact'' else []) @
            (if 4 \<le> cols then '' tight'' else []);
          cards = lines_of (map snow_card cs)
      in lines_of
        [''        <div class=\"'' @ gridClass @ ''\" data-cols=\"'' @ show_int cols @ ''\">'',
         cards,
         ''        </div>''])"

definition renderNote :: "string option \<Rightarrow> string option \<Rightarrow> string" where
  "renderNote strong rest =
     (let st = (if truthy_str strong then ''<strong>'' @ inline (the strong) @ ''</strong>'' else []);
          re = (if truthy_str rest then inline (the rest) else [])
      in ''        <p class=\"snow-note\">'' @ st @ re @ ''</p>'')"

definition compare_head :: "nat \<Rightarrow> string \<Rightarrow> string" where
  "compare_head i c =
     ''              <th'' @ (if i = 1 then '' class=\"hl\"'' else []) @ ''>'' @ esc c @ ''</th>''"

definition compare_row_html :: "compare_row \<Rightarrow> string" where
  "compare_row_html r = lines_of
      [''            <tr>'',
       ''              <th scope=\"row\">'' @ esc (cr_feature r) @ ''</th>'',
       ''              <td class=\"hl\">'' @ esc (cr_snowside r) @ ''</td>'',
       ''              <td>'' @ esc (cr_lightning r) @ ''</td>'',
       ''              <td>'' @ esc (cr_base r) @ ''</td>'',
       ''            </tr>'']"

text \<open>\<open>xs.map((x, i) => f(x, i))\<close>\<close>

definition mapi :: "(nat \<Rightarrow> 'a \<Rightarrow> 'b) \<Rightarrow> 'a list \<Rightarrow> 'b list" where
  "mapi f xs = map (\<lambda>(i, x). f i x) (enumerate 0 xs)"

definition renderComparison :: "comparison_copy \<Rightarrow> string" where
  "renderComparison cmp =
     (let head = lines_of (mapi compare_head (cm_columns cmp));
          rows = lines_of (map compare_row_html (cm_rows cmp))
      in lines_of
        [''        <div class=\"table-wrap\">'',
         ''          <table>'',
         ''            <thead>'',
         ''              <tr>'',
         head,
         ''              </tr>'',
         ''            </thead>'',
         ''            <tbody>'',
         rows,
         ''            </tbody>'',
         ''          </table>'',
         ''        </div>''])"

definition risk_html :: "risk_item \<Rightarrow> string" where
  "risk_html r = lines_of
      [''          <article class=\"snow-card\">'',
       ''            <div class=\"risk-head\"><span class=\"tag '' @
         ''tag-risk\">RISK</span><p class=\"risk-name\">'' @ esc (ri_risk r) @ ''</p></div>'',
       ''            <div class=\"risk-body\"><span class=\"tag tag-fix\">FIX</span><p>'' @
         escKeepEm (ri_mitigation r) @ ''</p></div>'',
       ''          </article>'']"

definition renderRisks :: "risks_copy \<Rightarrow> string" where
  "renderRisks rs =
     (let items = lines_of (map risk_html (rk_items rs))
      in lines_of
        [''        <div class=\"grid\" data-cols=\"2\">'',
         items,
         ''        </div>''])"

definition phase_html :: "nat \<Rightarrow> nat \<Rightarrow> phase \<Rightarrow> string" where
  "phase_html n i p = lines_of
      [''          <li class=\"phase\">'',
       ''            <div class=\"phase-rail\">'',
       ''              <div class=\"phase-num\">'' @ show_int (int i + 1) @ ''</div>'',
       (if int i < int n - 1 then ''              <div class=\"phase-line\"></div>'' @ nl else []) @
         ''            </div>'',
       ''            <div class=\"phase-body\">'',
       ''              <h3>'' @ esc (ph_month p) @ ''</h3>'',
       ''              <p>'' @ escKeepEm (ph_milestone p) @ ''</p>'',
       ''            </div>'',
       ''          </li>'']"

definition renderRoadmap :: "roadmap_copy \<Rightarrow> string" where
  "renderRoadmap rm =
     (let items = lines_of (mapi (phase_html (length (rm_phases rm))) (rm_phases rm))
      in lines_of
        [''        <ol class=\"phases\">'',
         items,
         ''        </ol>''])"

definition revenue_html :: "revenue_card \<Rightarrow> string" where
  "revenue_html c = lines_of
      [''          <article class=\"snow-card\">'',
       ''            <div class=\"snow-card-kicker\">Revenue Stream</div>'',
       ''            <h3>'' @ esc (rv_title c) @ ''</h3>'',
       ''            <div class=\"snow-revenue-apy\">'' @ esc (rv_apy c) @ ''</div>'',
       ''            <p>'' @ escKeepEm (rv_note c) @ ''</p>'',
       ''          </article>'']"

definition renderRevenue :: "revenue_card list \<Rightarrow> string" where
  "renderRevenue cs =
     (let cards = lines_of (map revenue_html cs)
      in lines_of
        [''        <div class=\"grid\" data-cols=\"3\">'',
         cards,
         ''        </div>''])"

definition faq_html :: "faq \<Rightarrow> string" where
  "faq_html f = lines_of
      [''          <article class=\"snow-card\">'',
       ''            <h3>'' @ esc (fq_q f) @ ''</h3>'',
       ''            <p>'' @ escKeepEm (fq_a f) @ ''</p>'',
       ''          </article>'']"

definition renderFaqs :: "faq list \<Rightarrow> string" where
  "renderFaqs fs =
     (let items = lines_of (map faq_html fs)
      in lines_of
        [''        <div class=\"faq-grid\">'',
         items,
         ''        </div>''])"

text \<open>Three blocks read their texts from the module \<open>content.mjs\<close> itself.\<close>

fun renderBlock :: "block \<Rightarrow> error + string" where
  "renderBlock (Cards cols cs) = Inr (renderCards cols cs)"
| "renderBlock (Note strong rest) = Inr (renderNote strong rest)"
| "renderBlock Comparison = Inr (renderComparison comparison)"
| "renderBlock Risks = Inr (renderRisks risks)"
| "renderBlock Roadmap = Inr (renderRoadmap roadmap)"
| "renderBlock (Revenue cs) = Inr (renderRevenue cs)"
| "renderBlock (Faqs fs) = Inr (renderFaqs fs)"
| "renderBlock (UnknownBlock t) = Inl (''build-tour: unknown block type: '' @ t)"

subsection \<open>Slides\<close>

text \<open>\<open>map\<close> with a function that may throw.\<close>

fun map_err :: "('a \<Rightarrow> error + 'b) \<Rightarrow> 'a list \<Rightarrow> error + 'b list" where
  "map_err f [] = Inr []"
| "map_err f (x # xs) =
     (case f x of Inl e \<Rightarrow> Inl e | Inr y \<Rightarrow> map_sum id (\<lambda>ys. y # ys) (map_err f xs))"

fun heading_of :: "slide_kind \<Rightarrow> string" where
  "heading_of (CoverSlide _ _ _ _ _) = []"
| "heading_of (DefaultSlide h _ _) = h"
| "heading_of (ConnectSlide h _ _ _) = h"

definition slide_label :: "slide \<Rightarrow> string" where
  "slide_label s = (if truthy_str (sl_label s) then the (sl_label s) else heading_of (sl_kind s))"

definition slide_open :: "slide \<Rightarrow> nat \<Rightarrow> string" where
  "slide_open s i =
     (let label = slide_label s;
          active = (if i = 0 then '' active'' else []);
          attrs = ''data-index=\"'' @ show_int (int i) @ ''\" data-label=\"'' @ esc label @
             ''\" id=\"slide-'' @ slug (sl_id s) @ ''\"''
      in ''      <section class=\"slide'' @ active @ ''\" '' @ attrs @ '' aria-label=\"'' @
           esc label @ ''\">'')"

definition link_html :: "tour_link \<Rightarrow> string" where
  "link_html l = ''            <a class=\"snow-btn\" href=\"'' @ esc (tl_href l) @ ''\">'' @
         esc (tl_icon l) @ '' '' @ esc (tl_label l) @ ''</a>''"

definition renderSlide :: "nat \<Rightarrow> slide \<Rightarrow> nat \<Rightarrow> error + string" where
  "renderSlide n_slides s i =
     (case sl_kind s of
        CoverSlide kicker banner bannerAlt tagline subtitle \<Rightarrow> Inr (
          lines_of
          [slide_open s i,
           ''        <div class=\"snow-bg\">'',
           ''          <div class=\"cover-inner snow-cover-root\">'',
           ''            <div class=\"cover-kicker\">'' @ esc kicker @ ''</div>'',
           ''            <img src=\"'' @ esc banner @ ''\" alt=\"'' @ esc bannerAlt @
             ''\" class=\"cover-banner\" />'',
           ''            <h1 class=\"cover-tagline\">'' @ escKeepBr tagline @ ''</h1>'',
           ''            <p class=\"cover-subtitle\">'' @ escKeepBr subtitle @ ''</p>'',
           ''          </div>'',
           ''        </div>'',
           ''      </section>''])
      | ConnectSlide heading lead links footer \<Rightarrow> Inr (
          let ls = lines_of (map link_html links);
              fo = join_str (''<br />'' @ nl @ ''            '') (map esc footer)
          in lines_of
            [slide_open s i,
             ''        <div class=\"snow-bg\">'',
             ''          <div class=\"connect-inner snow-connect-root\">'',
             ''            <h1>'' @ esc heading @ ''</h1>'',
             ''            <p class=\"connect-lead\">'' @ esc lead @ ''</p>'',
             ''            <div class=\"connect-grid\">'',
             ls,
             ''            </div>'',
             ''            <p class=\"connect-footer\">'',
             ''            '' @ fo,
             ''            </p>'',
             ''          </div>'',
             ''        </div>'',
             ''      </section>''])
      | DefaultSlide heading lead blocks \<Rightarrow>
          (case map_err renderBlock blocks of
             Inl e \<Rightarrow> Inl e
           | Inr bs \<Rightarrow> Inr (
               let le = (if lead \<noteq> [] then ''          <p class=\"slide-lead\">'' @ inline lead @ ''</p>'' @
                                 nl else [])
               in lines_of
                 [slide_open s i,
                  ''        <div class=\"snow-bg\">'',
                  ''          <div class=\"slide-label\">Snowside Tour</div>'',
                  ''          <div class=\"slide-content\">'',
                  ''            <h2>'' @ esc heading @ ''</h2>'',
                  le @ lines_of bs,
                  ''          </div>'',
                  ''          <div class=\"slide-number\">'' @ show_int (int i + 1) @ '' / '' @
                    show_int (int n_slides) @ ''</div>'',
                  ''        </div>'',
                  ''      </section>''])))"

definition slidesHtml :: "slide list \<Rightarrow> error + string" where
  "slidesHtml ss =
     map_sum id lines_of (map_err (\<lambda>(i, s). renderSlide (length ss) s i) (enumerate 0 ss))"

definition dot_html :: "nat \<Rightarrow> slide \<Rightarrow> string" where
  "dot_html i s = ''        <button type=\"button\" class=\"dot'' @ (if i = 0 then '' active'' else []) @
         ''\" data-dot=\"'' @ show_int (int i) @ ''\" aria-label=\"Go to slide '' @
         show_int (int i + 1) @
         (if truthy_str (sl_label s) then '': '' @ esc (the (sl_label s)) else []) @
         ''\"></button>''"

definition dotsHtml :: "slide list \<Rightarrow> string" where
  "dotsHtml ss = lines_of (mapi dot_html ss)"

subsection \<open>Document\<close>

definition ORIGIN :: string where
  "ORIGIN = ''https://tour.snowside.network''"

definition OG_IMAGE :: string where
  "OG_IMAGE = ORIGIN @ ''/cover-banner.png''"

text \<open>The hexadecimal SHA-256 digest and the bytes of the two assets are parameters.\<close>

record build_env =
  sha256_hex :: "string \<Rightarrow> string"
  tour_css :: string
  tour_js :: string
  public_files :: "(string \<times> string) list"

definition assetHash :: "build_env \<Rightarrow> string \<Rightarrow> string" where
  "assetHash env bytes = take 8 (sha256_hex env bytes)"

definition cssHref :: "build_env \<Rightarrow> string" where
  "cssHref env = ''/assets/tour.'' @ assetHash env (tour_css env) @ ''.css''"

definition jsSrc :: "build_env \<Rightarrow> string" where
  "jsSrc env = ''/assets/tour.'' @ assetHash env (tour_js env) @ ''.js''"

definition head_html :: "build_env \<Rightarrow> string" where
  "head_html env = lines_of
      [''  <meta charset=\"utf-8\" />'',
       ''  <meta name=\"viewport\" content=\"width=device-width, initial-scale=1, '' @
         ''viewport-fit=cover\" />'',
       ''  <title>'' @ esc PAGE_TITLE @ ''</title>'',
       ''  <meta name=\"description\" content=\"'' @ esc PAGE_DESCRIPTION @ ''\" />'',
       ''  <link rel=\"icon\" href=\"/favicon.svg\" type=\"image/svg+xml\" />'',
       [],
       ''  <!-- Fonts: same families the previous build loaded from Google Fonts -->'',
       ''  <link rel=\"preconnect\" href=\"https://fonts.googleapis.com\" />'',
       ''  <link rel=\"preconnect\" href=\"https://fonts.gstatic.com\" crossorigin />'',
       ''  <link rel=\"stylesheet\" '' @
         ''href=\"https://fonts.googleapis.com/css2?family=Inter:wght@200;400;600;700;8'' @
         ''00&family=JetBrains+Mono:wght@200;400;600;700&display=swap\" '' @
         ''type=\"text/css\" />'',
       [],
       ''  <link rel=\"stylesheet\" href=\"'' @ cssHref env @ ''\" />'',
       [],
       ''  <!-- Mode boot: runs BEFORE first paint so a reflowing phone never flashes the'',
       ''       deck (and a tablet or desktop never flashes the reflow layout). Kept'',
       ''       inline and tiny on purpose. Threshold must match assets/tour.js'',
       ''       (MOBILE_SCALE) and the documented value in assets/tour.css. -->'',
       ''  <script>'',
       ''    (function () {'',
       ''      var w = window.innerWidth, h = window.innerHeight'',
       ''      var scale = Math.min(w / 980, h / 552)'',
       ''      var mode = scale < 0.60 ? '' @ [CHR 0x27] @ ''mobile'' @ [CHR 0x27] @ '' : '' @
         [CHR 0x27] @ ''deck'' @ [CHR 0x27],
       ''      document.documentElement.setAttribute('' @ [CHR 0x27] @ ''data-mode'' @
         [CHR 0x27] @ '', mode)'',
       ''      if (mode === '' @ [CHR 0x27] @ ''deck'' @ [CHR 0x27] @ '') {'',
       ''        document.documentElement.style.setProperty('' @ [CHR 0x27] @ ''--scale'' @
         [CHR 0x27] @ '', String(scale))'',
       ''      }'',
       ''    })()'',
       ''  </script>'',
       [],
       ''  <!-- Simple Analytics -->'',
       ''  <script async defer '' @
         ''src=\"https://scripts.simpleanalyticscdn.com/latest.js\"></script>'',
       ''  <noscript><img src=\"https://queue.simpleanalyticscdn.com/noscript.gif\" '' @
         ''alt=\"\" referrerpolicy=\"no-referrer-when-downgrade\" /></noscript>'',
       [],
       ''  <!-- Open Graph -->'',
       ''  <meta property=\"og:title\" content=\"'' @ esc PAGE_TITLE @ ''\" />'',
       ''  <meta property=\"og:site_name\" content=\"Snowside Tour\" />'',
       ''  <meta property=\"og:description\" content=\"'' @ esc PAGE_DESCRIPTION @ ''\" />'',
       ''  <meta property=\"og:type\" content=\"website\" />'',
       ''  <meta property=\"og:url\" content=\"'' @ ORIGIN @ ''/\" />'',
       ''  <meta property=\"og:image\" content=\"'' @ OG_IMAGE @ ''\" />'',
       ''  <meta property=\"og:image:secure_url\" content=\"'' @ OG_IMAGE @ ''\" />'',
       ''  <meta property=\"og:image:type\" content=\"image/png\" />'',
       ''  <meta property=\"og:image:width\" content=\"1200\" />'',
       ''  <meta property=\"og:image:height\" content=\"630\" />'',
       ''  <meta property=\"og:image:alt\" content=\"'' @ esc PAGE_TITLE @ ''\" />'',
       ''  <meta property=\"og:locale\" content=\"en_US\" />'',
       [],
       ''  <!-- Twitter / X -->'',
       ''  <meta name=\"twitter:card\" content=\"summary_large_image\" />'',
       ''  <meta name=\"twitter:site\" content=\"@0xShomari\" />'',
       ''  <meta name=\"twitter:creator\" content=\"@0xShomari\" />'',
       ''  <meta name=\"twitter:title\" content=\"'' @ esc PAGE_TITLE @ ''\" />'',
       ''  <meta name=\"twitter:description\" content=\"'' @ esc PAGE_DESCRIPTION @ ''\" />'',
       ''  <meta name=\"twitter:image\" content=\"'' @ OG_IMAGE @ ''\" />'',
       ''  <meta name=\"twitter:image:alt\" content=\"'' @ esc PAGE_TITLE @ ''\" />'']"

definition body_html :: "build_env \<Rightarrow> nat \<Rightarrow> string \<Rightarrow> string \<Rightarrow> string" where
  "body_html env n_slides slides_html dots_html = lines_of
      [''  <div class=\"progress\" role=\"progressbar\" aria-label=\"Tour '' @
         ''progress\"></div>'',
       [],
       ''  <div class=\"mobile-bar\">'',
       ''    <div class=\"mobile-wordmark\">Snowside Tour</div>'',
       ''    <div class=\"mobile-counter\">1 / '' @ show_int (int n_slides) @ ''</div>'',
       ''  </div>'',
       [],
       ''  <div class=\"viewport\" role=\"region\" aria-roledescription=\"carousel\" '' @
         ''aria-label=\"Snowside Tour slides\">'',
       ''    <div class=\"stage\">'',
       slides_html,
       ''    </div>'',
       ''  </div>'',
       [],
       ''  <div class=\"dots\" role=\"group\" aria-label=\"Slide navigation\">'',
       dots_html,
       ''  </div>'',
       [],
       ''  <!-- Phone hint: swiping is not self-evident on a first visit. Fades out on'',
       ''       first successful interaction (see assets/tour.js). -->'',
       ''  <div class=\"swipe-hint\" aria-hidden=\"true\">Swipe or tap &rarr;</div>'',
       [],
       ''  <div class=\"deck-controls\">'',
       ''    <button type=\"button\" data-nav=\"prev\" aria-label=\"Previous '' @
         ''slide\">&#8592;</button>'',
       ''    <button type=\"button\" data-nav=\"next\" aria-label=\"Next '' @
         ''slide\">&#8594;</button>'',
       ''  </div>'',
       [],
       ''  <p class=\"visually-hidden\">Use the arrow keys, Page Up and Page Down, '' @
         ''Home and End, or swipe'',
       ''  to move between the '' @ show_int (int n_slides) @
         '' slides. Press F to toggle full screen.</p>'',
       [],
       ''  <!-- Without JS the deck cannot advance, so show every slide as a long page'',
       ''       instead of a single frozen frame. -->'',
       ''  <noscript>'',
       ''    <style>'',
       ''      html, body { overflow: auto !important; }'',
       ''      .viewport { position: static !important; overflow: visible !important; }'',
       ''      .stage { position: static !important; transform: none !important; '' @
         ''width: auto !important; height: auto !important; }'',
       ''      .slide { display: block !important; position: relative !important; '' @
         ''inset: auto !important; height: auto !important; min-height: 552px; '' @
         ''margin-bottom: 1rem; }'',
       ''      .slide-content, .connect-inner { height: auto !important; overflow: '' @
         ''visible !important; }'',
       ''      .progress, .deck-controls, .dots, .mobile-bar { display: none '' @
         ''!important; }'',
       ''    </style>'',
       ''  </noscript>'',
       [],
       ''  <script src=\"'' @ jsSrc env @ ''\"></script>'']"

definition html_doc :: "build_env \<Rightarrow> slide list \<Rightarrow> error + string" where
  "html_doc env ss =
     map_sum id (\<lambda>sh. lines_of
      [''<!DOCTYPE html>'',
       ''<html lang=\"en\" data-mode=\"deck\">'',
       ''<head>'',
       head_html env,
       ''</head>'',
       ''<body data-mode=\"deck\">'',
       body_html env (length ss) sh (dotsHtml ss),
       ''</body>'',
       ''</html>'',
       []]) (slidesHtml ss)"

text \<open>
  What is written below \<open>dist\<close>, in order (a later write of the same path replaces an earlier one).
\<close>

definition build :: "build_env \<Rightarrow> slide list \<Rightarrow> error + (string \<times> string) list" where
  "build env ss =
     map_sum id (\<lambda>html.
       [(replace_first ''/assets/'' ''assets/'' (cssHref env), tour_css env),
        (replace_first ''/assets/'' ''assets/'' (jsSrc env), tour_js env),
        (''assets/tour.css'', tour_css env), (''assets/tour.js'', tour_js env)] @
       public_files env @
       [(''index.html'', html), (''404.html'', html),
        (''_redirects'', ''/*    /index.html   200'' @ nl)]) (html_doc env ss)"

text \<open>The script in the head that chooses the layout before the first paint.\<close>

definition boot_mode :: "jnum \<Rightarrow> jnum \<Rightarrow> mode" where
  "boot_mode w h =
     (let scale = js_min (js_div w (JInt 980)) (js_div h (JInt 552))
      in if js_less scale (to_double (60 / 100)) then Mobile else Deck)"

text \<open>
  The layout of the first paint is the one the tour's script then applies, so nothing flashes.
\<close>

lemma boot_mode_agrees:
  "boot_mode (innerWidth t) (innerHeight t) = (if shouldUseMobile t then Mobile else Deck)"
  by (simp add: boot_mode_def shouldUseMobile_def deckScale_def MOBILE_SCALE_def Let_def)

end
