(* ===== verification/Tour_Markup.thy ===== *)
theory Tour_Markup
  imports Tour_Build
begin

text \<open>
  What the tour's renderer promises: whatever the texts are, the markup it makes of them is well
  formed. A small HTML tokenizer reads a text with the stack of open elements; text between tags is
  in state \<open>InText\<close>, a tag or a quoted attribute value collects what it holds in reverse.
\<close>

subsection \<open>A tokenizer\<close>

datatype html_state = InText | InTag string | InQuote string

text \<open>
  At the end of a tag: \<open><!...>\<close> and \<open><.../>\<close> leave the stack, a closing tag must match the top, and
  any other tag opens an element.
\<close>

definition tag_name :: "string \<Rightarrow> string" where
  "tag_name t = takeWhile (\<lambda>c. c \<noteq> CHR '' '' \<and> c \<noteq> CHR 0x0A) t"

definition end_tag :: "string \<Rightarrow> string list \<Rightarrow> string list option" where
  "end_tag racc st =
     (case rev racc of
        [] \<Rightarrow> None
      | c # t \<Rightarrow>
          if c = CHR ''!'' then Some st
          else if c = CHR ''/'' then
            (case st of [] \<Rightarrow> None | n # st' \<Rightarrow> if n = tag_name t then Some st' else None)
          else if hd racc = CHR ''/'' then Some st
          else Some (tag_name (c # t) # st))"

fun scan :: "html_state \<Rightarrow> string list \<Rightarrow> string \<Rightarrow> (html_state \<times> string list) option" where
  "scan q st [] = Some (q, st)"
| "scan InText st (c # s) = (if c = CHR ''<'' then scan (InTag []) st s else scan InText st s)"
| "scan (InTag a) st (c # s) =
     (if c = CHR ''>'' then (case end_tag a st of None \<Rightarrow> None | Some st' \<Rightarrow> scan InText st' s)
      else if c = CHR 0x22 then scan (InQuote a) st s
      else if c = CHR ''<'' then None
      else scan (InTag (c # a)) st s)"
| "scan (InQuote a) st (c # s) =
     (if c = CHR 0x22 then scan (InTag a) st s else scan (InQuote a) st s)"

text \<open>Text that leaves every element as it was, and text that stays inside a quoted value.\<close>

definition inert :: "string \<Rightarrow> bool" where
  "inert s \<longleftrightarrow> (\<forall>st. scan InText st s = Some (InText, st))"

definition unquoted :: "string \<Rightarrow> bool" where
  "unquoted s \<longleftrightarrow> CHR 0x22 \<notin> set s"

lemma inertI: "(\<And>st. scan InText st s = Some (InText, st)) \<Longrightarrow> inert s"
  by (simp add: inert_def)

lemma scan_append:
  "scan q st (a @ b) = (case scan q st a of None \<Rightarrow> None | Some (q', st') \<Rightarrow> scan q' st' b)"
  by (induction q st a rule: scan.induct) (auto split: option.split)

lemma scan_inert: "inert a \<Longrightarrow> scan InText st (a @ b) = scan InText st b"
  by (simp add: scan_append inert_def)

lemma scan_unquoted: "unquoted a \<Longrightarrow> scan (InQuote x) st (a @ b) = scan (InQuote x) st b"
  by (induction a) (auto simp: unquoted_def)

lemma inert_Nil [simp]: "inert []"
  by (simp add: inert_def)

lemma inert_append: "inert a \<Longrightarrow> inert b \<Longrightarrow> inert (a @ b)"
  by (simp add: inert_def scan_append)

lemma inert_plain: "CHR ''<'' \<notin> set s \<Longrightarrow> inert s"
  unfolding inert_def by (induction s) auto

lemma unquoted_append [simp]: "unquoted (a @ b) \<longleftrightarrow> unquoted a \<and> unquoted b"
  by (auto simp: unquoted_def)

lemma scan_line: "scan InText st (nl @ b) = scan InText st b"
  by (simp add: nl_def)

lemma inert_join: "list_all inert xs \<Longrightarrow> inert sep \<Longrightarrow> inert (join_str sep xs)"
  by (induction sep xs rule: join_str.induct) (auto intro: inert_append)

lemma inert_lines: "list_all inert xs \<Longrightarrow> inert (lines_of xs)"
  unfolding lines_of_def by (rule inert_join) (simp_all add: inert_plain nl_def)

lemma lines_of_simps:
  "lines_of [] = []" "lines_of [x] = x" "lines_of (x # y # xs) = x @ nl @ lines_of (y # xs)"
  by (simp_all add: lines_of_def)

subsection \<open>Escaped text\<close>

definition esc_char :: "char \<Rightarrow> string" where
  "esc_char c =
     (if c = CHR ''&'' then ''&amp;'' else if c = CHR ''<'' then ''&lt;''
      else if c = CHR ''>'' then ''&gt;'' else if c = CHR 0x22 then ''&quot;'' else [c])"

lemma esc_Nil [simp]: "esc [] = []"
  by (simp add: esc_def replace_char_def)

lemma esc_Cons: "esc (c # s) = esc_char c @ esc s"
  by (simp add: esc_def replace_char_def esc_char_def)

lemma esc_char_safe: "CHR ''<'' \<notin> set (esc_char c)" "CHR 0x22 \<notin> set (esc_char c)"
  by (simp_all add: esc_char_def)

lemma esc_safe: "CHR ''<'' \<notin> set (esc s) \<and> CHR 0x22 \<notin> set (esc s)"
  by (induction s) (simp_all add: esc_Cons esc_char_safe)

lemma inert_esc: "inert (esc s)"
  using esc_safe inert_plain by blast

lemma unquoted_esc: "unquoted (esc s)"
  using esc_safe by (simp add: unquoted_def)

text \<open>Escaping loses nothing.\<close>

fun unesc :: "string \<Rightarrow> string" where
  "unesc [] = []"
| "unesc (c # s) =
     (if starts_with (c # s) ''&amp;'' then CHR ''&'' # unesc (drop 4 s)
      else if starts_with (c # s) ''&lt;'' then CHR ''<'' # unesc (drop 3 s)
      else if starts_with (c # s) ''&gt;'' then CHR ''>'' # unesc (drop 3 s)
      else if starts_with (c # s) ''&quot;'' then CHR 0x22 # unesc (drop 5 s)
      else c # unesc s)"

lemma unesc_esc: "unesc (esc s) = s"
proof (induction s)
  case (Cons c s)
  then show ?case by (simp add: esc_Cons esc_char_def starts_with_Cons)
qed simp

lemma replace_all_absent:
  assumes "CHR ''<'' \<notin> set s"
  shows "replace_all (''&lt;'' @ p) r (esc s) = esc s"
  using assms
proof (induction s)
  case (Cons c s)
  then have "c \<noteq> CHR ''<''" "replace_all (''&lt;'' @ p) r (esc s) = esc s" by auto
  then show ?case by (simp add: esc_Cons esc_char_def starts_with_Cons)
qed simp

lemma escKeepEm_plain: "CHR ''<'' \<notin> set s \<Longrightarrow> escKeepEm s = esc s"
  using replace_all_absent [of s "''em&gt;''"] replace_all_absent [of s "''/em&gt;''"]
  by (simp add: escKeepEm_def)

lemma span_bold_set: "span_bold s = Some (b, r) \<Longrightarrow> set b \<subseteq> set s \<and> set r \<subseteq> set s"
  by (induction s arbitrary: b r) (auto split: if_splits dest: in_set_dropD)

lemma inert_bold: "CHR ''<'' \<notin> set s \<Longrightarrow> inert (bold s)"
proof (induction s rule: bold.induct)
  case (2 c s)
  show ?case
  proof (cases "if starts_with (c # s) ''**'' then span_bold (drop 2 (c # s)) else None")
    case None
    with 2 have "inert (bold s)" by simp
    moreover have "inert [c]" using "2.prems" by (simp add: inert_plain)
    ultimately show ?thesis using inert_append [of "[c]" "bold s"] None by simp
  next
    case (Some p)
    obtain b r where p: "p = (b, r)" by (cases p)
    with Some have sub: "set b \<subseteq> set s \<and> set r \<subseteq> set s"
      by (auto split: if_splits dest!: span_bold_set dest: in_set_dropD)
    with "2.prems" have "inert b" by (auto intro: inert_plain)
    moreover have "inert (bold r)" using 2(2) [OF Some p [symmetric]] sub "2.prems" by auto
    ultimately have "inert (''<strong>'' @ b @ ''</strong>'' @ bold r)"
      unfolding inert_def by (simp add: scan_append end_tag_def tag_name_def)
    with Some p show ?thesis by simp
  qed
qed simp

lemma inert_inline: "CHR ''<'' \<notin> set s \<Longrightarrow> inert (inline s)"
  using esc_safe [of s] by (simp add: inline_def escKeepEm_plain inert_bold)

lemma hyphenate_chars: "c \<in> set (hyphenate g s) \<Longrightarrow> slug_char c \<or> c = CHR ''-''"
  by (induction s arbitrary: g) (auto split: if_splits)

lemma unquoted_slug: "unquoted (slug s)"
proof -
  have "\<not> slug_char (CHR 0x22)" by (simp add: slug_char_def)
  then have "CHR 0x22 \<notin> set (hyphenate False (to_lower s))"
    using hyphenate_chars by fastforce
  then show ?thesis
    by (auto simp: slug_def unquoted_def Let_def dest: in_set_butlastD in_set_dropD)
qed

lemma show_int_chars: "c \<in> set (show_int n) \<Longrightarrow> c = CHR ''-'' \<or> is_digit c"
  using show_base_digits [of 10 c] by (auto simp: show_bigint_def split: if_splits)

lemma show_int_markup: "inert (show_int n)" "unquoted (show_int n)"
proof -
  have "\<not> is_digit (CHR ''<'')" "\<not> is_digit (CHR 0x22)"
    by (simp_all add: is_digit_of_def digit_val_def)
  then show "inert (show_int n)" "unquoted (show_int n)"
    using show_int_chars [of _ n] by (force intro: inert_plain simp: unquoted_def)+
qed

text \<open>Evaluation of the tokenizer on templates.\<close>

lemmas scan_simps = scan_inert [OF inert_esc] scan_unquoted [OF unquoted_esc]
  scan_inert [OF show_int_markup(1)] scan_unquoted [OF show_int_markup(2)]
  scan_unquoted [OF unquoted_slug] scan_line end_tag_def tag_name_def lines_of_simps

subsection \<open>Blocks\<close>

definition rich_ok :: "string \<Rightarrow> bool" where
  "rich_ok s \<longleftrightarrow> inert (escKeepEm s)"

lemma inert_snow_card: "rich_ok (c_body c) \<Longrightarrow> inert (snow_card c)"
  by (rule inertI) (simp add: snow_card_def rich_ok_def scan_simps scan_inert)

lemma inert_cards: "list_all (\<lambda>c. rich_ok (c_body c)) cs \<Longrightarrow> inert (renderCards cols cs)"
proof -
  assume "list_all (\<lambda>c. rich_ok (c_body c)) cs"
  then have "inert (lines_of (map snow_card cs))"
    by (intro inert_lines) (auto simp: list_all_iff inert_snow_card)
  then show ?thesis
    by (intro inertI) (simp add: renderCards_def Let_def scan_simps scan_inert)
qed

lemma inert_note:
  assumes "truthy_str strong \<Longrightarrow> inert (inline (the strong))" "truthy_str rest \<Longrightarrow> inert (inline (the rest))"
  shows "inert (renderNote strong rest)"
  by (rule inertI) (use assms in \<open>simp add: renderNote_def Let_def scan_simps scan_inert\<close>)

lemma mapi_inert: "(\<And>i x. x \<in> set xs \<Longrightarrow> inert (f i x)) \<Longrightarrow> inert (lines_of (mapi f xs))"
  by (intro inert_lines) (auto simp: mapi_def list_all_iff in_set_enumerate_eq)

lemma inert_comparison: "inert (renderComparison cmp)"
proof -
  have "inert (compare_head i c)" for i c
    by (rule inertI) (simp add: compare_head_def scan_simps)
  then have h: "inert (lines_of (mapi compare_head (cm_columns cmp)))" by (intro mapi_inert)
  have "inert (compare_row_html r)" for r
    by (rule inertI) (simp add: compare_row_html_def scan_simps)
  then have r: "inert (lines_of (map compare_row_html (cm_rows cmp)))"
    by (intro inert_lines) (simp add: list_all_iff)
  show ?thesis
    by (rule inertI) (simp add: renderComparison_def Let_def scan_simps scan_inert [OF h] scan_inert [OF r])
qed

lemma inert_risks:
  assumes "list_all (\<lambda>r. rich_ok (ri_mitigation r)) (rk_items rs)"
  shows "inert (renderRisks rs)"
proof -
  have "inert (risk_html r)" if "rich_ok (ri_mitigation r)" for r
    using that by (intro inertI) (simp add: risk_html_def rich_ok_def scan_simps scan_inert)
  with assms have i: "inert (lines_of (map risk_html (rk_items rs)))"
    by (intro inert_lines) (auto simp: list_all_iff)
  show ?thesis by (rule inertI) (simp add: renderRisks_def Let_def scan_simps scan_inert [OF i])
qed

lemma inert_roadmap:
  assumes "list_all (\<lambda>p. rich_ok (ph_milestone p)) (rm_phases rm)"
  shows "inert (renderRoadmap rm)"
proof -
  have "inert (phase_html n i p)" if "rich_ok (ph_milestone p)" for n i p
    using that by (intro inertI) (simp add: phase_html_def rich_ok_def scan_simps scan_inert)
  with assms have i: "inert (lines_of (mapi (phase_html (length (rm_phases rm))) (rm_phases rm)))"
    by (intro mapi_inert) (auto simp: list_all_iff)
  show ?thesis by (rule inertI) (simp add: renderRoadmap_def Let_def scan_simps scan_inert [OF i])
qed

lemma inert_revenue:
  assumes "list_all (\<lambda>c. rich_ok (rv_note c)) cs"
  shows "inert (renderRevenue cs)"
proof -
  have "inert (revenue_html c)" if "rich_ok (rv_note c)" for c
    using that by (intro inertI) (simp add: revenue_html_def rich_ok_def scan_simps scan_inert)
  with assms have i: "inert (lines_of (map revenue_html cs))"
    by (intro inert_lines) (auto simp: list_all_iff)
  show ?thesis by (rule inertI) (simp add: renderRevenue_def Let_def scan_simps scan_inert [OF i])
qed

lemma inert_faqs:
  assumes "list_all (\<lambda>f. rich_ok (fq_a f)) fs"
  shows "inert (renderFaqs fs)"
proof -
  have "inert (faq_html f)" if "rich_ok (fq_a f)" for f
    using that by (intro inertI) (simp add: faq_html_def rich_ok_def scan_simps scan_inert)
  with assms have i: "inert (lines_of (map faq_html fs))"
    by (intro inert_lines) (auto simp: list_all_iff)
  show ?thesis by (rule inertI) (simp add: renderFaqs_def Let_def scan_simps scan_inert [OF i])
qed

subsection \<open>Slides\<close>

text \<open>
  What a slide must satisfy: no block of an unknown type, and texts whose allowed tags (\<open><em>\<close> in
  bodies, line breaks on the cover) are balanced; any text without \<open><\<close> is fine.
\<close>

fun block_ok :: "block \<Rightarrow> bool" where
  "block_ok (Cards cols cs) = list_all (\<lambda>c. rich_ok (c_body c)) cs"
| "block_ok (Note strong rest) =
     ((truthy_str strong \<longrightarrow> inert (inline (the strong))) \<and> (truthy_str rest \<longrightarrow> inert (inline (the rest))))"
| "block_ok Comparison = True"
| "block_ok Risks = list_all (\<lambda>r. rich_ok (ri_mitigation r)) (rk_items risks)"
| "block_ok Roadmap = list_all (\<lambda>p. rich_ok (ph_milestone p)) (rm_phases roadmap)"
| "block_ok (Revenue cs) = list_all (\<lambda>c. rich_ok (rv_note c)) cs"
| "block_ok (Faqs fs) = list_all (\<lambda>f. rich_ok (fq_a f)) fs"
| "block_ok (UnknownBlock t) = False"

fun kind_ok :: "slide_kind \<Rightarrow> bool" where
  "kind_ok (CoverSlide k b a tagline subtitle) = (inert (escKeepBr tagline) \<and> inert (escKeepBr subtitle))"
| "kind_ok (DefaultSlide h lead blocks) = (inert (inline lead) \<and> list_all block_ok blocks)"
| "kind_ok (ConnectSlide h lead links footer) = True"

definition slide_ok :: "slide \<Rightarrow> bool" where
  "slide_ok s \<longleftrightarrow> kind_ok (sl_kind s)"

lemma block_renders: "block_ok b \<Longrightarrow> \<exists>h. renderBlock b = Inr h \<and> inert h"
  by (cases b) (auto simp: inert_cards inert_note inert_comparison inert_risks inert_roadmap
      inert_revenue inert_faqs)

lemma map_err_Inr:
  "(\<And>x. x \<in> set xs \<Longrightarrow> \<exists>y. f x = Inr y \<and> P x y) \<Longrightarrow>
   \<exists>ys. map_err f xs = Inr ys \<and> list_all2 P xs ys"
proof (induction xs)
  case (Cons x xs)
  then obtain y ys where "f x = Inr y" "P x y" "map_err f xs = Inr ys" "list_all2 P xs ys"
    by (meson list.set_intros)
  then show ?case by simp
qed simp

text \<open>The opening tag of a slide pushes one element.\<close>

lemma scan_slide_open: "scan InText st (slide_open s i @ t) = scan InText (''section'' # st) t"
  by (simp add: slide_open_def Let_def scan_simps)

definition slide_start :: "nat \<Rightarrow> string" where
  "slide_start i = ''      <section class=\"slide'' @ (if i = 0 then '' active'' else []) @ ''\"''"

lemma slide_starts: "starts_with (slide_open s i @ t) (slide_start i)"
  by (simp add: slide_open_def slide_start_def Let_def starts_with_Cons)

definition good_slide :: "nat \<Rightarrow> string \<Rightarrow> bool" where
  "good_slide i h \<longleftrightarrow> inert h \<and> starts_with h (slide_start i)"

lemma good_slideI:
  assumes "h = slide_open s i @ t" "\<And>st. scan InText (''section'' # st) t = Some (InText, st)"
  shows "good_slide i h"
  using assms unfolding good_slide_def
  by (auto intro: inertI simp: scan_slide_open slide_starts)

lemma inert_links: "inert (lines_of (map link_html ls))"
proof -
  have "inert (link_html l)" for l by (rule inertI) (simp add: link_html_def scan_simps)
  then show ?thesis by (intro inert_lines) (simp add: list_all_iff)
qed

lemma inert_footer: "inert (join_str (''<br />'' @ nl @ ''            '') (map esc footer))"
proof -
  have "inert (''<br />'' @ nl @ ''            '')" by (rule inertI) (simp add: scan_simps)
  then show ?thesis by (intro inert_join) (simp_all add: list_all_iff inert_esc)
qed

lemma lines_of_Cons: "xs \<noteq> [] \<Longrightarrow> lines_of (x # xs) = x @ nl @ lines_of xs"
  by (cases xs) (simp_all add: lines_of_simps)

lemma good_cover:
  assumes "inert (escKeepBr tagline)" "inert (escKeepBr subtitle)"
    and "sl_kind s = CoverSlide kicker banner bannerAlt tagline subtitle"
  shows "\<exists>h. renderSlide n s i = Inr h \<and> good_slide i h"
proof -
  obtain h where r: "renderSlide n s i = Inr h" by (simp add: renderSlide_def assms(3))
  have "good_slide i h"
  proof (rule good_slideI)
    show "h = slide_open s i @ drop (length (slide_open s i)) h"
      using r by (auto simp: renderSlide_def assms(3) lines_of_Cons)
    show "scan InText (''section'' # st) (drop (length (slide_open s i)) h) = Some (InText, st)" for st
      using r by (auto simp: renderSlide_def assms(3) lines_of_Cons scan_simps
          scan_inert [OF assms(1)] scan_inert [OF assms(2)])
  qed
  with r show ?thesis by blast
qed

lemma good_connect:
  assumes "sl_kind s = ConnectSlide heading lead links footer"
  shows "\<exists>h. renderSlide n s i = Inr h \<and> good_slide i h"
proof -
  obtain h where r: "renderSlide n s i = Inr h" by (simp add: renderSlide_def assms)
  have "good_slide i h"
  proof (rule good_slideI)
    show "h = slide_open s i @ drop (length (slide_open s i)) h"
      using r by (auto simp: renderSlide_def assms lines_of_Cons Let_def)
    show "scan InText (''section'' # st) (drop (length (slide_open s i)) h) = Some (InText, st)" for st
      using r by (auto simp: renderSlide_def assms lines_of_Cons scan_simps Let_def
          scan_inert [OF inert_links] scan_inert [OF inert_footer [simplified]])
  qed
  with r show ?thesis by blast
qed

lemma good_default:
  assumes "inert (inline lead)" "list_all block_ok blocks" "sl_kind s = DefaultSlide heading lead blocks"
  shows "\<exists>h. renderSlide n s i = Inr h \<and> good_slide i h"
proof -
  obtain bs where bs: "map_err renderBlock blocks = Inr bs" "list_all2 (\<lambda>b h. inert h) blocks bs"
    using map_err_Inr [of blocks renderBlock "\<lambda>b h. inert h"] block_renders assms(2)
    by (auto simp: list_all_iff)
  then have "list_all inert bs" by (simp add: list_all2_conv_all_nth list_all_length)
  then have b: "inert (lines_of bs)" by (rule inert_lines)
  obtain h where r: "renderSlide n s i = Inr h" by (simp add: renderSlide_def assms(3) bs)
  have "good_slide i h"
  proof (rule good_slideI)
    show "h = slide_open s i @ drop (length (slide_open s i)) h"
      using r by (auto simp: renderSlide_def assms(3) bs lines_of_Cons Let_def)
    show "scan InText (''section'' # st) (drop (length (slide_open s i)) h) = Some (InText, st)" for st
      using r by (auto simp: renderSlide_def assms(3) bs lines_of_Cons scan_simps Let_def
          scan_inert [OF b] scan_inert [OF assms(1)])
  qed
  with r show ?thesis by blast
qed

lemma slide_renders: "slide_ok s \<Longrightarrow> \<exists>h. renderSlide n s i = Inr h \<and> good_slide i h"
  unfolding slide_ok_def by (cases "sl_kind s") (auto intro: good_cover good_connect good_default)

lemma slides_render:
  assumes "list_all slide_ok ss"
  shows "\<exists>hs. slidesHtml ss = Inr (lines_of hs) \<and> length hs = length ss \<and>
    (\<forall>i < length ss. good_slide i (hs ! i))"
proof -
  obtain hs where hs: "map_err (\<lambda>(i, s). renderSlide (length ss) s i) (enumerate 0 ss) = Inr hs"
    "list_all2 (\<lambda>x h. good_slide (fst x) h) (enumerate 0 ss) hs"
    using map_err_Inr [of "enumerate 0 ss" "\<lambda>(i, s). renderSlide (length ss) s i"
        "\<lambda>x h. good_slide (fst x) h"] slide_renders assms
    by (fastforce simp: in_set_enumerate_eq list_all_length)
  then have "length hs = length ss" "\<And>i. i < length ss \<Longrightarrow> good_slide i (hs ! i)"
    by (auto simp: list_all2_conv_all_nth nth_enumerate_eq)
  with hs(1) show ?thesis by (auto simp: slidesHtml_def)
qed

lemma inert_dots: "inert (dotsHtml ss)"
proof -
  have "inert (dot_html i s)" for i s
    by (rule inertI) (simp add: dot_html_def scan_simps)
  then show ?thesis unfolding dotsHtml_def by (intro mapi_inert)
qed

text \<open>A long text is read line by line.\<close>

lemma scan_lines:
  "scan q st (lines_of (x # y # xs)) =
     (case scan q st x of None \<Rightarrow> None | Some (q', st') \<Rightarrow> scan q' st' (nl @ lines_of (y # xs)))"
  unfolding lines_of_def by (simp add: scan_append)

lemma scan_line_tag: "scan (InTag a) st (nl @ b) = scan (InTag (CHR 0x0A # a)) st b"
  by (simp add: nl_def)

lemma inert_body:
  assumes "inert sh" "inert dh" "unquoted (jsSrc env)"
  shows "inert (body_html env n sh dh)"
proof (rule inertI)
  fix st
  have sub: "scan InText st' sh = Some (InText, st')" "scan InText st' dh = Some (InText, st')" for st'
    using assms by (simp_all add: inert_def)
  have one: "lines_of [x] = x" for x by (simp add: lines_of_def)
  show "scan InText st (body_html env n sh dh) = Some (InText, st)"
    by (simp add: body_html_def scan_lines scan_line scan_line_tag one sub end_tag_def tag_name_def
        scan_inert [OF show_int_markup(1)] scan_unquoted [OF assms(3)])
qed


subsection \<open>The tour as it is\<close>

lemma rich_plain: "CHR ''<'' \<notin> set s \<Longrightarrow> rich_ok s"
  by (simp add: rich_ok_def escKeepEm_plain inert_esc)

lemma cover_ok: "inert (escKeepBr (cv_tagline cover))" "inert (escKeepBr (cv_subtitle cover))"
proof -
  have "escKeepBr (cv_tagline cover) = ''Bitcoin Security<br />at Avalanche Speed''" by code_simp
  then show "inert (escKeepBr (cv_tagline cover))"
    by (intro inertI) (simp add: end_tag_def tag_name_def)
  have "escKeepBr (cv_subtitle cover) = ''The eCash Sidechain on Avalanche<br />Native ECX Gas '' @
      bullet @ '' Native USDC Liquidity''" by code_simp
  then show "inert (escKeepBr (cv_subtitle cover))"
    by (intro inertI) (simp add: end_tag_def tag_name_def bullet_def)
qed

lemma x402_ok: "rich_ok (c_body (hd (cc_cards agenticPayments)))"
proof -
  have "escKeepEm (c_body (hd (cc_cards agenticPayments))) =
      ''An open payment protocol built on the HTTP 402 <em>Payment Required</em> status code. '' @
      ''Agents pay per-request, natively over HTTP '' @ dash @
      '' no gateways, no intermediaries.''" by code_simp
  then show ?thesis unfolding rich_ok_def
    by (intro inertI) (simp add: end_tag_def tag_name_def dash_def)
qed

definition no_lt :: "string \<Rightarrow> bool" where
  "no_lt s \<longleftrightarrow> CHR ''<'' \<notin> set s"

lemma bodies_plain:
  "list_all (\<lambda>c. no_lt (c_body c)) (cc_cards whatIsSnowside @ ta_cards twoAssets @ cc_cards howItWorks @
     cc_cards whyAvalanche @ tl (cc_cards agenticPayments))"
  "list_all (\<lambda>r. no_lt (ri_mitigation r)) (rk_items risks)"
  "list_all (\<lambda>p. no_lt (ph_milestone p)) (rm_phases roadmap)"
  "list_all (\<lambda>c. no_lt (rv_note c)) (op_cards opportunities)"
  "list_all (\<lambda>f. no_lt (fq_a f)) (fa_items faqs)"
  "list_all no_lt [cc_lead whatIsSnowside, ta_lead twoAssets, ta_footnoteStrong twoAssets,
     ta_footnoteRest twoAssets, cc_lead howItWorks, cc_lead whyAvalanche, cc_lead agenticPayments,
     cm_lead comparison, rk_lead risks, rm_lead roadmap, op_lead opportunities,
     op_footnote opportunities, fa_lead faqs]"
  by code_simp+

lemma slides_ok: "list_all slide_ok slides"
proof -
  have "list_all (\<lambda>c. rich_ok (c_body c)) (cc_cards agenticPayments)"
    using x402_ok bodies_plain(1)
    by (cases "cc_cards agenticPayments") (auto simp: list_all_iff no_lt_def rich_plain)
  then show ?thesis
    using cover_ok bodies_plain
    by (simp add: slides_def slide_ok_def) (auto simp: list_all_iff no_lt_def rich_plain inert_inline)
qed

text \<open>The ids of the sections are different, so every link has one target.\<close>

lemma slide_ids_distinct: "distinct (map (\<lambda>s. slug (sl_id s)) slides)"
  by code_simp

definition toy_build :: build_env where
  "toy_build = \<lparr>sha256_hex = (\<lambda>b. ''0123456789abcdef''), tour_css = ''.slide { }'', tour_js = ''boot()'',
     public_files = []\<rparr>"


end
