(* ===== verification/Edge_Middleware.thy ===== *)
theory Edge_Middleware
  imports Js_String
begin

text \<open>
  What stands in front of the static sites: the Cloudflare Pages middleware of the bridge, the
  explorer and the tour (\<open>packages/*/functions/_middleware.js\<close>), and the local preview server of the
  tour (\<open>packages/tour/scripts/serve.mjs\<close>). A middleware is a function of the request and of the two
  handlers it may call, \<open>next\<close> and \<open>ASSETS.fetch\<close>; it gives the response and the calls it made.
  The preview server works on a file system, of which \<open>stat\<close> and \<open>readFile\<close> are what it uses.
\<close>

subsection \<open>Requests and handlers\<close>

record web_url =
  u_host :: string
  u_path :: string
  u_query :: string

record edge_request =
  er_url :: web_url
  er_host :: "string option"

record edge_response =
  es_status :: nat
  es_type :: string
  es_body :: string

datatype edge_call = CallNext edge_request | CallAssets web_url

record edge_env =
  next_handler :: "edge_request \<Rightarrow> edge_response"
  assets_fetch :: "web_url \<Rightarrow> edge_response"

definition call_next :: "edge_env \<Rightarrow> edge_request \<Rightarrow> edge_response \<times> edge_call list" where
  "call_next env r = (next_handler env r, [CallNext r])"

definition call_assets :: "edge_env \<Rightarrow> web_url \<Rightarrow> edge_response \<times> edge_call list" where
  "call_assets env u = (assets_fetch env u, [CallAssets u])"

definition host_of :: "edge_request \<Rightarrow> string" where
  "host_of r = (case er_host r of None \<Rightarrow> [] | Some h \<Rightarrow> h)"

subsection \<open>Bridge and explorer: a subdomain per network\<close>

definition onRequest_bridge :: "edge_env \<Rightarrow> edge_request \<Rightarrow> edge_response \<times> edge_call list" where
  "onRequest_bridge env r =
     (let isTestnet = starts_with (host_of r) ''bridge-testnet.'';
          isSignet = starts_with (host_of r) ''bridge-signet.''
      in if isTestnet \<or> isSignet
         then let networkPrefix = (if isTestnet then ''testnet'' else ''signet'');
                  path = u_path (er_url r)
              in if \<not> starts_with path (''/'' @ networkPrefix)
                 then call_next env
                        (r\<lparr>er_url := (er_url r)\<lparr>u_path := ''/'' @ networkPrefix @ path\<rparr>\<rparr>)
                 else call_next env r
         else call_next env r)"

definition onRequest_explorer :: "edge_env \<Rightarrow> edge_request \<Rightarrow> edge_response \<times> edge_call list" where
  "onRequest_explorer env r =
     (let url = er_url r; path = u_path url
      in if starts_with (host_of r) ''explorer-testnet'' \<and>
            \<not> starts_with path ''/testnet'' \<and> \<not> includes_str path ''.''
         then call_assets env (url\<lparr>u_path := ''/testnet'' @ path\<rparr>)
         else if starts_with (host_of r) ''explorer-signet'' \<and>
            \<not> starts_with path ''/signet'' \<and> \<not> includes_str path ''.''
         then call_assets env (url\<lparr>u_path := ''/signet'' @ path\<rparr>)
         else call_next env r)"

subsection \<open>Tour: fallback to the one document\<close>

definition onRequest_tour :: "edge_env \<Rightarrow> edge_request \<Rightarrow> edge_response \<times> edge_call list" where
  "onRequest_tour env r =
     (let url = er_url r; path = u_path url
      in if includes_str path ''.'' then call_next env r
         else case call_next env r of
                (response, c1) \<Rightarrow>
                  if es_status response = 404
                  then (case call_assets env (url\<lparr>u_path := ''/index.html''\<rparr>) of
                          (res, c2) \<Rightarrow> (res, c1 @ c2))
                  else (response, c1))"

subsection \<open>Paths and percent encoding\<close>

text \<open>
  \<open>decodeURIComponent\<close>: a percent sign must be followed by two hexadecimal digits, and the bytes must
  be UTF-8; otherwise it throws.
\<close>

fun percent_decode :: "string \<Rightarrow> error + string" where
  "percent_decode [] = Inr []"
| "percent_decode (c # s) =
     (if c \<noteq> CHR ''%'' then map_sum id (\<lambda>t. c # t) (percent_decode s)
      else case s of
             a # b # t \<Rightarrow>
               if is_digit_of 16 a \<and> is_digit_of 16 b
               then map_sum id (\<lambda>u. char_of (16 * digit_val a + digit_val b) # u) (percent_decode t)
               else Inl ''URIError''
           | _ \<Rightarrow> Inl ''URIError'')"

definition in_range :: "nat \<Rightarrow> nat \<Rightarrow> char \<Rightarrow> bool" where
  "in_range lo hi c \<longleftrightarrow> lo \<le> (of_char c :: nat) \<and> (of_char c :: nat) \<le> hi"

abbreviation utf8_cont :: "char \<Rightarrow> bool" where
  "utf8_cont \<equiv> in_range 128 191"

fun utf8_ok :: "string \<Rightarrow> bool" where
  "utf8_ok [] = True"
| "utf8_ok (a # s) =
     (if in_range 0 127 a then utf8_ok s
      else if in_range 194 223 a then
        (case s of b # t \<Rightarrow> utf8_cont b \<and> utf8_ok t | _ \<Rightarrow> False)
      else if in_range 224 239 a then
        (case s of
           b # c # t \<Rightarrow>
             (if a = char_of (224 :: nat) then in_range 160 191 b
              else if a = char_of (237 :: nat) then in_range 128 159 b else utf8_cont b) \<and>
             utf8_cont c \<and> utf8_ok t
         | _ \<Rightarrow> False)
      else if in_range 240 244 a then
        (case s of
           b # c # d # t \<Rightarrow>
             (if a = char_of (240 :: nat) then in_range 144 191 b
              else if a = char_of (244 :: nat) then in_range 128 143 b else utf8_cont b) \<and>
             utf8_cont c \<and> utf8_cont d \<and> utf8_ok t
         | _ \<Rightarrow> False)
      else False)"

definition decode_uri :: "string \<Rightarrow> error + string" where
  "decode_uri s =
     (case percent_decode s of
        Inl e \<Rightarrow> Inl e | Inr t \<Rightarrow> if utf8_ok t then Inr t else Inl ''URIError'')"

text \<open>
  \<open>path.join\<close> of an absolute directory and a path: the segments are resolved from the root, where
  \<open>..\<close> drops the one before it (and nothing at the root); a trailing slash stays.
\<close>

definition push_seg :: "string list \<Rightarrow> string \<Rightarrow> string list" where
  "push_seg st s =
     (if s = [] \<or> s = ''.'' then st else if s = ''..'' then butlast st else st @ [s])"

definition norm_segs :: "string \<Rightarrow> string list" where
  "norm_segs p = foldl push_seg [] (split_slash p)"

fun slashed :: "string list \<Rightarrow> string" where
  "slashed [] = []"
| "slashed (s # ss) = CHR ''/'' # s @ slashed ss"

definition join_path :: "string \<Rightarrow> string \<Rightarrow> string" where
  "join_path dir p =
     (let q = dir @ ''/'' @ p; segs = norm_segs q
      in if segs = [] then ''/''
         else slashed segs @ (if last q = CHR ''/'' then ''/'' else []))"

text \<open>
  \<open>extname\<close>: what follows the last dot of the last segment, with the dot, unless that dot starts the
  segment; trailing slashes do not count.
\<close>

definition extname :: "string \<Rightarrow> string" where
  "extname p =
     (case filter (\<lambda>s. s \<noteq> []) (split_slash p) of
        [] \<Rightarrow> []
      | segs \<Rightarrow>
          (let base = last segs;
               suffix = takeWhile (\<lambda>c. c \<noteq> CHR ''.'') (rev base);
               rest = dropWhile (\<lambda>c. c \<noteq> CHR ''.'') (rev base)
           in if length rest \<le> 1 \<or> base = ''..'' then [] else CHR ''.'' # rev suffix))"

subsection \<open>Preview server of the tour\<close>

datatype file_kind = RegularFile | Directory | OtherKind

text \<open>\<open>stat\<close> throws for a path that does not exist, \<open>readFile\<close> throws with a message.\<close>

record file_system =
  fs_stat :: "string \<Rightarrow> file_kind option"
  fs_read :: "string \<Rightarrow> error + string"

definition TYPES :: "string \<Rightarrow> string option" where
  "TYPES = map_of
     [(''.html'', ''text/html; charset=utf-8''),
      (''.css'', ''text/css; charset=utf-8''),
      (''.js'', ''text/javascript; charset=utf-8''),
      (''.json'', ''application/json; charset=utf-8''),
      (''.svg'', ''image/svg+xml''),
      (''.png'', ''image/png''),
      (''.jpg'', ''image/jpeg''),
      (''.jpeg'', ''image/jpeg''),
      (''.webp'', ''image/webp''),
      (''.ico'', ''image/x-icon''),
      (''.txt'', ''text/plain; charset=utf-8'')]"

definition tryFile :: "file_system \<Rightarrow> string \<Rightarrow> string option" where
  "tryFile fs path =
     (case fs_stat fs path of
        None \<Rightarrow> None
      | Some Directory \<Rightarrow>
          (let idx = join_path path ''index.html''
           in case fs_stat fs idx of
                None \<Rightarrow> None
              | Some k \<Rightarrow> if k = RegularFile then Some idx else None)
      | Some _ \<Rightarrow> Some path)"

definition serve_error :: "error \<Rightarrow> edge_response" where
  "serve_error msg =
     \<lparr>es_status = 500, es_type = ''text/plain; charset=utf-8'', es_body = ''500 '' @ msg\<rparr>"

definition serve_not_found :: edge_response where
  "serve_not_found =
     \<lparr>es_status = 404, es_type = ''text/html; charset=utf-8'', es_body = ''<h1>404</h1>''\<rparr>"

definition serve_target :: "file_system \<Rightarrow> string \<Rightarrow> string \<Rightarrow> string option" where
  "serve_target fs distDir pathname =
     (case tryFile fs (join_path distDir pathname) of
        Some t \<Rightarrow> Some t
      | None \<Rightarrow>
          if extname pathname = [] then tryFile fs (join_path distDir ''index.html'') else None)"

definition serve :: "file_system \<Rightarrow> string \<Rightarrow> web_url \<Rightarrow> edge_response" where
  "serve fs distDir url =
     (case decode_uri (u_path url) of
        Inl e \<Rightarrow> serve_error e
      | Inr pathname \<Rightarrow>
          (case serve_target fs distDir pathname of
             None \<Rightarrow> serve_not_found
           | Some target \<Rightarrow>
               (case fs_read fs target of
                  Inl e \<Rightarrow> serve_error e
                | Inr body \<Rightarrow>
                    \<lparr>es_status = 200,
                     es_type = (case TYPES (extname target) of
                                  Some t \<Rightarrow> t | None \<Rightarrow> ''application/octet-stream''),
                     es_body = body\<rparr>)))"

subsection \<open>Routing does not loop\<close>

text \<open>
  A request that a middleware has rewritten passes it unchanged, so the rewriting ends after one
  step even when the handlers run it again.
\<close>

definition prefixed :: "string \<Rightarrow> edge_request \<Rightarrow> edge_request" where
  "prefixed n r = r\<lparr>er_url := (er_url r)\<lparr>u_path := ''/'' @ n @ u_path (er_url r)\<rparr>\<rparr>"

lemma bridge_prefix:
  assumes "t = starts_with (host_of r) ''bridge-testnet.''" "s = starts_with (host_of r) ''bridge-signet.''"
    and "n = (if t then ''testnet'' else ''signet'')"
  shows "onRequest_bridge env r =
    call_next env (if (t \<or> s) \<and> \<not> starts_with (u_path (er_url r)) (''/'' @ n) then prefixed n r else r)"
  using assms(3) unfolding onRequest_bridge_def Let_def prefixed_def assms(1,2) [symmetric]
  by (simp split: if_splits)

lemma prefixed_simps:
  "host_of (prefixed n r) = host_of r" "er_host (prefixed n r) = er_host r"
  "starts_with (u_path (er_url (prefixed n r))) (''/'' @ n)"
  by (simp_all add: prefixed_def host_of_def starts_with_iff)

lemma bridge_rewrites_once:
  assumes "onRequest_bridge env r = (resp, calls)"
  shows "\<exists>r'. calls = [CallNext r'] \<and> resp = next_handler env r' \<and> er_host r' = er_host r \<and>
    onRequest_bridge env r' = (resp, [CallNext r'])"
proof -
  define t where "t = starts_with (host_of r) ''bridge-testnet.''"
  define s where "s = starts_with (host_of r) ''bridge-signet.''"
  define n where "n = (if t then ''testnet'' else ''signet'')"
  define r' where
    "r' = (if (t \<or> s) \<and> \<not> starts_with (u_path (er_url r)) (''/'' @ n) then prefixed n r else r)"
  have "onRequest_bridge env r = call_next env r'"
    unfolding r'_def by (rule bridge_prefix [OF t_def s_def n_def])
  moreover have "onRequest_bridge env r' = call_next env r'"
  proof (cases "r' = r")
    case False
    then have r': "r' = prefixed n r" by (auto simp: r'_def)
    have "onRequest_bridge env (prefixed n r) = call_next env (prefixed n r)"
      using bridge_prefix [of t "prefixed n r" s n env] prefixed_simps(3) [of n r]
      by (simp add: prefixed_simps t_def s_def n_def)
    then show ?thesis by (simp only: r')
  qed (use calculation in simp)
  moreover have "er_host r' = er_host r" by (simp add: r'_def prefixed_simps(2))
  ultimately show ?thesis using assms by (auto simp: call_next_def)
qed

lemma explorer_rewrites_once:
  assumes "onRequest_explorer env r = (resp, [CallAssets u])"
  shows "onRequest_explorer env (r\<lparr>er_url := u\<rparr>) = call_next env (r\<lparr>er_url := u\<rparr>)"
proof -
  have excl: "\<not> (starts_with h ''explorer-testnet'' \<and> starts_with h ''explorer-signet'')" for h
    by (auto simp: starts_with_iff)
  have "host_of (r\<lparr>er_url := u\<rparr>) = host_of r" by (simp add: host_of_def)
  moreover have "starts_with (host_of r) ''explorer-testnet'' \<and> starts_with (u_path u) ''/testnet'' \<or>
      starts_with (host_of r) ''explorer-signet'' \<and> starts_with (u_path u) ''/signet''"
    using assms unfolding onRequest_explorer_def Let_def call_next_def call_assets_def
    by (auto simp: starts_with_iff split: if_splits)
  ultimately show ?thesis using excl [of "host_of r"]
    unfolding onRequest_explorer_def Let_def by (simp split: if_splits) blast
qed

subsection \<open>What the preview server gives out\<close>

lemma foldl_push_plain:
  "''..'' \<notin> set ss \<Longrightarrow> foldl push_seg st ss = st @ filter (\<lambda>s. s \<noteq> [] \<and> s \<noteq> ''.'') ss"
  by (induction ss arbitrary: st) (auto simp: push_seg_def)

lemma split_slash_app: "split_slash (a @ ''/'' @ b) = split_slash a @ split_slash b"
proof (induction a)
  case Nil
  then show ?case using split_slash_nonempty [of b] by (simp split: list.split)
next
  case (Cons c a)
  then show ?case using split_slash_nonempty [of a] by (auto split: list.split)
qed

definition below :: "string \<Rightarrow> string \<Rightarrow> bool" where
  "below dir p \<longleftrightarrow> (\<exists>ss. norm_segs p = norm_segs dir @ ss)"

definition good_segs :: "string list \<Rightarrow> bool" where
  "good_segs ss \<longleftrightarrow>
     list_all (\<lambda>s. s \<noteq> [] \<and> s \<noteq> ''.'' \<and> s \<noteq> ''..'' \<and> CHR ''/'' \<notin> set s) ss"

lemma split_slash_no_slash: "s \<in> set (split_slash p) \<Longrightarrow> CHR ''/'' \<notin> set s"
proof (induction p arbitrary: s)
  case (Cons c p)
  then show ?case by (cases "split_slash p") (auto split: if_splits)
qed simp

lemma good_foldl:
  "good_segs st \<Longrightarrow> (\<And>s. s \<in> set ss \<Longrightarrow> CHR ''/'' \<notin> set s) \<Longrightarrow> good_segs (foldl push_seg st ss)"
proof (induction ss arbitrary: st)
  case (Cons s ss)
  have "good_segs (butlast st)"
    using Cons.prems(1) in_set_butlastD [of _ st] unfolding good_segs_def list_all_iff by blast
  moreover have "CHR ''/'' \<notin> set s" by (rule Cons.prems(2)) simp
  ultimately have "good_segs (push_seg st s)"
    using Cons.prems(1) by (simp add: good_segs_def push_seg_def)
  then show ?case using Cons.IH [of "push_seg st s"] Cons.prems(2) by simp
qed simp

lemma good_norm: "good_segs (norm_segs p)"
  unfolding norm_segs_def by (rule good_foldl) (auto simp: good_segs_def dest: split_slash_no_slash)

lemma split_slashed:
  "good_segs ss \<Longrightarrow> split_slash (slashed ss) = [] # ss"
proof (induction ss)
  case (Cons s ss)
  then have s: "CHR ''/'' \<notin> set s" and ss: "split_slash (slashed ss) = [] # ss"
    by (auto simp: good_segs_def)
  have "split_slash (s @ slashed ss) = s # ss"
  proof (cases ss)
    case Nil
    with s show ?thesis by (simp add: split_slash_plain)
  next
    case (Cons u us)
    with split_slash_seg [OF s, of "u @ slashed us"] ss show ?thesis by (auto split: list.splits)
  qed
  then show ?case by simp
qed simp

lemma good_plain: "good_segs ss \<Longrightarrow> ''..'' \<notin> set ss"
  by (auto simp: good_segs_def list_all_iff)

lemma filter_good: "good_segs ss \<Longrightarrow> filter (\<lambda>s. s \<noteq> [] \<and> s \<noteq> ''.'') ss = ss"
  by (rule filter_True) (auto simp: good_segs_def list_all_iff)

lemma norm_slashed: "good_segs ss \<Longrightarrow> norm_segs (slashed ss) = ss"
  unfolding norm_segs_def
  by (simp add: split_slashed foldl_push_plain good_plain filter_good push_seg_def)

lemma norm_snoc: "norm_segs (p @ ''/'') = norm_segs p"
  using split_slash_app [of p "[]"] by (simp add: norm_segs_def push_seg_def)

lemma norm_join: "norm_segs (join_path d p) = norm_segs (d @ ''/'' @ p)"
proof -
  let ?q = "d @ ''/'' @ p"
  have "norm_segs ''/'' = []" by (simp add: norm_segs_def push_seg_def)
  with good_norm [of ?q] show ?thesis
    using norm_snoc [of "slashed (norm_segs ?q)"]
    by (simp add: join_path_def Let_def norm_slashed)
qed

lemma norm_app: "norm_segs (d @ ''/'' @ p) = foldl push_seg (norm_segs d) (split_slash p)"
  by (simp add: norm_segs_def split_slash_app [simplified])

lemma join_below:
  assumes "''..'' \<notin> set (split_slash p)"
  shows "below d (join_path d p)"
  using foldl_push_plain [OF assms, of "norm_segs d"]
  by (simp add: below_def norm_join norm_app [simplified])

lemma below_trans: "below d p \<Longrightarrow> below p q \<Longrightarrow> below d q"
  by (auto simp: below_def)

lemma tryFile_below: "tryFile fs p = Some t \<Longrightarrow> below d p \<Longrightarrow> below d t"
proof -
  assume t: "tryFile fs p = Some t" and b: "below d p"
  have "below p (join_path p ''index.html'')" by (rule join_below) simp
  with t b show ?thesis
    by (auto simp: tryFile_def Let_def split: option.splits file_kind.splits if_splits
        intro: below_trans)
qed

lemma serve_target_below:
  assumes "serve_target fs d p = Some t" "''..'' \<notin> set (split_slash p)"
  shows "below d t"
proof -
  have i: "below d (join_path d ''index.html'')" by (rule join_below) simp
  from assms(1) show ?thesis
    using tryFile_below [OF _ join_below [OF assms(2)]] tryFile_below [OF _ i]
    by (auto simp: serve_target_def split: option.splits if_splits)
qed

subsection \<open>A way out\<close>

lemma utf8_ascii: "list_all (in_range 0 127) a \<Longrightarrow> utf8_ok (a @ s) = utf8_ok s"
  by (induction a) auto

abbreviation dots :: "nat \<Rightarrow> string" where
  "dots n \<equiv> concat (replicate n ''../'')"

lemma percent_decode_plain: "CHR ''%'' \<notin> set s \<Longrightarrow> percent_decode s = Inr s"
  by (induction s) auto

lemma percent_decode_dots:
  "CHR ''%'' \<notin> set s \<Longrightarrow> percent_decode (concat (replicate n ''..%2f'') @ s) = Inr (dots n @ s)"
proof (induction n)
  case (Suc n)
  have "is_digit_of 16 (CHR ''2'')" "is_digit_of 16 (CHR ''f'')"
    by (simp_all add: is_digit_of_def digit_val_def)
  moreover have "char_of (16 * digit_val (CHR ''2'') + digit_val (CHR ''f'')) = CHR ''/''"
    by code_simp
  ultimately show ?case using Suc by simp
qed (simp add: percent_decode_plain)

lemma decode_dots:
  assumes "CHR ''%'' \<notin> set s" "utf8_ok s"
  shows "decode_uri (''/'' @ concat (replicate n ''..%2f'') @ s) = Inr (''/'' @ dots n @ s)"
proof -
  have "list_all (in_range 0 127) (''/'' @ dots n)"
    by (induction n) (auto simp: in_range_def)
  then have "utf8_ok ((''/'' @ dots n) @ s)" using assms(2) by (simp only: utf8_ascii)
  with percent_decode_dots [OF assms(1), of n] show ?thesis by (simp add: decode_uri_def)
qed

lemma dots_climb:
  "length st \<le> n \<Longrightarrow> foldl push_seg st (split_slash (dots n @ s)) = foldl push_seg [] (split_slash s)"
proof (induction n arbitrary: st)
  case (Suc n)
  have "split_slash (dots (Suc n) @ s) = ''..'' # split_slash (dots n @ s)"
    using split_slash_seg [of "''..''" "dots n @ s"] by simp
  with Suc show ?case by (simp add: push_seg_def)
qed simp

lemma join_escapes:
  assumes "good_segs ss" "ss \<noteq> []" "length (norm_segs d) \<le> n"
  shows "join_path d (''/'' @ dots n @ tl (slashed ss)) = slashed ss"
proof -
  obtain s us where ss: "ss = s # us" by (cases ss) (use assms in auto)
  have sp: "split_slash (tl (slashed ss)) = ss"
    using split_slashed [OF assms(1)] split_slash_nonempty [of "tl (slashed ss)"]
    by (simp add: ss split: list.splits)
  have "norm_segs (d @ ''/'' @ ''/'' @ dots n @ tl (slashed ss)) =
      foldl push_seg (norm_segs d) (split_slash (''/'' @ dots n @ tl (slashed ss)))"
    by (rule norm_app)
  also have "split_slash (''/'' @ dots n @ tl (slashed ss)) =
      [] # split_slash (dots n @ tl (slashed ss))"
    using split_slash_nonempty [of "dots n @ tl (slashed ss)"] by (simp split: list.split)
  also have "foldl push_seg (norm_segs d) \<dots> = foldl push_seg [] ss"
    using dots_climb [OF assms(3), of "tl (slashed ss)"] by (simp add: push_seg_def sp)
  also have "\<dots> = ss"
    using foldl_push_plain [OF good_plain [OF assms(1)], of "[]"] filter_good [OF assms(1)] by simp
  finally have n: "norm_segs (d @ ''/'' @ ''/'' @ dots n @ tl (slashed ss)) = ss" .
  have "last (slashed ss) \<noteq> CHR ''/''" using assms(1,2)
  proof (induction ss)
    case (Cons a as)
    then show ?case by (cases as) (auto simp: good_segs_def dest: last_in_set)
  qed simp
  moreover have "last (d @ ''/'' @ ''/'' @ dots n @ tl (slashed ss)) = last (slashed ss)"
    using assms(1) by (simp add: ss good_segs_def)
  ultimately show ?thesis using n assms(2) by (simp add: join_path_def Let_def)
qed

text \<open>
  C36. The preview server keeps to its directory only when nobody tries to leave it: every file it
  gives out lies below the directory as long as the decoded path has no \<open>..\<close> segment; but an encoded
  slash survives the URL parser and is decoded afterwards, so with enough \<open>..%2f\<close> any readable file
  of the machine is served, under any directory.
\<close>

theorem serve_confined:
  assumes "good_segs ss" "ss \<noteq> []" "CHR ''%'' \<notin> set (slashed ss)" "utf8_ok (tl (slashed ss))"
    and "fs_stat fs (slashed ss) = Some RegularFile" "fs_read fs (slashed ss) = Inr body"
    and "length (norm_segs d) \<le> n"
  shows "(\<forall>u p. decode_uri (u_path u) = Inr p \<and> ''..'' \<notin> set (split_slash p) \<and>
            es_status (serve fs d u) = 200 \<longrightarrow>
            (\<exists>t. below d t \<and> fs_read fs t = Inr (es_body (serve fs d u)))) \<and>
    (\<forall>u. u_path u = ''/'' @ concat (replicate n ''..%2f'') @ tl (slashed ss) \<longrightarrow>
            es_status (serve fs d u) = 200 \<and> es_body (serve fs d u) = body)"
proof (intro conjI allI impI)
  fix u :: web_url and p
  assume *: "decode_uri (u_path u) = Inr p \<and> ''..'' \<notin> set (split_slash p) \<and> es_status (serve fs d u) = 200"
  then obtain t where "serve_target fs d p = Some t" "fs_read fs t = Inr (es_body (serve fs d u))"
    by (auto simp: serve_def serve_error_def serve_not_found_def split: option.splits sum.splits)
  with * serve_target_below show "\<exists>t. below d t \<and> fs_read fs t = Inr (es_body (serve fs d u))" by blast
next
  fix u :: web_url
  assume u: "u_path u = ''/'' @ concat (replicate n ''..%2f'') @ tl (slashed ss)"
  have "CHR ''%'' \<notin> set (tl (slashed ss))" using assms(3) by (cases "slashed ss") auto
  then have "decode_uri (u_path u) = Inr (''/'' @ dots n @ tl (slashed ss))"
    unfolding u using assms(4) by (rule decode_dots)
  moreover have "serve_target fs d (''/'' @ dots n @ tl (slashed ss)) = Some (slashed ss)"
    using join_escapes [OF assms(1,2,7)] assms(5) by (simp add: serve_target_def tryFile_def)
  ultimately have "serve fs d u = \<lparr>es_status = 200, es_type = (case TYPES (extname (slashed ss)) of
      Some t \<Rightarrow> t | None \<Rightarrow> ''application/octet-stream''), es_body = body\<rparr>"
    using assms(6) by (simp add: serve_def)
  then show "es_status (serve fs d u) = 200" "es_body (serve fs d u) = body" by simp_all
qed

definition toy_fs :: file_system where
  "toy_fs = \<lparr>fs_stat = (\<lambda>p. if p = ''/etc/passwd'' then Some RegularFile else None),
     fs_read = (\<lambda>p. if p = ''/etc/passwd'' then Inr ''root'' else Inl ''ENOENT'')\<rparr>"

abbreviation toy_url :: "string \<Rightarrow> web_url" where
  "toy_url p \<equiv> \<lparr>u_host = ''localhost'', u_path = p, u_query = []\<rparr>"

theorem serve_confined_witness:
  "es_body (serve toy_fs ''/srv/dist'' (toy_url ''/..%2f..%2fetc/passwd'')) = ''root''"
proof -
  have "good_segs [''etc'', ''passwd'']" by (simp add: good_segs_def)
  moreover have "utf8_ok (tl (slashed [''etc'', ''passwd'']))" by (simp add: in_range_def)
  moreover have "length (norm_segs ''/srv/dist'') \<le> 2" by (simp add: norm_segs_def push_seg_def)
  ultimately show ?thesis
    using serve_confined [of "[''etc'', ''passwd'']" toy_fs "''root''" "''/srv/dist''" 2]
    by (simp add: toy_fs_def numeral_2_eq_2)
qed

end
