(* ===== verification/Pdf_Doc.thy ===== *)
theory Pdf_Doc
  imports Js_String
begin

text \<open>
  The part of jsPDF that the whitepaper uses. A document is the font state and the list of drawing
  operations with the page each was made on. Fonts are not in the repository: the width of a text
  and its division into lines are the parameters \<open>getTextWidth\<close> and \<open>splitTextToSize\<close>, which see the
  style and size in force. Coordinates are points, as exact rationals: the rounding of the code's
  binary64 arithmetic (below a millionth of a point on a page) is not modelled.
\<close>

type_synonym rgb = "nat \<times> nat \<times> nat"

datatype pdf_op =
    OpFont string string
  | OpFontSize rat
  | OpTextColor rgb
  | OpFillColor rgb
  | OpDrawColor rgb
  | OpLineWidth rat
  | OpDash "rat list" rat
  | OpRect rat rat rat rat string
  | OpRoundedRect rat rat rat rat rat rat string
  | OpLine rat rat rat rat
  | OpTriangle rat rat rat rat rat rat string
  | OpText string rat rat

record pdf_lib =
  getTextWidth :: "string \<Rightarrow> rat \<Rightarrow> string \<Rightarrow> rat"
  splitTextToSize :: "string \<Rightarrow> rat \<Rightarrow> string \<Rightarrow> rat \<Rightarrow> string list"

record pdf_doc =
  pd_style :: string
  pd_size :: rat
  pd_page :: nat
  pd_ops :: "(nat \<times> pdf_op) list"

text \<open>A new document has one page.\<close>

definition new_doc :: pdf_doc where
  "new_doc = \<lparr>pd_style = ''normal'', pd_size = 16, pd_page = 1, pd_ops = []\<rparr>"

definition put_op :: "pdf_op \<Rightarrow> pdf_doc \<Rightarrow> pdf_doc" where
  "put_op q d = d\<lparr>pd_ops := pd_ops d @ [(pd_page d, q)]\<rparr>"

definition setFont :: "string \<Rightarrow> string \<Rightarrow> pdf_doc \<Rightarrow> pdf_doc" where
  "setFont name style d = put_op (OpFont name style) (d\<lparr>pd_style := style\<rparr>)"

definition setFontSize :: "rat \<Rightarrow> pdf_doc \<Rightarrow> pdf_doc" where
  "setFontSize pt d = put_op (OpFontSize pt) (d\<lparr>pd_size := pt\<rparr>)"

definition setTextColor :: "rgb \<Rightarrow> pdf_doc \<Rightarrow> pdf_doc" where
  "setTextColor c = put_op (OpTextColor c)"

definition setFillColor :: "rgb \<Rightarrow> pdf_doc \<Rightarrow> pdf_doc" where
  "setFillColor c = put_op (OpFillColor c)"

definition setDrawColor :: "rgb \<Rightarrow> pdf_doc \<Rightarrow> pdf_doc" where
  "setDrawColor c = put_op (OpDrawColor c)"

definition setLineWidth :: "rat \<Rightarrow> pdf_doc \<Rightarrow> pdf_doc" where
  "setLineWidth w = put_op (OpLineWidth w)"

definition setLineDashPattern :: "rat list \<Rightarrow> rat \<Rightarrow> pdf_doc \<Rightarrow> pdf_doc" where
  "setLineDashPattern p phase = put_op (OpDash p phase)"

definition draw_rect :: "rat \<Rightarrow> rat \<Rightarrow> rat \<Rightarrow> rat \<Rightarrow> string \<Rightarrow> pdf_doc \<Rightarrow> pdf_doc" where
  "draw_rect x y w h style = put_op (OpRect x y w h style)"

definition roundedRect ::
  "rat \<Rightarrow> rat \<Rightarrow> rat \<Rightarrow> rat \<Rightarrow> rat \<Rightarrow> rat \<Rightarrow> string \<Rightarrow> pdf_doc \<Rightarrow> pdf_doc" where
  "roundedRect x y w h rx ry style = put_op (OpRoundedRect x y w h rx ry style)"

definition draw_line :: "rat \<Rightarrow> rat \<Rightarrow> rat \<Rightarrow> rat \<Rightarrow> pdf_doc \<Rightarrow> pdf_doc" where
  "draw_line x1 y1 x2 y2 = put_op (OpLine x1 y1 x2 y2)"

definition triangle ::
  "rat \<Rightarrow> rat \<Rightarrow> rat \<Rightarrow> rat \<Rightarrow> rat \<Rightarrow> rat \<Rightarrow> string \<Rightarrow> pdf_doc \<Rightarrow> pdf_doc" where
  "triangle x1 y1 x2 y2 x3 y3 style = put_op (OpTriangle x1 y1 x2 y2 x3 y3 style)"

definition text_at :: "string \<Rightarrow> rat \<Rightarrow> rat \<Rightarrow> pdf_doc \<Rightarrow> pdf_doc" where
  "text_at t x y = put_op (OpText t x y)"

text \<open>\<open>doc.text\<close> of an array of lines sets them one below the other, 1.15 times the font size apart.\<close>

fun text_lines :: "string list \<Rightarrow> rat \<Rightarrow> rat \<Rightarrow> pdf_doc \<Rightarrow> pdf_doc" where
  "text_lines [] x y d = d"
| "text_lines (t # ts) x y d = text_lines ts x (y + pd_size d * (115 / 100)) (text_at t x y d)"

definition addPage :: "pdf_doc \<Rightarrow> pdf_doc" where
  "addPage d = d\<lparr>pd_page := pd_page d + 1\<rparr>"

definition text_width :: "pdf_lib \<Rightarrow> pdf_doc \<Rightarrow> string \<Rightarrow> rat" where
  "text_width lib d t = getTextWidth lib (pd_style d) (pd_size d) t"

text \<open>The figures' \<open>ctext\<close> centres a text.\<close>

definition ctext :: "pdf_lib \<Rightarrow> string \<Rightarrow> rat \<Rightarrow> rat \<Rightarrow> pdf_doc \<Rightarrow> pdf_doc" where
  "ctext lib t cx ty d = text_at t (cx - text_width lib d t / 2) ty d"

definition run_all :: "(pdf_doc \<Rightarrow> pdf_doc) list \<Rightarrow> pdf_doc \<Rightarrow> pdf_doc" where
  "run_all fs d = fold (\<lambda>f. f) fs d"

text \<open>What \<open>types.ts\<close> calls a figure: its caption, the height it reserves, and how it is drawn at a
  place of a given width.\<close>

record Figure =
  fig_caption :: string
  fig_height :: rat
  fig_draw :: "pdf_lib \<Rightarrow> rat \<Rightarrow> rat \<Rightarrow> rat \<Rightarrow> pdf_doc \<Rightarrow> pdf_doc"

datatype wp_block = Para string | Fig Figure

record WhitepaperSection =
  ws_heading :: string
  ws_body :: "wp_block list"

subsection \<open>Operations that only draw\<close>

text \<open>
  \<open>draws P f\<close>: on every document, \<open>f\<close> stays on the page and adds operations there that satisfy \<open>P\<close>.
\<close>

definition draws :: "(pdf_op \<Rightarrow> bool) \<Rightarrow> (pdf_doc \<Rightarrow> pdf_doc) \<Rightarrow> bool" where
  "draws P f \<longleftrightarrow> (\<forall>d. pd_page (f d) = pd_page d \<and>
     (\<exists>qs. pd_ops (f d) = pd_ops d @ map (Pair (pd_page d)) qs \<and> list_all P qs))"

named_theorems draw_rules \<open>drawing operations and the operations they add\<close>

lemma draws_put_op [draw_rules]: "P q \<Longrightarrow> draws P (put_op q)"
  unfolding draws_def put_op_def by (auto intro!: exI [of _ "[q]"])

lemma draws_setFont [draw_rules]: "P (OpFont n s) \<Longrightarrow> draws P (setFont n s)"
  unfolding draws_def setFont_def put_op_def by (auto intro!: exI [of _ "[OpFont n s]"])

lemma draws_setFontSize [draw_rules]: "P (OpFontSize s) \<Longrightarrow> draws P (setFontSize s)"
  unfolding draws_def setFontSize_def put_op_def by (auto intro!: exI [of _ "[OpFontSize s]"])

lemma draws_simple [draw_rules]:
  "P (OpTextColor c) \<Longrightarrow> draws P (setTextColor c)"
  "P (OpFillColor c) \<Longrightarrow> draws P (setFillColor c)"
  "P (OpDrawColor c) \<Longrightarrow> draws P (setDrawColor c)"
  "P (OpLineWidth w) \<Longrightarrow> draws P (setLineWidth w)"
  "P (OpDash p ph) \<Longrightarrow> draws P (setLineDashPattern p ph)"
  "P (OpRect x y w h st) \<Longrightarrow> draws P (draw_rect x y w h st)"
  "P (OpRoundedRect x y w h rx ry st) \<Longrightarrow> draws P (roundedRect x y w h rx ry st)"
  "P (OpLine x1 y1 x2 y2) \<Longrightarrow> draws P (draw_line x1 y1 x2 y2)"
  "P (OpTriangle x1 y1 x2 y2 x3 y3 st) \<Longrightarrow> draws P (triangle x1 y1 x2 y2 x3 y3 st)"
  "P (OpText t x y) \<Longrightarrow> draws P (text_at t x y)"
  by (simp_all add: setTextColor_def setFillColor_def setDrawColor_def setLineWidth_def
      setLineDashPattern_def draw_rect_def roundedRect_def draw_line_def triangle_def text_at_def
      draws_put_op)

lemma draws_ctext [draw_rules]: "(\<And>x. P (OpText t x y)) \<Longrightarrow> draws P (ctext lib t cx y)"
  unfolding draws_def ctext_def text_at_def put_op_def by (auto intro!: exI [of _ "[_]"])

lemma draws_comp:
  assumes "draws P f" "draws P g"
  shows "draws P (\<lambda>d. g (f d))"
  unfolding draws_def
proof (intro allI)
  fix d
  obtain qs where f: "pd_page (f d) = pd_page d" "pd_ops (f d) = pd_ops d @ map (Pair (pd_page d)) qs"
    "list_all P qs"
    using assms(1) unfolding draws_def by blast
  obtain rs where g: "pd_page (g (f d)) = pd_page (f d)"
    "pd_ops (g (f d)) = pd_ops (f d) @ map (Pair (pd_page (f d))) rs" "list_all P rs"
    using assms(2) unfolding draws_def by blast
  from f g show "pd_page (g (f d)) = pd_page d \<and>
      (\<exists>qs. pd_ops (g (f d)) = pd_ops d @ map (Pair (pd_page d)) qs \<and> list_all P qs)"
    by (auto intro!: exI [of _ "qs @ rs"])
qed

lemma draws_id: "draws P (\<lambda>d. d)"
  by (simp add: draws_def)

lemma draws_run_all [draw_rules]: "list_all (draws P) fs \<Longrightarrow> draws P (run_all fs)"
proof (induction fs)
  case (Cons f fs)
  then have "draws P (\<lambda>d. run_all fs (f d))" by (auto intro: draws_comp)
  moreover have "run_all (f # fs) = (\<lambda>d. run_all fs (f d))" by (simp add: run_all_def fun_eq_iff)
  ultimately show ?case by simp
qed (simp add: draws_def run_all_def)

lemma draws_mono: "draws P f \<Longrightarrow> (\<And>q. P q \<Longrightarrow> Q q) \<Longrightarrow> draws Q f"
  unfolding draws_def by (metis (mono_tags, lifting) list_all_iff)

lemma draws_text_lines: "(\<And>t y. P (OpText t x y)) \<Longrightarrow> draws P (text_lines ts x y)"
proof (induction ts arbitrary: y)
  case (Cons t ts)
  have "pd_size (text_at t x y d) = pd_size d" for d by (simp add: text_at_def put_op_def)
  show ?case
    unfolding draws_def
  proof (intro allI)
    fix d :: pdf_doc
    have 1: "draws P (text_lines ts x (y + pd_size d * (115 / 100)))" by (rule Cons.IH) (rule Cons.prems)
    have 2: "draws P (text_at t x y)" by (rule draws_simple) (rule Cons.prems)
    from draws_comp [OF 2 1] show "pd_page (text_lines (t # ts) x y d) = pd_page d \<and>
        (\<exists>qs. pd_ops (text_lines (t # ts) x y d) = pd_ops d @ map (Pair (pd_page d)) qs \<and> list_all P qs)"
      unfolding draws_def by simp
  qed
qed (simp add: draws_def)

end
