(* ===== verification/Whitepaper_Figures.thy ===== *)
theory Whitepaper_Figures
  imports Pdf_Doc
begin

text \<open>
  \<open>packages/web/src/data/whitepaper/figures/\<close>: the nine vector figures of the whitepaper, operation
  by operation. The colour constants, which every file declares for itself, are shared.
\<close>

subsection \<open>Colours\<close>

definition PURPLE :: rgb where "PURPLE = (107, 45, 91)"
definition BTC_ORG :: rgb where "BTC_ORG = (247, 147, 26)"
definition USDC_BL :: rgb where "USDC_BL = (39, 117, 202)"
definition SNOW :: rgb where "SNOW = (56, 189, 248)"
definition SNOW_D :: rgb where "SNOW_D = (14, 165, 233)"
definition INK :: rgb where "INK = (15, 15, 15)"
definition LIGHT :: rgb where "LIGHT = (240, 240, 245)"
definition AXIS :: rgb where "AXIS = (102, 102, 115)"

subsection \<open>Architecture\<close>

text \<open>The arrow of the first two figures, the second without dashes.\<close>

definition arch_arrow ::
  "pdf_lib \<Rightarrow> rat \<Rightarrow> rat \<Rightarrow> rat \<Rightarrow> rgb \<Rightarrow> string \<Rightarrow> bool \<Rightarrow> pdf_doc \<Rightarrow> pdf_doc" where
  "arch_arrow lib x1 x2 ay color label dashed =
     (let dir = (if x1 < x2 then 1 else - 1)
      in run_all
           ([setDrawColor color, setLineWidth 2] @
            (if dashed then [setLineDashPattern [4, 3] 0] else []) @
            [draw_line x1 ay x2 ay, setLineDashPattern [] 0, setFillColor color,
             triangle x2 ay (x2 - dir * 7) (ay - 4) (x2 - dir * 7) (ay + 4) ''F'',
             setFont ''NotoSans'' ''normal'', setFontSize (15 / 2), setTextColor INK,
             ctext lib label ((x1 + x2) / 2) (ay - 8)]))"

definition draw_architecture :: "pdf_lib \<Rightarrow> rat \<Rightarrow> rat \<Rightarrow> rat \<Rightarrow> pdf_doc \<Rightarrow> pdf_doc" where
  "draw_architecture lib x y width =
     (let padT = 10;
          boxH = 70;
          boxY = y + padT;
          boxW = (width - 80) / 3;
          gap = 40;
          leftX = x;
          midX = x + boxW + gap;
          rightX = x + 2 * (boxW + gap);
          cy = boxY + boxH / 2;
          yBmm = cy - 16;
          yIcm = cy + 16
      in run_all
        [setFillColor LIGHT,
         setDrawColor BTC_ORG,
         setLineWidth (3 / 2),
         roundedRect leftX boxY boxW boxH 6 6 ''FD'',
         setFont ''NotoSans'' ''bold'',
         setFontSize 10,
         setTextColor BTC_ORG,
         ctext lib ''eCash L1'' (leftX + boxW / 2) (cy - 6),
         setFont ''NotoSans'' ''normal'',
         setFontSize 8,
         setTextColor AXIS,
         ctext lib ''Proof-of-Work'' (leftX + boxW / 2) (cy + 8),
         ctext lib ''SHA-256d mining'' (leftX + boxW / 2) (cy + 20),
         setFillColor LIGHT,
         setDrawColor PURPLE,
         setLineWidth (3 / 2),
         roundedRect midX boxY boxW boxH 6 6 ''FD'',
         setFont ''NotoSans'' ''bold'',
         setFontSize 10,
         setTextColor PURPLE,
         ctext lib ''Snowside L1'' (midX + boxW / 2) (cy - 6),
         setFont ''NotoSans'' ''normal'',
         setFontSize 8,
         setTextColor AXIS,
         ctext lib ''Avalanche consensus'' (midX + boxW / 2) (cy + 8),
         ctext lib ''EVM execution'' (midX + boxW / 2) (cy + 20),
         setFillColor LIGHT,
         setDrawColor USDC_BL,
         setLineWidth (3 / 2),
         roundedRect rightX boxY boxW boxH 6 6 ''FD'',
         setFont ''NotoSans'' ''bold'',
         setFontSize 10,
         setTextColor USDC_BL,
         ctext lib ''C-Chain'' (rightX + boxW / 2) (cy - 6),
         setFont ''NotoSans'' ''normal'',
         setFontSize 8,
         setTextColor AXIS,
         ctext lib ''Avalanche Primary'' (rightX + boxW / 2) (cy + 8),
         ctext lib ''USDC liquidity'' (rightX + boxW / 2) (cy + 20),
         arch_arrow lib (leftX + boxW + 4) (midX - 4) yBmm BTC_ORG ''BMM commitment'' False,
         arch_arrow lib (rightX - 4) (midX + boxW + 4) yIcm USDC_BL ''ICM bridge (USDC)'' False,
         setFont ''NotoSans'' ''italic'',
         setFontSize (15 / 2),
         setTextColor AXIS,
         ctext lib ''Native gas: ECX'' (midX + boxW / 2) (boxY + boxH + 14)])"

definition architectureDiagram :: Figure where
  "architectureDiagram =
     \<lparr>fig_caption = ''Figure: System architecture. eCash miners secure Snowside via BMM commitments '' @
        ''(left). Avalanche C-Chain provides USDC liquidity via ICM bridge (right). '' @
        ''Snowside operates as a sovereign EVM L1 in the center.'',
      fig_height = 165, fig_draw = draw_architecture\<rparr>"

subsection \<open>Blind merged mining\<close>

definition bmm_arrow ::
  "pdf_lib \<Rightarrow> rat \<Rightarrow> rat \<Rightarrow> rat \<Rightarrow> rgb \<Rightarrow> string \<Rightarrow> pdf_doc \<Rightarrow> pdf_doc" where
  "bmm_arrow lib x1 x2 ay color label =
     (let dir = (if x2 > x1 then 1 else -1)
      in run_all
        [setDrawColor color,
         setLineWidth 2,
         draw_line x1 ay x2 ay,
         setFillColor color,
         triangle x2 ay (x2 - dir * 7) (ay - 4) (x2 - dir * 7) (ay + 4) ''F'',
         setFont ''NotoSans'' ''normal'',
         setFontSize (15 / 2),
         setTextColor INK,
         ctext lib label ((x1 + x2) / 2) (ay - 8)])"

definition draw_bmm :: "pdf_lib \<Rightarrow> rat \<Rightarrow> rat \<Rightarrow> rat \<Rightarrow> pdf_doc \<Rightarrow> pdf_doc" where
  "draw_bmm lib x y width =
     (let padT = 12;
          boxW = 130;
          boxH = 70;
          boxY = y + padT;
          leftX = x;
          rightX = x + width - boxW;
          cy = boxY + boxH / 2;
          gapL = leftX + boxW + 6;
          gapR = rightX - 6;
          midX = (gapL + gapR) / 2
      in run_all
        [setFillColor LIGHT,
         setDrawColor BTC_ORG,
         setLineWidth (6 / 5),
         roundedRect leftX boxY boxW boxH 6 6 ''FD'',
         setFont ''NotoSans'' ''bold'',
         setFontSize 10,
         setTextColor BTC_ORG,
         ctext lib ''eCash Miners'' (leftX + boxW / 2) (cy - 6),
         setFont ''NotoSans'' ''normal'',
         setFontSize 8,
         setTextColor AXIS,
         ctext lib ''Coinbase commitment'' (leftX + boxW / 2) (cy + 8),
         ctext lib ''No Snowside node needed'' (leftX + boxW / 2) (cy + 20),
         setFillColor LIGHT,
         setDrawColor SNOW_D,
         setLineWidth (6 / 5),
         roundedRect rightX boxY boxW boxH 6 6 ''FD'',
         setFont ''NotoSans'' ''bold'',
         setFontSize 10,
         setTextColor SNOW_D,
         ctext lib ''Settlement Proposers'' (rightX + boxW / 2) (cy - 6),
         setFont ''NotoSans'' ''normal'',
         setFontSize 8,
         setTextColor AXIS,
         ctext lib ''Submit BMM commitments'' (rightX + boxW / 2) (cy + 8),
         ctext lib ''Pay ECX to miners'' (rightX + boxW / 2) (cy + 20),
         bmm_arrow lib gapL gapR (cy - 14) BTC_ORG ''Header commitment'',
         bmm_arrow lib gapR gapL (cy + 14) SNOW ''ECX fee reward''])"

definition bmmFlow :: Figure where
  "bmmFlow =
     \<lparr>fig_caption = ''Figure: Blind Merged Mining. eCash miners include a compact header commitment '' @
        ''(zero marginal cost) and earn ECX fees from settlement proposers. No '' @
        ''additional hardware or software required.'',
      fig_height = 120, fig_draw = draw_bmm\<rparr>"

subsection \<open>Consensus\<close>

text \<open>A tier is its label, description, time and colour.\<close>

definition consensus_tiers :: "(string \<times> string \<times> string \<times> rgb) list" where
  "consensus_tiers =
     [(''Instant'', ''Avalanche consensus '' @ dash @ '' sub-2-second finality'', ''~1-2s'', SNOW),
      (''Confirmed'', ''eCash block confirmation'', ''~2min'', PURPLE),
      (''Settled'', ''BMM anchor to eCash L1 (1-2 blocks)'', ''~10-20min'', BTC_ORG)]"

definition time_label :: "pdf_lib \<Rightarrow> string \<Rightarrow> rat \<Rightarrow> rat \<Rightarrow> pdf_doc \<Rightarrow> pdf_doc" where
  "time_label lib time right ty d =
     (let tw = text_width lib d time in text_at time (right - tw - 12) ty d)"

definition draw_tier ::
  "pdf_lib \<Rightarrow> rat \<Rightarrow> rat \<Rightarrow> rat \<Rightarrow> nat \<times> string \<times> string \<times> string \<times> rgb \<Rightarrow> pdf_doc \<Rightarrow> pdf_doc" where
  "draw_tier lib tierX y tierW = (\<lambda>(i, label, desc, time, color).
     (let tierH = 36; gap = 8; ty = y + 12 + of_nat i * (tierH + gap)
      in run_all
           [setFillColor LIGHT, setDrawColor color, setLineWidth (6 / 5),
            roundedRect tierX ty tierW tierH 5 5 ''FD'',
            setFont ''NotoSans'' ''bold'', setFontSize 10, setTextColor INK,
            text_at label (tierX + 12) (ty + 16),
            setFont ''NotoSans'' ''normal'', setFontSize 8, setTextColor AXIS,
            text_at desc (tierX + 12) (ty + 27),
            setFont ''NotoSans'' ''bold'', setFontSize 9, setTextColor color,
            time_label lib time (tierX + tierW) (ty + 22)]))"

definition tier_connector :: "rat \<Rightarrow> rat \<Rightarrow> nat \<Rightarrow> pdf_doc \<Rightarrow> pdf_doc" where
  "tier_connector lineX y i =
     (let tierH = 36; gap = 8;
          y1 = y + 12 + (of_nat i + 1) * tierH + of_nat i * gap;
          y2 = y + 12 + (of_nat i + 1) * (tierH + gap)
      in draw_line lineX y1 lineX y2)"

definition draw_consensus :: "pdf_lib \<Rightarrow> rat \<Rightarrow> rat \<Rightarrow> rat \<Rightarrow> pdf_doc \<Rightarrow> pdf_doc" where
  "draw_consensus lib x y width =
     (let tierW = width - 40; tierX = x + 20; lineX = tierX + tierW / 2
      in run_all
           (map (draw_tier lib tierX y tierW) (enumerate 0 consensus_tiers) @
            [setDrawColor AXIS, setLineWidth (3 / 5), setLineDashPattern [2, 2] 0] @
            map (tier_connector lineX y) [0..<length consensus_tiers - 1] @
            [setLineDashPattern [] 0]))"

definition consensusLayers :: Figure where
  "consensusLayers =
     \<lparr>fig_caption = ''Figure: Three-tier confirmation model. Instant (Avalanche, ~1-2s), Confirmed '' @
        ''(eCash block, ~2min), Settled (BMM anchor to eCash L1, ~10-20min). Users '' @
        ''choose the tier that matches their trust requirement.'',
      fig_height = 150, fig_draw = draw_consensus\<rparr>"

subsection \<open>Fees\<close>

definition arrowFromTop ::
  "rat \<Rightarrow> rat \<Rightarrow> rat \<Rightarrow> rat \<Rightarrow> rat \<Rightarrow> rgb \<Rightarrow> pdf_doc \<Rightarrow> pdf_doc" where
  "arrowFromTop topBoxY topBoxH midBoxY tx_x bx color =
     (let startY = topBoxY + topBoxH;
          endY = midBoxY
      in run_all
        [setDrawColor color,
         setLineWidth 1,
         draw_line tx_x startY tx_x (startY + 12),
         draw_line tx_x (startY + 12) bx (startY + 12),
         draw_line bx (startY + 12) bx endY,
         setFillColor color,
         triangle bx endY (bx - 3) (endY - 5) (bx + 3) (endY - 5) ''F''])"

definition draw_fee_model :: "pdf_lib \<Rightarrow> rat \<Rightarrow> rat \<Rightarrow> rat \<Rightarrow> pdf_doc \<Rightarrow> pdf_doc" where
  "draw_fee_model lib x y width =
     (let topBoxW = 180;
          topBoxH = 32;
          topBoxY = y + 10;
          topBoxX = x + (width - topBoxW) / 2;
          midBoxW = (width - 40) / 3;
          midBoxH = 52;
          midBoxY = topBoxY + topBoxH + 30;
          gap = 20;
          baseX = x;
          prioX = x + midBoxW + gap;
          contractX = x + 2 * (midBoxW + gap);
          vestY = midBoxY + midBoxH + 28;
          vestW = midBoxW;
          vestH = 44;
          vestX = contractX;
          distY = vestY + vestH + 24
      in run_all
        [setFillColor LIGHT,
         setDrawColor INK,
         setLineWidth 1,
         roundedRect topBoxX topBoxY topBoxW topBoxH 5 5 ''FD'',
         setFont ''NotoSans'' ''bold'',
         setFontSize 10,
         setTextColor INK,
         ctext lib (''Transaction Fee (ECX) '' @ dash @ '' Contract Fees optionally USDC'') (topBoxX + topBoxW / 2) (topBoxY + 20),
         setFillColor LIGHT,
         setDrawColor BTC_ORG,
         setLineWidth (6 / 5),
         roundedRect baseX midBoxY midBoxW midBoxH 5 5 ''FD'',
         setFont ''NotoSans'' ''bold'',
         setFontSize 9,
         setTextColor BTC_ORG,
         ctext lib ''Base Fee'' (baseX + midBoxW / 2) (midBoxY + 14),
         setFont ''NotoSans'' ''normal'',
         setFontSize (15 / 2),
         setTextColor AXIS,
         ctext lib ''Required, algorithmic'' (baseX + midBoxW / 2) (midBoxY + 26),
         ctext lib ''-> eCash L1 miners'' (baseX + midBoxW / 2) (midBoxY + 38),
         ctext lib ''(100% via BMM)'' (baseX + midBoxW / 2) (midBoxY + 48),
         setFillColor LIGHT,
         setDrawColor PURPLE,
         setLineWidth (6 / 5),
         roundedRect prioX midBoxY midBoxW midBoxH 5 5 ''FD'',
         setFont ''NotoSans'' ''bold'',
         setFontSize 9,
         setTextColor PURPLE,
         ctext lib ''Priority Fee'' (prioX + midBoxW / 2) (midBoxY + 14),
         setFont ''NotoSans'' ''normal'',
         setFontSize (15 / 2),
         setTextColor AXIS,
         ctext lib ''Optional, user-set'' (prioX + midBoxW / 2) (midBoxY + 26),
         ctext lib ''-> Block-producing'' (prioX + midBoxW / 2) (midBoxY + 38),
         ctext lib ''validator (100%)'' (prioX + midBoxW / 2) (midBoxY + 48),
         setFillColor LIGHT,
         setDrawColor SNOW_D,
         setLineWidth (6 / 5),
         roundedRect contractX midBoxY midBoxW midBoxH 5 5 ''FD'',
         setFont ''NotoSans'' ''bold'',
         setFontSize 9,
         setTextColor SNOW_D,
         ctext lib ''Contract Fee'' (contractX + midBoxW / 2) (midBoxY + 14),
         setFont ''NotoSans'' ''normal'',
         setFontSize 7,
         setTextColor AXIS,
         ctext lib ''Optional, opt-in'' (contractX + midBoxW / 2) (midBoxY + 26),
         ctext lib ''ECX or USDC'' (contractX + midBoxW / 2) (midBoxY + 36),
         ctext lib ''-> Owner + Treasury'' (contractX + midBoxW / 2) (midBoxY + 48),
         arrowFromTop topBoxY topBoxH midBoxY (topBoxX + topBoxW / 2 - 50) (baseX + midBoxW / 2) BTC_ORG,
         arrowFromTop topBoxY topBoxH midBoxY (topBoxX + topBoxW / 2) (prioX + midBoxW / 2) PURPLE,
         arrowFromTop topBoxY topBoxH midBoxY (topBoxX + topBoxW / 2 + 50) (contractX + midBoxW / 2) SNOW_D,
         setFillColor LIGHT,
         setDrawColor AXIS,
         setLineWidth (4 / 5),
         setLineDashPattern [3, 2] 0,
         roundedRect vestX vestY vestW vestH 4 4 ''FD'',
         setLineDashPattern [] 0,
         setFont ''NotoSans'' ''bold'',
         setFontSize 8,
         setTextColor INK,
         ctext lib ''Vesting Schedule'' (vestX + vestW / 2) (vestY + 12),
         setFont ''NotoSans'' ''normal'',
         setFontSize 7,
         setTextColor AXIS,
         ctext lib ''t=0: Owner 50% | Treasury 50%'' (vestX + vestW / 2) (vestY + 24),
         ctext lib ''t=18: Owner 80% | Treasury 20%'' (vestX + vestW / 2) (vestY + 34),
         setDrawColor AXIS,
         setLineWidth (4 / 5),
         draw_line (contractX + midBoxW / 2) (midBoxY + midBoxH) (vestX + vestW / 2) vestY,
         setFillColor AXIS,
         triangle (vestX + vestW / 2) vestY (vestX + vestW / 2 - 3) (vestY - 5) (vestX + vestW / 2 + 3) (vestY - 5) ''F'',
         setFillColor LIGHT,
         setDrawColor AXIS,
         setLineWidth (4 / 5),
         setLineDashPattern [3, 2] 0,
         roundedRect vestX distY vestW 58 4 4 ''FD'',
         setLineDashPattern [] 0,
         setFont ''NotoSans'' ''bold'',
         setFontSize 8,
         setTextColor INK,
         ctext lib ''Treasury Distribution'' (vestX + vestW / 2) (distY + 12),
         setFont ''NotoSans'' ''normal'',
         setFontSize (13 / 2),
         setTextColor AXIS,
         ctext lib ''Foundation: 10% (retained)'' (vestX + vestW / 2) (distY + 24),
         ctext lib ''Proposers: 5% (configurable)'' (vestX + vestW / 2) (distY + 34),
         ctext lib ''Validators: 85% (prop. to bonded ECX)'' (vestX + vestW / 2) (distY + 44),
         ctext lib ''(governance: mechanism TBD)'' (vestX + vestW / 2) (distY + 54),
         setDrawColor AXIS,
         setLineWidth (4 / 5),
         draw_line (vestX + vestW / 2) (vestY + vestH) (vestX + vestW / 2) distY,
         setFillColor AXIS,
         triangle (vestX + vestW / 2) distY (vestX + vestW / 2 - 3) (distY - 5) (vestX + vestW / 2 + 3) (distY - 5) ''F''])"

definition feeModel :: Figure where
  "feeModel =
     \<lparr>fig_caption = ''Figure: Three-part fee model. Base Fees flow to eCash L1 miners via BMM '' @
        ''commitments (non-negotiable). Priority Fees go to the block-producing '' @
        ''validator. Contract Fees (optional, opt-in by contract owner, ECX or USDC) '' @
        ''split between the Contract Owner (50% -> 80% vesting over 18 months) and the '' @
        ''Snowside Treasury (50% -> 20%). The Treasury distributes to the Foundation '' @
        ''(10% retained), Settlement Proposers (5%), and Validators (85%, 100% '' @
        ''proportional to bonded ECX).'',
      fig_height = 260, fig_draw = draw_fee_model\<rparr>"

subsection \<open>Gas\<close>

definition draw_gas_box ::
  "pdf_lib \<Rightarrow> rat \<Rightarrow> rat \<times> rgb \<times> string \<times> string \<Rightarrow> pdf_doc \<Rightarrow> pdf_doc" where
  "draw_gas_box lib boxY = (\<lambda>(bx, color, label, sub).
     (let boxH = 56; boxW = 100; cy = boxY + boxH / 2
      in run_all
           [setFillColor LIGHT, setDrawColor color, setLineWidth (6 / 5),
            roundedRect bx boxY boxW boxH 5 5 ''FD'',
            setFont ''NotoSans'' ''bold'', setFontSize 9, setTextColor color,
            ctext lib label (bx + boxW / 2) (cy - 4),
            setFont ''NotoSans'' ''normal'', setFontSize (15 / 2), setTextColor AXIS,
            ctext lib sub (bx + boxW / 2) (cy + 10)]))"

definition gas_arrow ::
  "pdf_lib \<Rightarrow> rat \<Rightarrow> rat \<Rightarrow> rat \<Rightarrow> rgb \<Rightarrow> string \<Rightarrow> pdf_doc \<Rightarrow> pdf_doc" where
  "gas_arrow lib x1 x2 ay color label =
     run_all
        [setDrawColor color,
         setLineWidth (3 / 2),
         draw_line x1 ay x2 ay,
         setFillColor color,
         triangle x2 ay (x2 - 5) (ay - 3) (x2 - 5) (ay + 3) ''F'',
         setFont ''NotoSans'' ''normal'',
         setFontSize 7,
         setTextColor INK,
         ctext lib label ((x1 + x2) / 2) (ay - 6)]"

definition draw_gas_flow :: "pdf_lib \<Rightarrow> rat \<Rightarrow> rat \<Rightarrow> rat \<Rightarrow> pdf_doc \<Rightarrow> pdf_doc" where
  "draw_gas_flow lib x y width =
     (let padT = 12; boxH = 56; boxW = 100; boxY = y + padT;
          gap = (width - 3 * boxW) / 2;
          x0 = x; x1 = x + boxW + gap; x2 = x + 2 * (boxW + gap);
          cy = boxY + boxH / 2;
          boxes = [(x0, SNOW, ''Users'', ''Pay ECX gas''), (x1, PURPLE, ''Producers'', ''Collect fees''),
                   (x2, BTC_ORG, ''Miners'', ''BMM incentive'')]
      in run_all
           (map (draw_gas_box lib boxY) boxes @
            [gas_arrow lib (x0 + boxW + 3) (x1 - 3) cy SNOW ''ECX fees'',
             gas_arrow lib (x1 + boxW + 3) (x2 - 3) cy BTC_ORG ''Settlement'',
             setFont ''NotoSans'' ''italic'', setFontSize 7, setTextColor AXIS,
             ctext lib ''No new token minted. No pre-mine. Pure Bitcoin economics.''
               (x + width / 2) (boxY + boxH + 14)]))"

definition gasFlow :: Figure where
  "gasFlow =
     \<lparr>fig_caption = ''Figure: ECX gas flow. Users pay ECX for transaction fees. Block producers '' @
        ''collect fees and distribute BMM settlement incentives to eCash miners. No new '' @
        ''token is minted '' @ dash @
        '' the Bitcoin economic model is preserved end-to-end.'',
      fig_height = 110, fig_draw = draw_gas_flow\<rparr>"

subsection \<open>USDC bridge\<close>

definition draw_icm :: "pdf_lib \<Rightarrow> rat \<Rightarrow> rat \<Rightarrow> rat \<Rightarrow> pdf_doc \<Rightarrow> pdf_doc" where
  "draw_icm lib x y width =
     (let padT = 12;
          boxW = 130;
          boxH = 64;
          boxY = y + padT;
          leftX = x;
          rightX = x + width - boxW;
          cy = boxY + boxH / 2;
          gapL = leftX + boxW + 6;
          gapR = rightX - 6;
          midX = (gapL + gapR) / 2;
          yTop = cy - 10;
          yBot = cy + 10
      in run_all
        [setFillColor LIGHT,
         setDrawColor USDC_BL,
         setLineWidth (6 / 5),
         roundedRect leftX boxY boxW boxH 6 6 ''FD'',
         setFont ''NotoSans'' ''bold'',
         setFontSize 10,
         setTextColor USDC_BL,
         ctext lib ''C-Chain'' (leftX + boxW / 2) (cy - 6),
         setFont ''NotoSans'' ''normal'',
         setFontSize 8,
         setTextColor AXIS,
         ctext lib ''USDC native'' (leftX + boxW / 2) (cy + 8),
         ctext lib ''Avalanche Primary'' (leftX + boxW / 2) (cy + 20),
         setFillColor LIGHT,
         setDrawColor PURPLE,
         setLineWidth (6 / 5),
         roundedRect rightX boxY boxW boxH 6 6 ''FD'',
         setFont ''NotoSans'' ''bold'',
         setFontSize 10,
         setTextColor PURPLE,
         ctext lib ''Snowside'' (rightX + boxW / 2) (cy - 6),
         setFont ''NotoSans'' ''normal'',
         setFontSize 8,
         setTextColor AXIS,
         ctext lib ''USDC bridged'' (rightX + boxW / 2) (cy + 8),
         ctext lib ''DeFi-ready'' (rightX + boxW / 2) (cy + 20),
         setDrawColor USDC_BL,
         setLineWidth 2,
         draw_line gapL yTop gapR yTop,
         setFillColor USDC_BL,
         triangle gapR yTop (gapR - 7) (yTop - 4) (gapR - 7) (yTop + 4) ''F'',
         setFont ''NotoSans'' ''normal'',
         setFontSize (13 / 2),
         setTextColor INK,
         ctext lib ''USDC in'' midX (yTop - 6),
         setDrawColor SNOW,
         setLineWidth 2,
         draw_line gapR yBot gapL yBot,
         setFillColor SNOW,
         triangle gapL yBot (gapL + 7) (yBot - 4) (gapL + 7) (yBot + 4) ''F'',
         setFont ''NotoSans'' ''normal'',
         setFontSize (13 / 2),
         setTextColor INK,
         ctext lib ''Owner USDC out (auto)'' midX (yBot + 10),
         setFont ''NotoSans'' ''bold'',
         setFontSize (15 / 2),
         setTextColor INK,
         ctext lib ''ICM (trust-minimized)'' midX (cy + 1)])"

definition icmBridge :: Figure where
  "icmBridge =
     \<lparr>fig_caption = ''Figure: ICM USDC bridge. USDC moves trust-minimized between Avalanche C-Chain '' @
        ''and Snowside via native Interchain Messaging '' @ dash @
        '' no third-party custodian, no wrapped tokens. Contract Owner USDC shares '' @
        ''auto-bridge to C-Chain by default; the Treasury'' @ apostrophe @
        ''s USDC remains on Snowside under Foundation management.'',
      fig_height = 140, fig_draw = draw_icm\<rparr>"

subsection \<open>Permissionless validation\<close>

definition roadmap_arrow :: "rat \<Rightarrow> rat \<Rightarrow> rat \<Rightarrow> pdf_doc \<Rightarrow> pdf_doc" where
  "roadmap_arrow arrowY x1 x2 =
     run_all
        [setDrawColor AXIS,
         setLineWidth (3 / 2),
         draw_line x1 arrowY x2 arrowY,
         setFillColor AXIS,
         triangle x2 arrowY (x2 - 5) (arrowY - 3) (x2 - 5) (arrowY + 3) ''F'']"

definition draw_roadmap :: "pdf_lib \<Rightarrow> rat \<Rightarrow> rat \<Rightarrow> rat \<Rightarrow> pdf_doc \<Rightarrow> pdf_doc" where
  "draw_roadmap lib x y width =
     (let padT = 12;
          gap = 30;
          boxW = (width - gap) / 2;
          boxH = 92;
          boxY = y + padT;
          p1X = x;
          p2X = x + boxW + gap;
          arrowY = boxY + boxH / 2
      in run_all
        [setFillColor LIGHT,
         setDrawColor AXIS,
         setLineWidth (6 / 5),
         roundedRect p1X boxY boxW boxH 5 5 ''FD'',
         setFont ''NotoSans'' ''bold'',
         setFontSize 9,
         setTextColor INK,
         ctext lib ''Phase 1'' (p1X + boxW / 2) (boxY + 14),
         setFontSize 8,
         setTextColor AXIS,
         ctext lib ''Permissioned'' (p1X + boxW / 2) (boxY + 26),
         setFontSize 7,
         ctext lib ''3-5 seeded validators'' (p1X + boxW / 2) (boxY + 40),
         ctext lib ''AVAX staking'' (p1X + boxW / 2) (boxY + 52),
         ctext lib ''Three-part fees active'' (p1X + boxW / 2) (boxY + 64),
         ctext lib ''BMM settlement open'' (p1X + boxW / 2) (boxY + 76),
         setFillColor LIGHT,
         setDrawColor SNOW_D,
         setLineWidth (6 / 5),
         roundedRect p2X boxY boxW boxH 5 5 ''FD'',
         setFont ''NotoSans'' ''bold'',
         setFontSize 9,
         setTextColor SNOW_D,
         ctext lib ''Phase 2'' (p2X + boxW / 2) (boxY + 14),
         setFontSize 8,
         setTextColor AXIS,
         ctext lib ''Permissionless'' (p2X + boxW / 2) (boxY + 26),
         setFontSize 7,
         ctext lib ''Open registration'' (p2X + boxW / 2) (boxY + 40),
         ctext lib ''AVAX + 0.3 ECX bond'' (p2X + boxW / 2) (boxY + 52),
         ctext lib ''Slashing active'' (p2X + boxW / 2) (boxY + 64),
         ctext lib ''Target: 10+ validators'' (p2X + boxW / 2) (boxY + 76),
         roadmap_arrow arrowY (p1X + boxW + 2) (p2X - 2)])"

definition permissionlessRoadmap :: Figure where
  "permissionlessRoadmap =
     \<lparr>fig_caption = ''Figure: Two-phase permissionless validation roadmap. Phase 1: permissioned '' @
        ''launch with seeded validators. Phase 2: open registration with AVAX + ECX '' @
        ''bonding and slashing.'',
      fig_height = 150, fig_draw = draw_roadmap\<rparr>"

subsection \<open>Roles\<close>

definition draw_roles :: "pdf_lib \<Rightarrow> rat \<Rightarrow> rat \<Rightarrow> rat \<Rightarrow> pdf_doc \<Rightarrow> pdf_doc" where
  "draw_roles lib x y width =
     (let padT = 10;
          boxW = width - 40;
          boxH = 56;
          gap = 24;
          boxX = x + 20;
          valY = y + padT;
          arrowX = boxX + boxW / 2;
          arrowY1 = valY + boxH + 2;
          arrowY2 = arrowY1 + gap - 4;
          spY = arrowY2 + 8
      in run_all
        [setFillColor LIGHT,
         setDrawColor PURPLE,
         setLineWidth (7 / 5),
         roundedRect boxX valY boxW boxH 6 6 ''FD'',
         setFont ''NotoSans'' ''bold'',
         setFontSize 10,
         setTextColor PURPLE,
         text_at ''Validators'' (boxX + 12) (valY + 16),
         setFont ''NotoSans'' ''normal'',
         setFontSize (15 / 2),
         setTextColor AXIS,
         text_at (''Run Snowball consensus '' @ middle_dot @ '' Produce + finalize blocks'') (boxX + 12) (valY + 30),
         text_at (''ECX bonding (Phase 2+) '' @ middle_dot @ '' Subject to slashing'') (boxX + 12) (valY + 42),
         text_at ''Earn Priority Fees + Treasury distribution (85%)'' (boxX + 12) (valY + 52),
         setDrawColor SNOW,
         setLineWidth (3 / 2),
         draw_line arrowX arrowY1 arrowX arrowY2,
         setFillColor SNOW,
         triangle arrowX (arrowY2 + 4) (arrowX - 4) (arrowY2 - 2) (arrowX + 4) (arrowY2 - 2) ''F'',
         setFont ''NotoSans'' ''normal'',
         setFontSize 7,
         setTextColor INK,
         ctext lib ''Finalized blocks'' (arrowX + 50) ((arrowY1 + arrowY2) / 2 + 2),
         setFillColor LIGHT,
         setDrawColor BTC_ORG,
         setLineWidth (7 / 5),
         roundedRect boxX spY boxW boxH 6 6 ''FD'',
         setFont ''NotoSans'' ''bold'',
         setFontSize 10,
         setTextColor BTC_ORG,
         text_at ''Settlement Proposers'' (boxX + 12) (spY + 16),
         setFont ''NotoSans'' ''normal'',
         setFontSize (15 / 2),
         setTextColor AXIS,
         text_at (''Submit BMM commitments to eCash L1 '' @ middle_dot @ '' No bonding required'') (boxX + 12) (spY + 30),
         text_at (''Permissionless from day one '' @ middle_dot @ '' Treasury-compensated (5%)'') (boxX + 12) (spY + 42),
         text_at (''Cannot forge blocks '' @ dash @ '' only anchor existing finalized blocks'') (boxX + 12) (spY + 52)])"

definition roleSeparation :: Figure where
  "roleSeparation =
     \<lparr>fig_caption = ''Figure: Role separation. Validators (top) run Snowball consensus and produce '' @
        ''blocks with ECX bonding. Settlement Proposers (bottom) submit BMM commitments '' @
        ''to eCash L1 '' @ dash @
        '' permissionless, no bonding required, compensated from the Snowside Treasury'' @
        apostrophe @ ''s captured Contract Fees.'',
      fig_height = 170, fig_draw = draw_roles\<rparr>"

subsection \<open>Validator economics\<close>

definition draw_economics :: "pdf_lib \<Rightarrow> rat \<Rightarrow> rat \<Rightarrow> rat \<Rightarrow> pdf_doc \<Rightarrow> pdf_doc" where
  "draw_economics lib x y width =
     (let padT = 12;
          boxW = (width - 30) / 2;
          boxH = 64;
          boxY = y + padT;
          leftX = x;
          rightX = x + boxW + 30;
          cy = boxY + boxH / 2
      in run_all
        [setFillColor LIGHT,
         setDrawColor AXIS,
         setLineWidth 1,
         roundedRect leftX boxY boxW boxH 5 5 ''FD'',
         setFont ''NotoSans'' ''bold'',
         setFontSize 10,
         setTextColor INK,
         text_at ''Cost'' (leftX + 12) (cy - 10),
         setFont ''NotoSans'' ''normal'',
         setFontSize 8,
         setTextColor AXIS,
         text_at ''Avalanche9000 subscription'' (leftX + 12) (cy + 4),
         text_at ''~$10-20 / month per validator'' (leftX + 12) (cy + 16),
         text_at ''AVAX (Phase 1-2) + 0.3 ECX bond (Phase 2+)'' (leftX + 12) (cy + 28),
         setFillColor LIGHT,
         setDrawColor SNOW,
         setLineWidth (6 / 5),
         roundedRect rightX boxY boxW boxH 5 5 ''FD'',
         setFont ''NotoSans'' ''bold'',
         setFontSize 10,
         setTextColor PURPLE,
         text_at ''Revenue'' (rightX + 12) (cy - 10),
         setFont ''NotoSans'' ''normal'',
         setFontSize 8,
         setTextColor AXIS,
         text_at ''Priority Fees (ECX, 100% to producer)'' (rightX + 12) (cy + 4),
         text_at ''Treasury distribution (85%, prop. to bonded ECX)'' (rightX + 12) (cy + 16),
         text_at (''Permissionless '' @ dash @ '' anyone can run'') (rightX + 12) (cy + 28)])"

definition validatorEconomics :: Figure where
  "validatorEconomics =
     \<lparr>fig_caption = ''Figure: Validator economics. Operational cost is ~$10-20/month via '' @
        ''Avalanche9000 subscription plus ECX bond (0.3 ECX minimum, Phase 2+). Revenue '' @
        ''comes from Priority Fees and Treasury distribution (85%, proportional to '' @
        ''bonded ECX). Nod'' @ [CHR 0xCE, CHR 0x9E] @
        ''Runr eliminates manual maintenance, making community-run validation feasible.'',
      fig_height = 110, fig_draw = draw_economics\<rparr>"

subsection \<open>What fits\<close>

text \<open>A shape lies in a rectangle; of a text, only its baseline is known.\<close>

fun op_inside :: "rat \<Rightarrow> rat \<Rightarrow> rat \<Rightarrow> rat \<Rightarrow> pdf_op \<Rightarrow> bool" where
  "op_inside x y w h (OpRect a b c d st) = (x \<le> a \<and> 0 \<le> c \<and> a + c \<le> x + w \<and> y \<le> b \<and> 0 \<le> d \<and> b + d \<le> y + h)"
| "op_inside x y w h (OpRoundedRect a b c d rx ry st) =
     (x \<le> a \<and> 0 \<le> c \<and> a + c \<le> x + w \<and> y \<le> b \<and> 0 \<le> d \<and> b + d \<le> y + h)"
| "op_inside x y w h (OpLine a b c d) =
     (x \<le> a \<and> a \<le> x + w \<and> y \<le> b \<and> b \<le> y + h \<and> x \<le> c \<and> c \<le> x + w \<and> y \<le> d \<and> d \<le> y + h)"
| "op_inside x y w h (OpTriangle a b c d e f st) =
     (x \<le> a \<and> a \<le> x + w \<and> y \<le> b \<and> b \<le> y + h \<and> x \<le> c \<and> c \<le> x + w \<and> y \<le> d \<and> d \<le> y + h \<and>
      x \<le> e \<and> e \<le> x + w \<and> y \<le> f \<and> f \<le> y + h)"
| "op_inside x y w h (OpText t a b) = (y \<le> b \<and> b \<le> y + h)"
| "op_inside x y w h q = True"

definition fits :: "rat \<Rightarrow> Figure \<Rightarrow> bool" where
  "fits w f \<longleftrightarrow> (\<forall>lib x y. draws (op_inside x y w (fig_height f)) (fig_draw f lib x y w))"

lemmas fits_simps = fits_def Let_def draw_rules

lemma fits_architecture: "320 \<le> w \<Longrightarrow> fits w architectureDiagram"
  by (simp add: fits_simps architectureDiagram_def draw_architecture_def arch_arrow_def field_simps)

lemma fits_bmm: "320 \<le> w \<Longrightarrow> fits w bmmFlow"
  by (simp add: fits_simps bmmFlow_def draw_bmm_def bmm_arrow_def field_simps)

lemma fits_icm: "320 \<le> w \<Longrightarrow> fits w icmBridge"
  by (simp add: fits_simps icmBridge_def draw_icm_def field_simps)

lemma fits_roadmap: "320 \<le> w \<Longrightarrow> fits w permissionlessRoadmap"
  by (simp add: fits_simps permissionlessRoadmap_def draw_roadmap_def roadmap_arrow_def field_simps)

lemma fits_roles: "320 \<le> w \<Longrightarrow> fits w roleSeparation"
  by (simp add: fits_simps roleSeparation_def draw_roles_def field_simps)

lemma fits_economics: "320 \<le> w \<Longrightarrow> fits w validatorEconomics"
  by (simp add: fits_simps validatorEconomics_def draw_economics_def field_simps)

lemma fits_gas: "320 \<le> w \<Longrightarrow> fits w gasFlow"
  by (simp add: fits_simps gasFlow_def draw_gas_flow_def draw_gas_box_def gas_arrow_def field_simps)

lemma draws_time_label: "(\<And>x. P (OpText t x y)) \<Longrightarrow> draws P (time_label lib t r y)"
  unfolding draws_def time_label_def text_at_def put_op_def Let_def by (auto intro!: exI [of _ "[_]"])

lemma fits_consensus: "320 \<le> w \<Longrightarrow> fits w consensusLayers"
  by (simp add: fits_simps consensusLayers_def draw_consensus_def draw_tier_def consensus_tiers_def
      tier_connector_def draws_time_label field_simps)

end
