(* ===== verification/Whitepaper_Content.thy ===== *)
theory Whitepaper_Content
  imports Whitepaper_Figures
begin

text \<open>
  \<open>packages/web/src/data/whitepaper/content.ts\<close> and \<open>meta.ts\<close>: the texts of the whitepaper, section
  by section, with its figures in place. Characters outside ASCII are their UTF-8 bytes.
\<close>

definition WHITEPAPER_VERSION :: string where
  "WHITEPAPER_VERSION = ''0.5''"

record WhitepaperMeta =
  wm_brand :: string
  wm_version :: string
  wm_title :: string
  wm_subtitle :: string
  wm_date :: string
  wm_tagline :: string
  wm_author :: string
  wm_url :: string

definition meta :: WhitepaperMeta where
  "meta =
     \<lparr>wm_brand = ''Snowside'', wm_version = WHITEPAPER_VERSION, wm_title = ''Snowside Whitepaper'',
      wm_subtitle = ''version '' @ WHITEPAPER_VERSION, wm_date = ''September 2026'',
      wm_tagline = ''Bitcoin security at Avalanche speed.'', wm_author = ''0xShomari'',
      wm_url = ''https://snowside.network''\<rparr>"

text \<open>The Greek letter of a product name.\<close>

definition Xi :: string where
  "Xi = [CHR 0xCE, CHR 0x9E]"

subsection \<open>Sections\<close>

definition section_tl_dr :: WhitepaperSection where
  "section_tl_dr =
     \<lparr>ws_heading = ''Tl;dr'',
      ws_body =
        [Para (''Snowside is a dedicated Avalanche Layer-1 blockchain built to host Paul Sztorc'' @
           [CHR 0x27] @
           ''s upcoming eCash hard-fork. It runs as a clean EVM sidechain where the native '' @
           ''gas token is ECX itself '' @ dash @
           '' no new minted tokens, no pre-mine, just Bitcoin security via blind merged '' @
           ''mining.''),
         Para ''Key properties:'',
         Para (bullet @ '' Native ECX gas '' @ dash @
           '' transaction fees paid in ECX, no new token, no pre-mine''),
         Para (bullet @ '' Bitcoin security via Blind Merged Mining (BIP-301) on eCash''),
         Para (bullet @ '' Sub-2-second finality through Avalanche Snowman consensus''),
         Para (bullet @
           '' Three-part fee model: Base Fees to eCash miners (100% via BMM), Priority '' @
           ''Fees to validators, Contract Fees (optional, opt-in) split between contract '' @
           ''owners and the Snowside Treasury''),
         Para (bullet @
           '' Contract Fees may be denominated in ECX or USDC at the contract owner'' @
           [CHR 0x27] @ ''s discretion''),
         Para (bullet @
           '' Treasury distributes to the Snowside Foundation (10% retained), Settlement '' @
           ''Proposers (5%), and Validators (85%, proportional to bonded ECX)''),
         Para (bullet @ '' USDC bridging from C-Chain via Avalanche Interchain Messaging (ICM)''),
         Para (bullet @ '' Full EVM compatibility '' @ dash @
           '' Remix, Hardhat, Foundry work out-of-the-box''),
         Para (bullet @ '' Nod'' @ Xi @
           ''Runr automation eliminates the operational overhead that killed EthSide''),
         Para (bullet @ '' Sovereign validator set '' @ dash @
           '' dedicated throughput for eCash operations''),
         Para (bullet @ '' Permissionless validation roadmap '' @ dash @
           '' phased transition from permissioned launch to permissionless AVAX + ECX '' @
           ''bonding''),
         Para (bullet @
           '' No token. No ICO. No governance token. Infrastructure, not an investment '' @
           ''vehicle.'')]\<rparr>"

definition section_introduction :: WhitepaperSection where
  "section_introduction =
     \<lparr>ws_heading = ''Introduction'',
      ws_body =
        [Para (''Bitcoin'' @ [CHR 0x27] @
           ''s scripting system is intentionally limited. This constraint preserves '' @
           ''security and predictability but prevents the deployment of complex smart '' @
           ''contract logic directly on the Bitcoin network. Sidechains have long been '' @
           ''proposed as the solution: independent chains that inherit Bitcoin'' @
           [CHR 0x27] @ ''s security while offering expanded functionality.''),
         Para (''Paul Sztorc'' @ [CHR 0x27] @
           ''s Drivechain proposal (BIP-300/301) provides a concrete mechanism for '' @
           ''Bitcoin-secured sidechains. Blind Merged Mining (BIP-301) allows eCash miners '' @
           ''to secure sidechains without running additional software or understanding '' @
           ''their internals. The upcoming eCash hard-fork activates Drivechains on a '' @
           ''Bitcoin fork, enabling purpose-built sidechains to launch with Bitcoin-class '' @
           ''security from day one.''),
         Para (''Note: Snowside is built for Paul Sztorc'' @ [CHR 0x27] @ ''s upcoming '' @
           [CHR 0x22] @ ''eCash'' @ [CHR 0x22] @
           '' hard-fork (a proposed Bitcoin hard-fork activating Drivechains), which is '' @
           ''distinct from the existing eCash cryptocurrency (Amaury Sechet'' @ [CHR 0x27] @
           ''s Bitcoin fork).''),
         Para (''Paul'' @ [CHR 0x27] @
           ''s previous EVM sidechain, EthSide, was discontinued because standalone chain '' @
           ''management was too time-consuming. The chain required constant manual '' @
           ''intervention for updates, monitoring, and maintenance '' @ dash @
           '' work that was not sustainable for a single maintainer.''),
         Para (''Snowside solves this problem. By building on Avalanche'' @ [CHR 0x27] @
           ''s Layer-1 infrastructure and leveraging Nod'' @ Xi @
           ''Runr for automated node management, Snowside gives Paul and his community a '' @
           ''chain that they can actually use '' @ dash @
           '' without babysitting. The combination of eCash'' @ [CHR 0x27] @
           ''s economic security model, Avalanche'' @ [CHR 0x27] @
           ''s high-performance consensus, and Nod'' @ Xi @ ''Runr'' @ [CHR 0x27] @
           ''s operational automation creates a sidechain that is both secure and '' @
           ''trivially operable.'')]\<rparr>"

definition section_architecture_overview :: WhitepaperSection where
  "section_architecture_overview =
     \<lparr>ws_heading = ''Architecture Overview'',
      ws_body =
        [Para (''Snowside is an EVM-compatible Layer-1 blockchain running on Avalanche'' @
           [CHR 0x27] @
           ''s consensus infrastructure. It combines three layers: an EVM execution '' @
           ''environment, Avalanche'' @ [CHR 0x27] @
           ''s Snowman consensus protocol for fast finality, and Blind Merged Mining for '' @
           ''eCash-anchored settlement security.''),
         Para ''## Rollup-Style Settlement'',
         Para (''Snowside'' @ [CHR 0x27] @ ''s settlement pattern is classified as '' @
           [CHR 0x22] @ ''rollup-style settlement'' @ [CHR 0x22] @ '' '' @ dash @
           '' analogous to Ethereum L2s but with BMM instead of optimistic or ZK proofs. '' @
           ''This framing is valuable because the market understands rollup settlement '' @
           ''patterns. It clarifies the relationship between Avalanche finality (fast, '' @
           ''local) and BMM settlement (slow, anchored to PoW). It distinguishes Snowside '' @
           ''from pure sidechains or pure rollups.''),
         Para ''## EVM Execution Layer'',
         Para (''Snowside runs a standard EVM execution environment. All existing Ethereum '' @
           ''developer tools '' @ dash @
           '' Remix, Hardhat, Foundry, The Graph, viem, ethers.js '' @ dash @
           '' work without modification. Smart contracts written in Solidity or Vyper '' @
           ''deploy identically to how they would on any other EVM chain.''),
         Para (''The EVM is augmented with custom precompiles for eCash-specific logic, '' @
           ''configurable via Nod'' @ Xi @ ''Runr'' @ [CHR 0x27] @
           ''s precompile concierge feature. This allows eCash protocol rules to be '' @
           ''enforced at the consensus level rather than through external smart contracts.''),
         Para ''## Subnet-EVM and Implementation Languages'',
         Para (''Snowside is built on Subnet-EVM (a fork of go-ethereum, written in Go) '' @
           ''integrated with AvalancheGo. The BMM coordination precompile is implemented '' @
           ''in Go within Subnet-EVM. BMM bidder software and settlement monitoring are '' @
           ''implemented in Rust for reliability and the team'' @ [CHR 0x27] @
           ''s expertise. Smart contracts (peg, fee distribution) are in Solidity. This is '' @
           ''a pragmatic choice: Subnet-EVM gives us a working EVM with Avalanche '' @
           ''integration, while Rust is used for standalone components where reliability '' @
           ''is critical.''),
         Para ''## BMM Coordination Precompile'',
         Para (''The BMM coordination precompile is a core component managing the settlement '' @
           ''process and escrowing fees.''),
         Para ''State tracked:'',
         Para (bullet @ '' pendingBlocks: array of (blockHash, baseFeeAmount, blockNumber)''),
         Para (bullet @ '' currentMerkleRoot: computed Merkle root of pending block hashes''),
         Para (bullet @ '' totalEscrowedFees: sum of all escrowed Base Fees''),
         Para (bullet @ '' pendingProposer: address of proposer with active BMM Request''),
         Para (bullet @ '' settlementStatus: enum (Idle, Pending, Confirmed)''),
         Para ''Functions:'',
         Para (bullet @
           '' submitBlock(blockHash, baseFeeAmount): called by validators when blocks are '' @
           ''finalized; escrows fees and updates Merkle root''),
         Para (bullet @
           '' proposeSettlement(expectedMerkleRoot, prevMainBlock): called by proposers to '' @
           ''initiate BMM Request; emits event for bidder software''),
         Para (bullet @
           '' updateAggregate(newMerkleRoot): called by proposer to include new blocks '' @
           ''produced during pending settlement; updates the BMM Request target''),
         Para (bullet @
           '' confirmSettlement(eCashBlockHeight, acceptedHash): called when eCash '' @
           ''confirms BMM Accept; releases escrowed fees to proposer''),
         Para (bullet @ '' getSettlementStatus(): view function returning current state''),
         Para ''## Avalanche Consensus (Snowman)'',
         Para (''Snowside validators use Avalanche'' @ [CHR 0x27] @ ''s Snowman consensus '' @
           dash @
           '' the linear-chain variant of the Avalanche Consensus Protocol. Snowman '' @
           ''provides deterministic finality: once a block is accepted by the validator '' @
           ''set, it is final and cannot be reverted. This eliminates the probabilistic '' @
           ''finality problem of proof-of-work chains, where blocks can always be orphaned.''),
         Para ''Key properties of Snowman consensus on Snowside:'',
         Para (bullet @ '' Sub-2-second finality '' @ dash @
           '' transactions confirm in approximately 1-2 seconds''),
         Para (bullet @ '' Sovereign validator set '' @ dash @
           '' independent of C-Chain or any other Avalanche L1''),
         Para (bullet @ '' Phased permissionless participation '' @ dash @
           '' permissioned at launch, open with AVAX + ECX bonding in Phase 2''),
         Para (bullet @ '' Custom throughput '' @ dash @
           '' Snowside sets its own block size and gas limits''),
         Para ''## Blind Merged Mining Settlement'',
         Para (''While Avalanche consensus provides fast, deterministic finality, ultimate '' @
           ''settlement security comes from eCash via Blind Merged Mining (BIP-301). '' @
           ''Snowside block producers submit compact header commitments to eCash miners, '' @
           ''who include them in coinbase transactions. This creates a cryptographic link '' @
           ''between eCash'' @ [CHR 0x27] @ ''s proof-of-work and Snowside'' @ [CHR 0x27] @
           ''s activity.''),
         Para (''This two-layer security model is described in detail in section 4 (Blind '' @
           ''Merged Mining) and section 8 (Consensus & Security Model).''),
         Fig architectureDiagram]\<rparr>"

definition section_blind_merged_mining :: WhitepaperSection where
  "section_blind_merged_mining =
     \<lparr>ws_heading = ''Blind Merged Mining'',
      ws_body =
        [Para (''Blind Merged Mining (BMM) is the mechanism by which eCash miners secure '' @
           ''Snowside without running a full Snowside node. It is defined in BIP-301 and '' @
           ''activates as part of the eCash Drivechain (BIP-300/301) hard-fork.''),
         Para ''## How BMM Works'',
         Para (''Validators produce and finalize Snowside blocks. Settlement proposers then '' @
           ''submit compact block header commitments for these finalized blocks to the '' @
           ''eCash mainchain. eCash miners include these commitments in their coinbase '' @
           ''transactions. The miner who includes a commitment earns an ECX fee from the '' @
           ''settlement proposer who submitted it.''),
         Para ''Crucially, eCash miners do not need to:'',
         Para (bullet @ '' Run a Snowside full node''),
         Para (bullet @ '' Validate Snowside transactions''),
         Para (bullet @ '' Understand Snowside'' @ [CHR 0x27] @ ''s consensus rules''),
         Para (bullet @ '' Hold any Snowside-specific tokens''),
         Para (''They simply include a small data commitment in a transaction they are already '' @
           ''making. This is the '' @ [CHR 0x22] @ ''blind'' @ [CHR 0x22] @
           '' in Blind Merged Mining '' @ dash @ '' miners are blind to the sidechain'' @
           [CHR 0x27] @ ''s internals.''),
         Fig bmmFlow,
         Para ''## BMM Request Format Details'',
         Para ''The BMM Request format submitted to eCash consists of:'',
         Para (bullet @ '' 1 byte: OP_RETURN (0x6a)''),
         Para (bullet @ '' 3 bytes: Message header (0x00bf00)''),
         Para (bullet @ '' 1 byte: Sidechain number (Snowside'' @ [CHR 0x27] @
           ''s assigned nSidechain, 0-255)''),
         Para (bullet @ '' 32 bytes: h* (Merkle root of aggregated Snowside block hashes)''),
         Para (bullet @ '' 32 bytes: prevMainBlock (hash of the previous eCash block)''),
         Para (''The prevMainBlock ties the BMM Request to a specific eCash block height. A '' @
           ''BMM Request with prevMainBlock = H_N can only be accepted in eCash block N+1. '' @
           ''This prevents replay attacks and stale request acceptance.''),
         Para ''## Merkle Root Aggregation Mechanism'',
         Para (''Snowside aggregates multiple finalized block hashes into a single Merkle '' @
           ''root. This Merkle root is submitted as h* in the BMM Request to eCash. Only '' @
           ''when the aggregate is accepted on eCash does the proposer collect the '' @
           ''escrowed Base Fees from all aggregated blocks. This amortizes the eCash '' @
           ''settlement cost across many Snowside blocks. The proposer balances '' @
           ''aggregation size (more fees) against settlement delay (user experience).''),
         Para ''## Settlement Failure and Mutable Aggregates'',
         Para ''MUTABLE AGGREGATES:'',
         Para (bullet @
           '' New blocks produced during a pending settlement ARE included in the current '' @
           ''aggregate.''),
         Para (bullet @
           '' The proposer can update their BMM Request with a larger Merkle root via the '' @
           ''updateAggregate() function.''),
         Para (bullet @
           '' This allows proposers to maximize their bid value as more blocks accumulate.''),
         Para (bullet @ '' The Merkle root grows monotonically during the pending period.''),
         Para ''SETTLEMENT FAILURE:'',
         Para (bullet @
           '' If the BMM Request is not accepted in the target eCash block, the settlement '' @
           ''remains in Pending status.''),
         Para (bullet @
           '' The proposer can retry with a new BMM Request in the next eCash block (with '' @
           ''an updated prevMainBlock and potentially an updated Merkle root if new blocks '' @
           ''have been added).''),
         Para (bullet @ '' Escrowed fees remain locked until settlement is confirmed.''),
         Para (bullet @ '' There is no timeout that releases fees without settlement '' @ dash @
           '' fees are only released on successful BMM acceptance.''),
         Para (bullet @
           '' Multiple failed settlements accumulate escrowed fees and blocks, increasing '' @
           ''the incentive for proposers to eventually settle (larger payout).''),
         Para (''This mechanism ensures proposers are accountable '' @ dash @
           '' they only earn revenue by successfully anchoring to eCash PoW. It also means '' @
           ''that during periods of high eCash fee market congestion, Snowside settlement '' @
           ''may slow down, but funds remain safe in escrow. The mutable aggregate design '' @
           ''means proposers can keep trying with an ever-growing payload until they '' @
           ''succeed.''),
         Para ''## Block Production vs Settlement'',
         Para (''Snowside separates two architecturally distinct roles: validators who run '' @
           ''consensus and produce blocks, and settlement proposers who anchor finalized '' @
           ''blocks to eCash L1 via BMM commitments.''),
         Para ''Validators:'',
         Para (bullet @ '' Run Snowman consensus and produce new Snowside blocks''),
         Para (bullet @ '' Require ECX bonding (Phase 2+) for sybil resistance''),
         Para (bullet @ '' Subject to slashing for misbehavior''),
         Para (bullet @ '' Earn Priority Fees and Treasury distribution''),
         Para (bullet @ '' Permissioned in Phase 1, permissionless in Phase 2+''),
         Para ''Settlement Proposers:'',
         Para (bullet @
           '' Anyone who submits BMM commitments to anchor existing Snowside blocks to '' @
           ''eCash L1''),
         Para (bullet @ '' No staking or bonding required '' @ dash @
           '' permissionless from day one''),
         Para (bullet @
           '' Sybil resistance is economic: each BMM commitment costs real ECX (paid to '' @
           ''miners)''),
         Para (bullet @ '' Compensated from the Snowside Treasury'' @ apostrophe @
           ''s captured Contract Fees (5% at default configuration)''),
         Para (bullet @ '' 100% of Base Fees directed to eCash L1 miners via BMM '' @ dash @
           '' non-negotiable''),
         Para (bullet @ '' Cannot forge blocks '' @ dash @
           '' they only anchor existing finalized blocks''),
         Para (''This separation means sybil concerns are specifically about the validator '' @
           ''set, not the settlement layer. Settlement is open by design and naturally '' @
           ''protected by BMM economics.''),
         Fig roleSeparation,
         Para ''## Fee Escrow Mechanism'',
         Para (''Base Fees are escrowed in the precompile when blocks are finalized. Fees are '' @
           ''NOT immediately available to proposers. Base Fees are released to eCash '' @
           ''miners via the BMM bid when confirmSettlement() is called after eCash BMM '' @
           ''acceptance '' @ dash @
           '' proposers receive no Base Fee margin, they are compensated from the Treasury '' @
           ''instead. If the aggregate is never accepted, fees remain escrowed (see '' @
           ''Settlement Failure Handling). This creates accountability '' @ dash @
           '' proposers must successfully settle for blocks to be anchored to eCash.''),
         Para ''## Sidechain Independence'',
         Para (''eCash supports up to 256 sidechains (nSidechain 0-255). Each sidechain gets '' @
           ''its own independent slot in the eCash coinbase. Snowside'' @ [CHR 0x27] @
           ''s BMM bid only competes with other Snowside proposers targeting the same '' @
           ''sidechain number. Snowside does NOT compete with other sidechains for block '' @
           ''space. This makes settlement economics more predictable and lower-cost.''),
         Para ''## BIP300 Operation Support'',
         Para ''Snowside supports the following BIP300 operations:'',
         Para (bullet @ '' M1 (Propose Sidechain): Register Snowside on eCash''),
         Para (bullet @ '' M2 (ACK Sidechain Proposal): Community approval of Snowside''),
         Para (bullet @ '' M5 (Deposit): Move ECX from eCash L1 to Snowside L2''),
         Para (bullet @
           '' M6 (Withdraw): Move ECX from Snowside L2 to eCash L1 (canonical, slow path '' @
           dash @ '' approximately 3-6 months)''),
         Para (bullet @
           '' M3/M4 (Withdrawal bundle processes): Part of the canonical withdrawal flow''),
         Para ''## Economic Incentives'',
         Para ''The economic model is simple and self-sustaining:'',
         Para (bullet @
           '' Snowside users pay ECX for gas (Base Fees and Priority Fees). Contract Fees '' @
           ''may be denominated in ECX or USDC at the contract owner'' @ apostrophe @
           ''s discretion.''),
         Para (bullet @
           '' Validators collect Priority Fees and Treasury distribution (85% of net, '' @
           ''proportional to bonded ECX)''),
         Para (bullet @
           '' Settlement proposers are compensated from the Treasury (5% of net); 100% of '' @
           ''Base Fees go to eCash miners via BMM''),
         Para (bullet @
           '' Miners include commitments because the marginal cost is zero and the fee is '' @
           ''positive''),
         Para (''Because the cost to miners is negligible '' @ dash @
           '' they are already producing blocks '' @ dash @
           '' rational miners will include Snowside commitments. This gives Snowside '' @
           ''access to eCash'' @ [CHR 0x27] @ ''s full security budget.''),
         Para ''## Proposer Economics Detail'',
         Para (''Proposer Revenue = 5% (configurable) of Snowside Treasury'' @ apostrophe @
           ''s total captured Contract Fees''),
         Para (''Proposer Cost = 100% of escrowed Base Fees (paid to eCash miners via BMM bid '' @
           dash @ '' non-negotiable)''),
         Para ''Proposer Profit = Treasury Share - Base Fee Pass-Through'',
         Para (''Because Base Fees and Contract Fees are separate fee streams, proposers must '' @
           ''aggregate enough blocks so that their Treasury share exceeds the Base Fee '' @
           ''pass-through cost. This creates a natural market for settlement frequency: '' @
           ''proposers balance aggregation size (more blocks = more Base Fees to pass '' @
           ''through, but also more on-chain activity generating Contract Fees) against '' @
           ''settlement delay.''),
         Para (''Mutable aggregates allow proposers to grow their payload during pending '' @
           ''settlement, increasing their potential revenue. During early phases when '' @
           ''Contract Fee adoption is low, the Snowside Foundation operates a '' @
           ''non-competitive fallback Settlement Proposer to guarantee consistent '' @
           ''settlement (see Section 4.11).''),
         Para ''## Fallback Settlement by Snowside Foundation'',
         Para (''During early adoption, open-market settlement proposers may find it '' @
           ''uneconomical to submit BMM commitments: Contract Fee participation may be too '' @
           ''low for the 5% Treasury share to cover Base Fee pass-through costs. To ensure '' @
           ''settlement continuity, the Snowside Foundation operates a fallback proposer.''),
         Para (''The Foundation'' @ apostrophe @
           ''s fallback proposer ONLY submits a BMM commitment when no open-market '' @
           ''proposer has submitted within approximately 10 minutes (one eCash block '' @
           ''interval). This ensures Snowside blocks are anchored to eCash even during '' @
           ''periods of low economic activity.''),
         Para (''The fallback proposer is funded by the Foundation'' @ apostrophe @
           ''s retained Treasury portion (10% of gross Contract Fee capture). As protocol '' @
           ''adoption grows and Contract Fee participation increases, open-market '' @
           ''proposers will find it profitable to compete, and the fallback proposer'' @
           apostrophe @ ''s role diminishes.''),
         Para (''This mechanism ensures that Snowside never goes without eCash settlement, '' @
           ''even in the earliest days when transaction volume is low. The fallback is a '' @
           ''safety net, not a permanent subsidy '' @ dash @
           '' the goal is a thriving competitive proposer market.''),
         Para ''## Settlement Finality'',
         Para (''BMM provides a third tier of confirmation: settlement. While Avalanche '' @
           ''consensus confirms transactions in seconds, the BMM anchor to eCash provides '' @
           ''the ultimate security guarantee. Reverting Snowside'' @ [CHR 0x27] @
           ''s history requires attacking eCash'' @ [CHR 0x27] @ ''s hashrate '' @ dash @
           '' the most costly attack in all of cryptocurrency.'')]\<rparr>"

definition section_ecx_as_native_gas :: WhitepaperSection where
  "section_ecx_as_native_gas =
     \<lparr>ws_heading = ''ECX as Native Gas'',
      ws_body =
        [Para (''All transaction fees on Snowside are paid in ECX. There is no alternative gas '' @
           ''token, no new minted token, and no pre-mine. The only assets on Snowside are '' @
           ''ECX (for gas) and USDC (bridged from C-Chain via ICM).''),
         Para ''## Why ECX Gas Matters'',
         Para (''Using ECX as the native gas token preserves Bitcoin'' @ [CHR 0x27] @
           ''s economic model. Users are not forced to acquire a new, speculative token to '' @
           ''interact with the chain. They use ECX '' @ dash @ '' eCash'' @ [CHR 0x27] @
           ''s native cryptocurrency, secured by Bitcoin-class proof-of-work '' @ dash @
           '' for all transactions.''),
         Para ''This design choice has several implications:'',
         Para (bullet @ '' No token launch, ICO, or pre-mine '' @ dash @
           '' Snowside is infrastructure, not an investment vehicle''),
         Para (bullet @ '' No governance token '' @ dash @
           '' protocol parameters are set by validators and the community''),
         Para (bullet @ '' Bitcoin holders can use Snowside without exposure to new token risk''),
         Para (bullet @ '' The gas market is denominated in a Bitcoin-secured digital asset''),
         Para ''## Acquiring ECX for Gas'',
         Para ''Users acquire ECX for gas through two mechanisms:'',
         Para (bullet @
           '' Blind Merged Mining: ECX flows between eCash and Snowside via the BMM peg '' @
           ''mechanism''),
         Para (bullet @
           '' Bridges: Users can bridge value from other chains to obtain ECX on Snowside''),
         Fig gasFlow,
         Para ''## Three-Part Fee Model'',
         Para (''Snowside adopts a three-part fee structure, denominated in ECX, that '' @
           ''separates settlement security costs from validator incentives and contract '' @
           ''developer revenue.''),
         Fig feeModel,
         Para ''Base Fee (required, algorithmic):'',
         Para (bullet @ '' 100% directed to eCash L1 miners via BMM commitments''),
         Para (bullet @ '' Funds settlement security and anchoring''),
         Para (bullet @ '' Validators do NOT touch this stream''),
         Para ''Priority Fee (optional, user-set):'',
         Para (bullet @ '' 100% to the block-producing validator''),
         Para (bullet @ '' Incentivizes transaction inclusion when blocks are full''),
         Para (bullet @ '' Analogous to Ethereum'' @ [CHR 0x27] @ ''s EIP-1559 priority fee''),
         Para (''Contract Fee (optional, opt-in by contract owner '' @ dash @
           '' contracts that do not opt in pay no Contract Fee and the Treasury captures '' @
           ''nothing from them):''),
         Para (bullet @ '' Split between Contract Owner and Snowside Treasury''),
         Para (bullet @
           '' The Treasury then distributes to the Foundation (10%), Settlement Proposers '' @
           ''(5%), and Validators (85%) '' @ dash @ '' see Section 5.5''),
         Para (bullet @ '' Incentivizes contract developers with recurring revenue''),
         Para (bullet @ '' NOT sent to L1 miners''),
         Para ''## Contract Fee Vesting Schedule'',
         Para (''The Contract Owner'' @ [CHR 0x27] @
           ''s share of Contract Fees vests linearly from 50% at contract registration to '' @
           ''an 80% ceiling at 18 months, then remains flat:''),
         Para ''r(t) = 50% + (30% / 18) * min(t, 18)'',
         Para (''Where t = months since contract registration and r(t) = contract owner'' @
           [CHR 0x27] @ ''s share. The Snowside Treasury receives (1 - r(t)).''),
         Para ''Timeline:'',
         Para (bullet @ '' Registration (t=0): Contract Owner 50% | Snowside Treasury 50%''),
         Para (bullet @ '' 6 months (t=6): Contract Owner 60% | Snowside Treasury 40%''),
         Para (bullet @ '' 12 months (t=12): Contract Owner 70% | Snowside Treasury 30%''),
         Para (bullet @
           '' 18 months (t=18): Contract Owner 80% | Snowside Treasury 20% (ceiling)''),
         Para (bullet @ '' Beyond 18 months: Remains at 80/20 split''),
         Para (''This vesting schedule rewards contracts that demonstrate sustained usage and '' @
           ''reliability. Early on, the Treasury receives a larger share (50%) to '' @
           ''compensate validators and settlement proposers for the higher risk of new, '' @
           ''unproven contracts. As contracts mature and prove reliable, the contract owner'' @
           [CHR 0x27] @ ''s share increases to 80%, and the Treasury settles to 20%.''),
         Para ''## Treasury Distribution to Validators and Settlement Proposers'',
         Para (''The Snowside Treasury'' @ apostrophe @
           ''s captured Contract Fee portion (1 - r(t)) is distributed among three '' @
           ''recipients:''),
         Para [],
         Para (''Foundation (10% of gross): Retained by the Snowside Foundation to fund '' @
           ''ecosystem development, operational costs, and emergency reserves. The '' @
           ''Foundation manages the Treasury directly (see Section 5.8).''),
         Para [],
         Para (''Settlement Proposers (5% of gross, configurable): A configurable percentage '' @
           ''of the Treasury'' @ apostrophe @
           ''s total capture, defaulting to 5% at launch. This compensates proposers for '' @
           ''the Base Fees they pay to eCash L1 miners via BMM commitments. Settlement '' @
           ''Proposers are compensated from the Treasury because 100% of Base Fees are '' @
           ''directed to eCash L1 miners via BMM '' @ dash @
           '' proposers receive no Base Fee margin. The Treasury share provides the '' @
           ''incentive for open-market proposers to anchor Snowside blocks to eCash (see '' @
           ''Section 4.10).''),
         Para [],
         Para (''Validators (85% of gross): The remainder of the Treasury'' @ apostrophe @
           ''s total capture, distributed 100% proportional to bonded ECX. This eliminates '' @
           ''the sybil incentive that would exist under an equal-distribution component '' @
           dash @
           '' validators cannot game the distribution by splitting into multiple small '' @
           ''validators. Only bonded ECX matters.''),
         Para [],
         Para (''Note on governance: The specific governance mechanism for adjusting the '' @
           ''Settlement Proposer and Validator distribution percentages is not yet '' @
           ''finalized. Snowside Validators will have the ability to adjust these '' @
           ''parameters through a governance process to be defined in a future protocol '' @
           ''upgrade.''),
         Para (''## Preserving Bitcoin'' @ [CHR 0x27] @ ''s Economic Model''),
         Para (''Because ECX is the only gas token, Bitcoin'' @ [CHR 0x27] @
           ''s economic incentives flow directly into Snowside. eCash miners who secure '' @
           ''Snowside via BMM are paid in ECX. Users who transact on Snowside pay in ECX. '' @
           ''The economic loop is predominantly Bitcoin-native '' @ dash @
           '' no competing incentive structures, no token dilution, no governance games.''),
         Para ''## USDC Contract Fee Bridging'',
         Para (''When a contract owner denominates Contract Fees in USDC, the Contract Owner'' @
           apostrophe @
           ''s vested USDC share is auto-bridged from Snowside to the Avalanche C-Chain '' @
           ''via ICM by default. This creates a frictionless repatriation channel for '' @
           ''Avalanche-native platforms operating on Snowside: USDC fees earned by '' @
           ''platform operators flow back to C-Chain automatically, where they control '' @
           ''distribution (AVAX buyback, token holder rewards, liquidity provision, '' @
           ''ecosystem grants, etc.).''),
         Para (''Contract Owner configuration: During contract setup, the owner may opt to '' @
           ''keep their USDC share on Snowside instead of auto-bridging. This '' @
           ''configuration can be changed at any time by the Contract Owner. A batch '' @
           ''transfer mode is also available as a configuration option, allowing owners to '' @
           ''accumulate USDC on Snowside and bridge at intervals rather than '' @
           ''per-settlement.''),
         Para (''The Snowside Foundation'' @ apostrophe @
           ''s retained USDC portion (10% of Treasury gross capture) remains on Snowside '' @
           ''under Foundation management (see Section 5.8).''),
         Para (''For all other USDC recipients '' @ dash @
           '' Contract Owners, Validators, and Settlement Proposers '' @ dash @
           '' the auto-bridge to C-Chain is the default configuration but is configurable '' @
           ''on a per-recipient basis:''),
         Para (bullet @
           '' Contract Owners may configure the auto-bridge setting during contract '' @
           ''deployment or at any time thereafter. This configuration can be changed at '' @
           ''any time by the Contract Owner. A batch transfer mode is also available as a '' @
           ''configuration option, allowing owners to accumulate USDC on Snowside and '' @
           ''bridge at intervals rather than per-settlement.''),
         Para (bullet @
           '' Validators may configure their auto-bridge preference when joining the '' @
           ''network or at any time thereafter. If auto-bridge is enabled (default), the '' @
           ''Validator'' @ apostrophe @
           ''s USDC distribution is bridged to C-Chain and delivered as USDC on C-Chain, '' @
           ''proportional to bonded ECX. If auto-bridge is disabled, the Validator'' @
           apostrophe @ ''s USDC distribution remains on Snowside.''),
         Para (bullet @
           '' Settlement Proposers may configure their auto-bridge preference as part of '' @
           ''the settlement process or at any time. If auto-bridge is enabled (default) '' @
           ''and the proposer designates a C-Chain address, the proposer'' @ apostrophe @
           ''s USDC portion is bridged to C-Chain. If auto-bridge is disabled or no '' @
           ''C-Chain address is designated, the USDC remains on Snowside at the proposer'' @
           apostrophe @ ''s discretion.''),
         Para (''For ECX-denominated Contract Fees, all captured value remains on Snowside '' @
           ''within the ECX economy. The Foundation'' @ apostrophe @
           ''s retained ECX, the Validators'' @ apostrophe @
           '' ECX distribution, and the Settlement Proposers'' @ apostrophe @
           '' ECX share all remain on Snowside.''),
         Para ''## The Snowside Foundation'',
         Para (''The Snowside Foundation is the governing body that manages the Snowside '' @
           ''Treasury. The Foundation retains 10% of the Treasury'' @ apostrophe @
           ''s gross Contract Fee capture as its managed portion. This retained portion '' @
           ''funds:''),
         Para (bullet @ '' Ecosystem development and grants''),
         Para (bullet @ '' Operational costs (monitoring, audits, infrastructure)''),
         Para (bullet @ '' Emergency security reserves''),
         Para (bullet @ '' Fallback settlement proposer operation (see Section 4.11)''),
         Para (bullet @ '' Avalanche ecosystem support''),
         Para (''The Foundation manages the Treasury directly. For USDC-denominated Contract '' @
           ''Fees, the Treasury'' @ apostrophe @
           ''s USDC share remains on Snowside under Foundation management. For '' @
           ''ECX-denominated Contract Fees, the Treasury'' @ apostrophe @
           ''s ECX share is managed by the Foundation on Snowside.''),
         Para (''The remaining 90% of the Treasury'' @ apostrophe @
           ''s gross capture is distributed to Settlement Proposers (5% at default '' @
           ''configuration, configurable by validator governance) and Validators (85% at '' @
           ''default configuration, distributed 100% proportional to bonded ECX).''),
         Para (''Note on governance: The specific governance mechanism for adjusting the '' @
           ''Settlement Proposer and Validator distribution percentages is not yet '' @
           ''finalized. Snowside Validators will have the ability to adjust these '' @
           ''parameters through a governance process to be defined in a future protocol '' @
           ''upgrade.''),
         Para ''## Avalanche Ecosystem Value Flow'',
         Para (''Snowside is designed not only as a Bitcoin sidechain but as a '' @
           ''value-generating participant in the broader Avalanche ecosystem. This section '' @
           ''describes how value flows between Snowside, eCash, and the Avalanche C-Chain.''),
         Para [],
         Para (''Value Capture: Snowside captures value through three fee streams '' @ dash @
           '' Base Fees (ECX, directed to eCash miners), Priority Fees (ECX, to '' @
           ''validators), and Contract Fees (ECX or USDC, split between contract owners '' @
           ''and the Treasury). The Treasury'' @ apostrophe @
           ''s 10% retained portion funds ecosystem development, operational costs, and '' @
           ''the fallback settlement proposer.''),
         Para [],
         Para (''Value Distribution: The Treasury distributes to Settlement Proposers (5%) and '' @
           ''Validators (85%, proportional to bonded ECX). Contract Owners receive their '' @
           ''vested share (50% -> 80% over 18 months). For USDC-denominated Contract Fees, '' @
           ''the Contract Owner'' @ apostrophe @
           ''s share auto-bridges to C-Chain by default, generating value flow back into '' @
           ''the Avalanche ecosystem.''),
         Para [],
         Para (''Avalanche Foundation Alignment: Snowside'' @ apostrophe @
           ''s economic model aligns with the Avalanche Foundation'' @ apostrophe @
           ''s research on blockchain economics. The '' @ [CHR 0x22] @
           ''Measure, Capture, Distribute'' @ [CHR 0x22] @ '' framework '' @ dash @
           '' as articulated in the Avalanche Foundation'' @ apostrophe @
           ''s economics research '' @ dash @
           '' describes how protocols should quantify the value they create, capture a '' @
           ''portion of that value, and distribute it to stakeholders who sustain the '' @
           ''network. Snowside implements this framework:''),
         Para (bullet @
           '' Measure: Snowside measures value through its three-part fee model (Base '' @
           ''Fees, Priority Fees, Contract Fees)''),
         Para (bullet @
           '' Capture: The Treasury captures Contract Fees from opted-in contracts (ECX or '' @
           ''USDC)''),
         Para (bullet @
           '' Distribute: The Treasury distributes to the Foundation (10%), Settlement '' @
           ''Proposers (5%), and Validators (85%)''),
         Para [],
         Para (''Cross-Chain USDC Flow: USDC bridged from C-Chain to Snowside enables '' @
           ''Avalanche-native DeFi applications. Contract Fees denominated in USDC and '' @
           ''auto-bridged back to C-Chain create a circular value flow: USDC enters '' @
           ''Snowside for application use, application usage generates USDC Contract Fees, '' @
           ''and those fees flow back to C-Chain for the contract owner'' @ apostrophe @
           ''s use. This strengthens the Avalanche ecosystem by creating economic activity '' @
           ''on both chains.'')]\<rparr>"

definition section_usdc_bridge_via_interchain_messaging :: WhitepaperSection where
  "section_usdc_bridge_via_interchain_messaging =
     \<lparr>ws_heading = ''USDC Bridge via Interchain Messaging'',
      ws_body =
        [Para (''A native, trust-minimized bridge connects Snowside to Avalanche'' @ [CHR 0x27] @
           ''s C-Chain via Interchain Messaging (ICM). This allows USDC holders on C-Chain '' @
           ''to transfer their stablecoins directly to Snowside without relying on '' @
           ''third-party custodians or wrapped token representations.''),
         Para ''## Native ICM Bridge'',
         Para (''Avalanche'' @ [CHR 0x27] @
           ''s Interchain Messaging protocol enables communication between Avalanche L1s '' @
           ''and the primary network. The ICM bridge provides:''),
         Para (bullet @ '' Trust-minimized: No third-party custodian holds the bridged assets''),
         Para (bullet @ '' Native: Built into the Avalanche protocol, not a bolt-on bridge''),
         Para (bullet @ '' Fast: Transfers confirm in Avalanche finality time (seconds)''),
         Para (bullet @ '' Bidirectional: USDC can flow in both directions''),
         Fig icmBridge,
         Para ''## DeFi-Ready from Day One'',
         Para (''By bridging USDC from C-Chain at mainnet launch, Snowside provides immediate '' @
           ''access to the world'' @ [CHR 0x27] @
           ''s most recognized stablecoin. This makes Snowside useful for DeFi '' @
           ''applications from day one '' @ dash @
           '' lending, borrowing, trading, and payments can all use USDC without waiting '' @
           ''for a separate bridge deployment or liquidity bootstrapping.''),
         Para ''## Fast Withdrawal Service'',
         Para ''MODEL:'',
         Para (bullet @ '' An instant swap / OTC desk model (not a withdrawal relay)''),
         Para (bullet @
           '' User sends L2 tokens to the service, receives L1 coins immediately minus a '' @
           ''fee''),
         Para (bullet @
           '' The service does NOT interact with the BIP300 canonical withdrawal process''),
         Para (bullet @
           '' The service maintains inventory balance by selling L2 tokens to depositors '' @
           ''or on exchanges''),
         Para ''GOVERNANCE:'',
         Para (bullet @ '' First-party Snowside product''),
         Para (bullet @ '' Initially managed by the Federation of initial Validators''),
         Para (bullet @
           '' Specific governance and operational details are still being designed''),
         Para (bullet @
           '' The canonical BIP300 withdrawal path remains available as a trustless '' @
           ''fallback (approximately 3-6 months)''),
         Para ''POSITIONING:'',
         Para (bullet @ '' This is a centralized, fee-generating service''),
         Para (bullet @ '' It is not part of the core protocol '' @ dash @
           '' the trustless path always exists''),
         Para (bullet @
           '' The service provides convenience for users who need immediate liquidity and '' @
           ''are willing to pay a fee for it'')]\<rparr>"

definition section_nod_runr_validator_management :: WhitepaperSection where
  "section_nod_runr_validator_management =
     \<lparr>ws_heading = ''Nod'' @ Xi @ ''Runr & Validator Management'',
      ws_body =
        [Para (''Nod'' @ Xi @
           ''Runr is the open-source node management daemon that makes Snowside operable '' @
           ''without babysitting. It handles every aspect of validator lifecycle: '' @
           ''deployment, monitoring, updates, and communication.''),
         Para ''## One-Click Deployment'',
         Para (''Running a Snowside validator with Nod'' @ Xi @
           ''Runr takes under a minute. The process requires:''),
         Para (bullet @ '' A server (VPS) with basic specifications''),
         Para (bullet @ '' AVAX for the Avalanche Primary Network stake''),
         Para (bullet @ '' The Nod'' @ Xi @ ''Runr Snowside template''),
         Para (''Nod'' @ Xi @
           ''Runr handles the rest: node installation, configuration, key generation, and '' @
           ''network registration. No manual editing of config files, no hand-written '' @
           ''genesis files, no SSH gymnastics.''),
         Para ''## 24/7 Monitoring & Automatic Updates'',
         Para (''Nod'' @ Xi @ ''Runr continuously monitors validator health '' @ dash @
           '' block production rate, peer connections, disk usage, memory, and CPU. When '' @
           ''an update is available, Nod'' @ Xi @
           ''Runr can apply it automatically with zero downtime. Alerts are sent via '' @
           ''encrypted channels if intervention is required.''),
         Para ''## Custom Precompiles'',
         Para (''Nod'' @ Xi @ ''Runr'' @ [CHR 0x27] @
           ''s precompiles concierge feature allows eCash-specific logic to be integrated '' @
           ''directly into the L1 configuration. This is essential for enforcing protocol '' @
           ''rules at the consensus level rather than through external smart contracts '' @
           ''that could be bypassed or exploited.''),
         Para (''## Why EthSide Failed '' @ dash @ '' and How Nod'' @ Xi @ ''Runr Fixes It''),
         Para (''Paul Sztorc'' @ [CHR 0x27] @
           ''s previous EVM sidechain, EthSide, was discontinued because standalone chain '' @
           ''management was too time-consuming. Every update required manual intervention. '' @
           ''Every validator restart required SSH access. Every monitoring alert required '' @
           ''human attention. For a single maintainer, this was unsustainable.''),
         Para (''Nod'' @ Xi @ ''Runr solves every one of these problems:''),
         Para (bullet @ '' Deployment: one command instead of a multi-hour setup process''),
         Para (bullet @ '' Monitoring: automated health checks instead of manual log reading''),
         Para (bullet @
           '' Updates: automatic, zero-downtime patches instead of manual restarts''),
         Para (bullet @
           '' Communication: encrypted, structured alerts instead of ad-hoc notifications''),
         Para (''The result is a chain that can stay alive without constant human intervention '' @
           dash @ '' the exact requirement Paul identified for a sustainable sidechain.'')]\<rparr>"

definition section_consensus_security_model :: WhitepaperSection where
  "section_consensus_security_model =
     \<lparr>ws_heading = ''Consensus & Security Model'',
      ws_body =
        [Para (''Snowside'' @ [CHR 0x27] @
           ''s consensus and security model combines two layers: Avalanche'' @ [CHR 0x27] @
           ''s Snowman consensus for fast, deterministic finality, and Blind Merged Mining '' @
           ''for eCash-anchored settlement. Together, they provide a three-tier '' @
           ''confirmation model that lets users choose the trust level appropriate to '' @
           ''their use case.''),
         Para ''## Layer 1: Avalanche Snowman Consensus'',
         Para (''Snowside validators run Avalanche'' @ [CHR 0x27] @
           ''s Snowman consensus protocol. Snowman is the linear-chain variant of the '' @
           ''Avalanche Consensus Protocol, designed for blockchains that require a total '' @
           ''ordering of transactions. Key properties:''),
         Para (bullet @ '' Deterministic finality: once a block is accepted, it is final '' @
           dash @ '' no probabilistic waiting''),
         Para (bullet @
           '' Sub-second confirmation: transactions typically finalize in 1-2 seconds''),
         Para (bullet @
           '' Validator-set sovereignty: Snowside validators are independent of C-Chain or '' @
           ''any other Avalanche L1''),
         Para (bullet @
           '' Phased permissionless participation: permissioned at launch, open with AVAX '' @
           ''+ ECX bonding in Phase 2''),
         Para ''## Layer 2: BMM Settlement to eCash'',
         Para (''While Snowman consensus provides fast finality among Snowside validators, BMM '' @
           ''anchoring to eCash provides the ultimate security guarantee. Every Snowside '' @
           ''block (or batches of blocks) is anchored to eCash via a BMM commitment. '' @
           ''Reverting Snowside'' @ [CHR 0x27] @
           ''s settled history requires attacking eCash'' @ [CHR 0x27] @ ''s hashrate '' @
           dash @ '' economically irrational for any attacker.''),
         Para ''## Validators vs Settlement Proposers'',
         Para (''Snowside distinguishes between validators (who run Snowman consensus and '' @
           ''produce blocks) and settlement proposers (who submit BMM commitments to eCash '' @
           ''L1). This separation is described in detail in section 4 (Block Production vs '' @
           ''Settlement). Key point: sybil concerns apply to the validator set, not the '' @
           ''settlement layer '' @ dash @
           '' settlement is permissionless and protected by BMM economics.''),
         Para ''## Validator Bonding and Sybil Resistance'',
         Para (''In Phase 2 and beyond, validators bond ECX via the BMM peg mechanism for '' @
           ''sybil resistance. The minimum bond is 0.3 ECX (approximately $20,000), '' @
           ''modeled after Avalanche'' @ [CHR 0x27] @
           ''s original 2,000 AVAX requirement. Bonded ECX is locked on eCash L1 through '' @
           ''the peg-in process and tracked in Snowside L2 state '' @ dash @
           '' no wrapped tokens, no custodians. Misbehavior triggers slashing: bonded ECX '' @
           ''is burned in L2 state, making it permanently unrecoverable. Detailed bonding '' @
           ''requirements, slashing conditions, and performance standards are described in '' @
           ''section 9 (Validator Economics).''),
         Para ''## Three-Tier Confirmation'',
         Para (''Snowside provides three tiers of confirmation, each with a different '' @
           ''trust/security tradeoff:''),
         Fig consensusLayers,
         Para (''Users and applications choose the tier that matches their requirements: '' @
           ''payment applications can accept Instant confirmation, while high-value '' @
           ''settlements may wait for Settled confirmation. Avalanche blocks are FINAL '' @
           ''regardless of BMM settlement status. BMM settlement is an additional security '' @
           ''layer, not a prerequisite for transaction finality. This is a key '' @
           ''architectural point.'')]\<rparr>"

definition section_validator_economics :: WhitepaperSection where
  "section_validator_economics =
     \<lparr>ws_heading = ''Validator Economics'',
      ws_body =
        [Para (''Running a Snowside validator is designed to be cheap, simple, and '' @
           ''permissionless. The economic model ensures that community-run validation is '' @
           ''genuinely feasible '' @ dash @ '' not just in theory, but in practice.''),
         Para ''## Avalanche9000 Subscription Model'',
         Para (''Snowside validators participate in Avalanche'' @ [CHR 0x27] @
           ''s Primary Network by staking AVAX. The Avalanche9000 upgrade introduced a '' @
           ''subscription model that dramatically reduces the cost of running an L1 '' @
           ''validator. Operational costs are approximately $10-20 per month per validator '' @
           dash @ '' negligible compared to the revenue from ECX gas fees.''),
         Para ''## Revenue: Priority Fees and Contract Fees'',
         Para (''Validators earn revenue from two sources: Priority Fees (100% to the '' @
           ''block-producing validator, paid in ECX) and the Treasury'' @ apostrophe @
           ''s distribution of captured Contract Fees (85% of Treasury gross capture at '' @
           ''default configuration, distributed 100% proportional to bonded ECX). Contract '' @
           ''Fee distribution to validators may be denominated in ECX or USDC depending on '' @
           ''the originating contract'' @ apostrophe @
           ''s denomination. USDC-denominated validator distributions are auto-bridged to '' @
           ''C-Chain via ICM (see Section 5.7). See section 5 for the full three-part fee '' @
           ''model details.''),
         Para ''## Phased Permissionless Participation'',
         Para ''Validator participation follows a two-phase roadmap (detailed in section 12):'',
         Para (bullet @
           '' Phase 1 (Mainnet Launch): 3-5 seeded validators, AVAX staking required''),
         Para (bullet @
           '' Phase 2 (Permissionless): Open registration with AVAX + 0.3 ECX bond via BMM '' @
           ''peg, slashing active''),
         Para ''The requirements for Phase 2+ are:'',
         Para (bullet @ '' A server (VPS) with basic specifications''),
         Para (bullet @ '' AVAX for the Avalanche Primary Network stake (Phase 1-2)''),
         Para (bullet @ '' 0.3 ECX minimum bond via BMM peg (Phase 2+)''),
         Para (bullet @ '' The Nod'' @ Xi @ ''Runr Snowside template (free, open-source)''),
         Para (''No special hardware, no complex setup, no approval process. Nod'' @ Xi @
           ''Runr handles deployment, monitoring, and updates automatically.''),
         Fig validatorEconomics,
         Para ''## ECX Bonding Requirements'',
         Para ''Minimum bond: 0.3 ECX (approximately $20,000 at current ECX prices).'',
         Para (''Rationale: Avalanche'' @ [CHR 0x27] @
           ''s original validator requirement was 2,000 AVAX. At approximately $10/AVAX, '' @
           ''this equated to ~$20,000 '' @ dash @
           '' a threshold that proved accessible enough to attract broad participation '' @
           ''while remaining costly enough to deter casual sybils. Snowside adopts the '' @
           ''same dollar-equivalent threshold in ECX terms.''),
         Para (''Bond mechanism: ECX is bonded via the BMM peg (drivechain mechanism). '' @
           ''Validators lock ECX on the eCash L1 through the peg-in process, and the '' @
           ''bonded amount is tracked in Snowside L2 state. No wrapped tokens, no '' @
           ''custodians '' @ dash @ '' pure Bitcoin alignment.''),
         Para (''Governance adjustment: The minimum bond is adjustable via validator '' @
           ''governance. Parameters for adjustment:''),
         Para (bullet @ '' Total value secured on Snowside (higher TVS -> higher bond)''),
         Para (bullet @ '' Number of active validators (more validators -> can lower bond)''),
         Para (bullet @
           '' ECX/USD exchange rate (significant price appreciation -> lower ECX amount to '' @
           ''maintain dollar-equivalent threshold)''),
         Para ''## Slashing via BMM Peg'',
         Para (''When Snowman consensus detects validator misbehavior, the bonded ECX is '' @
           ''burned in L2 state. This prevents the validator from ever withdrawing that '' @
           ''ECX back to eCash L1 via the peg-out mechanism.''),
         Para ''Slashing conditions:'',
         Para (bullet @ '' Double-signing: Full bond slash (100% of bonded ECX)''),
         Para (bullet @ '' Invalid block proposal: Full bond slash''),
         Para (bullet @
           '' Extended downtime (>10% of blocks missed over 30 days): Partial slash (25% '' @
           ''of bonded ECX) + removal from active set''),
         Para (bullet @ '' Consensus participation below threshold: Partial slash + warning''),
         Para (bullet @ '' Oracle manipulation (if applicable): Full bond slash''),
         Para ''Enforcement:'',
         Para (bullet @ '' Snowman consensus detects misbehavior''),
         Para (bullet @ '' Consensus emits slash signal''),
         Para (bullet @ '' Custom precompile processes slash signal''),
         Para (bullet @ '' Bonded ECX amount is burned in L2 state''),
         Para (bullet @ '' The actual ECX remains locked on eCash L1 but becomes permanently '' @
           ''unrecoverable '' @ dash @
           '' the L2 will never generate a valid withdrawal transaction for the slashed '' @
           ''amount''),
         Para (''Economic outcome: The validator permanently loses access to their bonded ECX. '' @
           ''The ECX is not destroyed on L1 (it remains locked in the peg script), but it '' @
           ''is economically burned '' @ dash @
           '' no one can ever access it. This is real, enforceable slashing without '' @
           ''requiring wrapped tokens or smart contract custody.''),
         Para ''## Validator Performance Requirements'',
         Para (''To ensure network reliability and give prospective validators clear '' @
           ''expectations before bonding ECX, Snowside establishes minimum performance '' @
           ''standards. These are separate from slashing conditions '' @ dash @
           '' underperformance results in warnings and eventual removal, not bond '' @
           ''confiscation.''),
         Para ''Minimum performance standards:'',
         Para (bullet @
           '' Uptime: Minimum 95% over rolling 30-day window (measured by block production '' @
           ''and consensus participation)''),
         Para (bullet @
           '' Block production latency: Block proposals must be submitted within 2 seconds '' @
           ''of assigned slot''),
         Para (bullet @
           '' Consensus participation: Must participate in at least 90% of Snowman '' @
           ''consensus votes over rolling 7-day window''),
         Para (bullet @
           '' Network connectivity: Must maintain connections to at least 5 peer nodes and '' @
           ''respond to peer requests within 5 seconds''),
         Para (bullet @
           '' Node synchronization: Must remain within 5 blocks of chain tip at all times''),
         Para ''Violation thresholds:'',
         Para (bullet @ '' Below 90% uptime: formal warning''),
         Para (bullet @
           '' Below 80% uptime for 7 consecutive days: automatic removal from active '' @
           ''validator set (bond returned, no slash)''),
         Para (bullet @ '' Repeated latency violations (>5 per 100 blocks): warning''),
         Para (bullet @ '' Below 80% consensus participation: formal warning''),
         Para (bullet @
           '' Below 70% consensus participation for 14 consecutive days: removal from '' @
           ''active set''),
         Para (bullet @ '' Isolated validators (0 peers for >1 hour): automatic suspension''),
         Para (bullet @ '' Falling behind by >10 blocks: warning''),
         Para (bullet @
           '' Falling behind by >50 blocks: automatic suspension until resynchronized''),
         Para (''Penalty schedule (underperformance '' @ dash @ '' NOT slashing):''),
         Para (bullet @ '' First warning: No penalty, 7-day cure period''),
         Para (bullet @
           '' Second warning (within 30 days of first): Reduced Contract Fee share (50% '' @
           ''reduction) for 7 days''),
         Para (bullet @
           '' Third warning (within 30 days of second): Removal from active validator set '' @
           ''for 30 days. Bond returned. May re-apply after suspension period.''),
         Para (''Note: These penalties are for underperformance, NOT malicious behavior. '' @
           ''Malicious behavior (double-signing, invalid blocks, oracle manipulation) '' @
           ''triggers full slashing as described above.''),
         Para (''Nod'' @ Xi @
           ''Runr automatically tracks all performance metrics and provides real-time '' @
           ''dashboards. Validators receive automated alerts before reaching warning '' @
           ''thresholds. The monitoring system eliminates manual oversight and ensures '' @
           ''consistent enforcement of performance standards.'')]\<rparr>"

definition section_comparison_with_alternatives :: WhitepaperSection where
  "section_comparison_with_alternatives =
     \<lparr>ws_heading = ''Comparison with Alternatives'',
      ws_body =
        [Para (''Snowside is not the only way to build a Bitcoin sidechain. However, it is the '' @
           ''only approach that combines eCash economic security, Avalanche-grade '' @
           ''performance, and automated operational management. Below is a comparison with '' @
           ''the main alternatives.''),
         Para ''## vs Ethereum L2/Rollups'',
         Para (''Ethereum L2s and rollups offer EVM compatibility but require wrapping BTC to '' @
           ''use it as gas. They share a sequencer with other L2s, have multi-minute '' @
           ''confirmation times, and offer no custom precompiles. Snowside provides native '' @
           ''ECX gas, sovereign validators, sub-2-second finality, and custom precompiles.''),
         Para ''## vs Avalanche C-Chain'',
         Para (''The C-Chain uses AVAX for gas and shares validators with all C-Chain users. '' @
           ''Snowside has its own validator set, uses ECX for gas, and can implement '' @
           ''custom precompiles for eCash-specific logic. This sovereignty is essential '' @
           ''for a Bitcoin-aligned sidechain.''),
         Para ''## vs Standalone Chain'',
         Para (''A standalone chain could theoretically implement ECX gas and custom '' @
           ''precompiles, but it would lack Avalanche'' @ [CHR 0x27] @
           ''s ICM bridge for USDC, require expensive manual validator operations, and '' @
           ''miss the operational automation provided by Nod'' @ Xi @
           ''Runr. Snowside inherits all of Avalanche'' @ [CHR 0x27] @
           ''s infrastructure benefits while maintaining Bitcoin alignment.'')]\<rparr>"

definition section_risks_mitigations :: WhitepaperSection where
  "section_risks_mitigations =
     \<lparr>ws_heading = ''Risks & Mitigations'',
      ws_body =
        [Para (''No project is without risk. We have identified the key risks and designed '' @
           ''mitigations for each.''),
         Para ''## Paul Sztorc withdraws support or changes the eCash spec'',
         Para (''Mitigation: Snowside is EVM-compatible and can host other Bitcoin sidechain '' @
           ''experiments. The Nod'' @ Xi @
           ''Runr template is modular and open-source. We are coordinating directly with '' @
           ''Paul to ensure alignment, but the infrastructure remains valuable regardless '' @
           ''of eCash'' @ [CHR 0x27] @ ''s specific direction.''),
         Para ''## Low validator adoption'',
         Para (''Mitigation: Nod'' @ Xi @ ''Runr'' @ [CHR 0x27] @
           ''s one-click setup removes the main barrier. We seed 3-5 initial validators '' @
           ''ourselves. Documentation and community outreach (AMAs, tutorials) drive '' @
           ''adoption. Target: 5+ independent validators within 60 days.''),
         Para ''## Security vulnerabilities in eCash contracts'',
         Para (''Mitigation: Limited-scope audit prior to mainnet launch. Post-launch bug '' @
           ''bounty program. All contracts use established, audited EVM patterns where '' @
           ''possible.''),
         Para ''## ECX bridge or custody risk'',
         Para (''Mitigation: Use established, audited bridge infrastructure. Avalanche ICM for '' @
           ''USDC is trust-minimized with no third-party custodian. BMM design for ECX '' @
           ''avoids centralized custody entirely.''),
         Para ''## Grant funding insufficient for full scope'',
         Para (''Mitigation: Project is modular '' @ dash @
           '' testnet launch and documentation can proceed with $10k. Mainnet launch and '' @
           ''community programs can be phased. We may apply for the Team1 Accelerator '' @
           ''Grant ($30k) for expanded scope.''),
         Para ''## Avalanche protocol changes'',
         Para (''Mitigation: Nod'' @ Xi @
           ''Runr is maintained actively and tracks Avalanche upgrades. Snowside benefits '' @
           ''from all Avalanche9000 improvements automatically.'')]\<rparr>"

definition section_roadmap :: WhitepaperSection where
  "section_roadmap =
     \<lparr>ws_heading = ''Roadmap'',
      ws_body =
        [Para (''Month 1 '' @ dash @ '' Fuji Testnet Launch:''),
         Para (bullet @ '' Finalize eCash L1 specification (VM, gas token, precompiles)''),
         Para (bullet @ '' Develop and test Nod'' @ Xi @ ''Runr Snowside template''),
         Para (bullet @ '' Deploy to Fuji testnet''),
         Para (bullet @ '' Public testnet RPC endpoint available''),
         Para (''Month 2 '' @ dash @ '' Security & Integration:''),
         Para (bullet @ '' Limited-scope security audit of eCash smart contracts''),
         Para (bullet @ '' Integrate C-Chain USDC bridge via ICM''),
         Para (bullet @ '' Onboard first 3-5 community validators on testnet''),
         Para (bullet @ '' Begin documentation: '' @ [CHR 0x22] @
           ''How to Run a Snowside Validator'' @ [CHR 0x22]),
         Para (''Month 3 '' @ dash @ '' Mainnet Launch:''),
         Para (bullet @ '' Mainnet launch with at least 3 independent validators''),
         Para (bullet @ '' Public RPC endpoint and block explorer live''),
         Para (bullet @ '' Nod'' @ Xi @ ''Runr Snowside template publicly available''),
         Para (bullet @ '' Bridge USDC from C-Chain to Snowside mainnet''),
         Para (''Month 4 '' @ dash @ '' Community Onboarding:''),
         Para (bullet @ '' Host AMA with Paul Sztorc''),
         Para (bullet @ '' Release tutorial video: '' @ [CHR 0x22] @
           ''Launch a Bitcoin Sidechain with Nod'' @ Xi @ ''Runr'' @ [CHR 0x22]),
         Para (bullet @ '' Distribute small testnet bounties to early users''),
         Para (bullet @ '' Target: 500+ unique addresses interacting with Snowside''),
         Para (''Ongoing '' @ dash @ '' Growth & Sustainability:''),
         Para (bullet @ '' Validator growth (target: 10+ validators)''),
         Para (bullet @ '' Protocol maintenance via Nod'' @ Xi @ ''Runr automation''),
         Para (bullet @ '' Explore additional Bitcoin sidechain templates''),
         Para (bullet @ '' Open-source all Snowside configuration files''),
         Para ''## Future: Permissionless Validation'',
         Para (''Snowside'' @ [CHR 0x27] @
           ''s path to permissionless validation follows a two-phase roadmap that '' @
           ''transitions from a permissioned launch to permissionless AVAX + ECX bonding.''),
         Fig permissionlessRoadmap,
         Para (''Phase 1 '' @ dash @ '' Mainnet Launch (Permissioned):''),
         Para (bullet @ '' 3-5 seeded validators''),
         Para (bullet @ '' AVAX staking for Avalanche Primary Network participation''),
         Para (bullet @
           '' Three-part fee model active from day one (Base + Priority + Contract)''),
         Para (bullet @ '' Settlement (BMM commitments) is permissionless '' @ dash @
           '' anyone can anchor blocks to eCash L1''),
         Para (bullet @
           '' Focus on stability, architecture validation, and community onboarding''),
         Para (''Phase 2 '' @ dash @ '' Permissionless with AVAX + ECX Bonding:''),
         Para (bullet @ '' Open validator registration to anyone meeting requirements''),
         Para (bullet @
           '' Requirements: AVAX stake for Primary Network + ECX bond via BMM peg (minimum '' @
           ''0.3 ECX, approximately $20,000)''),
         Para (bullet @ '' Slashing active for misbehavior''),
         Para (bullet @
           '' Contract Fee distribution: 100% proportional to bonded ECX (via Treasury '' @
           ''distribution '' @ dash @ '' see Section 5.5)''),
         Para (bullet @
           '' Bond amount is governance-adjustable based on total value secured, number of '' @
           ''active validators, and ECX/USD exchange rate''),
         Para (bullet @ '' Target: 10+ independent validators''),
         Para (''Future phases may explore reducing AVAX dependency as Avalanche protocol '' @
           ''capabilities evolve.'')]\<rparr>"

definition section_conclusion :: WhitepaperSection where
  "section_conclusion =
     \<lparr>ws_heading = ''Conclusion'',
      ws_body =
        [Para (''Snowside represents a new approach to Bitcoin sidechains: eCash'' @ [CHR 0x27] @
           ''s economic security via Blind Merged Mining, Avalanche'' @ [CHR 0x27] @
           ''s sub-2-second finality, and Nod'' @ Xi @ ''Runr'' @ [CHR 0x27] @
           ''s automated operational management '' @ dash @
           '' all in a single EVM-compatible chain.''),
         Para (''By using ECX as the native gas token, Snowside preserves Bitcoin'' @ [CHR 0x27] @
           ''s economic model without introducing a competing token. By leveraging '' @
           ''Avalanche'' @ [CHR 0x27] @
           ''s Interchain Messaging, it provides immediate access to USDC liquidity from '' @
           ''the C-Chain. And by automating every aspect of validator management through '' @
           ''Nod'' @ Xi @
           ''Runr, it eliminates the operational burden that killed Paul Sztorc'' @
           [CHR 0x27] @ ''s previous EVM sidechain.''),
         Para (''The result is a chain that is secure enough for Bitcoin purists, fast enough '' @
           ''for real applications, and operable enough to stay alive without constant '' @
           ''human intervention. That is what a sustainable Bitcoin sidechain looks like '' @
           dash @ '' and that is what Snowside delivers.''),
         Para (''The Fuji testnet launches in Month 1. Mainnet follows in Month 3. Builders, '' @
           ''validators, and Bitcoin enthusiasts are invited to participate from day one.'')]\<rparr>"

definition section_references :: WhitepaperSection where
  "section_references =
     \<lparr>ws_heading = ''References'',
      ws_body =
        [Para (''[1] BIP-300: Hashrate Escrows '' @ dash @
           '' https://github.com/bitcoin/bips/blob/master/bip-0300.mediawiki''),
         Para (''[2] BIP-301: Blind Merged Mining '' @ dash @
           '' https://github.com/bitcoin/bips/blob/master/bip-0301.mediawiki''),
         Para (''[3] Drivechains: Sidechains for Bitcoin '' @ dash @
           '' https://drivechain.info/''),
         Para (''[4] Avalanche Consensus Protocol '' @ dash @
           '' https://arxiv.org/abs/1906.08936''),
         Para (''[5] Team Rocket '' @ dash @ '' '' @ [CHR 0x22] @
           ''Scalable and Probabilistically Consensus based on Majority Votes'' @ [CHR 0x22] @
           '' '' @ dash @ '' May 2018 (Slush '' @ [CHR 0xE2, CHR 0x86, CHR 0x92] @
           '' Snowflake -> Snowball '' @ [CHR 0xE2, CHR 0x86, CHR 0x92] @
           '' Avalanche protocol family)''),
         Para (''[6] Avalanche Interchain Messaging (ICM) '' @ dash @
           '' https://docs.avax.network/''),
         Para (''[7] Avalanche9000 Documentation '' @ dash @ '' https://docs.avax.network/''),
         Para (''[8] Nod'' @ Xi @ ''Runr '' @ dash @ '' https://layer1.run''),
         Para (''[9] Nod'' @ Xi @ ''Runr Documentation '' @ dash @ '' https://docs.layer1.run''),
         Para (''[10] Ethereum Virtual Machine Specification '' @ dash @
           '' https://ethereum.org/en/developers/docs/evm/''),
         Para (''[11] USDC by Circle '' @ dash @ '' https://www.circle.com/en/usdc''),
         Para (''[12] RISCy Network '' @ dash @ '' '' @ [CHR 0x22] @
           ''RISCy Whitepaper: Native Unit and Fee Model'' @ [CHR 0x22] @ '' '' @ dash @
           '' Section 10'')]\<rparr>"

definition section_legal_disclaimer :: WhitepaperSection where
  "section_legal_disclaimer =
     \<lparr>ws_heading = ''Legal Disclaimer'',
      ws_body =
        [Para (''This whitepaper is for informational purposes only and does not constitute '' @
           ''financial, investment, legal, tax, or any other form of professional advice. '' @
           ''It is not an offer to sell, a solicitation of an offer to buy, or a '' @
           ''recommendation to purchase any security, token, or digital asset.''),
         Para (''Forward-looking statements contained in this document '' @ dash @
           '' including but not limited to statements regarding the Snowside network, '' @
           ''roadmap milestones, validator adoption targets, and the eCash hard-fork '' @
           dash @
           '' involve significant risks, uncertainties, and assumptions. Actual results '' @
           ''may differ materially.''),
         Para (''The Snowside software and related tooling are provided '' @ [CHR 0x22] @
           ''as is'' @ [CHR 0x22] @
           '' without warranty of any kind. Participation in the Snowside network carries '' @
           ''technical, economic, and regulatory risks, including but not limited to: '' @
           ''smart-contract bugs, consensus failures, chain reorganizations, mining '' @
           ''attacks, key loss, regulatory action, and total loss of funds.''),
         Para (''No regulatory authority has reviewed, approved, or endorsed this whitepaper. '' @
           ''References to third-party protocols (Bitcoin, Avalanche, eCash) or '' @
           ''individuals (Paul Sztorc) do not imply endorsement.''),
         Para (''There is no Snowside token. Snowside is infrastructure, not an investment '' @
           ''vehicle. No token launch or ICO is planned, now or in the future.'')]\<rparr>"

definition whitepaper_sections :: "WhitepaperSection list" where
  "whitepaper_sections =
     [section_tl_dr,
      section_introduction,
      section_architecture_overview,
      section_blind_merged_mining,
      section_ecx_as_native_gas,
      section_usdc_bridge_via_interchain_messaging,
      section_nod_runr_validator_management,
      section_consensus_security_model,
      section_validator_economics,
      section_comparison_with_alternatives,
      section_risks_mitigations,
      section_roadmap,
      section_conclusion,
      section_references,
      section_legal_disclaimer]"

record Whitepaper =
  wp_title :: string
  wp_subtitle :: string
  wp_date :: string
  wp_tagline :: string
  wp_headline :: string
  wp_sections :: "WhitepaperSection list"

definition WHITEPAPER :: Whitepaper where
  "WHITEPAPER =
     \<lparr>wp_title = ''Snowside Whitepaper'', wp_subtitle = ''version '' @ wm_version meta,
      wp_date = ''September 2026'', wp_tagline = ''Bitcoin security at Avalanche speed.'',
      wp_headline = ''The eCash Sidechain on Avalanche'', wp_sections = whitepaper_sections\<rparr>"

end
