(* ===== verification/Whitepaper_Pdf.thy ===== *)
theory Whitepaper_Pdf
  imports Whitepaper_Content Js_Json
begin

text \<open>
  \<open>packages/web/src/pages/whitepaper.pdf.ts\<close>: the layout of the whitepaper. The variables of the
  generator are the record \<open>layout\<close>: the document, the height of the cursor and the page number, and
  the calls of \<open>addPageFooter\<close> (the page drawn on and the number printed), which only the properties
  read. Pages are US letter in points.
\<close>

subsection \<open>Constants\<close>

definition C_snow :: rgb where "C_snow = (56, 189, 248)"
definition C_snowDeep :: rgb where "C_snowDeep = (14, 165, 233)"
definition C_btc :: rgb where "C_btc = (247, 147, 26)"
definition C_dark :: rgb where "C_dark = (10, 15, 26)"
definition C_white :: rgb where "C_white = (255, 255, 255)"
definition C_lightGray :: rgb where "C_lightGray = (240, 240, 245)"
definition C_medGray :: rgb where "C_medGray = (102, 102, 115)"
definition C_black :: rgb where "C_black = (15, 15, 15)"

definition pageWidth :: rat where "pageWidth = 612"
definition pageHeight :: rat where "pageHeight = 792"
definition marginLeft :: rat where "marginLeft = 60"
definition marginRight :: rat where "marginRight = 60"
definition marginTop :: rat where "marginTop = 60"
definition marginBottom :: rat where "marginBottom = 60"
definition contentWidth :: rat where "contentWidth = pageWidth - marginLeft - marginRight"

definition TITLE_SIZE :: rat where "TITLE_SIZE = 28"
definition SUBTITLE_SIZE :: rat where "SUBTITLE_SIZE = 14"
definition HEADING_SIZE :: rat where "HEADING_SIZE = 16"
definition BODY_SIZE :: rat where "BODY_SIZE = 10"
definition TAGLINE_SIZE :: rat where "TAGLINE_SIZE = 16"
definition FOOTER_SIZE :: rat where "FOOTER_SIZE = 8"
definition HEADING_LINE_HEIGHT :: rat where "HEADING_LINE_HEIGHT = HEADING_SIZE * (8 / 5)"
definition BODY_LINE_HEIGHT :: rat where "BODY_LINE_HEIGHT = BODY_SIZE * (8 / 5)"

lemmas layout_consts = pageWidth_def pageHeight_def marginLeft_def marginRight_def marginTop_def
  marginBottom_def contentWidth_def HEADING_SIZE_def BODY_SIZE_def HEADING_LINE_HEIGHT_def
  BODY_LINE_HEIGHT_def

subsection \<open>Headings\<close>

text \<open>\<open>/^\d+\.\s+/\<close> is dropped.\<close>

definition stripNumberPrefix :: "string \<Rightarrow> string" where
  "stripNumberPrefix h =
     (let t = dropWhile is_digit h
      in if takeWhile is_digit h \<noteq> [] \<and> starts_with t ''.'' \<and> takeWhile is_space (drop 1 t) \<noteq> []
         then dropWhile is_space (drop 1 t) else h)"

text \<open>\<open>/^##\s+(.+)$/\<close>: the text of a sub-heading; a dot matches no line break.\<close>

definition one_line :: "string \<Rightarrow> bool" where
  "one_line s \<longleftrightarrow> s \<noteq> [] \<and> list_all (\<lambda>c. c \<noteq> CHR 0x0A \<and> c \<noteq> CHR 0x0D) s"

definition mdHeading :: "string \<Rightarrow> string option" where
  "mdHeading s =
     (if \<not> starts_with s ''##'' then None
      else let ws = takeWhile is_space (drop 2 s); t = dropWhile is_space (drop 2 s)
           in if ws = [] then None
              else if one_line t then Some t
              else if t = [] \<and> 2 \<le> length ws \<and> one_line [last ws] then Some [last ws]
              else None)"

definition section_title :: "nat \<Rightarrow> string \<Rightarrow> string" where
  "section_title n h = show_int (int n) @ ''. '' @ stripNumberPrefix h"

subsection \<open>Footer and page breaks\<close>

record layout =
  ly_doc :: pdf_doc
  cursorY :: rat
  pageNum :: nat
  footers :: "(nat \<times> nat) list"

definition with_doc :: "(pdf_doc \<Rightarrow> pdf_doc) \<Rightarrow> layout \<Rightarrow> layout" where
  "with_doc f s = s\<lparr>ly_doc := f (ly_doc s)\<rparr>"

definition right_text :: "pdf_lib \<Rightarrow> string \<Rightarrow> rat \<Rightarrow> rat \<Rightarrow> pdf_doc \<Rightarrow> pdf_doc" where
  "right_text lib t right y d = text_at t (right - text_width lib d t) y d"

definition addPageFooter :: "pdf_lib \<Rightarrow> nat \<Rightarrow> layout \<Rightarrow> layout" where
  "addPageFooter lib num s =
     with_doc (run_all
       [setDrawColor C_lightGray, setLineWidth (1 / 2),
        draw_line marginLeft (pageHeight - marginBottom + 15)
          (pageWidth - marginRight) (pageHeight - marginBottom + 15),
        setFont ''NotoSans'' ''normal'', setFontSize FOOTER_SIZE, setTextColor C_medGray,
        right_text lib (show_int (int num)) (pageWidth - marginRight) (pageHeight - marginBottom + 28),
        setFont ''NotoSans'' ''italic'',
        text_at (''Snowside '' @ dash @ '' A dedicated Avalanche Layer-1 for the eCash hard-fork'')
          marginLeft (pageHeight - marginBottom + 28)])
       (s\<lparr>footers := footers s @ [(pd_page (ly_doc s), num)]\<rparr>)"

definition new_page :: "layout \<Rightarrow> layout" where
  "new_page s = (with_doc addPage s)\<lparr>cursorY := marginTop, pageNum := pageNum s + 1\<rparr>"

definition ensureSpace :: "pdf_lib \<Rightarrow> rat \<Rightarrow> layout \<Rightarrow> layout" where
  "ensureSpace lib needed s =
     (if pageHeight - marginBottom < cursorY s + needed
      then new_page (addPageFooter lib (pageNum s) s) else s)"

definition move_cursor :: "rat \<Rightarrow> layout \<Rightarrow> layout" where
  "move_cursor dy s = s\<lparr>cursorY := cursorY s + dy\<rparr>"

subsection \<open>Cover and contents\<close>

definition centered :: "pdf_lib \<Rightarrow> string \<Rightarrow> rat \<Rightarrow> pdf_doc \<Rightarrow> pdf_doc" where
  "centered lib t y d = text_at t ((pageWidth - text_width lib d t) / 2) y d"

definition cover_page :: "pdf_lib \<Rightarrow> Whitepaper \<Rightarrow> pdf_doc \<Rightarrow> pdf_doc" where
  "cover_page lib wp = run_all
     [setFillColor C_dark, draw_rect 0 0 pageWidth pageHeight ''F'',
      setFillColor C_snow, draw_rect 0 0 pageWidth 6 ''F'',
      setFont ''NotoSans'' ''bold'', setFontSize TITLE_SIZE, setTextColor C_white,
      centered lib (wp_title wp) (pageHeight / 2 - 80),
      setFont ''NotoSans'' ''normal'', setFontSize SUBTITLE_SIZE, setTextColor C_snow,
      centered lib (wp_subtitle wp) (pageHeight / 2 - 50),
      setFont ''NotoSans'' ''bold'', setFontSize TAGLINE_SIZE, setTextColor C_btc,
      centered lib (wp_headline wp) (pageHeight / 2 - 25),
      setFont ''NotoSans'' ''italic'', setFontSize TAGLINE_SIZE, setTextColor C_snowDeep,
      centered lib (wp_tagline wp) (pageHeight / 2),
      setFont ''NotoSans'' ''normal'', setFontSize BODY_SIZE, setTextColor C_medGray,
      centered lib (wp_date wp) (pageHeight / 2 + 45),
      centered lib (wm_author meta) (pageHeight / 2 + 65),
      setTextColor C_snow,
      centered lib (wm_url meta) (pageHeight - marginBottom - 20)]"

text \<open>The list of sections ends where the page does.\<close>

fun toc_entries :: "nat \<Rightarrow> rat \<Rightarrow> WhitepaperSection list \<Rightarrow> pdf_doc \<Rightarrow> pdf_doc" where
  "toc_entries i tocY [] d = d"
| "toc_entries i tocY (sec # secs) d =
     (if pageHeight - marginBottom < tocY then d
      else toc_entries (i + 1) (tocY + BODY_LINE_HEIGHT * (7 / 5)) secs
             (run_all
                [setFont ''NotoSans'' ''normal'', setFontSize (BODY_SIZE + 1), setTextColor C_black,
                 text_at (section_title (i + 1) (ws_heading sec)) (marginLeft + 10) tocY] d))"

definition table_of_contents :: "Whitepaper \<Rightarrow> pdf_doc \<Rightarrow> pdf_doc" where
  "table_of_contents wp d =
     (let tocY = marginTop + HEADING_LINE_HEIGHT * 2
      in toc_entries 0 tocY (wp_sections wp)
           (run_all
              [setFont ''NotoSans'' ''bold'', setFontSize (HEADING_SIZE + 4), setTextColor C_black,
               text_at ''Table of Contents'' marginLeft marginTop,
               setFillColor C_snow,
               draw_rect marginLeft (tocY - HEADING_LINE_HEIGHT + 4) 100 2 ''F''] d))"

subsection \<open>Body\<close>

text \<open>The lines of a paragraph, each below the one before.\<close>

fun put_lines :: "string list \<Rightarrow> rat \<Rightarrow> layout \<Rightarrow> layout" where
  "put_lines [] x s = s"
| "put_lines (l # ls) x s =
     put_lines ls x (move_cursor BODY_LINE_HEIGHT (with_doc (text_at l x (cursorY s)) s))"

definition draw_caption :: "pdf_lib \<Rightarrow> string \<Rightarrow> layout \<Rightarrow> layout" where
  "draw_caption lib caption s =
     (if caption = [] then s
      else let captionLines = splitTextToSize lib ''italic'' (BODY_SIZE - 1) caption contentWidth
           in move_cursor (of_nat (length captionLines) * BODY_LINE_HEIGHT * (4 / 5) +
                BODY_LINE_HEIGHT * (1 / 2))
                (with_doc (text_lines captionLines marginLeft (cursorY s))
                   (with_doc (run_all [setFont ''NotoSans'' ''italic'', setFontSize (BODY_SIZE - 1),
                                       setTextColor C_medGray]) s)))"

definition draw_figure :: "pdf_lib \<Rightarrow> Figure \<Rightarrow> layout \<Rightarrow> layout" where
  "draw_figure lib f s =
     (let s1 = ensureSpace lib (fig_height f + BODY_LINE_HEIGHT) s;
          s2 = with_doc (fig_draw f lib marginLeft (cursorY s1) contentWidth) s1
      in draw_caption lib (fig_caption f)
           (move_cursor (fig_height f + BODY_LINE_HEIGHT * (1 / 2)) s2))"

definition draw_subheading :: "pdf_lib \<Rightarrow> string \<Rightarrow> layout \<Rightarrow> layout" where
  "draw_subheading lib subText s =
     (let s1 = ensureSpace lib (BODY_LINE_HEIGHT * 2) s
      in move_cursor (BODY_LINE_HEIGHT * (7 / 5))
           (with_doc (run_all [setFont ''NotoSans'' ''bold'', setFontSize (BODY_SIZE + 1),
              setTextColor C_black, text_at subText (marginLeft + 4) (cursorY s1)]) s1))"

definition draw_paragraph :: "pdf_lib \<Rightarrow> string \<Rightarrow> layout \<Rightarrow> layout" where
  "draw_paragraph lib paragraph s =
     (let indent = (if starts_with paragraph bullet then 15 else 0);
          effectiveWidth = contentWidth - indent;
          s1 = with_doc (run_all [setFont ''NotoSans'' ''normal'', setFontSize BODY_SIZE,
                 setTextColor C_black]) s;
          lns = splitTextToSize lib ''normal'' BODY_SIZE paragraph effectiveWidth;
          s2 = ensureSpace lib (of_nat (length lns) * BODY_LINE_HEIGHT + BODY_LINE_HEIGHT) s1
      in move_cursor (BODY_LINE_HEIGHT * (2 / 5)) (put_lines lns (marginLeft + indent) s2))"

text \<open>A block, with the number of sub-headings so far.\<close>

fun draw_block :: "pdf_lib \<Rightarrow> nat \<Rightarrow> wp_block \<Rightarrow> nat \<times> layout \<Rightarrow> nat \<times> layout" where
  "draw_block lib sectionNumber (Fig f) (sub, s) = (sub, draw_figure lib f s)"
| "draw_block lib sectionNumber (Para paragraph) (sub, s) =
     (if paragraph = [] then (sub, move_cursor (BODY_LINE_HEIGHT * (1 / 2)) s)
      else case mdHeading paragraph of
             Some t \<Rightarrow>
               (sub + 1,
                draw_subheading lib
                  (show_int (int sectionNumber) @ ''.'' @ show_int (int (sub + 1)) @ '' '' @ t) s)
           | None \<Rightarrow> (sub, draw_paragraph lib paragraph s))"

definition draw_section :: "pdf_lib \<Rightarrow> nat \<times> WhitepaperSection \<Rightarrow> layout \<Rightarrow> layout" where
  "draw_section lib = (\<lambda>(idx, section) s.
     (let s1 = (if idx = 0 then s else new_page s);
          s2 = ensureSpace lib (HEADING_LINE_HEIGHT * 3) s1;
          s3 = with_doc (run_all
                 [setFillColor C_snow, draw_rect (marginLeft - 12) (cursorY s2 - 8) 5 5 ''F'',
                  setFont ''NotoSans'' ''bold'', setFontSize HEADING_SIZE, setTextColor C_black,
                  text_at (section_title (idx + 1) (ws_heading section)) marginLeft (cursorY s2)]) s2;
          s4 = move_cursor (HEADING_LINE_HEIGHT * (3 / 2)) s3
      in move_cursor (HEADING_LINE_HEIGHT * (1 / 2))
           (snd (fold (draw_block lib (idx + 1)) (ws_body section) (0, s4)))))"

definition generateWhitepaper :: "pdf_lib \<Rightarrow> Whitepaper \<Rightarrow> layout" where
  "generateWhitepaper lib wp =
     (let d = addPage (table_of_contents wp (addPage (cover_page lib wp new_doc)));
          s = \<lparr>ly_doc = d, cursorY = marginTop, pageNum = 3, footers = []\<rparr>;
          s' = fold (draw_section lib) (enumerate 0 (wp_sections wp)) s
      in addPageFooter lib (pageNum s') s')"

text \<open>
  The endpoint: reading the fonts may fail, and any error becomes a JSON reply with status 500. The
  bytes of a document and the printing of JSON are parameters.
\<close>

record pdf_response =
  pr_status :: nat
  pr_type :: string
  pr_disposition :: "string option"
  pr_body :: string

definition GET :: "pdf_lib \<Rightarrow> error + unit \<Rightarrow> (pdf_doc \<Rightarrow> string) \<Rightarrow> (json \<Rightarrow> string) \<Rightarrow> Whitepaper \<Rightarrow> pdf_response" where
  "GET lib fonts output stringify wp =
     (case fonts of
        Inr _ \<Rightarrow>
          \<lparr>pr_status = 200, pr_type = ''application/pdf'',
           pr_disposition = Some (''inline; filename='' @ [CHR 0x22] @ ''snowside-whitepaper-v'' @
             wm_version meta @ ''.pdf'' @ [CHR 0x22]),
           pr_body = output (ly_doc (generateWhitepaper lib wp))\<rparr>
      | Inl message \<Rightarrow>
          \<lparr>pr_status = 500, pr_type = ''application/json'', pr_disposition = None,
           pr_body = stringify (JsObj [(''error'', JsStr message)])\<rparr>)"

subsection \<open>Footers\<close>

text \<open>
  While the body is laid out, with \<open>k\<close> changes of section so far: the counter is the page of the
  document, every footer carries the number of its page, no page has two, and each page turned
  without a footer is one of the \<open>k\<close>.
\<close>

definition pages_ok :: "nat \<Rightarrow> layout \<Rightarrow> bool" where
  "pages_ok k s \<longleftrightarrow>
     pd_page (ly_doc s) = pageNum s \<and>
     (\<forall>x \<in> set (footers s). fst x = snd x \<and> 3 \<le> fst x \<and> fst x < pageNum s) \<and>
     distinct (map fst (footers s)) \<and> pageNum s = 3 + length (footers s) + k"

abbreviation only_draws :: "(pdf_doc \<Rightarrow> pdf_doc) \<Rightarrow> bool" where
  "only_draws \<equiv> draws (\<lambda>_. True)"

lemma only_draws_page: "only_draws f \<Longrightarrow> pd_page (f d) = pd_page d"
  by (simp add: draws_def)

lemma pages_with_doc: "only_draws f \<Longrightarrow> pages_ok k s \<Longrightarrow> pages_ok k (with_doc f s)"
  unfolding pages_ok_def with_doc_def by (auto simp: only_draws_page)

lemma pages_move: "pages_ok k s \<Longrightarrow> pages_ok k (move_cursor dy s)"
  unfolding pages_ok_def move_cursor_def by auto

lemma draws_measured [draw_rules]:
  "(\<And>x. P (OpText t x y)) \<Longrightarrow> draws P (right_text lib t r y)"
  "(\<And>x. P (OpText t x y)) \<Longrightarrow> draws P (centered lib t y)"
  unfolding draws_def right_text_def centered_def text_at_def put_op_def by (auto intro!: exI [of _ "[_]"])

lemma footer_page: "pd_page (ly_doc (addPageFooter lib n s)) = pd_page (ly_doc s)"
  unfolding addPageFooter_def with_doc_def by (simp add: only_draws_page draw_rules)

lemma addPageFooter_simps:
  "pageNum (addPageFooter lib n s) = pageNum s" "cursorY (addPageFooter lib n s) = cursorY s"
  "footers (addPageFooter lib n s) = footers s @ [(pd_page (ly_doc s), n)]"
  by (simp_all add: addPageFooter_def with_doc_def)

lemma new_page_simps:
  "pageNum (new_page s) = pageNum s + 1" "footers (new_page s) = footers s"
  "pd_page (ly_doc (new_page s)) = pd_page (ly_doc s) + 1" "cursorY (new_page s) = marginTop"
  by (simp_all add: new_page_def with_doc_def addPage_def)

lemma pages_new_page: "pages_ok k s \<Longrightarrow> pages_ok (Suc k) (new_page s)"
  by (auto simp: pages_ok_def new_page_simps)

lemma pages_ensure: "pages_ok k s \<Longrightarrow> pages_ok k (ensureSpace lib h s)"
  by (auto simp: ensureSpace_def pages_ok_def new_page_simps addPageFooter_simps footer_page)

lemma pages_lines: "pages_ok k s \<Longrightarrow> pages_ok k (put_lines ls x s)"
  by (induction ls x s rule: put_lines.induct)
    (simp_all add: pages_move pages_with_doc draws_simple)

lemma pages_caption: "pages_ok k s \<Longrightarrow> pages_ok k (draw_caption lib c s)"
  by (simp add: draw_caption_def Let_def pages_move pages_with_doc draw_rules draws_text_lines)

lemma pages_figure:
  assumes "\<And>x y. only_draws (fig_draw f lib x y contentWidth)" "pages_ok k s"
  shows "pages_ok k (draw_figure lib f s)"
  using assms by (simp add: draw_figure_def Let_def pages_caption pages_move pages_with_doc pages_ensure)

lemma pages_subheading: "pages_ok k s \<Longrightarrow> pages_ok k (draw_subheading lib t s)"
  by (simp add: draw_subheading_def Let_def pages_move pages_with_doc pages_ensure draw_rules)

lemma pages_paragraph: "pages_ok k s \<Longrightarrow> pages_ok k (draw_paragraph lib t s)"
  by (simp add: draw_paragraph_def Let_def pages_move pages_with_doc pages_ensure pages_lines draw_rules)

definition block_draws :: "pdf_lib \<Rightarrow> wp_block \<Rightarrow> bool" where
  "block_draws lib b \<longleftrightarrow> (\<forall>f x y. b = Fig f \<longrightarrow> only_draws (fig_draw f lib x y contentWidth))"

lemma pages_block:
  "block_draws lib b \<Longrightarrow> pages_ok k (snd r) \<Longrightarrow> pages_ok k (snd (draw_block lib n b r))"
  by (cases b; cases r)
    (auto simp: block_draws_def pages_figure pages_move pages_subheading pages_paragraph
      split: option.split)

lemma pages_blocks:
  "list_all (block_draws lib) bs \<Longrightarrow> pages_ok k (snd r) \<Longrightarrow>
   pages_ok k (snd (fold (draw_block lib n) bs r))"
proof (induction bs arbitrary: r)
  case (Cons b bs)
  then have "pages_ok k (snd (draw_block lib n b r))" by (intro pages_block) simp_all
  with Cons show ?case by simp
qed simp

lemma pages_section:
  assumes "list_all (block_draws lib) (ws_body section)" "pages_ok k s"
  shows "pages_ok (if idx = 0 then k else k + 1) (draw_section lib (idx, section) s)"
  unfolding draw_section_def Let_def prod.case
  by (intro pages_move pages_blocks assms(1))
    (simp add: pages_move pages_with_doc pages_ensure pages_new_page assms(2) draw_rules)

lemma pages_sections:
  "list_all (\<lambda>sec. list_all (block_draws lib) (ws_body sec)) secs \<Longrightarrow> pages_ok k s \<Longrightarrow> 0 < i \<Longrightarrow>
   pages_ok (k + length secs) (fold (draw_section lib) (enumerate i secs) s)"
proof (induction secs arbitrary: i k s)
  case (Cons sec secs)
  then have "pages_ok (k + 1) (draw_section lib (i, sec) s)" using pages_section [of lib sec k s i] by simp
  with Cons.IH [of "k + 1" _ "Suc i"] Cons.prems(1) show ?case by simp
qed simp

lemma toc_page: "pd_page (toc_entries i y secs d) = pd_page d"
  by (induction i y secs d rule: toc_entries.induct) (simp_all add: only_draws_page draw_rules)

lemma front_matter:
  "pd_page (addPage (table_of_contents wp (addPage (cover_page lib wp new_doc)))) = 3"
  by (simp add: addPage_def table_of_contents_def Let_def toc_page cover_page_def only_draws_page
      draw_rules new_doc_def)

definition figures_only_draw :: "pdf_lib \<Rightarrow> Whitepaper \<Rightarrow> bool" where
  "figures_only_draw lib wp \<longleftrightarrow>
     list_all (\<lambda>sec. list_all (block_draws lib) (ws_body sec)) (wp_sections wp)"


subsection \<open>The font of a paragraph\<close>

text \<open>Style, size and colour that a text is set in, after some operations.\<close>

definition style_step :: "nat \<times> pdf_op \<Rightarrow> string \<times> rat \<times> rgb \<Rightarrow> string \<times> rat \<times> rgb" where
  "style_step x = (\<lambda>(st, sz, c).
     case snd x of
       OpFont n st' \<Rightarrow> (st', sz, c)
     | OpFontSize sz' \<Rightarrow> (st, sz', c)
     | OpTextColor c' \<Rightarrow> (st, sz, c')
     | _ \<Rightarrow> (st, sz, c))"

definition style_after :: "(nat \<times> pdf_op) list \<Rightarrow> string \<times> rat \<times> rgb" where
  "style_after ops = fold style_step ops (''normal'', 16, (0, 0, 0))"

lemma style_after_snoc: "style_after (ops @ [x]) = style_step x (style_after ops)"
  by (simp add: style_after_def)

lemmas put_simps = put_op_def setFont_def setFontSize_def setTextColor_def setFillColor_def
  setDrawColor_def setLineWidth_def draw_line_def text_at_def with_doc_def run_all_def

lemma footer_style:
  "style_after (pd_ops (ly_doc (addPageFooter lib n s))) = (''italic'', FOOTER_SIZE, C_medGray)"
proof -
  obtain st sz c where "style_after (pd_ops (ly_doc s)) = (st, sz, c)" by (metis prod_cases3)
  then show ?thesis
    by (simp add: addPageFooter_def right_text_def put_simps style_after_def style_step_def)
qed

definition line_ops :: "nat \<Rightarrow> string list \<Rightarrow> rat \<Rightarrow> rat \<Rightarrow> (nat \<times> pdf_op) list" where
  "line_ops page lns x y =
     map (\<lambda>(k, l). (page, OpText l x (y + of_nat k * BODY_LINE_HEIGHT))) (enumerate 0 lns)"

lemma put_lines_ops:
  "pd_ops (ly_doc (put_lines lns x s)) =
     pd_ops (ly_doc s) @ line_ops (pd_page (ly_doc s)) lns x (cursorY s)"
proof (induction lns x s rule: put_lines.induct)
  case (2 l ls x s)
  have "line_ops pg (l # ls) x y = (pg, OpText l x y) # line_ops pg ls x (y + BODY_LINE_HEIGHT)" for pg y
  proof -
    have "enumerate (Suc 0) ls = map (\<lambda>(k, l). (Suc k, l)) (enumerate 0 ls)"
      by (auto simp: enumerate_Suc_eq [of 0])
    then show ?thesis by (simp add: line_ops_def algebra_simps split_beta)
  qed
  with 2 show ?case by (simp add: move_cursor_def put_simps)
qed (simp add: line_ops_def)

text \<open>
  A paragraph that does not fit its page is set in the wrong font: the font is chosen before the
  page is turned, and turning it prints the footer, so the lines that open the new page come out in
  the footer's italic 8 point grey, though they were broken for 10 point; only a paragraph that
  stays on its page is set in the body font. The lines themselves are set in order, one line height
  apart, at the top margin after a turn and at the cursor otherwise.
\<close>

theorem paragraph_font:
  "\<exists>pre lns. let indent = (if starts_with p bullet then 15 else 0);
        break = pageHeight - marginBottom < cursorY s + (of_nat (length lns) + 1) * BODY_LINE_HEIGHT
    in lns = splitTextToSize lib ''normal'' BODY_SIZE p (contentWidth - indent) \<and>
       pd_ops (ly_doc (draw_paragraph lib p s)) =
         pre @ line_ops (if break then pd_page (ly_doc s) + 1 else pd_page (ly_doc s)) lns
           (marginLeft + indent) (if break then marginTop else cursorY s) \<and>
       style_after pre =
         (if break then (''italic'', FOOTER_SIZE, C_medGray) else (''normal'', BODY_SIZE, C_black))"
proof -
  define indent :: rat where "indent = (if starts_with p bullet then 15 else 0)"
  define lns where "lns = splitTextToSize lib ''normal'' BODY_SIZE p (contentWidth - indent)"
  define s1 where "s1 = with_doc (run_all [setFont ''NotoSans'' ''normal'', setFontSize BODY_SIZE,
    setTextColor C_black]) s"
  define h where "h = of_nat (length lns) * BODY_LINE_HEIGHT + BODY_LINE_HEIGHT"
  have h: "h = (of_nat (length lns) + 1) * BODY_LINE_HEIGHT" by (simp add: h_def algebra_simps)
  have ops: "pd_ops (ly_doc (draw_paragraph lib p s)) =
      pd_ops (ly_doc (ensureSpace lib h s1)) @
      line_ops (pd_page (ly_doc (ensureSpace lib h s1))) lns (marginLeft + indent)
        (cursorY (ensureSpace lib h s1))"
    unfolding draw_paragraph_def Let_def indent_def [symmetric] lns_def [symmetric] s1_def [symmetric]
      h_def [symmetric] by (simp add: move_cursor_def put_lines_ops)
  have s1: "cursorY s1 = cursorY s" "pd_page (ly_doc s1) = pd_page (ly_doc s)"
    by (simp_all add: s1_def put_simps)
  have st1: "style_after (pd_ops (ly_doc s1)) = (''normal'', BODY_SIZE, C_black)"
  proof -
    obtain st sz c where "style_after (pd_ops (ly_doc s)) = (st, sz, c)" by (metis prod_cases3)
    then show ?thesis by (simp add: s1_def put_simps style_after_def style_step_def)
  qed
  have np: "pd_ops (ly_doc (new_page t)) = pd_ops (ly_doc t)" for t
    by (simp add: new_page_def with_doc_def addPage_def)
  show ?thesis
  proof (intro exI [of _ "pd_ops (ly_doc (ensureSpace lib h s1))"] exI [of _ lns])
    show "let indent = (if starts_with p bullet then 15 else 0);
        break = pageHeight - marginBottom < cursorY s + (of_nat (length lns) + 1) * BODY_LINE_HEIGHT
      in lns = splitTextToSize lib ''normal'' BODY_SIZE p (contentWidth - indent) \<and>
       pd_ops (ly_doc (draw_paragraph lib p s)) =
         pd_ops (ly_doc (ensureSpace lib h s1)) @
         line_ops (if break then pd_page (ly_doc s) + 1 else pd_page (ly_doc s)) lns
           (marginLeft + indent) (if break then marginTop else cursorY s) \<and>
       style_after (pd_ops (ly_doc (ensureSpace lib h s1))) =
         (if break then (''italic'', FOOTER_SIZE, C_medGray) else (''normal'', BODY_SIZE, C_black))"
      unfolding Let_def indent_def [symmetric] h [symmetric] ops
      by (simp add: lns_def [symmetric] ensureSpace_def s1 st1 np footer_style footer_page new_page_simps)
  qed
qed

subsection \<open>The fee model does not fit\<close>

text \<open>\<open>emits q f\<close>: \<open>f\<close> draws \<open>q\<close> on the page it is on.\<close>

definition emits :: "pdf_op \<Rightarrow> (pdf_doc \<Rightarrow> pdf_doc) \<Rightarrow> bool" where
  "emits q f \<longleftrightarrow> (\<forall>d. (pd_page d, q) \<in> set (pd_ops (f d)))"

lemma emits_roundedRect: "emits (OpRoundedRect x y w h rx ry st) (roundedRect x y w h rx ry st)"
  by (simp add: emits_def roundedRect_def put_op_def)

lemma draws_keeps: "only_draws f \<Longrightarrow> x \<in> set (pd_ops d) \<Longrightarrow> x \<in> set (pd_ops (f d))"
  unfolding draws_def by (metis Un_iff set_append)

lemma emits_run_all:
  assumes "emits q f" "list_all only_draws (fs @ f # gs)"
  shows "emits q (run_all (fs @ f # gs))"
  unfolding emits_def
proof
  fix d :: pdf_doc
  let ?d = "run_all fs d"
  have pf: "only_draws (run_all fs)" "only_draws (run_all gs)" using assms(2) by (auto intro: draws_run_all)
  then have "(pd_page d, q) \<in> set (pd_ops (f ?d))"
    using assms(1) only_draws_page unfolding emits_def by metis
  then have "(pd_page d, q) \<in> set (pd_ops (run_all gs (f ?d)))" by (rule draws_keeps [OF pf(2)])
  then show "(pd_page d, q) \<in> set (pd_ops (run_all (fs @ f # gs) d))" by (simp add: run_all_def)
qed

lemma emits_member:
  assumes "f \<in> set fs" "emits q f" "list_all only_draws fs"
  shows "emits q (run_all fs)"
  using assms emits_run_all by (metis split_list)

definition fee_box :: "rat \<Rightarrow> rat \<Rightarrow> rat \<Rightarrow> pdf_op" where
  "fee_box x y w = OpRoundedRect (x + 2 * ((w - 40) / 3 + 20)) (y + 220) ((w - 40) / 3) 58 4 4 ''FD''"

lemma fee_model_draws: "only_draws (draw_fee_model lib x y w)"
  by (simp add: draw_fee_model_def arrowFromTop_def Let_def draw_rules)

lemma fee_model_emits: "emits (fee_box x y w) (draw_fee_model lib x y w)"
proof -
  have "emits (OpRoundedRect (x + 2 * ((w - 40) / 3 + 20)) (y + 10 + 32 + 30 + 52 + 28 + 44 + 24)
      ((w - 40) / 3) 58 4 4 ''FD'') (draw_fee_model lib x y w)"
    unfolding draw_fee_model_def Let_def
    by (rule emits_member [OF _ emits_roundedRect]) (simp_all add: arrowFromTop_def Let_def draw_rules)
  then show ?thesis by (simp add: fee_box_def add.assoc)
qed

lemma fee_model_too_tall: "\<not> fits w feeModel"
proof
  fix lib :: pdf_lib
  assume "fits w feeModel"
  then have "draws (op_inside 0 0 w 260) (draw_fee_model lib 0 0 w)"
    by (simp add: fits_def feeModel_def)
  then obtain qs where "pd_ops (draw_fee_model lib 0 0 w new_doc) = pd_ops new_doc @ map (Pair (pd_page new_doc)) qs"
      "list_all (op_inside 0 0 w 260) qs"
    unfolding draws_def by blast
  moreover have "(pd_page new_doc, fee_box 0 0 w) \<in> set (pd_ops (draw_fee_model lib 0 0 w new_doc))"
    using fee_model_emits [of 0 0 w lib] unfolding emits_def by blast
  ultimately have "op_inside 0 0 w 260 (fee_box 0 0 w)" by (auto simp: list_all_iff new_doc_def)
  then show False by (simp add: fee_box_def)
qed

definition small_figures :: "Figure list" where
  "small_figures = [architectureDiagram, bmmFlow, consensusLayers, gasFlow, icmBridge,
     permissionlessRoadmap, roleSeparation, validatorEconomics]"

lemma fits_small: "320 \<le> w \<Longrightarrow> list_all (fits w) small_figures"
  by (simp add: small_figures_def fits_architecture fits_bmm fits_consensus fits_gas fits_icm fits_roadmap
      fits_roles fits_economics)

lemma caption_op:
  assumes "splitTextToSize lib ''italic'' (BODY_SIZE - 1) c contentWidth = l # ls" "c \<noteq> []"
  shows "(pd_page (ly_doc s), OpText l marginLeft (cursorY s)) \<in> set (pd_ops (ly_doc (draw_caption lib c s)))"
proof -
  define d where "d = run_all [setFont ''NotoSans'' ''italic'', setFontSize (BODY_SIZE - 1),
    setTextColor C_medGray] (ly_doc s)"
  have d: "pd_page d = pd_page (ly_doc s)" unfolding d_def by (rule only_draws_page) (simp add: draw_rules)
  have "(pd_page d, OpText l marginLeft (cursorY s)) \<in> set (pd_ops (text_at l marginLeft (cursorY s) d))"
    by (simp add: text_at_def put_op_def)
  then have "(pd_page d, OpText l marginLeft (cursorY s)) \<in>
      set (pd_ops (text_lines (l # ls) marginLeft (cursorY s) d))"
    using draws_keeps [OF draws_text_lines [of "\<lambda>_. True"]] by simp
  then show ?thesis using assms
    by (simp add: draw_caption_def Let_def move_cursor_def with_doc_def d_def [symmetric] d)
qed

lemma caption_keeps:
  assumes "x \<in> set (pd_ops (ly_doc s))"
  shows "x \<in> set (pd_ops (ly_doc (draw_caption lib c s)))"
proof -
  have "only_draws (run_all [setFont ''NotoSans'' ''italic'', setFontSize (BODY_SIZE - 1),
      setTextColor C_medGray])" by (simp add: draw_rules)
  from draws_keeps [OF this assms] show ?thesis
    using assms draws_keeps [OF draws_text_lines [of "\<lambda>_. True", OF TrueI]]
    by (simp add: draw_caption_def Let_def move_cursor_def with_doc_def)
qed

text \<open>
  C40. Eight of the nine figures keep to the height they reserve (and to the width they are given),
  so nothing they draw meets the text around them. The fee model does not: it reserves 260 points
  but draws down to 278, and where the figure stands the first line of its caption is printed 10
  points above the lower edge of its last box.
\<close>

theorem figures_in_reserved_space:
  assumes "320 \<le> w" "cursorY s + 276 \<le> pageHeight - marginBottom"
    and "splitTextToSize lib ''italic'' (BODY_SIZE - 1) (fig_caption feeModel) contentWidth = l # ls"
  shows "list_all (fits w) small_figures \<and> \<not> fits w feeModel \<and>
    (let page = pd_page (ly_doc s); ops = set (pd_ops (ly_doc (draw_figure lib feeModel s)))
     in (page, fee_box marginLeft (cursorY s) contentWidth) \<in> ops \<and>
        (page, OpText l marginLeft (cursorY s + 220 + 58 - 10)) \<in> ops)"
proof -
  let ?s2 = "with_doc (draw_fee_model lib marginLeft (cursorY s) contentWidth) s"
  let ?s3 = "move_cursor (260 + BODY_LINE_HEIGHT * (1 / 2)) ?s2"
  have fig: "draw_figure lib feeModel s = draw_caption lib (fig_caption feeModel) ?s3"
    using assms(2) by (simp add: draw_figure_def Let_def ensureSpace_def feeModel_def layout_consts)
  have page: "pd_page (ly_doc ?s3) = pd_page (ly_doc s)"
    by (simp add: move_cursor_def with_doc_def only_draws_page fee_model_draws)
  have cur: "cursorY ?s3 = cursorY s + 220 + 58 - 10" by (simp add: move_cursor_def with_doc_def layout_consts)
  have box: "(pd_page (ly_doc s), fee_box marginLeft (cursorY s) contentWidth) \<in> set (pd_ops (ly_doc ?s3))"
    using fee_model_emits unfolding emits_def by (simp add: move_cursor_def with_doc_def)
  have "fig_caption feeModel \<noteq> []" by (simp add: feeModel_def)
  from caption_op [OF assms(3) this, of ?s3]
  have "(pd_page (ly_doc s), OpText l marginLeft (cursorY s + 220 + 58 - 10)) \<in>
      set (pd_ops (ly_doc (draw_figure lib feeModel s)))"
    unfolding page cur fig .
  moreover from caption_keeps [OF box] have "(pd_page (ly_doc s), fee_box marginLeft (cursorY s) contentWidth) \<in>
      set (pd_ops (ly_doc (draw_figure lib feeModel s)))"
    unfolding fig .
  ultimately show ?thesis
    using fits_small [OF assms(1)] fee_model_too_tall by (simp only: Let_def simp_thms)
qed

definition toy_pdf :: pdf_lib where
  "toy_pdf = \<lparr>getTextWidth = (\<lambda>st sz t. 5 * of_nat (length t)), splitTextToSize = (\<lambda>st sz t w. [t])\<rparr>"

definition toy_layout :: layout where
  "toy_layout = \<lparr>ly_doc = new_doc, cursorY = 60, pageNum = 1, footers = []\<rparr>"

theorem figures_in_reserved_space_witness:
  "list_all (fits 492) small_figures \<and> \<not> fits 492 feeModel \<and>
    (1, fee_box 60 60 492) \<in> set (pd_ops (ly_doc (draw_figure toy_pdf feeModel toy_layout))) \<and>
    (1, OpText (fig_caption feeModel) 60 328) \<in> set (pd_ops (ly_doc (draw_figure toy_pdf feeModel toy_layout)))"
proof -
  have "(320 :: rat) \<le> 492" "cursorY toy_layout + 276 \<le> pageHeight - marginBottom"
    "splitTextToSize toy_pdf ''italic'' (BODY_SIZE - 1) (fig_caption feeModel) contentWidth =
      [fig_caption feeModel]"
    by (simp_all add: toy_layout_def toy_pdf_def layout_consts)
  from figures_in_reserved_space [OF this] show ?thesis
    by (simp add: Let_def toy_layout_def new_doc_def layout_consts)
qed

subsection \<open>The whitepaper as it is\<close>

lemma fits_draws: "fits contentWidth f \<Longrightarrow> only_draws (fig_draw f lib x y contentWidth)"
  unfolding fits_def by (blast intro: draws_mono)

lemma all_figures_draw:
  "f \<in> set (feeModel # small_figures) \<Longrightarrow> only_draws (fig_draw f lib x y contentWidth)"
proof -
  assume f: "f \<in> set (feeModel # small_figures)"
  have "list_all (fits contentWidth) small_figures" by (rule fits_small) (simp add: layout_consts)
  moreover have "fig_draw feeModel = draw_fee_model" by (simp add: feeModel_def)
  ultimately show ?thesis using f by (auto simp: list_all_iff fee_model_draws intro: fits_draws)
qed

definition known_figure :: "wp_block \<Rightarrow> bool" where
  "known_figure b \<longleftrightarrow> (case b of Para t \<Rightarrow> True | Fig f \<Rightarrow> f \<in> set (feeModel # small_figures))"

lemma known_draws: "known_figure b \<Longrightarrow> block_draws lib b"
  using all_figures_draw by (auto simp: known_figure_def block_draws_def)

lemma known_simps: "known_figure (Para t)"
  "known_figure (Fig architectureDiagram)" "known_figure (Fig bmmFlow)"
  "known_figure (Fig consensusLayers)" "known_figure (Fig gasFlow)" "known_figure (Fig icmBridge)"
  "known_figure (Fig permissionlessRoadmap)" "known_figure (Fig roleSeparation)"
  "known_figure (Fig validatorEconomics)" "known_figure (Fig feeModel)"
  by (simp_all add: known_figure_def small_figures_def)

lemmas section_defs = section_tl_dr_def section_introduction_def
  section_architecture_overview_def section_blind_merged_mining_def section_ecx_as_native_gas_def
  section_usdc_bridge_via_interchain_messaging_def section_nod_runr_validator_management_def
  section_consensus_security_model_def section_validator_economics_def
  section_comparison_with_alternatives_def section_risks_mitigations_def section_roadmap_def
  section_conclusion_def section_references_def section_legal_disclaimer_def

lemma whitepaper_known: "list_all (\<lambda>sec. list_all known_figure (ws_body sec)) whitepaper_sections"
  by (simp only: whitepaper_sections_def list.pred_inject section_defs WhitepaperSection.simps known_simps simp_thms)

lemma whitepaper_figures_draw: "figures_only_draw lib WHITEPAPER"
  using whitepaper_known by (auto simp: figures_only_draw_def WHITEPAPER_def list_all_iff intro: known_draws)


end
