(* ===== verification/Bridge_Widget.thy ===== *)
theory Bridge_Widget
  imports Desktop_Tabs
begin

text \<open>
  \<open>packages/bridge/src/components/BridgeWidget.astro\<close>: the script of the web bridge. Its variables
  and the parts of the document it reads and writes are the record \<open>widget\<close>, its event listeners are
  operations on it. The wallet (\<open>window.ethereum\<close>, which may be missing) and \<open>fetch\<close> are parameters that
  answer given what was asked before; \<open>eth_log\<close> and \<open>api_log\<close> record what was asked. A listener runs to
  its end before the next event. Class names that only colour the page are left out. Of the scanner's
  library an event says what it delivers and whether it stopped. A field may hold any text (the browser keeps an amount to
  numerals).
\<close>

definition check_mark :: string where
  "check_mark = [char_of (226 :: nat), char_of (156 :: nat), char_of (147 :: nat)]"

subsection \<open>Wallet and server\<close>

datatype eth_request =
    EthRequestAccounts
  | EthChainId
  | EthSwitchChain string
  | EthAddChain string string string string
  | EthGetBalance string
  | EthSendTransaction string string string string

datatype eth_reply = EthOk json | EthErr "int option" string

type_synonym api_call = "string \<times> string \<times> json option"

record widget_env =
  ethereum :: "((eth_request \<times> eth_reply) list \<Rightarrow> eth_request \<Rightarrow> eth_reply) option"
  fetch_json :: "api_call list \<Rightarrow> api_call \<Rightarrow> error + json"

subsection \<open>State\<close>

text \<open>The input fields; \<open>scan_target\<close> is the field the open scanner fills.\<close>

datatype widget_field = FDepositDest | FSnowside | FDest | FAmount | FBurnTx | FHistory

record widget =
  currentNetwork :: string
  depositPollId :: "string option"
  bw_address :: "string option"
  bw_chain :: "json option"
  deposit_dest :: string
  withdraw_snowside :: string
  withdraw_dest :: string
  withdraw_amount :: string
  withdraw_burn_tx :: string
  history_address :: string
  history_list :: "string list"
  wallet_text :: "string option"
  balance_text :: string
  fed_text :: string
  withdraw_tab :: bool
  deposit_loading :: "string option"
  deposit_addr :: "string option"
  deposit_status :: "string option"
  deposit_tx_info :: string
  withdraw_result :: "string option"
  burn_ecx :: "bool \<times> string"
  scan_target :: "widget_field option"
  alerts :: "string list"
  eth_log :: "(eth_request \<times> eth_reply) list"
  api_log :: "api_call list"

definition API_BASE :: string where
  "API_BASE = ''https://snowside.network/v1''"

record network_config =
  nc_chainId :: string
  nc_rpc :: string
  nc_explorer :: string

definition NETWORK_CONFIG :: "string \<Rightarrow> network_config option" where
  "NETWORK_CONFIG network =
     (if network = ''mainnet'' then
        Some \<lparr>nc_chainId = ''0x8088'', nc_rpc = ''https://rpc.snowside.network/mainnet'',
              nc_explorer = ''https://explorer.snowside.network''\<rparr>
      else if network = ''testnet'' then
        Some \<lparr>nc_chainId = ''0x8188'', nc_rpc = ''https://rpc.snowside.network/testnet'',
              nc_explorer = ''https://explorer.snowside.network''\<rparr>
      else if network = ''signet'' then
        Some \<lparr>nc_chainId = ''0x8288'', nc_rpc = ''https://rpc.snowside.network/signet'',
              nc_explorer = ''https://explorer.snowside.network''\<rparr>
      else None)"

definition open_widget :: "string \<Rightarrow> widget" where
  "open_widget network =
     \<lparr>currentNetwork = (if network = [] then ''mainnet'' else network), depositPollId = None,
      bw_address = None, bw_chain = None, deposit_dest = [], withdraw_snowside = [],
      withdraw_dest = [], withdraw_amount = [], withdraw_burn_tx = [], history_address = [],
      history_list = [], wallet_text = None, balance_text = [],
      fed_text = ''Checking federation status...'', withdraw_tab = False, deposit_loading = None,
      deposit_addr = None, deposit_status = None, deposit_tx_info = [], withdraw_result = None,
      burn_ecx = (True, ''Burn ECX''), scan_target = None, alerts = [], eth_log = [],
      api_log = []\<rparr>"

definition alert :: "string \<Rightarrow> widget \<Rightarrow> widget" where
  "alert msg s = s\<lparr>alerts := alerts s @ [msg]\<rparr>"

text \<open>\<open>window.ethereum.request\<close>; the code reads \<open>code\<close> and \<open>message\<close> of a rejection.\<close>

definition eth_call :: "widget_env \<Rightarrow> eth_request \<Rightarrow> widget \<Rightarrow> eth_reply \<times> widget" where
  "eth_call env q s =
     (case ethereum env of
        None \<Rightarrow> (EthErr None ''TypeError'', s)
      | Some eth \<Rightarrow> (let r = eth (eth_log s) q in (r, s\<lparr>eth_log := eth_log s @ [(q, r)]\<rparr>)))"

definition eth_ask :: "widget_env \<Rightarrow> eth_request \<Rightarrow> (widget, json) comp" where
  "eth_ask env q s =
     (case eth_call env q s of
        (EthOk j, s1) \<Rightarrow> (Inr j, s1) | (EthErr code msg, s1) \<Rightarrow> (Inl msg, s1))"

text \<open>The status of a response is not looked at.\<close>

definition api :: "widget_env \<Rightarrow> string \<Rightarrow> string \<Rightarrow> json option \<Rightarrow> (widget, json) comp" where
  "api env method path body s =
     (let call = (method, API_BASE @ path, body)
      in (fetch_json env (api_log s) call, s\<lparr>api_log := api_log s @ [call]\<rparr>))"

subsection \<open>Wallet connection\<close>

definition short_address :: "string \<Rightarrow> string" where
  "short_address a = take 6 a @ ''...'' @ slice_last 4 a"

definition updateWalletUI :: "widget \<Rightarrow> widget" where
  "updateWalletUI s =
     s\<lparr>wallet_text := (if truthy_str (bw_address s) then Some (short_address (the (bw_address s))) else None)\<rparr>"

definition autoFillAddresses :: "widget \<Rightarrow> widget" where
  "autoFillAddresses s =
     (if truthy_str (bw_address s)
      then let a = the (bw_address s)
           in s\<lparr>deposit_dest := a, withdraw_snowside := a, history_address := a\<rparr>
      else s)"

definition switchNetwork :: "widget_env \<Rightarrow> string \<Rightarrow> widget \<Rightarrow> widget" where
  "switchNetwork env network s =
     (case NETWORK_CONFIG network of
        None \<Rightarrow> s
      | Some config \<Rightarrow>
          if ethereum env = None then s
          else (case eth_call env (EthSwitchChain (nc_chainId config)) s of
                  (EthOk j, s1) \<Rightarrow> s1\<lparr>bw_chain := Some (JsStr (nc_chainId config))\<rparr>
                | (EthErr code msg, s1) \<Rightarrow>
                    if code = Some 4902 then
                      (case eth_call env (EthAddChain (nc_chainId config) (''Snowside '' @ network)
                               (nc_rpc config) (nc_explorer config)) s1 of
                         (EthOk j, s2) \<Rightarrow> s2\<lparr>bw_chain := Some (JsStr (nc_chainId config))\<rparr>
                       | (EthErr code2 msg2, s2) \<Rightarrow> s2)
                    else s1))"

definition updateBalance :: "widget_env \<Rightarrow> widget \<Rightarrow> widget" where
  "updateBalance env s =
     (if \<not> truthy_str (bw_address s) \<or> ethereum env = None then s
      else case bindE (eth_ask env (EthGetBalance (the (bw_address s))))
                  (\<lambda>balance. liftE (bigint_of_json (Some balance))) s of
             (Inr wei, s1) \<Rightarrow>
               s1\<lparr>balance_text := js_to_fixed 4 (js_div (num_of_bigint wei) (JInt (10 ^ 18))) @ '' ECX''\<rparr>
           | (Inl e, s1) \<Rightarrow> s1\<lparr>balance_text := ''Balance: N/A''\<rparr>)"

subsection \<open>History\<close>

definition deposit_row_html :: "json \<Rightarrow> string" where
  "deposit_row_html d =
     ''<span class=\"text-snow-400\">Deposit '' @
     (if truthy_json (field d ''amount_sats'')
      then js_to_fixed 2 (js_div (num_of_json (the (field d ''amount_sats''))) (JInt 100)) @ '' ECX''
      else dash) @
     ''</span><span class=\"font-mono '' @
     (if field d ''status'' = Some (JsStr ''minted'') then ''text-green-400'' else ''text-snow-400'') @
     ''\">'' @ js_string_opt (field d ''status'') @ ''</span>''"

definition withdraw_row_html :: "json \<Rightarrow> string" where
  "withdraw_row_html w =
     ''<span class=\"text-snow-400\">Withdraw '' @
     (if truthy_json (field w ''amount_ecx'')
      then js_string (the (field w ''amount_ecx'')) @ '' ECX'' else dash) @
     ''</span><span class=\"font-mono '' @
     (if field w ''status'' = Some (JsStr ''completed'') then ''text-green-400'' else ''text-snow-400'') @
     ''\">'' @ js_string_opt (field w ''status'') @ ''</span>''"

definition history_error :: "string list" where
  "history_error = [''<p class=\"text-xs text-red-400\">Error loading history</p>'']"

text \<open>What \<open>for ... of\<close> runs over; other values throw.\<close>

fun js_iterate :: "json \<Rightarrow> json list option" where
  "js_iterate (JsArr xs) = Some xs"
| "js_iterate (JsStr t) = Some (map (\<lambda>c. JsStr [c]) t)"
| "js_iterate _ = None"

text \<open>The markup put into the list; a row that is \<open>null\<close> makes its loop throw.\<close>

definition history_rows :: "json \<Rightarrow> json \<Rightarrow> string list" where
  "history_rows deposits withdrawals =
     (case (js_iterate deposits, js_iterate withdrawals) of
        (Some ds, Some ws) \<Rightarrow>
          if ds = [] \<and> ws = []
          then [''<p class=\"text-xs text-snow-500\">No transactions found</p>'']
          else if JsNull \<in> set (ds @ ws) then history_error
          else map deposit_row_html ds @ map withdraw_row_html ws
      | _ \<Rightarrow> history_error)"

text \<open>\<open>Promise.all\<close>: both requests are made, whatever becomes of the first.\<close>

definition history_input :: "widget_env \<Rightarrow> widget \<Rightarrow> widget" where
  "history_input env s =
     (let addr = trim (history_address s)
      in if length addr < 10 then s
         else case api env ''GET'' (''/bridge/deposits/'' @ addr) None s of
                (deposits, s1) \<Rightarrow>
                  (case api env ''GET'' (''/bridge/withdrawals/'' @ addr) None s1 of
                     (withdrawals, s2) \<Rightarrow>
                       s2\<lparr>history_list :=
                         (case (deposits, withdrawals) of
                            (Inr ds, Inr ws) \<Rightarrow> history_rows ds ws
                          | _ \<Rightarrow> history_error)\<rparr>))"

definition loadHistory :: "widget_env \<Rightarrow> string option \<Rightarrow> widget \<Rightarrow> widget" where
  "loadHistory env addr s =
     history_input env (s\<lparr>history_address := (case addr of None \<Rightarrow> ''undefined'' | Some a \<Rightarrow> a)\<rparr>)"

definition first_account :: "json \<Rightarrow> error + string option" where
  "first_account accounts =
     (case accounts of
        JsNull \<Rightarrow> Inl ''TypeError''
      | JsArr (a # as) \<Rightarrow> Inr (if a = JsNull then None else Some (js_string a))
      | JsStr (c # cs) \<Rightarrow> Inr (Some [c])
      | _ \<Rightarrow> Inr None)"

definition connectWallet :: "widget_env \<Rightarrow> widget \<Rightarrow> widget" where
  "connectWallet env s =
     (if ethereum env = None then alert ''No wallet found. Please install Rabby wallet from rabby.io'' s
      else case bindE (eth_ask env EthRequestAccounts) (\<lambda>accounts.
                bindE (liftE (first_account accounts)) (\<lambda>a.
                seqE (modS (\<lambda>s. s\<lparr>bw_address := a\<rparr>))
                (bindE (eth_ask env EthChainId) (\<lambda>cid.
                   ret (a, cid))))) s of
             (Inr (a, cid), s1) \<Rightarrow>
               loadHistory env (bw_address s1)
                 (updateBalance env (switchNetwork env (currentNetwork s1)
                    (autoFillAddresses (updateWalletUI (s1\<lparr>bw_chain := Some cid\<rparr>)))))
           | (Inl e, s1) \<Rightarrow> alert (''Failed to connect wallet: '' @ e) s1)"

definition disconnectWallet :: "widget \<Rightarrow> widget" where
  "disconnectWallet s =
     s\<lparr>bw_address := None, bw_chain := None, wallet_text := None, deposit_dest := [],
       withdraw_snowside := [], history_address := [], history_list := []\<rparr>"

definition accounts_changed :: "widget_env \<Rightarrow> string list \<Rightarrow> widget \<Rightarrow> widget" where
  "accounts_changed env accounts s =
     (case accounts of
        [] \<Rightarrow> disconnectWallet s
      | a # as \<Rightarrow> updateBalance env (autoFillAddresses (updateWalletUI (s\<lparr>bw_address := Some a\<rparr>))))"

subsection \<open>Federation status and deposits\<close>

definition checkFedStatus :: "widget_env \<Rightarrow> widget \<Rightarrow> widget" where
  "checkFedStatus env s =
     (case api env ''GET'' ''/bridge/status'' None s of
        (Inr data, s1) \<Rightarrow>
          if data = JsNull then s1\<lparr>fed_text := ''Federation: Unable to check''\<rparr>
          else if truthy_json (field data ''federation_online'')
          then s1\<lparr>fed_text := ''Federation: Online''\<rparr> else s1\<lparr>fed_text := ''Federation: Offline''\<rparr>
      | (Inl e, s1) \<Rightarrow> s1\<lparr>fed_text := ''Federation: Unable to check''\<rparr>)"

definition pollDeposit :: "string \<Rightarrow> widget \<Rightarrow> widget" where
  "pollDeposit depositId s = s\<lparr>depositPollId := Some depositId\<rparr>"

definition deposit_body :: "widget \<Rightarrow> json" where
  "deposit_body s =
     JsObj [(''snowsideAddress'', JsStr (trim (deposit_dest s))), (''network'', JsStr (currentNetwork s))]"

text \<open>The panel opens with the loading text; a code already shown is hidden.\<close>

definition generate_deposit :: "widget_env \<Rightarrow> widget \<Rightarrow> widget" where
  "generate_deposit env s =
     (if trim (deposit_dest s) = [] then alert ''Enter a Snowside address'' s
      else let s0 = s\<lparr>deposit_loading := Some ''Generating deposit address...'', deposit_addr := None\<rparr>
           in case api env ''POST'' ''/bridge/deposit'' (Some (deposit_body s)) s0 of
                (Inr data, s1) \<Rightarrow>
                  if data = JsNull then s1\<lparr>deposit_loading := Some ''Error: TypeError''\<rparr>
                  else if truthy_json (field data ''id'')
                  then pollDeposit (js_string (the (field data ''id'')))
                         (s1\<lparr>deposit_loading := Some ''Waiting for federation to assign address...''\<rparr>)
                  else s1
              | (Inl e, s1) \<Rightarrow> s1\<lparr>deposit_loading := Some (''Error: '' @ e)\<rparr>)"

definition to_upper_char :: "char \<Rightarrow> char" where
  "to_upper_char c =
     (let n = of_char c :: nat in if 97 \<le> n \<and> n \<le> 122 then char_of (n - 32) else c)"

definition status_badge :: "string \<Rightarrow> string" where
  "status_badge status = ''Status: '' @ map to_upper_char status"

definition show_address :: "json \<Rightarrow> widget \<Rightarrow> widget" where
  "show_address data s =
     (if truthy_json (field data ''ecash_address'')
      then s\<lparr>deposit_loading := None, deposit_addr := Some (js_string (the (field data ''ecash_address'')))\<rparr>
      else s)"

definition show_transactions :: "json \<Rightarrow> widget \<Rightarrow> widget" where
  "show_transactions data s =
     (let s1 = (if truthy_json (field data ''ecash_tx_hash'')
                then s\<lparr>deposit_tx_info := ''eCash TX: '' @ js_string (the (field data ''ecash_tx_hash''))\<rparr>
                else s)
      in if truthy_json (field data ''mint_tx_hash'')
         then s1\<lparr>deposit_tx_info := deposit_tx_info s1 @ nl @ ''Mint TX: '' @
                   js_string (the (field data ''mint_tx_hash''))\<rparr>
         else s1)"

text \<open>A status that is no string has no \<open>toUpperCase\<close>, which ends the poll.\<close>

definition show_status :: "json \<Rightarrow> widget \<Rightarrow> widget" where
  "show_status data s =
     (case field data ''status'' of
        Some (JsStr status) \<Rightarrow>
          if status = [] \<or> status = ''pending'' then s
          else let s1 = show_transactions data (s\<lparr>deposit_status := Some (status_badge status)\<rparr>)
               in if status = ''minted'' then s1\<lparr>depositPollId := None\<rparr> else s1
      | _ \<Rightarrow> s)"

definition poll_tick :: "widget_env \<Rightarrow> widget \<Rightarrow> widget" where
  "poll_tick env s =
     (case depositPollId s of
        None \<Rightarrow> s
      | Some depositId \<Rightarrow>
          (case api env ''GET'' (''/bridge/deposit/'' @ depositId) None s of
             (Inr data, s1) \<Rightarrow> if data = JsNull then s1 else show_status data (show_address data s1)
           | (Inl e, s1) \<Rightarrow> s1))"

subsection \<open>Burn and withdrawal\<close>

definition ZERO_ADDRESS :: string where
  "ZERO_ADDRESS = ''0x0000000000000000000000000000000000000000''"

definition burn_wei :: "string \<Rightarrow> error + int" where
  "burn_wei amountXec = bigint_of_num (js_floor (js_mul (num_of_string amountXec) (JInt (10 ^ 18))))"

text \<open>\<open>throw new Error(err.message || 'Failed to burn ECX')\<close>.\<close>

definition burnECX :: "widget_env \<Rightarrow> string \<Rightarrow> (widget, string) comp" where
  "burnECX env amountXec = bindE getS (\<lambda>s.
     if \<not> truthy_str (bw_address s) \<or> ethereum env = None then throw ''No wallet connected''
     else seqE (modS (\<lambda>s. s\<lparr>withdraw_result := Some ''Burning ECX...''\<rparr>))
       (catchE
          (bindE (liftE (burn_wei amountXec)) (\<lambda>amountWei.
           bindE (eth_ask env (EthSendTransaction (the (bw_address s)) ZERO_ADDRESS
                    (show_bigint 16 amountWei) ''0x5208'')) (\<lambda>txHash.
           seqE (modS (\<lambda>s. s\<lparr>withdraw_result := Some (''Burned ECX '' @ check_mark),
                              withdraw_burn_tx := js_string txHash\<rparr>))
             (ret (js_string txHash)))))
          (\<lambda>err. throw (if err = [] then ''Failed to burn ECX'' else err))))"

definition is_finite_num :: "jnum \<Rightarrow> bool" where
  "is_finite_num x = (case x of JFin q \<Rightarrow> True | _ \<Rightarrow> False)"

definition burn_clicked :: "widget_env \<Rightarrow> widget \<Rightarrow> widget" where
  "burn_clicked env s =
     (let amount = withdraw_amount s
      in if \<not> fst (burn_ecx s) then s
         else if \<not> truthy_str (bw_address s) \<or> ethereum env = None
         then alert ''Connect wallet first to burn ECX'' s
         else if amount = [] \<or> \<not> is_finite_num (num_of_string amount) \<or>
                 js_le (num_of_string amount) (JInt 0)
         then alert ''Enter a valid ECX amount'' s
         else (case burnECX env amount (s\<lparr>withdraw_result := Some ''Sending transaction...''\<rparr>) of
                 (Inr h, s1) \<Rightarrow> s1
               | (Inl e, s1) \<Rightarrow> s1\<lparr>withdraw_result := Some (''Failed: '' @ e)\<rparr>))"

definition withdraw_body :: "widget \<Rightarrow> json" where
  "withdraw_body s =
     JsObj ([(''snowsideAddress'', JsStr (trim (withdraw_snowside s))),
             (''ecashAddress'', JsStr (trim (withdraw_dest s))),
             (''amountEcx'', JsStr (withdraw_amount s)), (''network'', JsStr (currentNetwork s))] @
            (if trim (withdraw_burn_tx s) = [] then []
             else [(''burnTxHash'', JsStr (trim (withdraw_burn_tx s)))]))"

definition submitted_text :: "json \<Rightarrow> string" where
  "submitted_text data =
     ''Withdrawal submitted! ID: '' @ js_string_opt (field data ''id'') @ ''. Status: '' @
     js_string_opt (field data ''status'') @
     ''. The federation will process your withdrawal after verification.''"

definition submit_withdrawal :: "widget_env \<Rightarrow> widget \<Rightarrow> widget" where
  "submit_withdrawal env s =
     (case api env ''POST'' ''/bridge/withdraw'' (Some (withdraw_body s))
             (s\<lparr>withdraw_result := Some ''Submitting...''\<rparr>) of
        (Inr data, s1) \<Rightarrow>
          if data = JsNull then s1\<lparr>withdraw_result := Some ''Error: TypeError''\<rparr>
          else if truthy_json (field data ''id'') then s1\<lparr>withdraw_result := Some (submitted_text data)\<rparr>
          else s1
      | (Inl e, s1) \<Rightarrow> s1\<lparr>withdraw_result := Some (''Error: '' @ e)\<rparr>)"

definition initiate_withdraw :: "widget_env \<Rightarrow> widget \<Rightarrow> widget" where
  "initiate_withdraw env s =
     (if trim (withdraw_snowside s) = [] \<or> trim (withdraw_dest s) = [] \<or> withdraw_amount s = []
      then alert ''Fill in all required fields'' s
      else if trim (withdraw_burn_tx s) = [] \<and> truthy_str (bw_address s) then
        (case burnECX env (withdraw_amount s)
                (s\<lparr>withdraw_result := Some ''Burning ECX...'', burn_ecx := (False, ''Burning...'')\<rparr>) of
           (Inl e, s1) \<Rightarrow>
             s1\<lparr>burn_ecx := (True, ''Burn ECX''), withdraw_result := Some (''Burn failed: '' @ e)\<rparr>
         | (Inr h, s1) \<Rightarrow>
             s1\<lparr>withdraw_result := Some ''Withdrawal submitted!'', burn_ecx := (True, ''Burn ECX'')\<rparr>)
      else submit_withdrawal env s)"

subsection \<open>Events\<close>

datatype widget_event =
    Connect
  | Disconnect
  | AccountsChanged "string list"
  | ChainChanged
  | SelectNetwork string
  | ShowDepositTab
  | ShowWithdrawTab
  | TypeField widget_field string
  | ClickScan bool
  | CloseScanner bool
  | Scanned bool string
  | GenerateDeposit
  | PollTick
  | FedTick
  | ClickBurn
  | ClickInitiate

fun set_field :: "widget_field \<Rightarrow> string \<Rightarrow> widget \<Rightarrow> widget" where
  "set_field FDepositDest x s = s\<lparr>deposit_dest := x\<rparr>"
| "set_field FSnowside x s = s\<lparr>withdraw_snowside := x\<rparr>"
| "set_field FDest x s = s\<lparr>withdraw_dest := x\<rparr>"
| "set_field FAmount x s = s\<lparr>withdraw_amount := x\<rparr>"
| "set_field FBurnTx x s = s\<lparr>withdraw_burn_tx := x\<rparr>"
| "set_field FHistory x s = s\<lparr>history_address := x\<rparr>"

text \<open>
  The buttons scan for the destination of the withdrawal or of the deposit. A scanner that cannot be
  stopped leaves its window open.
\<close>

definition startScanner :: "bool \<Rightarrow> widget \<Rightarrow> widget" where
  "startScanner withdraw s = s\<lparr>scan_target := Some (if withdraw then FDest else FDepositDest)\<rparr>"

definition stopScanner :: "bool \<Rightarrow> widget \<Rightarrow> widget" where
  "stopScanner stopped s = (if stopped then s\<lparr>scan_target := None\<rparr> else s)"

definition scanned :: "bool \<Rightarrow> string \<Rightarrow> widget \<Rightarrow> widget" where
  "scanned stopped x s =
     (case scan_target s of
        None \<Rightarrow> s
      | Some f \<Rightarrow> stopScanner stopped (set_field f x s))"

fun widget_step :: "widget_env \<Rightarrow> widget_event \<Rightarrow> widget \<Rightarrow> widget" where
  "widget_step env Connect s = connectWallet env s"
| "widget_step env Disconnect s = disconnectWallet s"
| "widget_step env (AccountsChanged accounts) s =
     (if ethereum env = None then s else accounts_changed env accounts s)"
| "widget_step env ChainChanged s = (if ethereum env = None then s else updateBalance env s)"
| "widget_step env (SelectNetwork network) s =
     (let s1 = s\<lparr>currentNetwork := network\<rparr>
      in if truthy_str (bw_address s) then updateBalance env (switchNetwork env network s1) else s1)"
| "widget_step env ShowDepositTab s = s\<lparr>withdraw_tab := False\<rparr>"
| "widget_step env ShowWithdrawTab s = s\<lparr>withdraw_tab := True\<rparr>"
| "widget_step env (TypeField f x) s =
     (if f = FHistory then history_input env (set_field f x s) else set_field f x s)"
| "widget_step env (ClickScan withdraw) s = startScanner withdraw s"
| "widget_step env (CloseScanner stopped) s = stopScanner stopped s"
| "widget_step env (Scanned stopped x) s = scanned stopped x s"
| "widget_step env GenerateDeposit s = generate_deposit env s"
| "widget_step env PollTick s = poll_tick env s"
| "widget_step env FedTick s = checkFedStatus env s"
| "widget_step env ClickBurn s = burn_clicked env s"
| "widget_step env ClickInitiate s = initiate_withdraw env s"

inductive widget_reachable :: "widget_env \<Rightarrow> string \<Rightarrow> widget \<Rightarrow> bool"
  for env network where
  widget_start: "widget_reachable env network (checkFedStatus env (open_widget network))"
| widget_event: "widget_reachable env network s \<Longrightarrow> widget_reachable env network (widget_step env e s)"

subsection \<open>What the wallet is asked for\<close>

text \<open>The only transaction is a burn.\<close>

fun burn_only :: "eth_request \<Rightarrow> bool" where
  "burn_only (EthSendTransaction sender to value gas) \<longleftrightarrow>
     sender \<noteq> [] \<and> to = ZERO_ADDRESS \<and> gas = ''0x5208'' \<and> (\<exists>n. value = show_bigint 16 n)"
| "burn_only _ \<longleftrightarrow> True"

definition logs_ok :: "widget \<Rightarrow> bool" where
  "logs_ok s \<longleftrightarrow> list_all burn_only (map fst (eth_log s)) \<and>
     list_all (\<lambda>(method, url, body). starts_with url (API_BASE @ ''/bridge/'')) (api_log s)"

lemma logs_ok_cong: "eth_log s = eth_log t \<Longrightarrow> api_log s = api_log t \<Longrightarrow> logs_ok s = logs_ok t"
  by (simp add: logs_ok_def)

lemma logs_eth_call: "burn_only q \<Longrightarrow> logs_ok s \<Longrightarrow> eth_call env q s = (r, t) \<Longrightarrow> logs_ok t"
  by (auto simp: eth_call_def logs_ok_def Let_def split: option.splits)

lemma logs_eth_ask: "burn_only q \<Longrightarrow> keeps logs_ok (eth_ask env q)"
  unfolding keeps_def eth_ask_def by (auto split: prod.split eth_reply.split dest: logs_eth_call)

lemma logs_api: "starts_with path ''/bridge/'' \<Longrightarrow> keeps logs_ok (api env method path body)"
  by (auto simp: keeps_def api_def logs_ok_def Let_def starts_with_iff)

lemma logs_mod: "(\<And>s. eth_log (f s) = eth_log s) \<Longrightarrow> (\<And>s. api_log (f s) = api_log s) \<Longrightarrow> keeps logs_ok (modS f)"
  by (simp add: keeps_def modS_def logs_ok_def)

lemma logs_update:
  "logs_ok (s\<lparr>bw_chain := x1\<rparr>) = logs_ok s" "logs_ok (s\<lparr>balance_text := x2\<rparr>) = logs_ok s"
  "logs_ok (s\<lparr>history_address := x3\<rparr>) = logs_ok s" "logs_ok (s\<lparr>history_list := x4\<rparr>) = logs_ok s"
  "logs_ok (s\<lparr>withdraw_result := x5\<rparr>) = logs_ok s" "logs_ok (s\<lparr>burn_ecx := x6\<rparr>) = logs_ok s"
  "logs_ok (s\<lparr>alerts := x7\<rparr>) = logs_ok s" "logs_ok (s\<lparr>wallet_text := x8\<rparr>) = logs_ok s"
  "logs_ok (s\<lparr>bw_address := x9\<rparr>) = logs_ok s" "logs_ok (s\<lparr>deposit_loading := x10\<rparr>) = logs_ok s"
  "logs_ok (s\<lparr>deposit_addr := x11\<rparr>) = logs_ok s" "logs_ok (s\<lparr>depositPollId := x12\<rparr>) = logs_ok s"
  "logs_ok (s\<lparr>deposit_tx_info := x13\<rparr>) = logs_ok s" "logs_ok (s\<lparr>deposit_status := x14\<rparr>) = logs_ok s"
  "logs_ok (s\<lparr>fed_text := x15\<rparr>) = logs_ok s" "logs_ok (s\<lparr>currentNetwork := x16\<rparr>) = logs_ok s"
  "logs_ok (s\<lparr>withdraw_tab := x17\<rparr>) = logs_ok s" "logs_ok (s\<lparr>withdraw_dest := x18\<rparr>) = logs_ok s"
  "logs_ok (s\<lparr>deposit_dest := x19\<rparr>) = logs_ok s" "logs_ok (s\<lparr>withdraw_burn_tx := x20\<rparr>) = logs_ok s"
  "logs_ok (s\<lparr>withdraw_snowside := x21\<rparr>) = logs_ok s" "logs_ok (s\<lparr>withdraw_amount := x22\<rparr>) = logs_ok s"
  "logs_ok (s\<lparr>scan_target := x23\<rparr>) = logs_ok s"
  by (simp_all add: logs_ok_def)

lemma logs_switch: "logs_ok s \<Longrightarrow> logs_ok (switchNetwork env n s)"
  unfolding switchNetwork_def
  by (auto simp: logs_update split: option.splits prod.split eth_reply.split
      dest!: logs_eth_call [rotated 2])

lemma keeps_end: "keeps I m \<Longrightarrow> m s = (x, t) \<Longrightarrow> I s \<Longrightarrow> I t"
  using keepsD [of I m s] by simp

lemma logs_balance: "logs_ok s \<Longrightarrow> logs_ok (updateBalance env s)"
proof -
  assume s: "logs_ok s"
  have "keeps logs_ok (bindE (eth_ask env (EthGetBalance a)) (\<lambda>b. liftE (bigint_of_json (Some b))))" for a
    by (intro keeps_bindE keeps_liftE logs_eth_ask) simp
  from keeps_end [OF this _ s] show ?thesis
    by (auto simp: updateBalance_def s logs_update split: prod.split sum.split)
qed

lemma logs_history: "logs_ok s \<Longrightarrow> logs_ok (history_input env s)"
proof -
  assume s: "logs_ok s"
  let ?a = "trim (history_address s)"
  obtain r1 s1 where 1: "api env ''GET'' (''/bridge/deposits/'' @ ?a) None s = (r1, s1)" by fastforce
  obtain r2 s2 where 2: "api env ''GET'' (''/bridge/withdrawals/'' @ ?a) None s1 = (r2, s2)" by fastforce
  have s1: "logs_ok s1" by (rule keeps_end [OF logs_api 1 s]) (simp add: starts_with_def)
  have "logs_ok s2" by (rule keeps_end [OF logs_api 2 s1]) (simp add: starts_with_def)
  then show ?thesis unfolding history_input_def Let_def 1 prod.case 2 by (simp add: logs_update s)
qed

lemma logs_fill: "logs_ok s \<Longrightarrow> logs_ok (autoFillAddresses (updateWalletUI s))"
  by (simp add: autoFillAddresses_def updateWalletUI_def Let_def logs_update)

lemma logs_connect: "logs_ok s \<Longrightarrow> logs_ok (connectWallet env s)"
proof -
  assume s: "logs_ok s"
  have "keeps logs_ok (bindE (eth_ask env EthRequestAccounts) (\<lambda>accounts.
      bindE (liftE (first_account accounts)) (\<lambda>a.
      seqE (modS (\<lambda>s. s\<lparr>bw_address := a\<rparr>))
      (bindE (eth_ask env EthChainId) (\<lambda>cid. ret (a, cid))))))"
    by (intro keeps_bindE keeps_seqE keeps_liftE keeps_ret logs_eth_ask logs_mod) simp_all
  from keeps_end [OF this _ s] show ?thesis
    by (auto simp: connectWallet_def loadHistory_def alert_def s logs_update
        intro!: logs_history logs_balance logs_switch logs_fill split: prod.split sum.split)
qed

lemma logs_burn: "logs_ok s \<Longrightarrow> burnECX env a s = (r, t) \<Longrightarrow> logs_ok t"
proof -
  have "keeps logs_ok (burnECX env a)" unfolding burnECX_def
    by (intro keeps_bindE keeps_seqE keeps_liftE keeps_ret keeps_getS keeps_if keeps_throw keeps_catchE
        logs_eth_ask logs_mod) (auto simp: truthy_str_def split: option.splits)
  then show "logs_ok s \<Longrightarrow> burnECX env a s = (r, t) \<Longrightarrow> logs_ok t"
    by (metis keeps_end)
qed

lemma logs_burn_clicked: "logs_ok s \<Longrightarrow> logs_ok (burn_clicked env s)"
  by (auto simp: burn_clicked_def alert_def logs_update Let_def split: prod.split sum.split
      dest!: logs_burn [rotated])

lemma logs_initiate: "logs_ok s \<Longrightarrow> logs_ok (initiate_withdraw env s)"
proof -
  assume s: "logs_ok s"
  have "starts_with ''/bridge/withdraw'' ''/bridge/''" by (simp add: starts_with_def)
  from keeps_end [OF logs_api [OF this]] s have "logs_ok (submit_withdrawal env s)"
    by (auto simp: submit_withdrawal_def logs_update split: prod.split sum.split)
  with s show ?thesis
    by (auto simp: initiate_withdraw_def alert_def logs_update split: prod.split sum.split
        dest!: logs_burn [rotated])
qed

lemma logs_status: "logs_ok s \<Longrightarrow> logs_ok (checkFedStatus env s)"
proof -
  assume s: "logs_ok s"
  have "starts_with ''/bridge/status'' ''/bridge/''" by (simp add: starts_with_def)
  from keeps_end [OF logs_api [OF this]] s show ?thesis
    by (auto simp: checkFedStatus_def logs_update split: prod.split sum.split)
qed

lemma logs_generate: "logs_ok s \<Longrightarrow> logs_ok (generate_deposit env s)"
proof -
  assume s: "logs_ok s"
  have "starts_with ''/bridge/deposit'' ''/bridge/''" by (simp add: starts_with_def)
  from keeps_end [OF logs_api [OF this]] s show ?thesis
    by (auto simp: generate_deposit_def pollDeposit_def alert_def logs_update Let_def
        split: prod.split sum.split)
qed

lemma logs_show: "logs_ok s \<Longrightarrow> logs_ok (show_status data (show_address data s))"
  by (simp add: show_status_def show_address_def show_transactions_def Let_def logs_update
      split: option.split json.split)

lemma logs_poll: "logs_ok s \<Longrightarrow> logs_ok (poll_tick env s)"
proof -
  assume s: "logs_ok s"
  have "starts_with (''/bridge/deposit/'' @ i) ''/bridge/''" for i by (simp add: starts_with_def)
  from keeps_end [OF logs_api [OF this]] s show ?thesis
    by (auto simp: poll_tick_def intro!: logs_show split: option.split prod.split sum.split)
qed

lemmas logs_rules = logs_connect logs_balance logs_switch logs_fill logs_history logs_generate
  logs_poll logs_status logs_burn_clicked logs_initiate

lemma logs_set_field: "logs_ok (set_field f x s) = logs_ok s"
  by (cases f) (simp_all add: logs_update)

lemma logs_step: "logs_ok s \<Longrightarrow> logs_ok (widget_step env e s)"
proof (cases e)
  case (TypeField f x)
  assume "logs_ok s"
  then show ?thesis using TypeField by (auto simp: logs_set_field logs_update intro!: logs_history)
next
  case (AccountsChanged accounts)
  assume "logs_ok s"
  then show ?thesis using AccountsChanged
    by (auto simp: accounts_changed_def disconnectWallet_def logs_update
        intro!: logs_balance logs_fill split: list.split)
qed (auto simp: disconnectWallet_def startScanner_def stopScanner_def scanned_def logs_set_field
    logs_update Let_def intro!: logs_rules split: option.split)

lemma logs_open: "logs_ok (open_widget network)"
  by (simp add: open_widget_def logs_ok_def)

lemma logs_reachable: "widget_reachable env network s \<Longrightarrow> logs_ok s"
  by (induction rule: widget_reachable.induct) (auto intro: logs_status logs_step logs_open)

lemma hex_no_prefix: "\<not> starts_with (show_bigint 16 n) ''0x''"
proof
  assume "starts_with (show_bigint 16 n) ''0x''"
  then obtain t where t: "show_bigint 16 n = CHR ''0'' # CHR ''x'' # t" by (auto simp: starts_with_iff)
  then have "CHR ''x'' \<in> set (show_base 16 (nat n))" by (auto simp: show_bigint_def split: if_splits)
  then have "is_digit_of 16 (CHR ''x'')" by (rule show_base_digits [rotated 2]) simp_all
  then show False by (simp add: is_digit_of_def digit_val_def Let_def)
qed


lemma burn_asks:
  assumes "bw_address s = Some a" "a \<noteq> []" "ethereum env = Some eth" "burn_wei m = Inr n"
    and "q = EthSendTransaction a ZERO_ADDRESS (show_bigint 16 n) ''0x5208''"
  shows "eth_log (snd (burnECX env m s)) = eth_log s @ [(q, eth (eth_log s) q)]"
    and "api_log (snd (burnECX env m s)) = api_log s"
    and "eth (eth_log s) q = EthOk (JsStr h) \<Longrightarrow>
      burnECX env m s = (Inr h, s\<lparr>withdraw_result := Some (''Burned ECX '' @ check_mark),
        withdraw_burn_tx := h, eth_log := eth_log s @ [(q, EthOk (JsStr h))]\<rparr>)"
  using assms by (auto simp: burnECX_def bindE_def seqE_def catchE_def getS_def modS_def liftE_def
      ret_def throw_def eth_ask_def eth_call_def Let_def split: eth_reply.split)

text \<open>
  C12. A withdrawal takes two clicks. With no burn transaction entered, the first \<open>Initiate Withdrawal\<close>
  burns the amount and says \<open>Withdrawal submitted!\<close>, but sends nothing to the bridge. Only a second
  click hands the withdrawal in, with the hash of that burn and no further one: a user who
  believes the message has burned coins that no one pays out.
\<close>

theorem withdrawal_takes_two_clicks:
  assumes "bw_address s = Some a" "a \<noteq> []" "ethereum env = Some eth"
    and "trim (withdraw_snowside s) \<noteq> []" "trim (withdraw_dest s) \<noteq> []" "withdraw_amount s \<noteq> []"
      "trim (withdraw_burn_tx s) = []" "burn_wei (withdraw_amount s) = Inr n"
    and "eth (eth_log s) (EthSendTransaction a ZERO_ADDRESS (show_bigint 16 n) ''0x5208'') =
      EthOk (JsStr h)" "trim h \<noteq> []"
    and "s1 = widget_step env ClickInitiate s" "s2 = widget_step env ClickInitiate s1"
  shows "withdraw_result s1 = Some ''Withdrawal submitted!'' \<and>
    length (eth_log s1) = length (eth_log s) + 1 \<and> api_log s1 = api_log s \<and> eth_log s2 = eth_log s1 \<and>
    api_log s2 = api_log s @ [(''POST'', API_BASE @ ''/bridge/withdraw'',
      Some (JsObj [(''snowsideAddress'', JsStr (trim (withdraw_snowside s))),
        (''ecashAddress'', JsStr (trim (withdraw_dest s))), (''amountEcx'', JsStr (withdraw_amount s)),
        (''network'', JsStr (currentNetwork s)), (''burnTxHash'', JsStr (trim h))]))]"
proof -
  let ?t = "s\<lparr>withdraw_result := Some ''Burning ECX...'', burn_ecx := (False, ''Burning...'')\<rparr>"
  have "burnECX env (withdraw_amount s) ?t = (Inr h, ?t\<lparr>withdraw_result := Some (''Burned ECX '' @ check_mark),
      withdraw_burn_tx := h, eth_log := eth_log s @
        [(EthSendTransaction a ZERO_ADDRESS (show_bigint 16 n) ''0x5208'', EthOk (JsStr h))]\<rparr>)"
    using burn_asks(3) [where s = ?t, OF _ assms(2,3,8) refl] assms(1,9) by simp
  with assms(1-7,11) have s1: "s1 = s\<lparr>withdraw_result := Some ''Withdrawal submitted!'',
      withdraw_burn_tx := h, burn_ecx := (True, ''Burn ECX''), eth_log := eth_log s @
        [(EthSendTransaction a ZERO_ADDRESS (show_bigint 16 n) ''0x5208'', EthOk (JsStr h))]\<rparr>"
    by (simp add: initiate_withdraw_def)
  then have "s2 = submit_withdrawal env s1"
    using assms(4-6,10,12) by (simp add: initiate_withdraw_def)
  then have "eth_log s2 = eth_log s1" "api_log s2 = api_log s1 @
      [(''POST'', API_BASE @ ''/bridge/withdraw'', Some (withdraw_body s1))]"
    by (simp_all add: submit_withdrawal_def api_def Let_def split: sum.split)
  with s1 assms(10) show ?thesis by (simp add: withdraw_body_def)
qed

lemma balance_asks:
  assumes "bw_address s = Some a" "a \<noteq> []" "ethereum env = Some eth"
  shows "\<exists>r t. updateBalance env s =
    s\<lparr>eth_log := eth_log s @ [(EthGetBalance a, r)], balance_text := t\<rparr>"
  using assms by (auto simp: updateBalance_def bindE_def liftE_def eth_ask_def eth_call_def Let_def
      split: eth_reply.split sum.split)

text \<open>
  The network chosen in the page does not bind the wallet. When the wallet refuses to switch, no
  message says so, \<open>Initiate Withdrawal\<close> goes on to ask for the burn, on whatever chain the
  wallet is, and the request to the bridge will name the chosen network.
\<close>

theorem rejected_switch_still_burns:
  assumes "bw_address s = Some a" "a \<noteq> []" "ethereum env = Some eth"
    and "NETWORK_CONFIG network = Some config"
    and "eth (eth_log s) (EthSwitchChain (nc_chainId config)) = EthErr code msg" "code \<noteq> Some 4902"
    and "trim (withdraw_snowside s) \<noteq> []" "trim (withdraw_dest s) \<noteq> []" "withdraw_amount s \<noteq> []"
      "trim (withdraw_burn_tx s) = []" "burn_wei (withdraw_amount s) = Inr n"
    and "s1 = widget_step env (SelectNetwork network) s" "s2 = widget_step env ClickInitiate s1"
  shows "bw_chain s1 = bw_chain s \<and> alerts s1 = alerts s \<and>
    map fst (eth_log s2) = map fst (eth_log s) @ [EthSwitchChain (nc_chainId config), EthGetBalance a,
      EthSendTransaction a ZERO_ADDRESS (show_bigint 16 n) ''0x5208''] \<and>
    field (withdraw_body s1) ''network'' = Some (JsStr network)"
proof -
  let ?s0 = "s\<lparr>currentNetwork := network, eth_log := eth_log s @
    [(EthSwitchChain (nc_chainId config), EthErr code msg)]\<rparr>"
  have "s1 = updateBalance env ?s0"
    using assms(1-6,12) by (simp add: switchNetwork_def eth_call_def Let_def)
  moreover have "\<exists>r t. updateBalance env ?s0 = ?s0\<lparr>eth_log := eth_log ?s0 @ [(EthGetBalance a, r)], balance_text := t\<rparr>"
    by (rule balance_asks) (use assms(1-3) in simp_all)
  ultimately obtain r t where s1: "s1 = ?s0\<lparr>eth_log := eth_log ?s0 @ [(EthGetBalance a, r)], balance_text := t\<rparr>"
    by blast
  let ?t = "s1\<lparr>withdraw_result := Some ''Burning ECX...'', burn_ecx := (False, ''Burning...'')\<rparr>"
  have "eth_log s2 = eth_log (snd (burnECX env (withdraw_amount s) ?t))"
    using assms(1,2,7-10,13) s1 by (simp add: initiate_withdraw_def split: prod.split sum.split)
  moreover have "map fst (eth_log (snd (burnECX env (withdraw_amount s) ?t))) =
      map fst (eth_log s1) @ [EthSendTransaction a ZERO_ADDRESS (show_bigint 16 n) ''0x5208'']"
    using burn_asks(1) [where s = ?t, OF _ assms(2,3,11) refl] assms(1) s1 by simp
  ultimately show ?thesis using s1 by (simp add: withdraw_body_def field_def)
qed

lemma history_input_shows:
  assumes "trim (history_address w) = a" "10 \<le> length a"
    and "fetch_json env (api_log w) (''GET'', API_BASE @ ''/bridge/deposits/'' @ a, None) = Inr (JsArr ds)"
      "JsNull \<notin> set ds"
    and "fetch_json env (api_log w @ [(''GET'', API_BASE @ ''/bridge/deposits/'' @ a, None)])
        (''GET'', API_BASE @ ''/bridge/withdrawals/'' @ a, None) = Inr (JsArr ws)"
      "JsNull \<notin> set ws" "ws \<noteq> []"
  shows "history_list (history_input env w) = map deposit_row_html ds @ map withdraw_row_html ws"
  using assms by (simp add: history_input_def bindE_def api_def ret_def Let_def history_rows_def)

lemma withdraw_row_text:
  assumes "w_amount_ecx r = AmtStr m" "m \<noteq> []"
  shows "\<exists>rest. withdraw_row_html (withdrawal_json r) =
    ''<span class=\"text-snow-400\">Withdraw '' @ m @ '' ECX'' @ rest"
proof -
  have "field (withdrawal_json r) ''amount_ecx'' = Some (JsStr m)" "truthy_json (Some (JsStr m))"
    using assms by (simp_all add: amount_ecx_field truthy_json_def)
  then show ?thesis by (simp add: withdraw_row_html_def)
qed

text \<open>
  C13. Anyone can put markup into anyone's page: a withdrawal request without any token, for any
  address and with any text as its amount, is stored by the API, and the history of that address
  shows the text unescaped, as markup.
\<close>

theorem history_injects_markup:
  assumes "db_up s" "r_uuid r \<notin> w_id ` set (t_withdrawals s)"
    and "r_verb r = POST" "segments r = [''v1'', ''bridge'', ''withdraw'']"
    and "r_body r = Some body" "z_string body ''snowsideAddress'' = Some a" "10 \<le> length a"
      "z_string body ''ecashAddress'' = Some e" "e \<noteq> []" "z_network body ''network'' = Some n"
      "z_string body ''amountEcx'' = Some m" "m \<noteq> []" "z_opt_string body ''burnTxHash'' = Some b"
    and "int_affinity aenv m = AmtStr m"
    and "trim (history_address w) = a"
      "\<And>log. fetch_json env log (''GET'', API_BASE @ ''/bridge/deposits/'' @ a, None) = Inr (JsArr [])"
      "\<And>log rows. get_withdrawals a (snd (handle aenv r s)) =
          (Inr (Reply 200 (PWithdrawals rows)), snd (handle aenv r s)) \<Longrightarrow>
        fetch_json env log (''GET'', API_BASE @ ''/bridge/withdrawals/'' @ a, None) =
          Inr (JsArr (map withdrawal_json rows))"
  shows "\<exists>row rest. row \<in> set (history_list (history_input env w)) \<and>
    row = ''<span class=\"text-snow-400\">Withdraw '' @ m @ '' ECX'' @ rest"
proof -
  let ?w = "new_withdrawal (r_uuid r) n a e (AmtStr m) (if truthy_str b then b else None) (r_now r)"
  have a: "a \<noteq> []" using assms(7) by auto
  from withdrawal_listed [OF assms(1-6) a assms(8-13), of aenv] assms(14) obtain rows where
    rows: "get_withdrawals a (snd (handle aenv r s)) =
      (Inr (Reply 200 (PWithdrawals rows)), snd (handle aenv r s))" and w: "?w \<in> set rows"
    by auto
  have "JsNull \<notin> set (map withdrawal_json rows)" by (auto simp: withdrawal_json_def)
  then have "history_list (history_input env w) = map deposit_row_html [] @ map withdraw_row_html (map withdrawal_json rows)"
    using w by (intro history_input_shows [OF assms(15,7,16) _ assms(17) [OF rows]]) auto
  with w have "withdraw_row_html (withdrawal_json ?w) \<in> set (history_list (history_input env w))" by simp
  moreover have "w_amount_ecx ?w = AmtStr m" by (simp add: new_withdrawal_def)
  ultimately show ?thesis using withdraw_row_text [OF _ assms(12)] by metis
qed

text \<open>A wallet that refuses to switch networks and sends what it is asked to.\<close>

fun toy_eth :: "(eth_request \<times> eth_reply) list \<Rightarrow> eth_request \<Rightarrow> eth_reply" where
  "toy_eth l (EthSendTransaction a t v g) = EthOk (JsStr ''0xhash'')"
| "toy_eth l (EthSwitchChain cid) = EthErr (Some 4001) ''User rejected the request''"
| "toy_eth l q = EthErr None ''unsupported''"

definition toy_wenv :: widget_env where
  "toy_wenv = \<lparr>ethereum = Some toy_eth, fetch_json = (\<lambda>l call. Inl ''offline'')\<rparr>"

definition toy_widget :: widget where
  "toy_widget = (open_widget ''signet'')\<lparr>bw_address := Some ''0xabc'', withdraw_snowside := ''0xabc'',
     withdraw_dest := ''ecash:q'', withdraw_amount := ''2''\<rparr>"

lemma toy_double: "to_double 2000000000000000000 = JFin 2000000000000000000"
  by (simp add: round_simps blen.simps)

lemma toy_wei: "burn_wei ''2'' = Inr 2000000000000000000"
proof -
  have "show_int 2 = ''2''" by code_simp
  with num_of_show [of 2] have "num_of_string ''2'' = JInt 2" by (simp add: safe_int_def)
  then show ?thesis by (simp add: burn_wei_def toy_double)
qed

lemma toy_trim: "trim ''0xabc'' = ''0xabc''" "trim ''ecash:q'' = ''ecash:q''" "trim ''0xhash'' = ''0xhash''"
    "trim [] = []"
  by code_simp+

lemmas toy_widget_defs = toy_widget_def toy_wenv_def open_widget_def

theorem withdrawal_takes_two_clicks_witness:
  "\<exists>s1. s1 = widget_step toy_wenv ClickInitiate toy_widget \<and>
     withdraw_result s1 = Some ''Withdrawal submitted!'' \<and> api_log s1 = []"
  using withdrawal_takes_two_clicks [of toy_widget "''0xabc''" toy_wenv toy_eth 2000000000000000000 "''0xhash''"
      "widget_step toy_wenv ClickInitiate toy_widget"
      "widget_step toy_wenv ClickInitiate (widget_step toy_wenv ClickInitiate toy_widget)"]
  by (simp add: toy_widget_defs toy_trim toy_wei del: widget_step.simps)

theorem rejected_switch_still_burns_witness:
  "\<exists>s2. s2 = widget_step toy_wenv ClickInitiate (widget_step toy_wenv (SelectNetwork ''mainnet'') toy_widget) \<and>
     map fst (eth_log s2) = [EthSwitchChain ''0x8088'', EthGetBalance ''0xabc'',
       EthSendTransaction ''0xabc'' ZERO_ADDRESS (show_bigint 16 2000000000000000000) ''0x5208'']"
  using rejected_switch_still_burns [of toy_widget "''0xabc''" toy_wenv toy_eth "''mainnet''" _
      "Some 4001" "''User rejected the request''" 2000000000000000000
      "widget_step toy_wenv (SelectNetwork ''mainnet'') toy_widget"
      "widget_step toy_wenv ClickInitiate (widget_step toy_wenv (SelectNetwork ''mainnet'') toy_widget)"]
  by (simp add: toy_widget_defs toy_trim toy_wei NETWORK_CONFIG_def del: widget_step.simps)


definition toy_markup_body :: json where
  "toy_markup_body = JsObj [(''snowsideAddress'', JsStr ''0x00000001''), (''ecashAddress'', JsStr ''x''),
     (''amountEcx'', JsStr ''<img src=x>''), (''network'', JsStr ''signet'')]"

definition toy_markup :: request where
  "toy_markup = toy_request POST ''/v1/bridge/withdraw'' None (Some toy_markup_body)"

definition toy_victim :: widget_env where
  "toy_victim = \<lparr>ethereum = None, fetch_json = (\<lambda>l (verb, url, body).
     if url = API_BASE @ ''/bridge/withdrawals/0x00000001'' then
       (case fst (get_withdrawals ''0x00000001'' (snd (handle toy_api toy_markup empty_db))) of
          Inr (Reply c (PWithdrawals rows)) \<Rightarrow> Inr (JsArr (map withdrawal_json rows))
        | _ \<Rightarrow> Inl ''offline'')
     else Inr (JsArr []))\<rparr>"

theorem history_injects_markup_witness:
  "\<exists>w row rest. w = (open_widget ''signet'')\<lparr>history_address := ''0x00000001''\<rparr> \<and>
     row \<in> set (history_list (history_input toy_victim w)) \<and>
     row = ''<span class=\"text-snow-400\">Withdraw '' @ ''<img src=x>'' @ '' ECX'' @ rest"
proof -
  let ?w = "(open_widget ''signet'')\<lparr>history_address := ''0x00000001''\<rparr>"
  have seg: "segments toy_markup = [''v1'', ''bridge'', ''withdraw'']"
    by (simp add: segments_def toy_markup_def toy_request_def)
  have r: "r_verb toy_markup = POST" "r_body toy_markup = Some toy_markup_body"
    "r_uuid toy_markup = ''id1''"
    by (simp_all add: toy_markup_def toy_request_def)
  have z: "z_string toy_markup_body ''snowsideAddress'' = Some ''0x00000001''"
    "z_string toy_markup_body ''ecashAddress'' = Some ''x''"
    "z_network toy_markup_body ''network'' = Some ''signet''"
    "z_string toy_markup_body ''amountEcx'' = Some ''<img src=x>''"
    "z_opt_string toy_markup_body ''burnTxHash'' = Some None"
    by (simp_all add: toy_markup_body_def z_string_def z_network_def z_opt_string_def field_def)
  have "int_affinity toy_api ''<img src=x>'' = AmtStr ''<img src=x>''" by (simp add: toy_api_def)
  moreover have "trim (history_address ?w) = ''0x00000001''"
    by (simp add: trim_def is_space_def)
  moreover have "fetch_json toy_victim l (''GET'', API_BASE @ ''/bridge/deposits/'' @ ''0x00000001'', None) =
      Inr (JsArr [])" for l
    by (simp add: toy_victim_def)
  moreover have "fetch_json toy_victim l (''GET'', API_BASE @ ''/bridge/withdrawals/'' @ ''0x00000001'', None) =
      Inr (JsArr (map withdrawal_json rows))"
    if "get_withdrawals ''0x00000001'' (snd (handle toy_api toy_markup empty_db)) =
      (Inr (Reply 200 (PWithdrawals rows)), snd (handle toy_api toy_markup empty_db))" for l rows
    using that by (simp add: toy_victim_def)
  ultimately show ?thesis
    using history_injects_markup [OF _ _ r(1) seg r(2) z(1) _ z(2) _ z(3,4) _ z(5), where s = empty_db
        and aenv = toy_api and w = ?w and env = toy_victim]
    by (simp add: r empty_db_def)
qed

end
