(* ===== verification/Signet_Page.thy ===== *)
theory Signet_Page
  imports Bridge_Widget Federation
begin

text \<open>
  \<open>packages/bridge/src/pages/signet.astro\<close>: the script of the deposit page for the signet. The page is
  the record \<open>signet_page\<close>; which panels are shown is a set. A request and its response are two
  events, since a poll may be answered after the user has begun another deposit. \<open>window.ethereum\<close> is
  the parameter of \<open>Bridge_Widget\<close>.
\<close>

definition signet_network :: string where "signet_network = ''signet''"
definition signet_chainId :: string where "signet_chainId = ''0x8248''"
definition signet_chainName :: string where "signet_chainName = ''Snowside Signet''"
definition signet_rpcUrl :: string where "signet_rpcUrl = ''https://rpc.snowside.network/signet''"
definition signet_explorerUrl :: string where "signet_explorerUrl = ''https://snowside.network''"
definition signet_apiBase :: string where "signet_apiBase = ''https://snowside.network/v1''"
definition currency_symbol :: string where "currency_symbol = ''ECX''"

subsection \<open>State\<close>

datatype panel =
    WalletInfo | NoWallet | CreatePanel | LoadingPanel | PendingPanel | ConfirmedPanel | MintedPanel
  | ErrorPanel

text \<open>
  \<open>intervals\<close> are the intervals that run; \<open>creating\<close> counts the requests for a deposit, and
  \<open>open_polls\<close> lists the polls, that are not answered yet.
\<close>

record signet_page =
  currentDepositId :: "json option"
  pollTimer :: "nat option"
  intervals :: "nat list"
  next_interval :: nat
  snowsideAddr :: "string option"
  visible :: "panel set"
  connect_btn :: string
  snowside_addr :: string
  wallet_balance :: string
  deposit_address :: string
  qr_text :: string
  confirmed_amount :: string
  confirmed_tx :: string
  minted_amount :: string
  minted_tx :: string
  error_msg :: string
  page_alerts :: "string list"
  clipboard :: string
  watching :: bool
  creating :: nat
  open_polls :: "json list"
  asked_wallet :: "(eth_request \<times> eth_reply) list"

definition open_signet :: signet_page where
  "open_signet =
     \<lparr>currentDepositId = None, pollTimer = None, intervals = [], next_interval = 1,
      snowsideAddr = None, visible = {NoWallet}, connect_btn = ''Connect Wallet'', snowside_addr = [],
      wallet_balance = [], deposit_address = [], qr_text = [], confirmed_amount = [], confirmed_tx = [],
      minted_amount = [], minted_tx = [], error_msg = [], page_alerts = [], clipboard = [],
      watching = False, creating = 0, open_polls = [], asked_wallet = []\<rparr>"

definition show_panel :: "panel \<Rightarrow> signet_page \<Rightarrow> signet_page" where
  "show_panel p s = s\<lparr>visible := insert p (visible s)\<rparr>"

definition hide_panel :: "panel \<Rightarrow> signet_page \<Rightarrow> signet_page" where
  "hide_panel p s = s\<lparr>visible := visible s - {p}\<rparr>"

definition page_alert :: "string \<Rightarrow> signet_page \<Rightarrow> signet_page" where
  "page_alert msg s = s\<lparr>page_alerts := page_alerts s @ [msg]\<rparr>"

subsection \<open>Wallet\<close>

type_synonym eth_provider = "((eth_request \<times> eth_reply) list \<Rightarrow> eth_request \<Rightarrow> eth_reply) option"

definition ask_wallet :: "eth_provider \<Rightarrow> eth_request \<Rightarrow> signet_page \<Rightarrow> eth_reply \<times> signet_page" where
  "ask_wallet eth q s =
     (case eth of
        None \<Rightarrow> (EthErr None ''TypeError'', s)
      | Some f \<Rightarrow> (let r = f (asked_wallet s) q in (r, s\<lparr>asked_wallet := asked_wallet s @ [(q, r)]\<rparr>)))"

definition request_eth :: "eth_provider \<Rightarrow> eth_request \<Rightarrow> (signet_page, json) comp" where
  "request_eth eth q s =
     (case ask_wallet eth q s of
        (EthOk j, s1) \<Rightarrow> (Inr j, s1) | (EthErr code msg, s1) \<Rightarrow> (Inl msg, s1))"

text \<open>A refusal other than 4902 (chain not known) is ignored; a failure to add the chain is not.\<close>

definition switch_to_signet :: "eth_provider \<Rightarrow> (signet_page, unit) comp" where
  "switch_to_signet eth s =
     (case ask_wallet eth (EthSwitchChain signet_chainId) s of
        (EthOk j, s1) \<Rightarrow> (Inr (), s1)
      | (EthErr code msg, s1) \<Rightarrow>
          if code = Some 4902
          then bindE (request_eth eth (EthAddChain signet_chainId signet_chainName signet_rpcUrl
                        signet_explorerUrl)) (\<lambda>_. ret ()) s1
          else (Inr (), s1))"

definition balance_label :: "int \<Rightarrow> string" where
  "balance_label wei =
     ''Balance: '' @
     js_to_fixed 3 (js_div (num_of_string (show_int (bigint_div wei (10 ^ 15)))) (JInt 1000)) @
     '' '' @ currency_symbol"

definition show_wallet :: "string \<Rightarrow> int \<Rightarrow> signet_page \<Rightarrow> signet_page" where
  "show_wallet a wei s =
     show_panel CreatePanel (hide_panel NoWallet (show_panel WalletInfo
       (s\<lparr>connect_btn := short_address a, snowside_addr := a, wallet_balance := balance_label wei,
          watching := True\<rparr>)))"

definition connect_signet :: "eth_provider \<Rightarrow> signet_page \<Rightarrow> signet_page" where
  "connect_signet eth s =
     (if eth = None then page_alert ''No EIP-1193 wallet found. Please install Rabby.'' s
      else case bindE (request_eth eth EthRequestAccounts) (\<lambda>accounts.
                bindE (liftE (first_account accounts)) (\<lambda>a.
                seqE (modS (\<lambda>s. s\<lparr>snowsideAddr := a\<rparr>))
                (seqE (switch_to_signet eth)
                (bindE (request_eth eth (EthGetBalance (case a of None \<Rightarrow> ''undefined'' | Some x \<Rightarrow> x))) (\<lambda>j.
                 bindE (liftE (bigint_of_json (Some j))) (\<lambda>wei.
                   case a of
                     None \<Rightarrow> throw ''TypeError''
                   | Some x \<Rightarrow> ret (x, wei))))))) s of
             (Inr (a, wei), s1) \<Rightarrow> show_wallet a wei s1
           | (Inl e, s1) \<Rightarrow> page_alert (''Wallet connection failed: '' @ e) s1)"

text \<open>Another account reloads the page.\<close>

definition accounts_change :: "string list \<Rightarrow> signet_page \<Rightarrow> signet_page" where
  "accounts_change accs s = (if watching s \<and> accs \<noteq> [] then open_signet else s)"

subsection \<open>Deposits\<close>

text \<open>A response: none (the fetch fails), or a status and a body that may fail to parse.\<close>

datatype page_reply = PageFailed string | PageReply nat "error + json"

definition signet_deposit_body :: "signet_page \<Rightarrow> json" where
  "signet_deposit_body s =
     JsObj ((case snowsideAddr s of None \<Rightarrow> [] | Some a \<Rightarrow> [(''snowsideAddress'', JsStr a)]) @
            [(''network'', JsStr signet_network)])"

definition create_sent :: "signet_page \<Rightarrow> signet_page" where
  "create_sent s = show_panel LoadingPanel (hide_panel CreatePanel (s\<lparr>creating := creating s + 1\<rparr>))"

definition showError :: "string \<Rightarrow> signet_page \<Rightarrow> signet_page" where
  "showError msg s =
     (show_panel ErrorPanel (hide_panel PendingPanel (hide_panel LoadingPanel s)))\<lparr>error_msg := msg\<rparr>"

text \<open>The data of a response; \<open>null\<close> has no properties.\<close>

definition response_data :: "page_reply \<Rightarrow> error + json" where
  "response_data r =
     (case r of
        PageFailed e \<Rightarrow> Inl e
      | PageReply st body \<Rightarrow>
          if \<not> http_ok st then Inl (''API returned '' @ show_int (int st))
          else (case body of
                  Inl e \<Rightarrow> Inl e
                | Inr JsNull \<Rightarrow> Inl ''TypeError''
                | Inr data \<Rightarrow> Inr data))"

definition truthy_id :: "signet_page \<Rightarrow> bool" where
  "truthy_id s = truthy_json (currentDepositId s)"

definition send_poll :: "signet_page \<Rightarrow> signet_page" where
  "send_poll s = (if truthy_id s then s\<lparr>open_polls := open_polls s @ [the (currentDepositId s)]\<rparr> else s)"

definition set_interval :: "signet_page \<Rightarrow> signet_page" where
  "set_interval s =
     s\<lparr>pollTimer := Some (next_interval s), intervals := next_interval s # intervals s,
       next_interval := next_interval s + 1\<rparr>"

definition clear_timer :: "signet_page \<Rightarrow> signet_page" where
  "clear_timer s =
     s\<lparr>intervals := filter (\<lambda>i. Some i \<noteq> pollTimer s) (intervals s), pollTimer := None\<rparr>"

definition create_answered :: "page_reply \<Rightarrow> signet_page \<Rightarrow> signet_page" where
  "create_answered r s =
     (case response_data r of
        Inl e \<Rightarrow> showError e s
      | Inr data \<Rightarrow>
          send_poll (set_interval (show_panel PendingPanel (hide_panel LoadingPanel
            (s\<lparr>currentDepositId := field data ''id''\<rparr>)))))"

text \<open>An address is shown again only when it differs.\<close>

definition show_deposit_address :: "json \<Rightarrow> signet_page \<Rightarrow> signet_page" where
  "show_deposit_address d s =
     (if truthy_json (field d ''ecash_address'') \<and>
         field d ''ecash_address'' \<noteq> Some (JsStr (deposit_address s))
      then let a = js_string_opt (field d ''ecash_address'') in s\<lparr>deposit_address := a, qr_text := a\<rparr>
      else s)"

definition show_confirmed :: "json \<Rightarrow> signet_page \<Rightarrow> signet_page" where
  "show_confirmed d s =
     (show_panel ConfirmedPanel (hide_panel PendingPanel s))
       \<lparr>confirmed_amount := ''Received: '' @ js_string_opt (field d ''amount_xec'') @ '' sats'',
        confirmed_tx := ''tx: '' @ js_string_opt (field d ''ecash_tx_hash'')\<rparr>"

definition show_minted :: "json \<Rightarrow> signet_page \<Rightarrow> signet_page" where
  "show_minted d s =
     (show_panel MintedPanel (hide_panel ConfirmedPanel (hide_panel PendingPanel (clear_timer s))))
       \<lparr>minted_amount := ''Minted: '' @ js_string_opt (field d ''amount_ecx'') @ '' ECX'',
        minted_tx := ''Mint tx: '' @ js_string_opt (field d ''mint_tx_hash'')\<rparr>"

definition deposit_shown :: "json \<Rightarrow> signet_page \<Rightarrow> signet_page" where
  "deposit_shown d s =
     (let s1 = show_deposit_address d s
      in if field d ''status'' = Some (JsStr ''confirmed'') then show_confirmed d s1
         else if field d ''status'' = Some (JsStr ''minted'') then show_minted d s1
         else s1)"

definition poll_answered :: "page_reply \<Rightarrow> signet_page \<Rightarrow> signet_page" where
  "poll_answered r s = (case response_data r of Inl e \<Rightarrow> s | Inr d \<Rightarrow> deposit_shown d s)"

definition copyAddress :: "signet_page \<Rightarrow> signet_page" where
  "copyAddress s =
     page_alert (''Address copied: '' @ deposit_address s) (s\<lparr>clipboard := deposit_address s\<rparr>)"

definition resetDeposit :: "signet_page \<Rightarrow> signet_page" where
  "resetDeposit s =
     show_panel CreatePanel
       (hide_panel ConfirmedPanel (hide_panel PendingPanel (hide_panel MintedPanel (hide_panel ErrorPanel
         ((if pollTimer s = None then s else clear_timer s)\<lparr>currentDepositId := None\<rparr>)))))"

subsection \<open>Events\<close>

text \<open>\<open>PollAnswered i r\<close>: the \<open>i\<close>-th poll still open is answered with \<open>r\<close>.\<close>

datatype signet_event =
    ConnectClick
  | AccountsChange "string list"
  | CreateClick
  | CreateAnswered page_reply
  | TimerFires nat
  | PollAnswered nat page_reply
  | CopyClick
  | ResetClick

text \<open>A button can be pressed only where its panel is shown; \<open>Connect Wallet\<close> always is.\<close>

definition drop_nth :: "nat \<Rightarrow> 'a list \<Rightarrow> 'a list" where
  "drop_nth i xs = take i xs @ drop (Suc i) xs"

fun signet_step :: "eth_provider \<Rightarrow> signet_event \<Rightarrow> signet_page \<Rightarrow> signet_page" where
  "signet_step eth ConnectClick s = connect_signet eth s"
| "signet_step eth (AccountsChange accs) s = accounts_change accs s"
| "signet_step eth CreateClick s = (if CreatePanel \<in> visible s then create_sent s else s)"
| "signet_step eth (CreateAnswered r) s =
     (if 0 < creating s then create_answered r (s\<lparr>creating := creating s - 1\<rparr>) else s)"
| "signet_step eth (TimerFires i) s = (if i \<in> set (intervals s) then send_poll s else s)"
| "signet_step eth (PollAnswered i r) s =
     (if i < length (open_polls s) then poll_answered r (s\<lparr>open_polls := drop_nth i (open_polls s)\<rparr>) else s)"
| "signet_step eth CopyClick s = (if PendingPanel \<in> visible s then copyAddress s else s)"
| "signet_step eth ResetClick s =
     (if MintedPanel \<in> visible s \<or> ErrorPanel \<in> visible s then resetDeposit s else s)"

definition signet_run :: "eth_provider \<Rightarrow> signet_event list \<Rightarrow> signet_page \<Rightarrow> signet_page" where
  "signet_run eth es s = foldl (\<lambda>s e. signet_step eth e s) s es"

lemma signet_run_simps [simp]:
  "signet_run eth [] s = s" "signet_run eth (e # es) s = signet_run eth es (signet_step eth e s)"
  "signet_run eth (es @ fs) s = signet_run eth fs (signet_run eth es s)"
  by (simp_all add: signet_run_def)

subsection \<open>The address shown\<close>

text \<open>A row of the deposits as the API sends it.\<close>

definition deposit_json :: "deposit_row \<Rightarrow> json" where
  "deposit_json d = JsObj
     [(''id'', JsStr (d_id d)), (''network'', JsStr (d_network d)),
      (''snowside_address'', JsStr (d_snowside_address d)),
      (''ecash_address'', or_null JsStr (d_ecash_address d)),
      (''derivation_index'', or_null (\<lambda>n. JsNum (JInt n)) (d_derivation_index d)),
      (''amount_sats'', or_null JsNum (d_amount_sats d)),
      (''amount_ecx'', or_null JsNum (d_amount_ecx d)),
      (''ecash_tx_hash'', or_null JsStr (d_ecash_tx_hash d)),
      (''mint_tx_hash'', or_null JsStr (d_mint_tx_hash d)), (''status'', JsStr (d_status d)),
      (''created_at'', JsNum (JInt (d_created_at d))),
      (''confirmed_at'', or_null (\<lambda>n. JsNum (JInt n)) (d_confirmed_at d)),
      (''minted_at'', or_null (\<lambda>n. JsNum (JInt n)) (d_minted_at d))]"

lemma deposit_fields:
  "field (deposit_json d) ''ecash_address'' = Some (or_null JsStr (d_ecash_address d))"
  "field (deposit_json d) ''status'' = Some (JsStr (d_status d))"
  "field (deposit_json d) ''amount_ecx'' = Some (or_null JsNum (d_amount_ecx d))"
  "field (deposit_json d) ''amount_xec'' = None"
  by (simp_all add: deposit_json_def field_def)

lemma deposit_response: "response_data (PageReply 200 (Inr (deposit_json d))) = Inr (deposit_json d)"
  by (simp add: response_data_def http_ok_def deposit_json_def)

lemma created_response:
  "response_data (PageReply 200 (Inr (JsObj kvs))) = Inr (JsObj kvs)"
  by (simp add: response_data_def http_ok_def)

lemmas panel_defs = show_panel_def hide_panel_def

text \<open>An unassigned deposit changes nothing on the page.\<close>

lemma poll_unassigned:
  assumes "d_ecash_address d = None" "d_status d = ''pending''"
  shows "poll_answered (PageReply 200 (Inr (deposit_json d))) s = s"
  using assms by (simp add: poll_answered_def deposit_response deposit_shown_def Let_def
      show_deposit_address_def deposit_fields or_null_def truthy_json_def)

lemma polls_unassigned:
  assumes "d_ecash_address d = None" "d_status d = ''pending''"
  shows "\<exists>ps. signet_run eth (replicate n (PollAnswered i (PageReply 200 (Inr (deposit_json d))))) s
    = s\<lparr>open_polls := ps\<rparr>"
proof (induction n arbitrary: s)
  case 0
  have "s = s\<lparr>open_polls := open_polls s\<rparr>" by simp
  then show ?case by (metis replicate_0 signet_run_simps(1))
next
  case (Suc n)
  have "\<exists>qs. signet_step eth (PollAnswered i (PageReply 200 (Inr (deposit_json d)))) s = s\<lparr>open_polls := qs\<rparr>"
    using poll_unassigned [OF assms] by (cases "i < length (open_polls s)") (auto intro: exI [of _ "open_polls s"])
  then obtain qs where
    "signet_step eth (PollAnswered i (PageReply 200 (Inr (deposit_json d)))) s = s\<lparr>open_polls := qs\<rparr>" by blast
  with Suc.IH [of "s\<lparr>open_polls := qs\<rparr>"] show ?case by auto
qed

text \<open>The next deposit: \<open>New Deposit\<close>, \<open>Create Deposit Request\<close> and its answer.\<close>

abbreviation another_deposit :: "(string \<times> json) list \<Rightarrow> signet_event list" where
  "another_deposit kvs \<equiv> [ResetClick, CreateClick, CreateAnswered (PageReply 200 (Inr (JsObj kvs)))]"

lemma next_deposit:
  assumes "MintedPanel \<in> visible s" "pollTimer s = None" "truthy_json (map_of kvs ''id'')"
  shows "signet_run eth (another_deposit kvs) s =
    s\<lparr>currentDepositId := map_of kvs ''id'', visible := insert PendingPanel
         (visible s - {CreatePanel, LoadingPanel, ConfirmedPanel, PendingPanel, MintedPanel, ErrorPanel}),
      pollTimer := Some (next_interval s), intervals := next_interval s # intervals s,
      next_interval := next_interval s + 1, open_polls := open_polls s @ [the (map_of kvs ''id'')]\<rparr>"
proof -
  have "field (JsObj kvs) ''id'' = map_of kvs ''id''" by (simp add: field_def)
  moreover have "visible s - {ErrorPanel} - {MintedPanel} - {PendingPanel} - {ConfirmedPanel} -
      {CreatePanel} - {LoadingPanel} =
    visible s - {CreatePanel, LoadingPanel, ConfirmedPanel, PendingPanel, MintedPanel, ErrorPanel}"
    by auto
  ultimately show ?thesis using assms
    by (simp add: resetDeposit_def create_sent_def create_answered_def created_response panel_defs
        send_poll_def set_interval_def truthy_id_def)
qed

text \<open>
  C15. The page asks for money at the wrong address. Once a deposit is complete, \<open>New Deposit\<close> and
  \<open>Create Deposit Request\<close> open the panel \<open>Send ... to this address\<close> with the address of the deposit
  before, and it stays there, and is what \<open>Copy Address\<close> copies, as long as the API answers that the
  new deposit has no address yet.
\<close>

theorem next_deposit_shows_old_address:
  assumes "MintedPanel \<in> visible s" "pollTimer s = None" "truthy_json (map_of kvs ''id'')"
    and "d_ecash_address d = None" "d_status d = ''pending''"
    and "s' = signet_run eth (another_deposit kvs @
      replicate n (PollAnswered i (PageReply 200 (Inr (deposit_json d)))) @ [CopyClick]) s"
  shows "PendingPanel \<in> visible s' \<and> currentDepositId s' = map_of kvs ''id'' \<and>
    deposit_address s' = deposit_address s \<and> qr_text s' = qr_text s \<and> clipboard s' = deposit_address s"
proof -
  let ?s1 = "signet_run eth (another_deposit kvs) s"
  obtain ps where "signet_run eth (replicate n (PollAnswered i (PageReply 200 (Inr (deposit_json d))))) ?s1
      = ?s1\<lparr>open_polls := ps\<rparr>"
    using polls_unassigned [OF assms(4,5), of eth n i ?s1] by blast
  then have "s' = signet_step eth CopyClick (?s1\<lparr>open_polls := ps\<rparr>)"
    using assms(6) by (simp only: signet_run_simps)
  then show ?thesis unfolding next_deposit [OF assms(1-3)]
    by (simp add: copyAddress_def page_alert_def)
qed

text \<open>
  A late answer completes the wrong deposit. When a poll of a finished deposit is answered only
  after the next one was created, the page says \<open>Deposit Complete!\<close> for the new deposit and stops
  polling: no later tick of a timer asks for anything.
\<close>

theorem late_poll_ends_next_deposit:
  assumes "MintedPanel \<in> visible s" "pollTimer s = None" "intervals s = []" "open_polls s = [old]"
    and "truthy_json (map_of kvs ''id'')" "d_status d = ''minted''"
    and "s' = signet_run eth (another_deposit kvs @ PollAnswered 0 (PageReply 200 (Inr (deposit_json d))) #
      map TimerFires ts) s"
  shows "currentDepositId s' = map_of kvs ''id'' \<and> MintedPanel \<in> visible s' \<and>
    PendingPanel \<notin> visible s' \<and> pollTimer s' = None \<and> open_polls s' = [the (map_of kvs ''id'')]"
proof -
  let ?s1 = "signet_step eth (PollAnswered 0 (PageReply 200 (Inr (deposit_json d))))
    (signet_run eth (another_deposit kvs) s)"
  have idle: "intervals t = [] \<Longrightarrow> signet_run eth (map TimerFires ts) t = t" for t
    by (induction ts arbitrary: t) simp_all
  have s1: "intervals ?s1 = []" "currentDepositId ?s1 = map_of kvs ''id''" "MintedPanel \<in> visible ?s1"
    "PendingPanel \<notin> visible ?s1" "pollTimer ?s1 = None" "open_polls ?s1 = [the (map_of kvs ''id'')]"
    unfolding next_deposit [OF assms(1,2,5)]
    using assms(3,4,6) by (simp_all add: poll_answered_def deposit_response deposit_shown_def Let_def
        deposit_fields show_deposit_address_def show_minted_def clear_timer_def panel_defs drop_nth_def)
  have "s' = signet_run eth (map TimerFires ts) ?s1"
    using assms(7) by (simp only: signet_run_simps)
  with s1 idle [OF s1(1)] show ?thesis by simp
qed

subsection \<open>What the wallet is asked for\<close>

definition asked_first :: "eth_request list \<Rightarrow> signet_page \<Rightarrow> bool" where
  "asked_first qs s \<longleftrightarrow> (\<exists>rest. map fst (asked_wallet s) = qs @ rest)"

lemma asked_first_ask: "asked_first qs s \<Longrightarrow> asked_first qs (snd (ask_wallet eth q s))"
  by (auto simp: asked_first_def ask_wallet_def Let_def split: option.split)

lemma keeps_request: "keeps (asked_first qs) (request_eth eth q)"
  using asked_first_ask [of qs _ eth q]
  by (auto simp: keeps_def request_eth_def split: prod.split eth_reply.split)
    (metis snd_conv)+

lemma switch_asks:
  "asked_first (map fst (asked_wallet s) @ [EthSwitchChain signet_chainId]) (snd (switch_to_signet (Some f) s))"
proof -
  let ?qs = "map fst (asked_wallet s) @ [EthSwitchChain signet_chainId]"
  obtain r t where a: "ask_wallet (Some f) (EthSwitchChain signet_chainId) s = (r, t)" by fastforce
  then have t: "asked_first ?qs t" by (auto simp: ask_wallet_def asked_first_def Let_def)
  have "keeps (asked_first ?qs) (bindE (request_eth (Some f) q) (\<lambda>_. ret ()))" for q
    by (intro keeps_bindE keeps_request keeps_ret)
  from keepsD [OF this t] t show ?thesis by (simp add: switch_to_signet_def a split: eth_reply.split)
qed

lemma keeps_after: "I (snd (m s)) \<Longrightarrow> keeps I n \<Longrightarrow> I (snd (seqE m n s))"
  by (cases "m s") (auto simp: seqE_def bindE_def keeps_def split: sum.split)

lemma asked_first_update:
  "asked_first qs (page_alert msg s) = asked_first qs s"
  "asked_first qs (show_wallet a wei s) = asked_first qs s"
  by (simp_all add: asked_first_def page_alert_def show_wallet_def panel_defs)

text \<open>
  The page connects the wallet to another chain than the one minted on. \<open>Connect Wallet\<close> asks the
  wallet for its accounts and then to switch to \<open>0x8248\<close>, which is 33352; the federation mints for the
  signet on chain 33416, which is also what the web bridge switches to.
\<close>

theorem signet_page_other_chain:
  assumes "f (asked_wallet s) EthRequestAccounts = EthOk (JsArr (a # as))"
  shows "\<exists>c rest config. map fst (asked_wallet (signet_step (Some f) ConnectClick s)) =
      map fst (asked_wallet s) @ EthRequestAccounts # EthSwitchChain c # rest \<and>
    parse_int 16 c = JInt 33352 \<and> CHAIN_IDS ''signet'' = Some 33416 \<and>
    NETWORK_CONFIG ''signet'' = Some config \<and> parse_int 16 (nc_chainId config) = JInt 33416"
proof -
  let ?a = "if a = JsNull then None else Some (js_string a)"
  let ?s = "s\<lparr>asked_wallet := asked_wallet s @ [(EthRequestAccounts, EthOk (JsArr (a # as)))],
    snowsideAddr := ?a\<rparr>"
  let ?qs = "map fst (asked_wallet s) @ [EthRequestAccounts, EthSwitchChain signet_chainId]"
  let ?K = "bindE (request_eth (Some f) (EthGetBalance (case ?a of None \<Rightarrow> ''undefined'' | Some x \<Rightarrow> x))) (\<lambda>j.
    bindE (liftE (bigint_of_json (Some j))) (\<lambda>wei.
      case ?a of None \<Rightarrow> throw ''TypeError'' | Some x \<Rightarrow> ret (x, wei)))"
  have "to_double 33352 = JInt 33352" "to_double 33416 = JInt 33416"
    using to_double_int [of 33352] to_double_int [of 33416] by (simp_all add: safe_int_def)
  then have c: "parse_int 16 signet_chainId = JInt 33352" "parse_int 16 ''0x8288'' = JInt 33416"
    by (simp_all add: parse_int_def signet_chainId_def trim_start_def is_space_def split_sign_def
        starts_with_def is_digit_of_def digit_val_def parse_base_def Let_def)
  have 1: "request_eth (Some f) EthRequestAccounts s = (Inr (JsArr (a # as)),
      s\<lparr>asked_wallet := asked_wallet s @ [(EthRequestAccounts, EthOk (JsArr (a # as)))]\<rparr>)"
    using assms by (simp add: request_eth_def ask_wallet_def Let_def)
  have conn: "connect_signet (Some f) s =
      (case seqE (switch_to_signet (Some f)) ?K ?s of
         (Inr (x, wei), s1) \<Rightarrow> show_wallet x wei s1
       | (Inl e, s1) \<Rightarrow> page_alert (''Wallet connection failed: '' @ e) s1)"
    by (simp add: connect_signet_def 1 first_account_def bindE_def liftE_def seqE_def modS_def)
  have K: "keeps (asked_first ?qs) ?K"
    by (intro keeps_bindE keeps_request keeps_liftE) (simp add: keeps_throw keeps_ret split: option.split)
  have "asked_first ?qs (snd (switch_to_signet (Some f) ?s))" using switch_asks [of ?s f] by simp
  then have after: "asked_first ?qs (snd (seqE (switch_to_signet (Some f)) ?K ?s))"
    by (rule keeps_after [OF _ K])
  obtain r t where rt: "seqE (switch_to_signet (Some f)) ?K ?s = (r, t)" by fastforce
  with after have "asked_first ?qs t" by (simp only: rt snd_conv)
  then have "asked_first ?qs (connect_signet (Some f) s)"
    unfolding conn rt by (cases r) (auto simp: asked_first_update)
  then show ?thesis using c
    by (auto simp: asked_first_def CHAIN_IDS_def NETWORK_CONFIG_def)
qed

subsection \<open>A session\<close>

fun toy_provider :: "(eth_request \<times> eth_reply) list \<Rightarrow> eth_request \<Rightarrow> eth_reply" where
  "toy_provider l EthRequestAccounts = EthOk (JsArr [JsStr ''0xabc''])"
| "toy_provider l (EthGetBalance a) = EthOk (JsNum (JInt 0))"
| "toy_provider l q = EthOk JsNull"

definition toy_row :: "string \<Rightarrow> string option \<Rightarrow> string \<Rightarrow> deposit_row" where
  "toy_row i a st = \<lparr>d_id = i, d_network = ''signet'', d_snowside_address = ''0xabc'', d_ecash_address = a,
     d_derivation_index = None, d_amount_sats = None, d_amount_ecx = None, d_ecash_tx_hash = None,
     d_mint_tx_hash = None, d_status = st, d_created_at = 0, d_confirmed_at = None, d_minted_at = None\<rparr>"

abbreviation toy_created :: "string \<Rightarrow> (string \<times> json) list" where
  "toy_created i \<equiv> [(''id'', JsStr i)]"

text \<open>A first deposit, complete; \<open>ticks\<close> times the timer has asked once more meanwhile.\<close>

definition toy_session :: "nat \<Rightarrow> signet_page" where
  "toy_session ticks = signet_run (Some toy_provider)
     ([ConnectClick, CreateClick, CreateAnswered (PageReply 200 (Inr (JsObj (toy_created ''d1''))))] @
      replicate ticks (TimerFires 1) @
      [PollAnswered 0 (PageReply 200 (Inr (deposit_json (toy_row ''d1'' (Some ''tb1old'') ''minted''))))])
     open_signet"

lemma toy_connect:
  "signet_step (Some toy_provider) ConnectClick open_signet =
     open_signet\<lparr>snowsideAddr := Some ''0xabc'', visible := {CreatePanel, WalletInfo},
       connect_btn := short_address ''0xabc'', snowside_addr := ''0xabc'',
       wallet_balance := balance_label 0, watching := True,
       asked_wallet := [(EthRequestAccounts, EthOk (JsArr [JsStr ''0xabc''])),
         (EthSwitchChain signet_chainId, EthOk JsNull), (EthGetBalance ''0xabc'', EthOk (JsNum (JInt 0)))]\<rparr>"
  by (simp add: connect_signet_def bindE_def seqE_def modS_def liftE_def ret_def request_eth_def
      ask_wallet_def switch_to_signet_def open_signet_def first_account_def bigint_of_json_def
      show_wallet_def panel_defs Let_def) auto

lemma toy_session_minted:
  assumes "ticks \<le> 1"
  shows "MintedPanel \<in> visible (toy_session ticks)" "pollTimer (toy_session ticks) = None"
    "intervals (toy_session ticks) = []" "open_polls (toy_session ticks) = replicate ticks (JsStr ''d1'')"
    "deposit_address (toy_session ticks) = ''tb1old''"
proof -
  have id: "field (JsObj (toy_created ''d1'')) ''id'' = Some (JsStr ''d1'')" by (simp add: field_def)
  have "ticks = 0 \<or> ticks = 1" using assms by auto
  then show "MintedPanel \<in> visible (toy_session ticks)" "pollTimer (toy_session ticks) = None"
    "intervals (toy_session ticks) = []" "open_polls (toy_session ticks) = replicate ticks (JsStr ''d1'')"
    "deposit_address (toy_session ticks) = ''tb1old''"
    unfolding toy_session_def signet_run_simps toy_connect
    by (auto simp: toy_row_def open_signet_def create_sent_def create_answered_def created_response
        panel_defs send_poll_def set_interval_def truthy_id_def truthy_json_def id poll_answered_def
        deposit_response deposit_shown_def deposit_fields or_null_def show_deposit_address_def
        show_minted_def clear_timer_def drop_nth_def js_string_opt_def Let_def)
qed

theorem next_deposit_shows_old_address_witness:
  "\<exists>s'. s' = signet_run (Some toy_provider) (another_deposit (toy_created ''d2'') @
       replicate 5 (PollAnswered 0 (PageReply 200 (Inr (deposit_json (toy_row ''d2'' None ''pending''))))) @
       [CopyClick]) (toy_session 0) \<and>
     PendingPanel \<in> visible s' \<and> currentDepositId s' = Some (JsStr ''d2'') \<and> clipboard s' = ''tb1old''"
  using next_deposit_shows_old_address [OF toy_session_minted(1,2), of 0 "toy_created ''d2''"
      "toy_row ''d2'' None ''pending''" _ "Some toy_provider" 5 0]
  by (simp add: truthy_json_def toy_row_def toy_session_minted del: signet_run_simps)

theorem late_poll_ends_next_deposit_witness:
  "\<exists>s'. s' = signet_run (Some toy_provider) (another_deposit (toy_created ''d2'') @
       PollAnswered 0 (PageReply 200 (Inr (deposit_json (toy_row ''d1'' (Some ''tb1old'') ''minted'')))) #
       map TimerFires [1, 2, 3]) (toy_session 1) \<and>
     currentDepositId s' = Some (JsStr ''d2'') \<and> MintedPanel \<in> visible s' \<and>
     open_polls s' = [JsStr ''d2'']"
  using late_poll_ends_next_deposit [OF toy_session_minted(1-3), of 1 "JsStr ''d1''" "toy_created ''d2''"
      "toy_row ''d1'' (Some ''tb1old'') ''minted''" _ "Some toy_provider" "[1, 2, 3]"]
  by (simp add: truthy_json_def toy_row_def toy_session_minted del: signet_run_simps)

theorem signet_page_other_chain_witness:
  "\<exists>c rest. map fst (asked_wallet (signet_step (Some toy_provider) ConnectClick open_signet)) =
      EthRequestAccounts # EthSwitchChain c # rest \<and> parse_int 16 c = JInt 33352"
  using signet_page_other_chain [of toy_provider open_signet "JsStr ''0xabc''" "[]"]
  by (auto simp: open_signet_def simp del: signet_step.simps)

end
