(* ===== verification/Explorer_Page.thy ===== *)
theory Explorer_Page
  imports Bridge_Widget Edge_Middleware
begin

text \<open>
  The scripts of the explorer: its dashboard (\<open>packages/explorer/src/components/ExplorerDashboard.astro\<close>)
  and its search (\<open>Search.astro\<close>), the latter together with the explorer's middleware and the
  pages the site has. A JSON-RPC endpoint is a function of the request; \<open>Date.now\<close> and
  \<open>toLocaleString\<close> are parameters. What the dashboard shows is the record \<open>dashboard\<close>; rows are kept as
  their cells, without the markup around them.
\<close>

subsection \<open>Formatting\<close>

text \<open>Properties of \<open>undefined\<close> and \<open>null\<close> cannot be read.\<close>

definition prop_of :: "json option \<Rightarrow> string \<Rightarrow> error + json option" where
  "prop_of j k =
     (case j of None \<Rightarrow> Inl ''TypeError'' | Some JsNull \<Rightarrow> Inl ''TypeError'' | Some v \<Rightarrow> Inr (field v k))"

text \<open>Strings and arrays can be sliced; of other values the call throws (objects are taken to have no
  \<open>length\<close>).\<close>

definition formatHash :: "json option \<Rightarrow> error + string" where
  "formatHash hash =
     (if \<not> truthy_json hash then Inr dash
      else case the hash of
             JsStr h \<Rightarrow> Inr (if length h \<le> 12 then h else take 8 h @ ''...'' @ slice_last 4 h)
           | JsArr xs \<Rightarrow>
               Inr (if length xs \<le> 12 then js_string (JsArr xs)
                    else js_string (JsArr (take 8 xs)) @ ''...'' @ js_string (JsArr (slice_last 4 xs)))
           | _ \<Rightarrow> Inl ''TypeError'')"

definition hex_num :: "json option \<Rightarrow> jnum" where
  "hex_num j = parse_int 16 (js_string_opt j)"

text \<open>\<open>now\<close> is \<open>Math.floor(Date.now() / 1000)\<close>.\<close>

definition formatTimeAgo :: "int \<Rightarrow> json option \<Rightarrow> string" where
  "formatTimeAgo tnow timestampHex =
     (let diff = js_sub (JInt tnow) (hex_num timestampHex)
      in if js_less diff (JInt 0) then ''just now''
         else if js_less diff (JInt 60) then show_num diff @ '' secs ago''
         else if js_less diff (JInt 3600) then show_num (js_floor (js_div diff (JInt 60))) @ '' mins ago''
         else if js_less diff (JInt 86400) then show_num (js_floor (js_div diff (JInt 3600))) @ '' hrs ago''
         else show_num (js_floor (js_div diff (JInt 86400))) @ '' days ago'')"

definition formatValue :: "json option \<Rightarrow> error + string" where
  "formatValue valueHex =
     (if \<not> truthy_json valueHex \<or> valueHex = Some (JsStr ''0x0'') then Inr ''0''
      else map_sum id (\<lambda>wei.
             let ecx = js_div (num_of_bigint wei) (JInt (10 ^ 18))
             in if js_eq ecx (JInt 0) then ''0''
                else if js_less ecx (to_double (1 / 1000000)) then ''<0.000001''
                else js_to_fixed 6 ecx) (bigint_of_json valueHex))"

definition formatGasUsed :: "(jnum \<Rightarrow> string) \<Rightarrow> json option \<Rightarrow> json option \<Rightarrow> string" where
  "formatGasUsed toLocaleString gasUsedHex gasLimitHex =
     (let used = hex_num gasUsedHex; limit = hex_num gasLimitHex;
          pct = (if js_less (JInt 0) limit then js_to_fixed 2 (js_mul (js_div used limit) (JInt 100))
                 else ''0'')
      in toLocaleString used @ '' ('' @ pct @ ''%)'')"

subsection \<open>Rows\<close>

record explorer_env =
  toLocaleString :: "jnum \<Rightarrow> string"
  date_now :: int
  rpc_answer :: "string \<Rightarrow> json list \<Rightarrow> error + json"

definition block_row :: "explorer_env \<Rightarrow> json option \<Rightarrow> error + string list" where
  "block_row env block =
     bind_sum (prop_of block ''number'') (\<lambda>number.
     bind_sum (prop_of block ''transactions'') (\<lambda>txs.
     bind_sum (prop_of block ''miner'') (\<lambda>miner.
     bind_sum (if truthy_json miner \<and> miner \<noteq> Some (JsStr ZERO_ADDRESS) then formatHash miner
               else Inr ''PoA Validator'') (\<lambda>validator.
     bind_sum (prop_of block ''gasUsed'') (\<lambda>used.
     bind_sum (prop_of block ''gasLimit'') (\<lambda>limit.
     bind_sum (prop_of block ''timestamp'') (\<lambda>timestamp.
     Inr [CHR ''#'' # show_num (hex_num number), formatTimeAgo (date_now env) timestamp, validator,
          (if truthy_json txs then js_string_opt (js_length (the txs)) else ''0''),
          formatGasUsed (toLocaleString env) used limit])))))))"

definition tx_row :: "json \<Rightarrow> error + string list" where
  "tx_row tx =
     bind_sum (formatHash (field tx ''hash'')) (\<lambda>txHash.
     bind_sum (formatHash (field tx ''from'')) (\<lambda>sender.
     bind_sum (if truthy_json (field tx ''to'') then formatHash (field tx ''to'')
               else Inr ''Contract Creation'') (\<lambda>recipient.
     bind_sum (formatValue (field tx ''value'')) (\<lambda>amount.
     Inr [txHash, CHR ''#'' # js_string_opt (field tx ''blockNum''), sender, recipient,
          amount @ '' ECX'']))))"

subsection \<open>The dashboard\<close>

record dashboard =
  status_text :: string
  stat_latest_block :: string
  stat_latest_block_age :: string
  stat_gas_price :: string
  stat_block_time :: string
  stat_recent_txns :: string
  stat_peers :: string
  blocks_table :: "string list list"
  txs_table :: "string list list"

definition setStatus :: "bool \<Rightarrow> dashboard \<Rightarrow> dashboard" where
  "setStatus online s = s\<lparr>status_text := (if online then ''Connected'' else ''Disconnected'')\<rparr>"

definition renderBlocksTable :: "explorer_env \<Rightarrow> json option list \<Rightarrow> (dashboard, unit) comp" where
  "renderBlocksTable env blocks =
     (if blocks = [] then modS (\<lambda>s. s\<lparr>blocks_table := [[''No blocks available'']]\<rparr>)
      else bindE (liftE (map_fallible (block_row env) blocks)) (\<lambda>rows.
           modS (\<lambda>s. s\<lparr>blocks_table := rows\<rparr>)))"

definition renderTxsTable :: "json list \<Rightarrow> (dashboard, unit) comp" where
  "renderTxsTable txs =
     (if txs = [] then modS (\<lambda>s. s\<lparr>txs_table := [[''No transactions in recent blocks'']]\<rparr>)
      else bindE (liftE (map_fallible tx_row txs)) (\<lambda>rows.
           modS (\<lambda>s. s\<lparr>txs_table := rows\<rparr>)))"

definition showErrorState :: "dashboard \<Rightarrow> dashboard" where
  "showErrorState s =
     (setStatus False s)
       \<lparr>stat_latest_block := ''N/A'', stat_latest_block_age := [], stat_gas_price := ''N/A'',
        stat_block_time := ''N/A'', stat_recent_txns := ''N/A'', stat_peers := ''N/A'',
        blocks_table := [[''RPC Unavailable'']], txs_table := [[''RPC Unavailable'']]\<rparr>"

text \<open>The result of a call; a response that is \<open>null\<close>, or reports an error, throws.\<close>

definition rpc :: "explorer_env \<Rightarrow> string \<Rightarrow> json list \<Rightarrow> error + json option" where
  "rpc env method params =
     bind_sum (rpc_answer env method params) (\<lambda>data.
     bind_sum (prop_of (Some data) ''error'') (\<lambda>err.
     if truthy_json err
     then bind_sum (prop_of err ''message'') (\<lambda>msg. Inl (js_string_opt msg))
     else Inr (field data ''result'')))"

definition block_numbers :: "jnum \<Rightarrow> jnum list" where
  "block_numbers latestBlock =
     takeWhile (\<lambda>n. js_le (JInt 0) n) (map (\<lambda>i. js_sub latestBlock (JInt (int i))) [0..<6])"

definition block_param :: "jnum \<Rightarrow> json list" where
  "block_param n = [JsStr (''0x'' @ num_hex n), JsBool True]"

definition load_blocks :: "explorer_env \<Rightarrow> jnum \<Rightarrow> error + json option list" where
  "load_blocks env latestBlock =
     map_sum id (filter (\<lambda>b. b \<noteq> Some JsNull))
       (map_fallible (\<lambda>n. rpc env ''eth_getBlockByNumber'' (block_param n)) (block_numbers latestBlock))"

text \<open>\<open>Math.round\<close> takes the larger of two nearest integers.\<close>

fun js_round :: "jnum \<Rightarrow> jnum" where
  "js_round (JFin q) = JInt \<lfloor>q + 1 / 2\<rfloor>"
| "js_round x = x"

fun block_gaps :: "json option list \<Rightarrow> error + jnum list" where
  "block_gaps (b # c # bs) =
     bind_sum (prop_of b ''timestamp'') (\<lambda>t.
     bind_sum (prop_of c ''timestamp'') (\<lambda>u.
     bind_sum (block_gaps (c # bs)) (\<lambda>ds. Inr (js_sub (hex_num t) (hex_num u) # ds))))"
| "block_gaps bs = Inr []"

definition avg_block_time :: "jnum list \<Rightarrow> jnum" where
  "avg_block_time gaps =
     (let times = filter (\<lambda>d. js_less (JInt 0) d) gaps
      in if times = [] then JInt 0
         else js_round (js_div (foldl js_add (JInt 0) times) (JInt (int (length times)))))"

text \<open>\<open>Object.assign\<close> on a primitive gives a wrapper with the new properties.\<close>

definition assign_tx :: "json option \<Rightarrow> json option \<Rightarrow> json \<Rightarrow> error + json" where
  "assign_tx number timestamp tx =
     (let extra = (\<lambda>kvs. put ''timestamp'' (case timestamp of None \<Rightarrow> JsNull | Some t \<Rightarrow> t)
                     (put ''blockNum'' (JsNum (hex_num number)) kvs))
      in case tx of
           JsNull \<Rightarrow> Inl ''TypeError''
         | JsObj kvs \<Rightarrow> Inr (JsObj (extra kvs))
         | _ \<Rightarrow> Inr (JsObj (extra [])))"

definition block_txs :: "json option \<Rightarrow> error + json list" where
  "block_txs block =
     bind_sum (prop_of block ''transactions'') (\<lambda>txs.
       if \<not> truthy_json txs then Inr []
       else case js_iterate (the txs) of
              None \<Rightarrow> Inl ''TypeError''
            | Some ts \<Rightarrow>
                bind_sum (prop_of block ''number'') (\<lambda>number.
                bind_sum (prop_of block ''timestamp'') (\<lambda>timestamp.
                  map_fallible (assign_tx number timestamp) ts)))"

definition peer_label :: "error + json option \<Rightarrow> string" where
  "peer_label peers =
     (case peers of
        Inr p \<Rightarrow> if truthy_json p then show_num (hex_num p) else ''N/A''
      | Inl e \<Rightarrow> ''N/A'')"

definition show_stats ::
  "jnum \<Rightarrow> jnum \<Rightarrow> string \<Rightarrow> jnum \<Rightarrow> json list \<Rightarrow> string
     \<Rightarrow> dashboard \<Rightarrow> dashboard" where
  "show_stats latestBlock gasPrice age avgBlockTime txs peers s =
     (setStatus True s)
       \<lparr>stat_latest_block := CHR ''#'' # show_num latestBlock, stat_latest_block_age := age,
        stat_gas_price := js_to_fixed 2 gasPrice @ '' Gwei'',
        stat_block_time := show_num avgBlockTime @ ''s'',
        stat_recent_txns := show_int (int (length txs)), stat_peers := peers\<rparr>"

definition latest_age :: "explorer_env \<Rightarrow> json option list \<Rightarrow> error + string" where
  "latest_age env blocks =
     (case blocks of
        b # bs \<Rightarrow>
          if truthy_json b
          then map_sum id (formatTimeAgo (date_now env)) (prop_of b ''timestamp'') else Inr []
      | [] \<Rightarrow> Inr [])"

definition load_steps :: "explorer_env \<Rightarrow> (dashboard, unit) comp" where
  "load_steps env =
     bindE (liftE (rpc env ''eth_blockNumber'' [])) (\<lambda>blockNumberHex.
     bindE (liftE (rpc env ''eth_gasPrice'' [])) (\<lambda>gasPriceHex.
     let latestBlock = hex_num blockNumberHex;
         gasPrice = js_div (hex_num gasPriceHex) (JInt (10 ^ 9));
         peers = peer_label (rpc env ''net_peerCount'' [])
     in bindE (liftE (load_blocks env latestBlock)) (\<lambda>blocks.
        bindE (liftE (block_gaps blocks)) (\<lambda>gaps.
        bindE (liftE (map_fallible block_txs blocks)) (\<lambda>txss.
        let txs = concat txss
        in bindE (liftE (latest_age env blocks)) (\<lambda>age.
           seqE (modS (show_stats latestBlock gasPrice age (avg_block_time gaps) txs peers))
           (seqE (renderBlocksTable env blocks)
                 (renderTxsTable (take 6 txs)))))))))"

definition loadDashboard :: "explorer_env \<Rightarrow> dashboard \<Rightarrow> dashboard" where
  "loadDashboard env s =
     snd (catchE (load_steps env) (\<lambda>e. modS showErrorState) s)"

subsection \<open>Search\<close>

text \<open>What the page does with a submitted text: nothing, go to a path, or say that it is no query.\<close>

datatype search_result = Ignored | GoTo string | InvalidQuery

definition hex_after_0x :: "nat \<Rightarrow> string \<Rightarrow> bool" where
  "hex_after_0x n x \<longleftrightarrow> starts_with x ''0x'' \<and> length x = n + 2 \<and> list_all (is_digit_of 16) (drop 2 x)"

definition search_type :: "string \<Rightarrow> string option" where
  "search_type x =
     (if x \<noteq> [] \<and> list_all (is_digit_of 10) x then Some ''block''
      else if hex_after_0x 40 x then Some ''address''
      else if hex_after_0x 64 x then Some ''tx''
      else None)"

definition search_submit :: "string \<Rightarrow> search_result" where
  "search_submit text =
     (let x = trim text
      in if x = [] then Ignored
         else case search_type x of
                Some t \<Rightarrow> GoTo (''/'' @ t @ ''/'' @ x)
              | None \<Rightarrow> InvalidQuery)"

text \<open>
  The pages of the site, by the paths that reach them: \<open>pages/index.astro\<close> and the networks of
  \<open>pages/[network]/index.astro\<close>.
\<close>

definition explorer_networks :: "string list" where
  "explorer_networks = [''mainnet'', ''testnet'', ''signet'']"

definition explorer_pages :: "string list" where
  "explorer_pages = ''/'' # concat (map (\<lambda>n. [''/'' @ n, ''/'' @ n @ ''/'']) explorer_networks)"

subsection \<open>All or nothing\<close>

definition error_dashboard :: dashboard where
  "error_dashboard =
     \<lparr>status_text = ''Disconnected'', stat_latest_block = ''N/A'', stat_latest_block_age = [],
      stat_gas_price = ''N/A'', stat_block_time = ''N/A'', stat_recent_txns = ''N/A'', stat_peers = ''N/A'',
      blocks_table = [[''RPC Unavailable'']], txs_table = [[''RPC Unavailable'']]\<rparr>"

lemma showError_all: "showErrorState s = error_dashboard"
  by (cases s) (simp add: showErrorState_def setStatus_def error_dashboard_def)

lemma renderBlocks_cases:
  "(\<exists>e. \<forall>s. renderBlocksTable env bs s = (Inl e, s)) \<or>
   (\<exists>t. \<forall>s. renderBlocksTable env bs s = (Inr (), s\<lparr>blocks_table := t\<rparr>))"
  by (cases "map_fallible (block_row env) bs")
    (auto simp: renderBlocksTable_def modS_def bindE_def liftE_def)

lemma renderTxs_cases:
  "(\<exists>e. \<forall>s. renderTxsTable ts s = (Inl e, s)) \<or>
   (\<exists>t. \<forall>s. renderTxsTable ts s = (Inr (), s\<lparr>txs_table := t\<rparr>))"
  by (cases "map_fallible tx_row ts") (auto simp: renderTxsTable_def modS_def bindE_def liftE_def)

text \<open>Once the data is there, the page is rewritten as a whole or the rendering throws.\<close>

lemma show_all_cases:
  assumes "m = seqE (modS (show_stats latest gas age avg txs peers))
    (seqE (renderBlocksTable env bs) (renderTxsTable ts))"
  shows "(\<exists>e. \<forall>s. \<exists>t. m s = (Inl e, t)) \<or> (\<exists>d. status_text d = ''Connected'' \<and> (\<forall>s. m s = (Inr (), d)))"
proof -
  from renderBlocks_cases [of env bs] show ?thesis
  proof
    assume "\<exists>e. \<forall>s. renderBlocksTable env bs s = (Inl e, s)"
    then show ?thesis by (auto simp: assms seqE_def bindE_def modS_def)
  next
    assume "\<exists>t. \<forall>s. renderBlocksTable env bs s = (Inr (), s\<lparr>blocks_table := t\<rparr>)"
    then obtain b where b: "renderBlocksTable env bs s = (Inr (), s\<lparr>blocks_table := b\<rparr>)" for s by blast
    from renderTxs_cases [of ts] show ?thesis
    proof
      assume "\<exists>e. \<forall>s. renderTxsTable ts s = (Inl e, s)"
      then show ?thesis by (auto simp: assms seqE_def bindE_def modS_def b)
    next
      assume "\<exists>t. \<forall>s. renderTxsTable ts s = (Inr (), s\<lparr>txs_table := t\<rparr>)"
      then obtain t where t: "renderTxsTable ts s = (Inr (), s\<lparr>txs_table := t\<rparr>)" for s by blast
      let ?d = "show_stats latest gas age avg txs peers error_dashboard\<lparr>blocks_table := b, txs_table := t\<rparr>"
      have "m s = (Inr (), ?d)" for s
        by (cases s) (simp add: assms seqE_def bindE_def modS_def b t show_stats_def setStatus_def
            error_dashboard_def)
      then show ?thesis by (intro disjI2 exI [of _ ?d]) (simp add: show_stats_def setStatus_def)
    qed
  qed
qed

definition blocks_answered :: "explorer_env \<Rightarrow> bool" where
  "blocks_answered env \<longleftrightarrow>
     (\<exists>n g. rpc env ''eth_blockNumber'' [] = Inr n \<and> rpc env ''eth_gasPrice'' [] = Inr g \<and>
       list_all (\<lambda>m. \<exists>b. rpc env ''eth_getBlockByNumber'' (block_param m) = Inr b) (block_numbers (hex_num n)))"

lemma load_blocks_all:
  "load_blocks env n = Inr bs \<Longrightarrow>
   list_all (\<lambda>m. \<exists>b. rpc env ''eth_getBlockByNumber'' (block_param m) = Inr b) (block_numbers n)"
  by (auto simp: load_blocks_def map_sum_def split: sum.splits dest: map_fallible_all)

lemma load_steps_cases:
  "(\<exists>e. \<forall>s. \<exists>t. load_steps env s = (Inl e, t)) \<or>
   blocks_answered env \<and> (\<exists>d. status_text d = ''Connected'' \<and> (\<forall>s. load_steps env s = (Inr (), d)))"
  (is "?err \<or> ?ok")
proof (cases ?err)
  case no: False
  note unf = load_steps_def bindE_def liftE_def Let_def
  from no obtain n where n: "rpc env ''eth_blockNumber'' [] = Inr n"
    by (cases "rpc env ''eth_blockNumber'' []") (auto simp: unf)
  from no obtain g where g: "rpc env ''eth_gasPrice'' [] = Inr g"
    by (cases "rpc env ''eth_gasPrice'' []") (auto simp: unf n)
  from no obtain bs where bs: "load_blocks env (hex_num n) = Inr bs"
    by (cases "load_blocks env (hex_num n)") (auto simp: unf n g)
  from no obtain gs where gs: "block_gaps bs = Inr gs"
    by (cases "block_gaps bs") (auto simp: unf n g bs)
  from no obtain ts where ts: "map_fallible block_txs bs = Inr ts"
    by (cases "map_fallible block_txs bs") (auto simp: unf n g bs gs)
  from no obtain age where age: "latest_age env bs = Inr age"
    by (cases "latest_age env bs") (auto simp: unf n g bs gs ts)
  have answered: "blocks_answered env"
    using n g load_blocks_all [OF bs] by (auto simp: blocks_answered_def)
  let ?m = "seqE (modS (show_stats (hex_num n) (js_div (hex_num g) (JInt (10 ^ 9))) age
      (avg_block_time gs) (concat ts) (peer_label (rpc env ''net_peerCount'' []))))
    (seqE (renderBlocksTable env bs) (renderTxsTable (take 6 (concat ts))))"
  have "load_steps env s = ?m s" for s by (simp add: unf n g bs gs ts age)
  with show_all_cases [OF refl, of "hex_num n" "js_div (hex_num g) (JInt (10 ^ 9))" age "avg_block_time gs"
      "concat ts" "peer_label (rpc env ''net_peerCount'' [])" env bs "take 6 (concat ts)"] no answered
  show ?thesis by auto
qed simp


subsection \<open>The blocks asked for\<close>

lemma block_numbers_int:
  assumes "0 \<le> n" "n \<le> 2 ^ 53"
  shows "block_numbers (JInt n) = map (\<lambda>i. JInt (n - int i)) [0..<min 6 (nat n + 1)]"
proof -
  have sub: "js_sub (JInt n) (JInt (int i)) = JInt (n - int i)" if "i < 6" for i
    using assms that js_sub_int [of n "int i"] by (simp add: safe_int_def)
  have le: "js_le (JInt 0) (JInt m) = (0 \<le> m)" for m by (auto simp: js_le_def js_eq_def)
  have "block_numbers (JInt n) = takeWhile (\<lambda>m. js_le (JInt 0) m) (map (\<lambda>i. JInt (n - int i)) [0..<6])"
    unfolding block_numbers_def using sub by (intro arg_cong [where f = "takeWhile _"] map_cong refl) simp
  also have "\<dots> = map (\<lambda>i. JInt (n - int i)) (takeWhile (\<lambda>i. int i \<le> n) [0..<6])"
    by (simp add: takeWhile_map comp_def le del: of_int_diff of_int_0)
  also have "takeWhile (\<lambda>i. int i \<le> n) [0..<6] = [0..<min 6 (nat n + 1)]"
  proof (cases "6 \<le> nat n + 1")
    case True
    then show ?thesis by (auto simp: min_def)
  next
    case False
    then have "[0..<6] = [0..<nat n + 1] @ [nat n + 1..<6]" using upt_add_eq_append [of 0 "nat n + 1" "5 - nat n"] by simp
    moreover have "takeWhile (\<lambda>i. int i \<le> n) [nat n + 1..<6] = []"
      using False assms(1) by (simp add: upt_rec [of "Suc (nat n)"])
    moreover have "takeWhile (\<lambda>i. int i \<le> n) ([0..<nat n + 1] @ ys) =
        [0..<nat n + 1] @ takeWhile (\<lambda>i. int i \<le> n) ys" for ys
      using assms(1) by (intro takeWhile_append2) auto
    ultimately show ?thesis using False by simp
  qed
  finally show ?thesis .
qed

lemma hex_param:
  assumes "0 \<le> m" "m \<le> 2 ^ 53"
  shows "parse_int 16 (''0x'' @ num_hex (JInt m)) = JInt m"
proof -
  let ?d = "show_base 16 (nat m)"
  have h: "num_hex (JInt m) = ?d" using assms(1) by (simp add: show_bigint_def)
  have tw: "takeWhile (is_digit_of 16) ?d = ?d" using show_base_digits [of 16] by simp
  have "to_double (rat_of_nat (parse_base 16 ?d)) = to_double (of_int m)"
    using assms(1) by (simp add: parse_show_base)
  also have "\<dots> = JInt m" using assms by (intro to_double_int) (simp add: safe_int_def)
  finally have pb: "to_double (rat_of_nat (parse_base 16 ?d)) = JInt m" .
  show ?thesis unfolding h
    by (simp add: parse_int_def trim_start_def is_space_def split_sign_def starts_with_def Let_def tw pb
        del: takeWhile_eq_all_conv)
qed

text \<open>
  For the latest block \<open>n\<close> the dashboard asks for the blocks \<open>n\<close>, \<open>n - 1\<close>, ... down to \<open>n - 5\<close> or 0, each
  once and newest first; the hexadecimal parameters read back as these numbers.
\<close>

theorem dashboard_blocks:
  assumes "0 \<le> n" "n \<le> 2 ^ 53"
  shows "map block_param (block_numbers (JInt n)) =
      map (\<lambda>i. [JsStr (''0x'' @ show_bigint 16 (n - int i)), JsBool True]) [0..<min 6 (nat n + 1)] \<and>
    list_all (\<lambda>m. parse_int 16 (''0x'' @ num_hex m) = m \<and> js_le (JInt 0) m \<and> js_le m (JInt n))
      (block_numbers (JInt n))"
proof -
  have le: "js_le (JInt a) (JInt b) = (a \<le> b)" for a b by (auto simp: js_le_def js_eq_def)
  have "list_all (\<lambda>i. parse_int 16 (''0x'' @ num_hex (JInt (n - int i))) = JInt (n - int i) \<and>
      js_le (JInt 0) (JInt (n - int i)) \<and> js_le (JInt (n - int i)) (JInt n)) [0..<min 6 (nat n + 1)]"
    unfolding list_all_iff le
  proof
    fix i assume "i \<in> set [0..<min 6 (nat n + 1)]"
    with assms have "0 \<le> n - int i" "n - int i \<le> 2 ^ 53" by auto
    from hex_param [OF this] this(1) show
      "parse_int 16 (''0x'' @ num_hex (JInt (n - int i))) = JInt (n - int i) \<and> 0 \<le> n - int i \<and> n - int i \<le> n"
      by (simp del: of_int_diff num_hex.simps)
  qed
  then show ?thesis
    by (simp add: block_numbers_int [OF assms] block_param_def list.pred_map comp_def
        del: of_int_diff of_int_0 upt.simps)
qed

subsection \<open>Where a search leads\<close>

definition plain_char :: "char \<Rightarrow> bool" where
  "plain_char c \<longleftrightarrow> c \<noteq> CHR ''/'' \<and> c \<noteq> CHR ''.''"

lemma hex_digit_plain: "is_digit_of b c \<Longrightarrow> b \<le> 16 \<Longrightarrow> plain_char c"
  by (auto simp: is_digit_of_def digit_val_def plain_char_def Let_def)

lemma search_type_plain:
  assumes "search_type x = Some t"
  shows "list_all plain_char x" "x \<noteq> []" "t = ''block'' \<or> t = ''address'' \<or> t = ''tx''"
proof -
  have hex: "list_all plain_char x \<and> x \<noteq> []" if "hex_after_0x n x" for n
  proof -
    from that have "take 2 x = ''0x''" "list_all (is_digit_of 16) (drop 2 x)"
      by (simp_all add: hex_after_0x_def starts_with_def numeral_2_eq_2)
    moreover have "x = take 2 x @ drop 2 x" by simp
    ultimately obtain y where "x = ''0x'' @ y" "list_all (is_digit_of 16) y" by metis
    then show ?thesis using hex_digit_plain [of 16] by (auto simp: list_all_iff plain_char_def)
  qed
  moreover have "list_all plain_char x" if "list_all (is_digit_of 10) x"
    using that hex_digit_plain [of 10] by (auto simp: list_all_iff)
  ultimately show "list_all plain_char x" "x \<noteq> []" "t = ''block'' \<or> t = ''address'' \<or> t = ''tx''"
    using assms unfolding search_type_def by (auto split: if_splits)
qed

lemma search_goto:
  assumes "search_submit text = GoTo p"
  obtains t x where "p = ''/'' @ t @ ''/'' @ x" "t = ''block'' \<or> t = ''address'' \<or> t = ''tx''"
    "x \<noteq> []" "list_all plain_char x"
  using assms search_type_plain unfolding search_submit_def Let_def
  by (auto split: if_splits option.splits)

lemma plain_no_dot: "list_all plain_char x \<Longrightarrow> \<not> includes_str x ''.''"
  by (induction x) (auto simp: plain_char_def starts_with_def)

text \<open>
  C38. A search never finds anything. Whatever text is accepted, the path it leads to and the path the
  explorer's middleware asks the assets for, on any host, are none of the pages the site has.
\<close>

theorem search_finds_no_page:
  assumes "search_submit text = GoTo p" "u_path (er_url r) = p"
  shows "snd (onRequest_explorer env r) =
      (if starts_with (host_of r) ''explorer-testnet''
       then [CallAssets ((er_url r)\<lparr>u_path := ''/testnet'' @ p\<rparr>)]
       else if starts_with (host_of r) ''explorer-signet''
       then [CallAssets ((er_url r)\<lparr>u_path := ''/signet'' @ p\<rparr>)]
       else [CallNext r]) \<and>
    set explorer_pages \<inter> {p, ''/testnet'' @ p, ''/signet'' @ p} = {}"
proof -
  from assms(1) obtain t x where p: "p = ''/'' @ t @ ''/'' @ x"
    and t: "t = ''block'' \<or> t = ''address'' \<or> t = ''tx''" and x: "x \<noteq> []" "list_all plain_char x"
    by (rule search_goto)
  have "\<not> includes_str p ''.''" "\<not> starts_with p ''/testnet''" "\<not> starts_with p ''/signet''"
    using t plain_no_dot [OF x(2)] by (auto simp: p starts_with_def)
  then have "snd (onRequest_explorer env r) =
      (if starts_with (host_of r) ''explorer-testnet''
       then [CallAssets ((er_url r)\<lparr>u_path := ''/testnet'' @ p\<rparr>)]
       else if starts_with (host_of r) ''explorer-signet''
       then [CallAssets ((er_url r)\<lparr>u_path := ''/signet'' @ p\<rparr>)]
       else [CallNext r])"
    using assms(2) by (simp add: onRequest_explorer_def call_next_def call_assets_def Let_def)
  moreover have "set explorer_pages \<inter> {p, ''/testnet'' @ p, ''/signet'' @ p} = {}"
    using t x(1) by (auto simp: explorer_pages_def explorer_networks_def p)
  ultimately show ?thesis by blast
qed

theorem dashboard_blocks_witness:
  "map block_param (block_numbers (JInt 2)) =
     [[JsStr (''0x'' @ show_bigint 16 2), JsBool True], [JsStr (''0x'' @ show_bigint 16 1), JsBool True],
      [JsStr (''0x'' @ show_bigint 16 0), JsBool True]]"
  using dashboard_blocks [of 2] by (simp add: upt_rec)

theorem search_finds_no_page_witness:
  "search_submit ''42'' = GoTo ''/block/42'' \<and> ''/block/42'' \<notin> set explorer_pages"
proof -
  have g: "search_submit ''42'' = GoTo ''/block/42''" by code_simp
  let ?r = "\<lparr>er_url = \<lparr>u_host = ''explorer.snowside.network'', u_path = ''/block/42'', u_query = []\<rparr>,
    er_host = Some ''explorer.snowside.network''\<rparr>"
  from search_finds_no_page [OF g, of ?r] g show ?thesis by auto
qed

end
