(* ===== verification/Fed_Scripts.thy ===== *)
theory Fed_Scripts
  imports Federation Js_Json
begin

text \<open>
  What is beside the main loop in \<open>packages/federation/src/\<close>: the chain objects and the start-up lines of
  \<open>index.ts\<close>, and the two scripts run by hand against the signet, \<open>test-mint.ts\<close> and \<open>test-precompile.ts\<close>
  (but for the lines \<open>test-mint.ts\<close> prints before it starts, and the causes of errors).
  A chain node is a function that answers given what it was asked before; a script is a computation on
  what it has asked and printed. \<open>privateKeyToAccount\<close> and \<open>encodeFunctionData\<close> are viem's and parameters.
\<close>

subsection \<open>Chains and start-up\<close>

record Chain =
  chain_id :: "int option"
  chain_name :: string
  chain_rpc :: "string option"

definition getChain :: "penv \<Rightarrow> string \<Rightarrow> Chain" where
  "getChain env network =
     \<lparr>chain_id = CHAIN_IDS network, chain_name = ''snowside-'' @ network,
      chain_rpc = RPC_URLS env network\<rparr>"

text \<open>\<open>parseInt(s)\<close> without a radix takes a number after \<open>0x\<close> for hexadecimal.\<close>

definition parse_int_auto :: "string \<Rightarrow> jnum" where
  "parse_int_auto s =
     (let u = snd (split_sign (trim_start s))
      in if starts_with u ''0x'' \<or> starts_with u ''0X'' then parse_int 16 s else parse_int 10 s)"

definition API_URL :: "penv \<Rightarrow> string" where
  "API_URL env = env_or env ''API_URL'' ''https://snowside.network/v1''"

definition POLL_MS :: "penv \<Rightarrow> jnum" where
  "POLL_MS env = parse_int_auto (env_or env ''POLL_MS'' ''10000'')"

definition network_names :: "string list" where
  "network_names = [''mainnet'', ''testnet'', ''signet'']"

definition startup_lines :: "penv \<Rightarrow> string list" where
  "startup_lines env =
     [''Snowside Federation Service (viem)'', ''  API: '' @ API_URL env,
      ''  HD wallet: '' @ (if HD_MNEMONIC env \<noteq> [] then ''set'' else ''NOT SET''),
      ''  MINTER key: '' @ (if MINTER_PRIVATE_KEY env \<noteq> [] then ''set'' else ''NOT SET''),
      ''  L2 Networks (Snowside RPC):''] @
     map (\<lambda>net. ''    '' @ net @ '': '' @
            (if truthy_str (RPC_URLS env net) then the (RPC_URLS env net) else ''(not set)''))
       network_names @
     [''  L1 Networks (Esplora):''] @
     map (\<lambda>net. ''    '' @ net @ '': '' @ (case ESPLORA_URLS env net of None \<Rightarrow> [] | Some u \<Rightarrow> u)) network_names @
     [''  Poll interval: '' @ show_num (POLL_MS env) @ ''ms'', ''---'']"

subsection \<open>A node and what it is asked\<close>

text \<open>
  The last component of a call is the account it is made from. An answer is the value viem gives, as
  text (a balance, the returned data, a hash, the status of a receipt), or the error it throws.
\<close>

datatype node_call =
    NGetBalance string
  | NCall string string "string option"
  | NSendTx string string string
  | NWaitReceipt string
  | NGetChainId
  | NGetCode string

type_synonym node = "(node_call \<times> (error + string)) list \<Rightarrow> node_call \<Rightarrow> error + string"

record script =
  asked_node :: "(node_call \<times> (error + string)) list"
  console :: "string list"

definition ask_node :: "node \<Rightarrow> node_call \<Rightarrow> (script, string) comp" where
  "ask_node node q s =
     (let r = node (asked_node s) q in (r, s\<lparr>asked_node := asked_node s @ [(q, r)]\<rparr>))"

definition say :: "string \<Rightarrow> (script, unit) comp" where
  "say line = modS (\<lambda>s. s\<lparr>console := console s @ [line]\<rparr>)"

subsection \<open>\<open>test-mint.ts\<close>\<close>

record mint_settings =
  mc_account :: string
  mc_mint_to :: string
  mc_amount_ecx :: int
  mc_chain :: jnum
  mc_rpc :: string

text \<open>The top of the module; without a key the process exits.\<close>

definition mint_config :: "(string \<Rightarrow> error + string) \<Rightarrow> penv \<Rightarrow> error + mint_settings" where
  "mint_config privateKeyToAccount env =
     (if \<not> truthy_str (env ''MINTER_PRIVATE_KEY'') then Inl ''exit 1''
      else bind_sum (bigint_of_string (env_or env ''MINT_AMOUNT_ECX'' ''1'')) (\<lambda>amount.
           bind_sum (privateKeyToAccount (the (env ''MINTER_PRIVATE_KEY''))) (\<lambda>a.
           Inr \<lparr>mc_account = a,
                mc_mint_to = env_or env ''MINT_TO'' ''0xFd89b56D37642D155af094bF00A2B4e9014aBAFC'',
                mc_amount_ecx = amount,
                mc_chain = parse_int_auto (env_or env ''CHAIN_ID'' ''33416''),
                mc_rpc = env_or env ''RPC_URL'' ''https://rpc.snowside.network/signet''\<rparr>)))"

text \<open>The status and the gas a receipt shows.\<close>

type_synonym receipt_reader = "string \<Rightarrow> string \<times> string"

definition mint_success_line :: string where
  "mint_success_line = nl @ [CHR 0xE2, CHR 0x9C, CHR 0x85] @ '' MINT SUCCEEDED!''"

text \<open>\<open>encodeFunctionData\<close>, given the function's name and its arguments.\<close>

type_synonym abi_encoder = "string \<Rightarrow> string list \<Rightarrow> error + string"

definition mint_wei :: "mint_settings \<Rightarrow> int" where
  "mint_wei mc = mc_amount_ecx mc * 10 ^ 18"

definition check_role :: "node \<Rightarrow> string \<Rightarrow> (script, unit) comp" where
  "check_role node readData =
     catchE
       (bindE (ask_node node (NCall NATIVE_MINTER readData None)) (\<lambda>role.
          say (''MINTER role: '' @ role @ '' (2 = admin, 1 = enabled, 0 = none)'')))
       (\<lambda>err. say (''readAllowList failed: '' @ take 200 err))"

definition dry_run :: "node \<Rightarrow> mint_settings \<Rightarrow> string \<Rightarrow> (script, bool) comp" where
  "dry_run node mc mintData =
     catchE
       (seqE (ask_node node (NCall NATIVE_MINTER mintData (Some (mc_account mc))))
       (seqE (say (''eth_call succeeded '' @ dash @ '' tx would work'')) (ret True)))
       (\<lambda>err. seqE (say (''eth_call failed: '' @ take 200 err)) (ret False))"

definition send_mint :: "receipt_reader \<Rightarrow> node \<Rightarrow> mint_settings \<Rightarrow> string \<Rightarrow> (script, unit) comp" where
  "send_mint rd node mc mintData =
     catchE
       (bindE (ask_node node (NSendTx NATIVE_MINTER mintData (mc_account mc))) (\<lambda>txHash.
        seqE (say (''txHash: '' @ txHash))
        (bindE (ask_node node (NWaitReceipt txHash)) (\<lambda>receipt.
         seqE (say (''status: '' @ fst (rd receipt)))
         (seqE (say (''gas used: '' @ snd (rd receipt)))
         (bindE (ask_node node (NGetBalance (mc_mint_to mc))) (\<lambda>balance.
          seqE (say (''Recipient balance: '' @ balance @ '' wei''))
               (say mint_success_line))))))))
       (\<lambda>err. say (''Transaction failed: '' @ err))"

text \<open>\<open>main().catch(console.error)\<close>.\<close>

definition mint_main :: "receipt_reader \<Rightarrow> node \<Rightarrow> abi_encoder \<Rightarrow> mint_settings \<Rightarrow> (script, unit) comp" where
  "mint_main rd node enc mc =
     catchE
       (bindE (ask_node node (NGetBalance (mc_account mc))) (\<lambda>balance.
        seqE (say (''MINTER balance: '' @ balance @ '' wei''))
        (bindE (liftE (enc ''readAllowList'' [mc_account mc])) (\<lambda>readData.
         seqE (say (nl @ ''--- Checking MINTER role on NativeMinter ---''))
         (seqE (check_role node readData)
         (bindE (liftE (enc ''mintNativeCoin'' [mc_mint_to mc, show_int (mint_wei mc)])) (\<lambda>mintData.
          seqE (say (nl @ ''--- Minting '' @ show_int (mc_amount_ecx mc) @ '' ECX via mintNativeCoin to '' @
                     mc_mint_to mc @ '' ---''))
          (seqE (say (''Data: '' @ mintData))
          (bindE (dry_run node mc mintData) (\<lambda>works.
             if works then send_mint rd node mc mintData else ret ()))))))))))
       (\<lambda>err. say err)"

subsection \<open>\<open>test-precompile.ts\<close>\<close>

text \<open>The call data it tries; \<open>mint(address,uint256)\<close> is not a function of the precompile.\<close>

definition pad_address :: "string \<Rightarrow> string" where
  "pad_address a =
     (let u = to_lower a
      in pad_start 64 (CHR ''0'') (if starts_with u ''0x'' then drop 2 u else u))"

definition test_recipient :: string where
  "test_recipient = ''0xFd89b56D37642D155af094bF00A2B4e9014aBAFC''"

definition test_mint_data :: string where
  "test_mint_data =
     ''0x40c10f19'' @ pad_address test_recipient @
     pad_start 64 (CHR ''0'') (show_bigint 16 (100 * 10 ^ 16))"

definition precompile_address :: "nat \<Rightarrow> string" where
  "precompile_address i = ''0x020000000000000000000000000000000000000'' @ show_bigint 16 (int i)"

definition try_call :: "(string \<Rightarrow> string) \<Rightarrow> node \<Rightarrow> string \<Rightarrow> (script, unit) comp" where
  "try_call shown node payload =
     catchE
       (bindE (ask_node node (NCall NATIVE_MINTER payload None)) (\<lambda>result. say (''Result: '' @ result)))
       (\<lambda>err. say (''Error: '' @ shown err))"

definition check_code :: "node \<Rightarrow> nat \<Rightarrow> (script, unit) comp" where
  "check_code node i =
     catchE
       (bindE (ask_node node (NGetCode (precompile_address i))) (\<lambda>c.
          if c \<noteq> [] \<and> c \<noteq> ''0x'' then say (precompile_address i @ '': code = '' @ c) else ret ()))
       (\<lambda>e. ret ())"

definition readSelectors :: "string list" where
  "readSelectors = [''0xa3f1d81b'', ''0x6ef8c667'', ''0xeadfdb10'']"

definition precompile_main :: "node \<Rightarrow> (script, unit) comp" where
  "precompile_main node =
     catchE
       (bindE (ask_node node NGetChainId) (\<lambda>chainId.
        seqE (say (''Chain ID: '' @ chainId))
        (bindE (ask_node node (NGetCode NATIVE_MINTER)) (\<lambda>code.
         seqE (say (''NativeMinter code: '' @ code))
         (seqE (say (nl @ ''--- Testing mint(address,uint256) ---''))
         (seqE (say ''Selector: 0x40c10f19'')
         (seqE (say (''Data: '' @ test_mint_data))
         (seqE (try_call id node test_mint_data)
         (seqE (say (nl @ ''--- Checking other precompile addresses ---''))
         (seqE (forE [0..<11] (check_code node))
               (forE readSelectors (\<lambda>sel.
                  seqE (say (nl @ ''--- Testing selector '' @ sel @ '' ---''))
                       (try_call (take 100) node (sel @ pad_address test_recipient))))))))))))))
       (\<lambda>err. say err)"

subsection \<open>No mint without a dry run\<close>

fun is_send :: "node_call \<Rightarrow> bool" where
  "is_send (NSendTx recipient payload sender) = True"
| "is_send _ = False"

definition sends :: "(node_call \<times> (error + string)) list \<Rightarrow> node_call list" where
  "sends h = filter is_send (map fst h)"

lemma sends_simps [simp]: "sends [] = []" "sends (h @ h') = sends h @ sends h'"
    "sends ((q, r) # h) = (if is_send q then q # sends h else sends h)"
  by (simp_all add: sends_def)

definition unsent :: "script \<Rightarrow> bool" where
  "unsent s \<longleftrightarrow> sends (asked_node s) = []"

text \<open>
  The one transaction asked for is the mint of the configured amount, and right before it the same
  call was made from the same account and succeeded.
\<close>

definition rehearsed :: "abi_encoder \<Rightarrow> mint_settings \<Rightarrow> script \<Rightarrow> bool" where
  "rehearsed enc mc s \<longleftrightarrow>
     (\<exists>payload before after x r. enc ''mintNativeCoin'' [mc_mint_to mc, show_int (mint_wei mc)] = Inr payload \<and>
        asked_node s = before @ (NCall NATIVE_MINTER payload (Some (mc_account mc)), Inr x) #
          (NSendTx NATIVE_MINTER payload (mc_account mc), r) # after \<and>
        sends before = [] \<and> sends after = [])"

lemma hoare_keeps: "keeps I m \<Longrightarrow> hoare I m (\<lambda>_. I) I"
  by (fastforce simp: hoare_def keeps_def split: prod.split sum.split)

lemma unsent_ask: "\<not> is_send q \<Longrightarrow> keeps unsent (ask_node node q)"
  by (simp add: keeps_def ask_node_def unsent_def Let_def)

lemma rehearsed_ask: "\<not> is_send q \<Longrightarrow> keeps (rehearsed enc mc) (ask_node node q)"
  unfolding keeps_def ask_node_def rehearsed_def Let_def by fastforce

lemma keeps_say: "keeps unsent (say line)" "keeps (rehearsed enc mc) (say line)"
  by (simp_all add: keeps_def say_def modS_def unsent_def rehearsed_def)

lemmas script_rules = unsent_ask rehearsed_ask keeps_say comp_rules

lemma unsent_role: "keeps unsent (check_role node d)"
  unfolding check_role_def by (intro script_rules) simp_all

text \<open>What holds when the dry run has succeeded.\<close>

definition tried :: "mint_settings \<Rightarrow> string \<Rightarrow> script \<Rightarrow> bool" where
  "tried mc payload s \<longleftrightarrow>
     (\<exists>h x. asked_node s = h @ [(NCall NATIVE_MINTER payload (Some (mc_account mc)), Inr x)] \<and> sends h = [])"

lemma dry_run_tries:
  assumes "unsent s" "dry_run node mc payload s = (r, t)"
  shows "unsent t \<and> (r = Inr True \<longrightarrow> tried mc payload t)"
  using assms
  by (auto simp: dry_run_def catchE_def seqE_def bindE_def ask_node_def say_def modS_def ret_def
      unsent_def tried_def Let_def split: sum.splits)

lemma send_rehearsed:
  assumes "tried mc payload s" "enc ''mintNativeCoin'' [mc_mint_to mc, show_int (mint_wei mc)] = Inr payload"
  shows "rehearsed enc mc (snd (send_mint rd node mc payload s))"
proof -
  obtain r t where a: "ask_node node (NSendTx NATIVE_MINTER payload (mc_account mc)) s = (r, t)" by fastforce
  from assms a have t: "rehearsed enc mc t"
    unfolding tried_def ask_node_def rehearsed_def Let_def by fastforce
  have "keeps (rehearsed enc mc) (catchE (bindE (liftE r) (\<lambda>txHash.
        seqE (say (''txHash: '' @ txHash))
        (bindE (ask_node node (NWaitReceipt txHash)) (\<lambda>receipt.
         seqE (say (''status: '' @ fst (rd receipt)))
         (seqE (say (''gas used: '' @ snd (rd receipt)))
         (bindE (ask_node node (NGetBalance (mc_mint_to mc))) (\<lambda>balance.
          seqE (say (''Recipient balance: '' @ balance @ '' wei''))
               (say mint_success_line))))))))
       (\<lambda>err. say (''Transaction failed: '' @ err)))"
    by (intro script_rules) simp_all
  from keepsD [OF this t] show ?thesis
    by (simp add: send_mint_def catchE_def bindE_def a liftE_def)
qed

lemma hoare_quiet: "keeps P m \<Longrightarrow> (\<And>s. P s \<Longrightarrow> E s) \<Longrightarrow> hoare P m (\<lambda>_. P) E"
  by (rule hoare_post [OF hoare_keeps])

lemma hoare_liftE:
  "(\<And>a. x = Inr a \<Longrightarrow> hoare P (f a) Q E) \<Longrightarrow> (\<And>s. P s \<Longrightarrow> E s) \<Longrightarrow> hoare P (bindE (liftE x) f) Q E"
  by (cases x) (simp_all add: hoare_def bindE_def liftE_def)

lemma mint_tail:
  assumes "enc ''mintNativeCoin'' [mc_mint_to mc, show_int (mint_wei mc)] = Inr payload"
  shows "hoare unsent (bindE (dry_run node mc payload) (\<lambda>works.
      if works then send_mint rd node mc payload else ret ()))
    (\<lambda>_ s. unsent s \<or> rehearsed enc mc s) (\<lambda>s. unsent s \<or> rehearsed enc mc s)"
proof (rule hoareI)
  fix s assume s: "unsent s"
  obtain r t where d: "dry_run node mc payload s = (r, t)" by fastforce
  note t = dry_run_tries [OF s d]
  then have "r = Inr True \<Longrightarrow> rehearsed enc mc (snd (send_mint rd node mc payload t))"
    using send_rehearsed [where enc = enc and mc = mc and payload = payload, OF _ assms] by blast
  with t show "case bindE (dry_run node mc payload) (\<lambda>works.
      if works then send_mint rd node mc payload else ret ()) s of
      (Inl e, t) \<Rightarrow> unsent t \<or> rehearsed enc mc t | (Inr a, t) \<Rightarrow> unsent t \<or> rehearsed enc mc t"
    by (auto simp: bindE_def d ret_def split: prod.split sum.split)
qed

definition script_start :: script where
  "script_start = \<lparr>asked_node = [], console = []\<rparr>"

text \<open>
  C34. The script that mints by hand sends at most one transaction, and only after a dry run: either it
  asks for none, or for the mint of exactly the configured amount to the configured address, and the
  call right before it, with the same data from the same account, succeeded.
\<close>

theorem mint_script_rehearses:
  "sends (asked_node (snd (mint_main rd node enc mc script_start))) = [] \<or>
   (\<exists>payload before after x r. enc ''mintNativeCoin'' [mc_mint_to mc, show_int (mint_wei mc)] = Inr payload \<and>
      asked_node (snd (mint_main rd node enc mc script_start)) =
        before @ (NCall NATIVE_MINTER payload (Some (mc_account mc)), Inr x) #
          (NSendTx NATIVE_MINTER payload (mc_account mc), r) # after \<and>
      sends before = [] \<and> sends after = [])"
proof -
  let ?I = "\<lambda>s. unsent s \<or> rehearsed enc mc s"
  have err: "hoare ?I (say e) (\<lambda>_. ?I) ?I" for e
    by (rule hoare_keeps) (auto simp: keeps_def say_def modS_def unsent_def rehearsed_def)
  have "hoare unsent (mint_main rd node enc mc) (\<lambda>_. ?I) ?I"
    unfolding mint_main_def
    by (rule hoare_catchE [OF _ err])
      (intro hoare_bindE [where R = "\<lambda>_. unsent"] hoare_seqE [where R = unsent] hoare_liftE hoare_quiet
        mint_tail script_rules unsent_role; simp)
  moreover obtain r t where m: "mint_main rd node enc mc script_start = (r, t)" by fastforce
  moreover have "unsent script_start" by (simp add: script_start_def unsent_def)
  ultimately have "?I t" by (cases r) (blast dest: hoare_Inl hoare_Inr)+
  then show ?thesis by (simp only: m snd_conv unsent_def rehearsed_def)
qed

text \<open>The status of the receipt is printed but not looked at: a mint that was reverted succeeds too.\<close>

theorem mint_success_unchecked:
  assumes "\<And>h q. \<exists>x. node h q = Inr x" "\<And>f xs. \<exists>payload. enc f xs = Inr payload"
  shows "last (console (snd (mint_main rd node enc mc s))) = mint_success_line"
proof -
  define answer where "answer h q = projr (node h q)" for h q
  have node: "node = (\<lambda>h q. Inr (answer h q))"
    using assms(1) by (intro ext) (metis answer_def sum.sel(2))
  define payload where "payload f xs = projr (enc f xs)" for f xs
  have enc: "enc = (\<lambda>f xs. Inr (payload f xs))"
    using assms(2) by (intro ext) (metis payload_def sum.sel(2))
  show ?thesis
    by (simp add: mint_main_def catchE_def bindE_def seqE_def liftE_def ask_node_def say_def modS_def ret_def
        check_role_def dry_run_def send_mint_def Let_def node enc)
qed

end
