(* ===== verification/Api_Doc.thy ===== *)
theory Api_Doc
  imports Signet_Page
begin

text \<open>
  The other half of \<open>packages/api/src/index.ts\<close>: the descriptions that go into the OpenAPI document of
  the API (zod schemas of bodies and responses, one operation per route), and how they relate to the
  handlers of \<open>Bridge_Api\<close>.
\<close>

subsection \<open>Schemas\<close>

datatype zschema =
    ZString
  | ZNumber
  | ZBoolean
  | ZEnum "string list"
  | ZNullable zschema
  | ZOptional zschema
  | ZArray zschema
  | ZObject "(string \<times> zschema) list"

text \<open>
  Does a value, or \<open>undefined\<close>, conform? Keys an object schema does not declare are ignored. (JSON has
  no \<open>NaN\<close>, which zod's numbers exclude.)
\<close>

fun conforms :: "zschema \<Rightarrow> json option \<Rightarrow> bool"
  and conforms_fields :: "(string \<times> zschema) list \<Rightarrow> (string \<times> json) list \<Rightarrow> bool" where
  "conforms ZString j = (case j of Some (JsStr s) \<Rightarrow> True | _ \<Rightarrow> False)"
| "conforms ZNumber j = (case j of Some (JsNum x) \<Rightarrow> True | _ \<Rightarrow> False)"
| "conforms ZBoolean j = (case j of Some (JsBool b) \<Rightarrow> True | _ \<Rightarrow> False)"
| "conforms (ZEnum xs) j = (case j of Some (JsStr s) \<Rightarrow> s \<in> set xs | _ \<Rightarrow> False)"
| "conforms (ZNullable z) j = (j = Some JsNull \<or> conforms z j)"
| "conforms (ZOptional z) j = (j = None \<or> conforms z j)"
| "conforms (ZArray z) j = (case j of Some (JsArr xs) \<Rightarrow> list_all (\<lambda>x. conforms z (Some x)) xs | _ \<Rightarrow> False)"
| "conforms (ZObject fs) j = (case j of Some (JsObj kvs) \<Rightarrow> conforms_fields fs kvs | _ \<Rightarrow> False)"
| "conforms_fields [] kvs = True"
| "conforms_fields ((k, z) # fs) kvs = (conforms z (map_of kvs k) \<and> conforms_fields fs kvs)"

definition DepositSchema :: zschema where
  "DepositSchema = ZObject
     [(''id'', ZString), (''network'', ZString), (''snowside_address'', ZString),
      (''ecash_address'', ZNullable ZString), (''derivation_index'', ZNullable ZNumber),
      (''status'', ZString), (''amount_sats'', ZNullable ZNumber), (''amount_ecx'', ZNullable ZNumber),
      (''ecash_tx_hash'', ZNullable ZString), (''mint_tx_hash'', ZNullable ZString),
      (''created_at'', ZNumber), (''confirmed_at'', ZNullable ZNumber), (''minted_at'', ZNullable ZNumber)]"

definition WithdrawalSchema :: zschema where
  "WithdrawalSchema = ZObject
     [(''id'', ZString), (''network'', ZString), (''snowside_address'', ZString),
      (''ecash_address'', ZString), (''amount_ecx'', ZNullable ZString),
      (''amount_sats'', ZNullable ZNumber), (''burn_tx_hash'', ZNullable ZString),
      (''ecash_tx_hash'', ZNullable ZString), (''status'', ZString), (''created_at'', ZNumber),
      (''completed_at'', ZNullable ZNumber)]"

definition ErrorSchema :: zschema where
  "ErrorSchema = ZObject [(''error'', ZString)]"

definition StatusSchema :: zschema where
  "StatusSchema = ZObject [(''status'', ZString)]"

definition CreatedSchema :: zschema where
  "CreatedSchema = ZObject [(''id'', ZString), (''status'', ZString)]"

definition NetworkSchema :: zschema where
  "NetworkSchema = ZEnum [''mainnet'', ''testnet'', ''signet'']"

subsection \<open>Operations\<close>

text \<open>A response is its status, description and schema.\<close>

record operation =
  op_verb :: verb
  op_path :: string
  op_summary :: string
  op_tag :: string
  op_secured :: bool
  op_params :: "zschema option"
  op_body :: "zschema option"
  op_responses :: "(nat \<times> string \<times> zschema) list"

definition doc_status :: operation where
  "doc_status =
     \<lparr>op_verb = GET, op_path = ''/v1/status'', op_summary = ''API status'', op_tag = ''System'',
      op_secured = False, op_params = None, op_body = None,
      op_responses = [(200, ''API is healthy'',
        ZObject [(''status'', ZString), (''esplora_proxy'', ZString)])]\<rparr>"

definition doc_bridge_status :: operation where
  "doc_bridge_status =
     \<lparr>op_verb = GET, op_path = ''/v1/bridge/status'', op_summary = ''Bridge federation status'',
      op_tag = ''Bridge'', op_secured = False, op_params = None, op_body = None,
      op_responses = [(200, ''Bridge status including federation heartbeat'',
        ZObject [(''status'', ZString), (''federation_online'', ZBoolean),
                 (''last_checkin'', ZNullable ZNumber)])]\<rparr>"

definition deposit_request_schema :: zschema where
  "deposit_request_schema = ZObject [(''snowsideAddress'', ZString), (''network'', NetworkSchema)]"

definition doc_create_deposit :: operation where
  "doc_create_deposit =
     \<lparr>op_verb = POST, op_path = ''/v1/bridge/deposit'', op_summary = ''Create a deposit request'',
      op_tag = ''Bridge'', op_secured = False, op_params = None, op_body = Some deposit_request_schema,
      op_responses = [(200, ''Deposit created'', CreatedSchema), (400, ''Missing fields'', ErrorSchema)]\<rparr>"

definition doc_get_deposit :: operation where
  "doc_get_deposit =
     \<lparr>op_verb = GET, op_path = ''/v1/bridge/deposit/:id'', op_summary = ''Get deposit by ID'',
      op_tag = ''Bridge'', op_secured = False, op_params = Some (ZObject [(''id'', ZString)]),
      op_body = None,
      op_responses = [(200, ''Deposit details'', DepositSchema), (404, ''Not found'', ErrorSchema)]\<rparr>"

definition doc_list_deposits :: operation where
  "doc_list_deposits =
     \<lparr>op_verb = GET, op_path = ''/v1/bridge/deposits/:address'',
      op_summary = ''List deposits by Snowside address'', op_tag = ''Bridge'', op_secured = False,
      op_params = Some (ZObject [(''address'', ZString)]), op_body = None,
      op_responses = [(200, ''Array of deposits'', ZArray DepositSchema)]\<rparr>"

definition withdraw_request_schema :: zschema where
  "withdraw_request_schema = ZObject
     [(''snowsideAddress'', ZString), (''ecashAddress'', ZString), (''amountEcx'', ZString),
      (''network'', NetworkSchema), (''burnTxHash'', ZOptional ZString)]"

definition doc_create_withdrawal :: operation where
  "doc_create_withdrawal =
     \<lparr>op_verb = POST, op_path = ''/v1/bridge/withdraw'', op_summary = ''Create a withdrawal request'',
      op_tag = ''Bridge'', op_secured = False, op_params = None, op_body = Some withdraw_request_schema,
      op_responses = [(200, ''Withdrawal created'', CreatedSchema), (400, ''Missing fields'', ErrorSchema)]\<rparr>"

definition doc_list_withdrawals :: operation where
  "doc_list_withdrawals =
     \<lparr>op_verb = GET, op_path = ''/v1/bridge/withdrawals/:address'',
      op_summary = ''List withdrawals by Snowside address'', op_tag = ''Bridge'', op_secured = False,
      op_params = Some (ZObject [(''address'', ZString)]), op_body = None,
      op_responses = [(200, ''Array of withdrawals'', ZArray WithdrawalSchema)]\<rparr>"

definition doc_checkin :: operation where
  "doc_checkin =
     \<lparr>op_verb = POST, op_path = ''/v1/fed/checkin'', op_summary = ''Federation heartbeat check-in'',
      op_tag = ''Federation'', op_secured = True, op_params = None, op_body = None,
      op_responses = [(200, ''Check-in acknowledged'', StatusSchema), (401, ''Unauthorized'', ErrorSchema)]\<rparr>"

definition doc_pending_deposits :: operation where
  "doc_pending_deposits =
     \<lparr>op_verb = GET, op_path = ''/v1/fed/deposits/pending'',
      op_summary = ''List pending and confirmed deposits for federation processing'',
      op_tag = ''Federation'', op_secured = True, op_params = None, op_body = None,
      op_responses = [(200, ''Array of pending deposits'', ZArray DepositSchema),
                      (401, ''Unauthorized'', ErrorSchema)]\<rparr>"

definition deposit_patch_schema :: zschema where
  "deposit_patch_schema = ZObject
     [(''ecash_address'', ZOptional ZString), (''derivation_index'', ZOptional ZNumber),
      (''amount_sats'', ZOptional ZNumber), (''amount_ecx'', ZOptional ZNumber),
      (''ecash_tx_hash'', ZOptional ZString), (''mint_tx_hash'', ZOptional ZString),
      (''status'', ZOptional ZString)]"

definition doc_patch_deposit :: operation where
  "doc_patch_deposit =
     \<lparr>op_verb = PATCH, op_path = ''/v1/fed/deposit/:id'',
      op_summary = ''Update deposit status (federation only)'', op_tag = ''Federation'',
      op_secured = True, op_params = Some (ZObject [(''id'', ZString)]),
      op_body = Some deposit_patch_schema,
      op_responses = [(200, ''Deposit updated'', StatusSchema), (400, ''No valid fields'', ErrorSchema),
                      (401, ''Unauthorized'', ErrorSchema)]\<rparr>"

definition doc_funded_deposits :: operation where
  "doc_funded_deposits =
     \<lparr>op_verb = GET, op_path = ''/v1/fed/deposits/funded'',
      op_summary = ''List funded deposits (confirmed/minted with UTXOs) for withdrawal processing'',
      op_tag = ''Federation'', op_secured = True, op_params = None, op_body = None,
      op_responses = [(200, ''Array of funded deposits'', ZArray DepositSchema),
                      (401, ''Unauthorized'', ErrorSchema)]\<rparr>"

definition doc_pending_withdrawals :: operation where
  "doc_pending_withdrawals =
     \<lparr>op_verb = GET, op_path = ''/v1/fed/withdrawals/pending'',
      op_summary = ''List pending withdrawals for federation processing'', op_tag = ''Federation'',
      op_secured = True, op_params = None, op_body = None,
      op_responses = [(200, ''Array of pending withdrawals'', ZArray WithdrawalSchema),
                      (401, ''Unauthorized'', ErrorSchema)]\<rparr>"

definition withdraw_patch_schema :: zschema where
  "withdraw_patch_schema = ZObject
     [(''amount_sats'', ZOptional ZNumber), (''ecash_tx_hash'', ZOptional ZString),
      (''status'', ZOptional ZString)]"

definition doc_patch_withdraw :: operation where
  "doc_patch_withdraw =
     \<lparr>op_verb = PATCH, op_path = ''/v1/fed/withdraw/:id'',
      op_summary = ''Update withdrawal status (federation only)'', op_tag = ''Federation'',
      op_secured = True, op_params = Some (ZObject [(''id'', ZString)]),
      op_body = Some withdraw_patch_schema,
      op_responses = [(200, ''Withdrawal updated'', StatusSchema), (400, ''No valid fields'', ErrorSchema),
                      (401, ''Unauthorized'', ErrorSchema)]\<rparr>"

definition documented :: "operation list" where
  "documented = [doc_status, doc_bridge_status, doc_create_deposit, doc_get_deposit, doc_list_deposits,
     doc_create_withdrawal, doc_list_withdrawals, doc_checkin, doc_pending_deposits, doc_patch_deposit,
     doc_funded_deposits, doc_pending_withdrawals, doc_patch_withdraw]"

subsection \<open>Bodies: the schemas are what the handlers check\<close>

lemma field_JsObj: "field (JsObj kvs) k = map_of kvs k"
  by (simp add: field_def)

lemma z_string_conforms: "z_string (JsObj kvs) k = None \<longleftrightarrow> \<not> conforms ZString (map_of kvs k)"
  by (simp add: z_string_def field_JsObj split: option.split json.split)

lemma z_network_conforms: "z_network (JsObj kvs) k = None \<longleftrightarrow> \<not> conforms NetworkSchema (map_of kvs k)"
  by (auto simp: z_network_def z_string_def NetworkSchema_def field_JsObj split: option.split json.split)

lemma z_opt_string_conforms:
  "z_opt_string (JsObj kvs) k = None \<longleftrightarrow> \<not> conforms (ZOptional ZString) (map_of kvs k)"
  by (simp add: z_opt_string_def field_JsObj split: option.split json.split)

lemma z_opt_number_conforms:
  "z_opt_number (JsObj kvs) k = None \<longleftrightarrow> \<not> conforms (ZOptional ZNumber) (map_of kvs k)"
  by (simp add: z_opt_number_def field_JsObj split: option.split json.split)

lemmas z_conforms = z_string_conforms z_network_conforms z_opt_string_conforms z_opt_number_conforms

lemma not_object: "\<nexists>kvs. j = JsObj kvs \<Longrightarrow> \<not> conforms (ZObject fs) (Some j) \<and> field j k = None"
  by (cases j) (simp_all add: field_def)

lemma post_deposit_invalid:
  "post_deposit r s = (Inr invalid, s) \<longleftrightarrow> \<not> conforms deposit_request_schema (r_body r)"
proof (cases "\<exists>kvs. r_body r = Some (JsObj kvs)")
  case True
  then obtain kvs where b: "r_body r = Some (JsObj kvs)" by blast
  have "conforms deposit_request_schema (r_body r) \<longleftrightarrow>
      z_string (JsObj kvs) ''snowsideAddress'' \<noteq> None \<and> z_network (JsObj kvs) ''network'' \<noteq> None"
    by (simp only: b deposit_request_schema_def z_conforms) simp
  then show ?thesis
    by (auto simp: post_deposit_def b ret_def invalid_def missing_fields_def insert_deposit_def seqE_def
        bindE_def stmt_def exec_def throw_def split: option.split)
next
  case False
  then have "\<not> conforms deposit_request_schema (r_body r)"
    unfolding deposit_request_schema_def by (auto split: option.split json.split)
  moreover have "post_deposit r s = (Inr invalid, s)"
  proof (cases "r_body r")
    case (Some j)
    with False not_object [of j] show ?thesis by (simp add: post_deposit_def z_string_def ret_def)
  qed (simp add: post_deposit_def ret_def)
  ultimately show ?thesis by simp
qed

lemma post_withdraw_invalid:
  "post_withdraw env r s = (Inr invalid, s) \<longleftrightarrow> \<not> conforms withdraw_request_schema (r_body r)"
proof (cases "\<exists>kvs. r_body r = Some (JsObj kvs)")
  case True
  then obtain kvs where b: "r_body r = Some (JsObj kvs)" by blast
  have "conforms withdraw_request_schema (r_body r) \<longleftrightarrow>
      z_string (JsObj kvs) ''snowsideAddress'' \<noteq> None \<and> z_string (JsObj kvs) ''ecashAddress'' \<noteq> None \<and>
      z_string (JsObj kvs) ''amountEcx'' \<noteq> None \<and> z_network (JsObj kvs) ''network'' \<noteq> None \<and>
      z_opt_string (JsObj kvs) ''burnTxHash'' \<noteq> None"
    by (simp only: b withdraw_request_schema_def z_conforms) simp
  then show ?thesis
    by (auto simp: post_withdraw_def b ret_def invalid_def missing_fields_def insert_withdrawal_def
        seqE_def bindE_def stmt_def exec_def throw_def split: option.split)
next
  case False
  then have "\<not> conforms withdraw_request_schema (r_body r)"
    unfolding withdraw_request_schema_def by (auto split: option.split json.split)
  moreover have "post_withdraw env r s = (Inr invalid, s)"
  proof (cases "r_body r")
    case (Some j)
    with False not_object [of j] show ?thesis by (simp add: post_withdraw_def z_string_def ret_def)
  qed (simp add: post_withdraw_def ret_def)
  ultimately show ?thesis by simp
qed

lemma z_deposit_patch_invalid: "z_deposit_patch j = None \<longleftrightarrow> \<not> conforms deposit_patch_schema (Some j)"
proof (cases "\<exists>kvs. j = JsObj kvs")
  case True
  then obtain kvs where j: "j = JsObj kvs" by blast
  have "conforms deposit_patch_schema (Some j) \<longleftrightarrow>
      z_opt_string j ''ecash_address'' \<noteq> None \<and> z_opt_number j ''derivation_index'' \<noteq> None \<and>
      z_opt_number j ''amount_sats'' \<noteq> None \<and> z_opt_number j ''amount_ecx'' \<noteq> None \<and>
      z_opt_string j ''ecash_tx_hash'' \<noteq> None \<and> z_opt_string j ''mint_tx_hash'' \<noteq> None \<and>
      z_opt_string j ''status'' \<noteq> None"
    by (simp only: j deposit_patch_schema_def z_conforms) simp
  then show ?thesis by (auto simp: z_deposit_patch_def j split: option.split)
next
  case False
  then show ?thesis using not_object [of j]
    by (auto simp: z_deposit_patch_def deposit_patch_schema_def split: option.split json.split)
qed

lemma z_withdraw_patch_invalid: "z_withdraw_patch j = None \<longleftrightarrow> \<not> conforms withdraw_patch_schema (Some j)"
proof (cases "\<exists>kvs. j = JsObj kvs")
  case True
  then obtain kvs where j: "j = JsObj kvs" by blast
  have "conforms withdraw_patch_schema (Some j) \<longleftrightarrow>
      z_opt_number j ''amount_sats'' \<noteq> None \<and> z_opt_string j ''ecash_tx_hash'' \<noteq> None \<and>
      z_opt_string j ''status'' \<noteq> None"
    by (simp only: j withdraw_patch_schema_def z_conforms) simp
  then show ?thesis by (auto simp: z_withdraw_patch_def j split: option.split)
next
  case False
  then show ?thesis using not_object [of j]
    by (auto simp: z_withdraw_patch_def withdraw_patch_schema_def split: option.split json.split)
qed


subsection \<open>Replies: what the document promises\<close>

text \<open>What goes over the wire (the document itself and an empty reply apart).\<close>

fun payload_json :: "payload \<Rightarrow> json" where
  "payload_json (PError e) = JsObj [(''error'', JsStr e)]"
| "payload_json (PStatus st u) = JsObj [(''status'', JsStr st), (''esplora_proxy'', JsStr u)]"
| "payload_json (PBridge on checkin) =
     JsObj [(''status'', JsStr ''ok''), (''federation_online'', JsBool on), (''last_checkin'', or_null JsNum checkin)]"
| "payload_json (PCreated i) = JsObj [(''id'', JsStr i), (''status'', JsStr ''pending'')]"
| "payload_json POk = JsObj [(''status'', JsStr ''ok'')]"
| "payload_json (PDeposit d) = deposit_json d"
| "payload_json (PDeposits ds) = JsArr (map deposit_json ds)"
| "payload_json (PWithdrawals ws) = JsArr (map withdrawal_json ws)"
| "payload_json _ = JsNull"

lemma or_null_conforms:
  "(\<And>a. conforms z (Some (f a))) \<Longrightarrow> conforms (ZNullable z) (Some (or_null f x))"
  by (simp add: or_null_def split: option.split)

lemma deposit_conforms: "conforms DepositSchema (Some (deposit_json d))"
  unfolding DepositSchema_def deposit_json_def by (simp add: or_null_conforms del: conforms.simps(5))

definition amount_text :: "withdrawal_row \<Rightarrow> bool" where
  "amount_text w \<longleftrightarrow> (\<forall>x. w_amount_ecx w \<noteq> AmtNum x)"

lemma amount_conforms: "conforms (ZNullable ZString) (Some (amount_json (w_amount_ecx w))) = amount_text w"
  by (cases "w_amount_ecx w") (simp_all add: amount_text_def)

lemma withdrawal_conforms: "conforms WithdrawalSchema (Some (withdrawal_json w)) = amount_text w"
  unfolding WithdrawalSchema_def withdrawal_json_def
  by (simp add: or_null_conforms amount_conforms del: conforms.simps(5))

lemma list_conforms:
  "conforms (ZArray DepositSchema) (Some (payload_json (PDeposits ds)))"
  "conforms (ZArray WithdrawalSchema) (Some (payload_json (PWithdrawals ws))) = list_all amount_text ws"
  by (simp_all add: deposit_conforms withdrawal_conforms list_all_iff)

text \<open>The segments of a documented path; \<open>:id\<close> stands for one that is not empty.\<close>

fun match_seg :: "string \<Rightarrow> string \<Rightarrow> bool" where
  "match_seg p x = (if p \<noteq> [] \<and> hd p = CHR '':'' then x \<noteq> [] else p = x)"

definition op_matches :: "operation \<Rightarrow> request \<Rightarrow> bool" where
  "op_matches op r \<longleftrightarrow>
     r_verb r = op_verb op \<and> list_all2 match_seg (tl (split_slash (op_path op))) (segments r)"

text \<open>
  A reply the document describes. Apart from those, a body that is not valid is answered with the
  framework's report, and an error nobody catches with status 500.
\<close>

definition described :: "operation \<Rightarrow> response \<Rightarrow> bool" where
  "described op resp \<longleftrightarrow>
     (case resp of
        Reply st p \<Rightarrow>
          list_ex (\<lambda>(code, text, z). st = code \<and> conforms z (Some (payload_json p))) (op_responses op)
      | Forwarded url st \<Rightarrow> False)"

lemma doc_segments:
  "map (\<lambda>op. tl (split_slash (op_path op))) documented =
     [[''v1'', ''status''], [''v1'', ''bridge'', ''status''], [''v1'', ''bridge'', ''deposit''],
      [''v1'', ''bridge'', ''deposit'', '':id''], [''v1'', ''bridge'', ''deposits'', '':address''],
      [''v1'', ''bridge'', ''withdraw''], [''v1'', ''bridge'', ''withdrawals'', '':address''],
      [''v1'', ''fed'', ''checkin''], [''v1'', ''fed'', ''deposits'', ''pending''],
      [''v1'', ''fed'', ''deposit'', '':id''], [''v1'', ''fed'', ''deposits'', ''funded''],
      [''v1'', ''fed'', ''withdrawals'', ''pending''], [''v1'', ''fed'', ''withdraw'', '':id'']]"
  by code_simp

definition texts_only :: "db \<Rightarrow> bool" where
  "texts_only s \<longleftrightarrow> list_all amount_text (t_withdrawals s)"

text \<open>\<open>answers_as op m\<close>: on such a database \<open>m\<close> gives a reply described for \<open>op\<close>, or throws.\<close>

definition answers_as :: "operation \<Rightarrow> (db, response) comp \<Rightarrow> bool" where
  "answers_as op m \<longleftrightarrow> hoare texts_only m (\<lambda>resp _. described op resp \<or> resp = invalid) (\<lambda>_. True)"

lemma answers_ret: "described op resp \<or> resp = invalid \<Longrightarrow> answers_as op (ret resp)"
  by (simp add: answers_as_def hoare_def ret_def)

lemma answers_stmt:
  "(\<And>s. texts_only s \<Longrightarrow> described op (f (q s))) \<Longrightarrow> answers_as op (bindE (stmt q) (\<lambda>x. ret (f x)))"
  by (simp add: answers_as_def hoare_def bindE_def stmt_def ret_def)

lemma answers_seq: "described op resp \<Longrightarrow> answers_as op (seqE m (ret resp))"
  by (auto simp: answers_as_def hoare_def seqE_def bindE_def ret_def split: prod.split sum.split)

lemma texts_part: "texts_only s \<Longrightarrow> set ws \<subseteq> set (t_withdrawals s) \<Longrightarrow> list_all amount_text ws"
  by (auto simp: texts_only_def list_all_iff)

lemmas answers_defs = described_def missing_fields_def no_valid_fields_def unauthorized_def

lemma answers_public:
  "answers_as doc_status get_status"
  "answers_as doc_bridge_status (get_bridge_status t)"
  "answers_as doc_get_deposit (get_deposit i)"
  "answers_as doc_list_deposits (get_deposits a)"
  "answers_as doc_list_withdrawals (get_withdrawals a)"
proof -
  show "answers_as doc_status get_status"
    unfolding get_status_def by (intro answers_ret disjI1) (simp add: answers_defs doc_status_def)
  have "described doc_bridge_status (Reply 200 (PBridge on checkin))" for on checkin
    by (simp add: answers_defs doc_bridge_status_def or_null_def split: option.split)
  then show "answers_as doc_bridge_status (get_bridge_status t)"
    by (simp add: answers_as_def hoare_def get_bridge_status_def catchE_def bindE_def stmt_def ret_def Let_def)
  have "described doc_get_deposit (Reply 200 (PDeposit d))"
      "described doc_get_deposit (Reply 404 (PError ''Not found''))" for d
    by (simp_all add: answers_defs doc_get_deposit_def deposit_conforms ErrorSchema_def)
  then show "answers_as doc_get_deposit (get_deposit i)"
    by (simp add: answers_as_def hoare_def get_deposit_def bindE_def stmt_def ret_def split: option.split)
  show "answers_as doc_list_deposits (get_deposits a)" unfolding get_deposits_def
    by (rule answers_stmt)
      (simp add: answers_defs doc_list_deposits_def list_conforms del: conforms.simps payload_json.simps)
  show "answers_as doc_list_withdrawals (get_withdrawals a)" unfolding get_withdrawals_def
    by (rule answers_stmt) (auto simp: answers_defs doc_list_withdrawals_def list_conforms
        simp del: conforms.simps payload_json.simps intro!: texts_part)
qed

lemma answers_create:
  "answers_as doc_create_deposit (post_deposit r)"
  "answers_as doc_create_withdrawal (post_withdraw env r)"
proof -
  have created: "described doc_create_deposit (Reply 200 (PCreated i))"
      "described doc_create_withdrawal (Reply 200 (PCreated i))"
      "described doc_create_deposit missing_fields" "described doc_create_withdrawal missing_fields" for i
    by (simp_all add: answers_defs doc_create_deposit_def doc_create_withdrawal_def CreatedSchema_def
        ErrorSchema_def)
  then show "answers_as doc_create_deposit (post_deposit r)" "answers_as doc_create_withdrawal (post_withdraw env r)"
    by (auto simp: post_deposit_def post_withdraw_def intro!: answers_ret answers_seq split: option.split)
qed

lemma answers_fed:
  "answers_as doc_checkin (post_checkin t)"
  "answers_as doc_pending_deposits get_pending_deposits"
  "answers_as doc_funded_deposits get_funded_deposits"
  "answers_as doc_pending_withdrawals get_pending_withdrawals"
  "answers_as doc_patch_deposit (with_body b (\<lambda>p. patch_deposit i p t))"
  "answers_as doc_patch_withdraw (with_body b' (\<lambda>p. patch_withdraw i p t))"
proof -
  show "answers_as doc_checkin (post_checkin t)" unfolding post_checkin_def
    by (rule answers_seq) (simp add: answers_defs doc_checkin_def StatusSchema_def)
  show "answers_as doc_pending_deposits get_pending_deposits" unfolding get_pending_deposits_def
    by (rule answers_stmt)
      (simp add: answers_defs doc_pending_deposits_def list_conforms del: conforms.simps payload_json.simps)
  show "answers_as doc_funded_deposits get_funded_deposits" unfolding get_funded_deposits_def
    by (rule answers_stmt)
      (simp add: answers_defs doc_funded_deposits_def list_conforms del: conforms.simps payload_json.simps)
  show "answers_as doc_pending_withdrawals get_pending_withdrawals" unfolding get_pending_withdrawals_def
    by (rule answers_stmt) (auto simp: answers_defs doc_pending_withdrawals_def list_conforms
        pending_withdrawals_def simp del: conforms.simps payload_json.simps intro!: texts_part)
  have "described doc_patch_deposit (Reply 200 POk)" "described doc_patch_deposit no_valid_fields"
    "described doc_patch_withdraw (Reply 200 POk)" "described doc_patch_withdraw no_valid_fields"
    by (simp_all add: answers_defs doc_patch_deposit_def doc_patch_withdraw_def StatusSchema_def ErrorSchema_def)
  then show "answers_as doc_patch_deposit (with_body b (\<lambda>p. patch_deposit i p t))"
    "answers_as doc_patch_withdraw (with_body b' (\<lambda>p. patch_withdraw i p t))"
    by (auto simp: with_body_def patch_deposit_def patch_withdraw_def Let_def
        intro!: answers_ret answers_seq split: option.split)
qed

subsection \<open>Every documented operation is answered as documented\<close>

lemma match_lists:
  "list_all2 match_seg [] xs \<longleftrightarrow> xs = []"
  "list_all2 match_seg (p # ps) xs \<longleftrightarrow> (\<exists>y ys. xs = y # ys \<and> match_seg p y \<and> list_all2 match_seg ps ys)"
  by (simp_all add: list_all2_Cons1)

lemma doc_paths:
  "tl (split_slash (op_path doc_status)) = [''v1'', ''status'']"
  "tl (split_slash (op_path doc_bridge_status)) = [''v1'', ''bridge'', ''status'']"
  "tl (split_slash (op_path doc_create_deposit)) = [''v1'', ''bridge'', ''deposit'']"
  "tl (split_slash (op_path doc_get_deposit)) = [''v1'', ''bridge'', ''deposit'', '':id'']"
  "tl (split_slash (op_path doc_list_deposits)) = [''v1'', ''bridge'', ''deposits'', '':address'']"
  "tl (split_slash (op_path doc_create_withdrawal)) = [''v1'', ''bridge'', ''withdraw'']"
  "tl (split_slash (op_path doc_list_withdrawals)) = [''v1'', ''bridge'', ''withdrawals'', '':address'']"
  "tl (split_slash (op_path doc_checkin)) = [''v1'', ''fed'', ''checkin'']"
  "tl (split_slash (op_path doc_pending_deposits)) = [''v1'', ''fed'', ''deposits'', ''pending'']"
  "tl (split_slash (op_path doc_patch_deposit)) = [''v1'', ''fed'', ''deposit'', '':id'']"
  "tl (split_slash (op_path doc_funded_deposits)) = [''v1'', ''fed'', ''deposits'', ''funded'']"
  "tl (split_slash (op_path doc_pending_withdrawals)) = [''v1'', ''fed'', ''withdrawals'', ''pending'']"
  "tl (split_slash (op_path doc_patch_withdraw)) = [''v1'', ''fed'', ''withdraw'', '':id'']"
  using doc_segments by (simp_all add: documented_def)

lemmas op_defs = doc_status_def doc_bridge_status_def doc_create_deposit_def doc_get_deposit_def
  doc_list_deposits_def doc_create_withdrawal_def doc_list_withdrawals_def doc_checkin_def
  doc_pending_deposits_def doc_patch_deposit_def doc_funded_deposits_def doc_pending_withdrawals_def
  doc_patch_withdraw_def

lemma op_verbs:
  "op_verb doc_status = GET"
  "op_verb doc_bridge_status = GET"
  "op_verb doc_create_deposit = POST"
  "op_verb doc_get_deposit = GET"
  "op_verb doc_list_deposits = GET"
  "op_verb doc_create_withdrawal = POST"
  "op_verb doc_list_withdrawals = GET"
  "op_verb doc_checkin = POST"
  "op_verb doc_pending_deposits = GET"
  "op_verb doc_patch_deposit = PATCH"
  "op_verb doc_funded_deposits = GET"
  "op_verb doc_pending_withdrawals = GET"
  "op_verb doc_patch_withdraw = PATCH"
  by (simp_all add: op_defs)

lemma matched_plain:
  "op_matches doc_status r \<Longrightarrow> r_verb r = GET \<and> segments r = [''v1'', ''status'']"
  "op_matches doc_bridge_status r \<Longrightarrow> r_verb r = GET \<and> segments r = [''v1'', ''bridge'', ''status'']"
  "op_matches doc_create_deposit r \<Longrightarrow> r_verb r = POST \<and> segments r = [''v1'', ''bridge'', ''deposit'']"
  "op_matches doc_create_withdrawal r \<Longrightarrow> r_verb r = POST \<and> segments r = [''v1'', ''bridge'', ''withdraw'']"
  "op_matches doc_checkin r \<Longrightarrow> r_verb r = POST \<and> segments r = [''v1'', ''fed'', ''checkin'']"
  "op_matches doc_pending_deposits r \<Longrightarrow> r_verb r = GET \<and> segments r = [''v1'', ''fed'', ''deposits'', ''pending'']"
  "op_matches doc_funded_deposits r \<Longrightarrow> r_verb r = GET \<and> segments r = [''v1'', ''fed'', ''deposits'', ''funded'']"
  "op_matches doc_pending_withdrawals r \<Longrightarrow> r_verb r = GET \<and> segments r = [''v1'', ''fed'', ''withdrawals'', ''pending'']"
  by (simp_all add: op_matches_def doc_paths match_lists op_verbs)

lemma matched_id:
  "op_matches doc_get_deposit r \<Longrightarrow> \<exists>x. x \<noteq> [] \<and> r_verb r = GET \<and> segments r = [''v1'', ''bridge'', ''deposit'', x]"
  "op_matches doc_list_deposits r \<Longrightarrow> \<exists>x. x \<noteq> [] \<and> r_verb r = GET \<and> segments r = [''v1'', ''bridge'', ''deposits'', x]"
  "op_matches doc_list_withdrawals r \<Longrightarrow> \<exists>x. x \<noteq> [] \<and> r_verb r = GET \<and> segments r = [''v1'', ''bridge'', ''withdrawals'', x]"
  "op_matches doc_patch_deposit r \<Longrightarrow> \<exists>x. x \<noteq> [] \<and> r_verb r = PATCH \<and> segments r = [''v1'', ''fed'', ''deposit'', x]"
  "op_matches doc_patch_withdraw r \<Longrightarrow> \<exists>x. x \<noteq> [] \<and> r_verb r = PATCH \<and> segments r = [''v1'', ''fed'', ''withdraw'', x]"
  by (auto simp: op_matches_def doc_paths match_lists op_verbs)

lemmas route_defs = public_route_def under_def is_fed_path_def fed_route_def Let_def

lemma public_routes:
  "r_verb r = GET \<Longrightarrow> segments r = [''v1'', ''status''] \<Longrightarrow> public_route env r = Some (get_status)"
  "r_verb r = GET \<Longrightarrow> segments r = [''v1'', ''bridge'', ''status''] \<Longrightarrow> public_route env r = Some (get_bridge_status (r_now r))"
  "r_verb r = POST \<Longrightarrow> segments r = [''v1'', ''bridge'', ''deposit''] \<Longrightarrow> public_route env r = Some (post_deposit r)"
  "x \<noteq> [] \<Longrightarrow> r_verb r = GET \<Longrightarrow> segments r = [''v1'', ''bridge'', ''deposit'', x] \<Longrightarrow> public_route env r = Some (get_deposit x)"
  "x \<noteq> [] \<Longrightarrow> r_verb r = GET \<Longrightarrow> segments r = [''v1'', ''bridge'', ''deposits'', x] \<Longrightarrow> public_route env r = Some (get_deposits x)"
  "r_verb r = POST \<Longrightarrow> segments r = [''v1'', ''bridge'', ''withdraw''] \<Longrightarrow> public_route env r = Some (post_withdraw env r)"
  "x \<noteq> [] \<Longrightarrow> r_verb r = GET \<Longrightarrow> segments r = [''v1'', ''bridge'', ''withdrawals'', x] \<Longrightarrow> public_route env r = Some (get_withdrawals x)"
  by (simp_all add: route_defs)

lemma fed_routes:
  "r_verb r = POST \<Longrightarrow> segments r = [''v1'', ''fed'', ''checkin''] \<Longrightarrow>
     public_route env r = None \<and> is_fed_path (segments r) \<and> fed_route env r = Some (post_checkin (r_now r))"
  "r_verb r = GET \<Longrightarrow> segments r = [''v1'', ''fed'', ''deposits'', ''pending''] \<Longrightarrow>
     public_route env r = None \<and> is_fed_path (segments r) \<and> fed_route env r = Some (get_pending_deposits)"
  "x \<noteq> [] \<Longrightarrow> r_verb r = PATCH \<Longrightarrow> segments r = [''v1'', ''fed'', ''deposit'', x] \<Longrightarrow>
     public_route env r = None \<and> is_fed_path (segments r) \<and> fed_route env r = Some (with_body (Option.bind (r_body r) z_deposit_patch) (\<lambda>p. patch_deposit x p (r_now r)))"
  "r_verb r = GET \<Longrightarrow> segments r = [''v1'', ''fed'', ''deposits'', ''funded''] \<Longrightarrow>
     public_route env r = None \<and> is_fed_path (segments r) \<and> fed_route env r = Some (get_funded_deposits)"
  "r_verb r = GET \<Longrightarrow> segments r = [''v1'', ''fed'', ''withdrawals'', ''pending''] \<Longrightarrow>
     public_route env r = None \<and> is_fed_path (segments r) \<and> fed_route env r = Some (get_pending_withdrawals)"
  "x \<noteq> [] \<Longrightarrow> r_verb r = PATCH \<Longrightarrow> segments r = [''v1'', ''fed'', ''withdraw'', x] \<Longrightarrow>
     public_route env r = None \<and> is_fed_path (segments r) \<and> fed_route env r = Some (with_body (Option.bind (r_body r) z_withdraw_patch) (\<lambda>p. patch_withdraw x p (r_now r)))"
  by (simp_all add: route_defs)

lemma answers_by_public: "public_route env r = Some h \<Longrightarrow> answers_as op h \<Longrightarrow> answers_as op (dispatch env r)"
  by (simp add: dispatch_def)

lemma answers_by_fed:
  assumes "public_route env r = None \<and> is_fed_path (segments r) \<and> fed_route env r = Some h"
    and "described op unauthorized" "answers_as op h"
  shows "answers_as op (dispatch env r)"
  using assms by (auto simp: dispatch_def intro!: answers_ret)

lemma unauthorized_described:
  "described doc_checkin unauthorized" "described doc_pending_deposits unauthorized"
  "described doc_patch_deposit unauthorized" "described doc_funded_deposits unauthorized"
  "described doc_pending_withdrawals unauthorized" "described doc_patch_withdraw unauthorized"
  by (simp_all add: answers_defs op_defs ErrorSchema_def StatusSchema_def)

lemma dispatch_public:
  "op_matches doc_status r \<Longrightarrow> answers_as doc_status (dispatch env r)"
  "op_matches doc_bridge_status r \<Longrightarrow> answers_as doc_bridge_status (dispatch env r)"
  "op_matches doc_create_deposit r \<Longrightarrow> answers_as doc_create_deposit (dispatch env r)"
  "op_matches doc_get_deposit r \<Longrightarrow> answers_as doc_get_deposit (dispatch env r)"
  "op_matches doc_list_deposits r \<Longrightarrow> answers_as doc_list_deposits (dispatch env r)"
  "op_matches doc_create_withdrawal r \<Longrightarrow> answers_as doc_create_withdrawal (dispatch env r)"
  "op_matches doc_list_withdrawals r \<Longrightarrow> answers_as doc_list_withdrawals (dispatch env r)"
  by (auto dest!: matched_plain matched_id intro: answers_by_public public_routes answers_public answers_create)

lemma dispatch_fed:
  "op_matches doc_checkin r \<Longrightarrow> answers_as doc_checkin (dispatch env r)"
  "op_matches doc_pending_deposits r \<Longrightarrow> answers_as doc_pending_deposits (dispatch env r)"
  "op_matches doc_patch_deposit r \<Longrightarrow> answers_as doc_patch_deposit (dispatch env r)"
  "op_matches doc_funded_deposits r \<Longrightarrow> answers_as doc_funded_deposits (dispatch env r)"
  "op_matches doc_pending_withdrawals r \<Longrightarrow> answers_as doc_pending_withdrawals (dispatch env r)"
  "op_matches doc_patch_withdraw r \<Longrightarrow> answers_as doc_patch_withdraw (dispatch env r)"
  by (auto dest!: matched_plain matched_id
      intro: answers_by_fed [OF fed_routes(1)] answers_by_fed [OF fed_routes(2)]
        answers_by_fed [OF fed_routes(3)] answers_by_fed [OF fed_routes(4)]
        answers_by_fed [OF fed_routes(5)] answers_by_fed [OF fed_routes(6)]
        answers_fed unauthorized_described)


definition toy_lookup :: request where
  "toy_lookup = toy_request GET ''/v1/bridge/deposit/d1'' None None"


text \<open>
  An amount that the database stores as a number, as SQLite's INTEGER affinity does with every whole
  amount, comes back as a number where the document promises a string or \<open>null\<close>.
\<close>

theorem numeric_amount_undocumented:
  assumes "db_up s" "r_uuid r \<notin> w_id ` set (t_withdrawals s)"
    and "r_verb r = POST" "segments r = [''v1'', ''bridge'', ''withdraw'']"
    and "r_body r = Some body" "z_string body ''snowsideAddress'' = Some a" "a \<noteq> []"
      "z_string body ''ecashAddress'' = Some e" "e \<noteq> []" "z_network body ''network'' = Some n"
      "z_string body ''amountEcx'' = Some m" "m \<noteq> []" "z_opt_string body ''burnTxHash'' = Some b"
    and "int_affinity aenv m = AmtNum x"
  shows "\<exists>s' rows. handle aenv r s = (Reply 200 (PCreated (r_uuid r)), s') \<and>
    get_withdrawals a s' = (Inr (Reply 200 (PWithdrawals rows)), s') \<and>
    \<not> described doc_list_withdrawals (Reply 200 (PWithdrawals rows))"
proof -
  from withdrawal_listed [OF assms(1-13), of aenv] obtain s' rows where
    h: "handle aenv r s = (Reply 200 (PCreated (r_uuid r)), s')"
      "get_withdrawals a s' = (Inr (Reply 200 (PWithdrawals rows)), s')"
    and w: "new_withdrawal (r_uuid r) n a e (AmtNum x) (if truthy_str b then b else None) (r_now r) \<in> set rows"
    unfolding assms(14) by blast
  from w have "\<not> list_all amount_text rows"
    by (force simp: list_all_iff amount_text_def new_withdrawal_def)
  then have "\<not> described doc_list_withdrawals (Reply 200 (PWithdrawals rows))"
    by (simp add: described_def doc_list_withdrawals_def list_conforms del: conforms.simps payload_json.simps)
  with h show ?thesis by blast
qed

end
