(* ===== verification/Desktop_View.thy ===== *)
theory Desktop_View
  imports Desktop_App
begin

text \<open>
  What the desktop client shows: the JSX of \<open>packages/desktop/src/App.tsx\<close>, \<open>components/\<close> and \<open>tabs/\<close> as
  a function from the application to a tree. A control of the tree carries the event it causes, so
  the tree says what the user can do. Class names are left out, but for the variants of
  buttons and the colours of dots; so are keys, icons and the moment a copy button reads \<open>Copied\<close>.
  Rendering can throw (a component that does takes the application down), so it gives \<open>error + _\<close>.
\<close>

subsection \<open>Trees\<close>

text \<open>
  \<open>Btn variant disabled handler children\<close>; the handler is given the randomness of the click.
  \<open>Inp type value placeholder handler\<close>, the last \<open>None\<close> for a read-only field.
\<close>

datatype ui =
    Txt string
  | El string "ui list"
  | Hint string "ui list"
  | Link string string
  | Dot string
  | QrCode string
  | CopyButton string
  | Btn string bool "nat \<Rightarrow> app_event" "ui list"
  | Inp string string string "(string \<Rightarrow> app_event) option"

record view_env =
  number_text :: "jnum \<Rightarrow> string"
  date_text :: "json \<Rightarrow> string"
  time_text :: "int \<Rightarrow> string"

definition Card :: "string option \<Rightarrow> ui list \<Rightarrow> ui" where
  "Card title children =
     El ''div'' ((if truthy_str title then [El ''div'' [Txt (the title)]] else []) @ [El ''div'' children])"

definition Field :: "string \<Rightarrow> ui list \<Rightarrow> ui" where
  "Field label children = El ''label'' (El ''div'' [Txt label] # children)"

definition Stat :: "string \<Rightarrow> ui list \<Rightarrow> ui" where
  "Stat label children = El ''div'' [El ''div'' [Txt label], El ''div'' children]"

definition StatusDot :: "bool \<Rightarrow> bool \<Rightarrow> ui" where
  "StatusDot good warn = Dot (if good then ''ok'' else if warn then ''warn'' else ''err'')"

text \<open>A tab is its label, whether it is the active one, and what choosing it does.\<close>

definition SubTabs :: "(string \<times> bool \<times> app_event) list \<Rightarrow> ui" where
  "SubTabs tabs =
     El ''div'' (map (\<lambda>(label, active, e). Btn (if active then ''active'' else []) False (\<lambda>_. e) [Txt label])
       tabs)"

definition Qr :: "string \<Rightarrow> ui" where
  "Qr x = El ''div'' [QrCode x]"

definition press :: "string \<Rightarrow> bool \<Rightarrow> app_event \<Rightarrow> string \<Rightarrow> ui" where
  "press variant disabled e label = Btn variant disabled (\<lambda>_. e) [Txt label]"

definition text_input :: "string \<Rightarrow> string \<Rightarrow> (string \<Rightarrow> app_event) \<Rightarrow> ui" where
  "text_input x placeholder h = Inp ''text'' x placeholder (Some h)"

text \<open>\<open>{error && <div>...</div>}\<close> for a text or \<open>null\<close>.\<close>

definition if_text :: "string option \<Rightarrow> (string \<Rightarrow> ui list) \<Rightarrow> ui list" where
  "if_text t body = (if truthy_str t then body (the t) else [])"

definition hex0x :: string where
  "hex0x = ''0x'' @ ellipsis"

definition error_box :: "string option \<Rightarrow> ui list" where
  "error_box err = if_text err (\<lambda>e. [El ''div'' [Txt e]])"

subsection \<open>Values as children\<close>

text \<open>\<open>null\<close>, \<open>undefined\<close> and booleans render nothing; an object is no valid child.\<close>

fun react_child :: "json \<Rightarrow> error + ui list" where
  "react_child (JsStr s) = Inr [Txt s]"
| "react_child (JsNum x) = Inr [Txt (show_num x)]"
| "react_child (JsArr xs) = map_sum id concat (map_fallible react_child xs)"
| "react_child (JsObj kvs) = Inl ''Objects are not valid as a React child''"
| "react_child _ = Inr []"

definition child :: "json option \<Rightarrow> error + ui list" where
  "child j = (case j of None \<Rightarrow> Inr [] | Some v \<Rightarrow> react_child v)"

text \<open>\<open>{value && body}\<close>: a falsy value is itself the child.\<close>

definition and_child :: "json option \<Rightarrow> (error + ui list) \<Rightarrow> error + ui list" where
  "and_child j body = (if truthy_json j then body else child j)"

definition status_dot :: "json option \<Rightarrow> ui" where
  "status_dot status =
     (let c = (case status of Some (JsStr s) \<Rightarrow> statusColor s | _ \<Rightarrow> ''err'')
      in StatusDot (c = ''ok'') (c = ''warn''))"

text \<open>\<open>null\<close> is no amount; anything else is divided.\<close>

definition sats_of :: "json option \<Rightarrow> jnum option" where
  "sats_of j = (case j of None \<Rightarrow> Some JNaN | Some JsNull \<Rightarrow> None | Some v \<Rightarrow> Some (num_of_json v))"

text \<open>\<open>shortAddr\<close> of a text or an array; of other values it throws.\<close>

definition short_json :: "json option \<Rightarrow> nat \<Rightarrow> error + string" where
  "short_json j chars =
     (case j of
        Some (JsStr s) \<Rightarrow> Inr (shortAddr s chars)
      | Some (JsArr xs) \<Rightarrow>
          Inr (if length xs \<le> chars * 2 + 2 then js_string (JsArr xs)
               else js_string (JsArr (take (chars + 2) xs)) @ ellipsis @ js_string (JsArr (slice_last chars xs)))
      | _ \<Rightarrow> Inl ''TypeError'')"

subsection \<open>Tabs\<close>

definition WalletSetup :: "string \<Rightarrow> string option \<Rightarrow> ui list" where
  "WalletSetup importValue err =
     [El ''div''
       [Card (Some ''Create New Wallet'')
          [El ''p'' [Txt ''Generates a fresh private key on this device and shows your receive address.''],
           Btn ''primary'' False (\<lambda>seed. WalletEv (CreateClick seed)) [Txt ''Create Wallet'']],
        Card (Some ''Import Wallet'')
          [El ''div''
            ([Field ''Private Key (hex)''
               [Inp ''password'' importValue hex0x (Some (\<lambda>x. WalletEv (TypeImport x)))]] @
             error_box err @
             [press ''ghost'' (trim importValue = []) (WalletEv ImportClick) ''Import''])],
        El ''p'' [Txt (''Keys are stored locally on this device (plain localStorage in this MVP build '' @ dash @
          '' OS keychain storage is a planned hardening step). Back up your key from Settings.'')]]]"

definition SendCard :: "viem \<Rightarrow> string \<Rightarrow> string \<Rightarrow> int option \<Rightarrow> send_card \<Rightarrow> ui" where
  "SendCard v address explorerUrl balance c =
     (let toValid = isAddress v (sv_to c); valid = amountValid (sv_amount c)
      in Card (Some ''Send'') [El ''div''
           ([Field ''From (your address)'' [Inp ''text'' address [] None],
             Field ''To'' [text_input (sv_to c) hex0x (\<lambda>x. WalletEv (TypeTo x))]] @
            (if sv_to c \<noteq> [] \<and> \<not> toValid then [El ''div'' [Txt ''Invalid address'']] else []) @
            [Field (''Amount ('' @ TOKEN_SYMBOL @ '')'')
               [text_input (sv_amount c) ''0.0'' (\<lambda>x. WalletEv (TypeSendAmount x))]] @
            (if sv_amount c \<noteq> [] \<and> \<not> valid then [El ''div'' [Txt ''Invalid amount'']] else []) @
            (case balance of
               Some b \<Rightarrow>
                 if valid then [El ''div'' [Txt (''Available: '' @ fmtEcx (formatEther v) b 4 @ '' '' @ TOKEN_SYMBOL)]]
                 else []
             | None \<Rightarrow> []) @
            error_box (sv_error c) @
            if_text (sv_txHash c) (\<lambda>h.
              [El ''div'' [El ''div'' [Txt ''Transaction submitted.''],
                 Link (explorerUrl @ ''/tx/'' @ h) h]]) @
            [press ''primary'' (\<not> toValid \<or> \<not> valid \<or> sv_busy c) (WalletEv SendClick)
               (if sv_busy c then ''Sending'' @ ellipsis else ''Send'')])])"

definition balance_text :: "viem \<Rightarrow> int option \<Rightarrow> string" where
  "balance_text v balance =
     (case balance of None \<Rightarrow> ellipsis | Some b \<Rightarrow> fmtEcx (formatEther v) b 4)"

definition WalletHome :: "viem \<Rightarrow> string \<Rightarrow> string \<Rightarrow> wallet_sub \<Rightarrow> int option \<Rightarrow> ui list" where
  "WalletHome v explorerUrl address sub balance =
     [El ''div''
       [Card None [El ''div''
          [El ''div'' [El ''div'' [Txt ''Balance''],
             El ''div'' [Txt (balance_text v balance @ '' ''), El ''span'' [Txt TOKEN_SYMBOL]]],
           El ''div'' [El ''div'' [Txt (shortAddr address 8)],
             El ''div'' [CopyButton address,
               press ''danger'' False (WalletEv ForgetClick) ''Use Different Wallet'']]]],
        SubTabs [(''Receive'', sub = Receive, WalletEv ShowReceive),
                 (''Send'', sub \<noteq> Receive, WalletEv ShowSend)],
        (case sub of
           Receive \<Rightarrow> Card (Some ''Receive'')
             [El ''div'' [Qr address, El ''div'' [Txt address], CopyButton address]]
         | Send c \<Rightarrow> SendCard v address explorerUrl balance c),
        El ''div'' [Txt ''Danger zone lives in Settings (reveal key, delete wallet).'']]]"

fun WalletTab :: "viem \<Rightarrow> desk \<Rightarrow> wallet_view \<Rightarrow> ui list" where
  "WalletTab v d (Setup importValue err) = WalletSetup importValue err"
| "WalletTab v d (Home address sub balance) =
     WalletHome v (net_explorerUrl (NETWORKS (activeNetwork (settings d)))) address sub balance"

definition deposit_card :: "view_env \<Rightarrow> json \<Rightarrow> error + ui list" where
  "deposit_card ve dep =
     bind_sum (short_json (field dep ''id'') 4) (\<lambda>short.
     bind_sum (child (field dep ''ecash_address'')) (\<lambda>address.
     bind_sum (child (field dep ''status'')) (\<lambda>status.
     bind_sum (and_child (field dep ''mint_tx_hash'')
       (map_sum id (\<lambda>cs. [El ''div'' (Txt ''Mint tx: '' # cs)]) (child (field dep ''mint_tx_hash'')))) (\<lambda>mint.
     Inr [Card (Some (''Deposit '' @ short))
       ([(if \<not> truthy_json (field dep ''ecash_address'')
          then El ''div'' [StatusDot False True,
                 Txt (''Waiting for the federation to assign a deposit address'' @ ellipsis)]
          else El ''div'' [Qr (js_string_opt (field dep ''ecash_address'')), El ''div'' address,
                 CopyButton (js_string_opt (field dep ''ecash_address''))]),
         El ''div'' [El ''span'' [status_dot (field dep ''status''), El ''span'' status],
           El ''span'' [Txt (deposit_amount (number_text ve) (sats_of (field dep ''amount_sats''))
             '' ECX seen'' ''no funds detected yet'')]]] @ mint)]))))"

definition DepositPane :: "view_env \<Rightarrow> viem \<Rightarrow> deposit_pane \<Rightarrow> error + ui list" where
  "DepositPane ve v p =
     (let addrValid = isAddress v (dv_snowsideAddr p)
      in bind_sum (and_child (dv_deposit p) (deposit_card ve (the (dv_deposit p)))) (\<lambda>shown.
      Inr [El ''div''
        ([Card (Some ''Deposit ECX from the mainchain'') [El ''div''
           ([Field ''Your Snowside Address (receives minted ECX)''
               [text_input (dv_snowsideAddr p) hex0x (\<lambda>x. BridgeEv (TypeDepositAddr x))]] @
            (if dv_snowsideAddr p \<noteq> [] \<and> \<not> addrValid then [El ''div'' [Txt ''Invalid address'']] else []) @
            [Field ''Mainchain Network''
               [El ''div'' (map (\<lambda>n. press (if dv_network p = n then ''primary'' else ''ghost'') False
                  (BridgeEv (PickDepositNetwork n)) (net_label (NETWORKS n))) NETWORK_ORDER)],
             El ''div'' [Txt (''You will receive a unique deposit address on '' @
               net_esploraLabel (NETWORKS (dv_network p)) @
               ''. Send ECX there and the federation mints the same amount on Snowside.'')]] @
            error_box (dv_error p) @
            [press ''primary'' (\<not> addrValid \<or> dv_busy p) (BridgeEv CreateDepositClick)
               (if dv_busy p then ''Creating'' @ ellipsis else ''Create Deposit Address'')])]] @ shown)]))"

definition WithdrawPane :: "viem \<Rightarrow> desk \<Rightarrow> withdraw_pane \<Rightarrow> error + ui list" where
  "WithdrawPane v d p =
     (let valid = amountValid (wv_amount p); address = walletAddress v d
      in bind_sum (and_child (wv_done p)
           (map_sum id (\<lambda>i. [El ''div'' (Txt ''Withdrawal submitted (id '' # i @
             [Txt ''). Track it in the History tab.''])]) (child (wv_done p)))) (\<lambda>submitted.
      Inr [Card (Some ''Withdraw ECX to the mainchain'') [El ''div''
        ([Field ''Your Snowside Address (source of funds)''
            [text_input (wv_snowsideAddr p) hex0x (\<lambda>x. BridgeEv (WithdrawEv (TypeSnowside x)))],
          Field ''Destination ECX Address (mainchain)''
            [text_input (wv_ecashAddr p) (''ecash:qz'' @ ellipsis) (\<lambda>x. BridgeEv (WithdrawEv (TypeEcash x)))],
          Field (''Amount ('' @ TOKEN_SYMBOL @ '')'')
            [text_input (wv_amount p) ''0.0'' (\<lambda>x. BridgeEv (WithdrawEv (TypeAmount x)))],
          Field ''Burn Transaction Hash'' [El ''div''
            [text_input (wv_burnTx p) hex0x (\<lambda>x. BridgeEv (WithdrawEv (TypeBurn x))),
             press ''cta'' (\<not> valid \<or> \<not> truthy_str address \<or> wv_busy p \<noteq> None)
               (BridgeEv (WithdrawEv BurnClick))
               (if wv_busy p = Some ''burn'' then ''Burning'' @ ellipsis else ''Burn '' @ TOKEN_SYMBOL)]],
          El ''ol''
            [El ''li'' [Txt (''Click \"Burn '' @ TOKEN_SYMBOL @ ''\" to send your '' @ TOKEN_SYMBOL @
               '' to the zero address on Snowside '' @
               net_label (NETWORKS (activeNetwork (settings d))) @ ''.'')],
             El ''li'' [Txt (''Click \"Initiate Withdrawal\" '' @ dash @
               '' the federation sends ECX to your destination.'')]]] @
         error_box (wv_error p) @ submitted @
         [press ''primary''
            (\<not> isAddress v (wv_snowsideAddr p) \<or> wv_ecashAddr p = [] \<or> \<not> valid \<or> wv_busy p \<noteq> None)
            (BridgeEv (WithdrawEv SubmitClick))
            (if wv_busy p = Some ''submit'' then ''Submitting'' @ ellipsis else ''Initiate Withdrawal'')])]]))"

text \<open>\<open>fmtTime\<close> and \<open>fmtAgo\<close> of the time a row was made.\<close>

definition row_time :: "view_env \<Rightarrow> desk \<Rightarrow> json option \<Rightarrow> ui" where
  "row_time ve d created =
     Hint (if truthy_json created then date_text ve (the created) else dash)
       [Txt (if truthy_json created then ago_text (clock d) (num_of_json (the created)) else ''never'')]"

text \<open>\<open>null\<close> has no properties; the rows of a list differ in how they show the amount.\<close>

definition history_row ::
  "view_env \<Rightarrow> desk \<Rightarrow> (json \<Rightarrow> error + string) \<Rightarrow> json \<Rightarrow> error + ui" where
  "history_row ve d amount row =
     (if row = JsNull then Inl ''TypeError''
      else bind_sum (child (field row ''status'')) (\<lambda>status.
           bind_sum (child (field row ''network'')) (\<lambda>network.
           bind_sum (amount row) (\<lambda>shown.
           Inr (El ''div''
             [El ''div'' [status_dot (field row ''status''), El ''span'' status, El ''span'' network],
              El ''div'' [El ''div'' [Txt shown], row_time ve d (field row ''created_at'')]])))))"

definition history_card ::
  "view_env \<Rightarrow> desk \<Rightarrow> (json \<Rightarrow> error + string) \<Rightarrow> string \<Rightarrow> string \<Rightarrow> json \<Rightarrow> error + ui" where
  "history_card ve d amount title none rows =
     (case rows of
        JsArr [] \<Rightarrow> Inr (Card (Some (title @ '' (0)'')) [El ''div'' [Txt none]])
      | JsArr rs \<Rightarrow>
          map_sum id (\<lambda>us. Card (Some (title @ '' ('' @ show_int (int (length rs)) @ '')'')) [El ''div'' us])
            (map_fallible (history_row ve d amount) rs)
      | JsNull \<Rightarrow> Inl ''TypeError''
      | _ \<Rightarrow>
          if js_length rows = Some (JsNum (JInt 0))
          then Inr (Card (Some (title @ '' (0)'')) [El ''div'' [Txt none]]) else Inl ''TypeError'')"

definition deposit_row_amount :: "view_env \<Rightarrow> json \<Rightarrow> error + string" where
  "deposit_row_amount ve row =
     Inr (deposit_amount (number_text ve) (sats_of (field row ''amount_sats'')) '' ECX'' dash)"

definition withdrawal_row_amount :: "viem \<Rightarrow> json \<Rightarrow> error + string" where
  "withdrawal_row_amount v row = withdrawal_amount (formatEther v) (field row ''amount_ecx'')"

definition HistoryPane :: "view_env \<Rightarrow> viem \<Rightarrow> desk \<Rightarrow> history_pane \<Rightarrow> error + ui list" where
  "HistoryPane ve v d p =
     (if \<not> truthy_str (walletAddress v d)
      then Inr [Card None [El ''div'' [Txt ''History is tied to your wallet address. Create or import a wallet first.'']]]
      else bind_sum (history_card ve d (deposit_row_amount ve) ''Deposits'' ''No deposits yet.''
                       (hv_deposits p)) (\<lambda>deposits.
           bind_sum (history_card ve d (withdrawal_row_amount v) ''Withdrawals'' ''No withdrawals yet.''
                       (hv_withdrawals p)) (\<lambda>withdrawals.
           Inr [El ''div'' (error_box (hv_error p) @ [deposits, withdrawals])])))"

definition bridge_pane :: "view_env \<Rightarrow> viem \<Rightarrow> desk \<Rightarrow> bridge_view \<Rightarrow> error + ui list" where
  "bridge_pane ve v d b =
     (case b of
        DepositSub p \<Rightarrow> DepositPane ve v p
      | WithdrawSub p \<Rightarrow> WithdrawPane v d p
      | HistorySub p \<Rightarrow> HistoryPane ve v d p)"

definition BridgeTab :: "view_env \<Rightarrow> viem \<Rightarrow> desk \<Rightarrow> bridge_view \<Rightarrow> error + ui list" where
  "BridgeTab ve v d b =
     bind_sum (bridge_pane ve v d b) (\<lambda>pane.
     Inr [El ''div'' (SubTabs
       [(''Deposit (ECX -> Snowside)'', (case b of DepositSub p \<Rightarrow> True | _ \<Rightarrow> False), BridgeEv SelectDeposit),
        (''Withdraw (Snowside -> ECX)'', (case b of WithdrawSub p \<Rightarrow> True | _ \<Rightarrow> False), BridgeEv SelectWithdraw),
        (''History'', (case b of HistorySub p \<Rightarrow> True | _ \<Rightarrow> False), BridgeEv SelectHistory)] # pane)])"

definition stats_chain :: "ChainStats \<Rightarrow> string" where
  "stats_chain st = show_num (chainId st) @ '' (0x'' @ num_hex (chainId st) @ '')''"

definition stat_text :: "ChainStats option \<Rightarrow> (ChainStats \<Rightarrow> string) \<Rightarrow> string \<Rightarrow> string" where
  "stat_text stats f none = (case stats of None \<Rightarrow> none | Some st \<Rightarrow> f st)"

definition gwei_text :: "ChainStats \<Rightarrow> string" where
  "gwei_text st = fmtGwei (gasPriceWei st) @ '' gwei''"

definition OverviewTab :: "view_env \<Rightarrow> viem \<Rightarrow> desk \<Rightarrow> overview \<Rightarrow> ui list" where
  "OverviewTab ve v d ov =
     (let net = NETWORKS (activeNetwork (settings d)); rpcUrl = active_url d;
          address = (if hasWallet d then walletAddress v d else None); stats = ov_stats ov;
          bridge = (if ov_bridge ov = Some JsNull then None else ov_bridge ov)
      in [El ''div''
        ([Card (Some ''Wallet'')
            (if truthy_str address
             then [El ''div''
               [El ''div'' [El ''div'' [Txt (shortAddr (the address) 10)],
                  El ''div'' [Txt (balance_text v (ov_balance ov) @ '' ''), El ''span'' [Txt TOKEN_SYMBOL]]],
                El ''div'' [El ''div'' [Txt (net_label net)],
                  El ''div'' [StatusDot (stats \<noteq> None) False,
                    Txt (if stats \<noteq> None then ''connected'' else ''unreachable'')]]]]
             else [El ''div'' [Txt ''No wallet yet. Open the '', El ''span'' [Txt ''Wallet''],
                     Txt '' tab to create or import one.'']]),
          Card (Some ''Bridge Federation'')
            [El ''div''
               [StatusDot (bridge \<noteq> None \<and> truthy_json (field (the bridge) ''federation_online''))
                  (bridge \<noteq> None),
                El ''span'' [Txt (bridge_label (ov_bridge ov))]],
             El ''div'' [Txt (''Custodial MVP bridge. Deposits are credited after federation confirmation; '' @
               ''withdrawals are processed by the federation.'')]],
          El ''div''
            [Stat ''Latest Block'' [Txt (stat_text stats (\<lambda>st. number_text ve (blockNumber st)) dash)],
             Stat ''Gas Price'' [Txt (stat_text stats gwei_text dash)],
             Stat ''Chain ID'' [Txt (stat_text stats stats_chain dash)],
             Stat ''Network'' [Txt (net_label net)]]] @
         if_text (ov_statsError ov) (\<lambda>e. [El ''div'' [Txt (''RPC unreachable at '' @ rpcUrl @ '' '' @ dash @
           '' '' @ e @ ''. Check the endpoint in Settings.'')]]) @
         [Card (Some ''Connection'') [El ''div''
            [El ''div'' [El ''span'' [Txt ''RPC: ''], El ''span'' [Txt rpcUrl]],
             El ''div'' [El ''span'' [Txt ''Bridge API: ''], El ''span'' [Txt (apiUrl (settings d))]],
             El ''div'' [El ''span'' [Txt ''Explorer: ''], Link (net_explorerUrl net) (net_explorerUrl net)],
             El ''div'' [El ''span'' [Txt ''Docs: ''],
               Link ''https://docs.snowside.network'' ''docs.snowside.network'']]]])])"

definition Row :: "string \<Rightarrow> string \<Rightarrow> ui" where
  "Row k x = El ''div'' [El ''span'' [Txt k], El ''span'' [Txt x]]"

definition network_card :: "view_env \<Rightarrow> desk \<Rightarrow> probes \<Rightarrow> NetworkId \<Rightarrow> ui" where
  "network_card ve d ps n =
     (let net = NETWORKS n; probe = map_of ps n; stats = (case probe of None \<Rightarrow> None | Some p \<Rightarrow> p);
          active = (activeNetwork (settings d) = n)
      in Btn (if active then ''active'' else []) False (\<lambda>_. PickNetwork n)
        [Card None
          ([El ''div'' [El ''span'' [Txt (net_label net)],
              El ''span'' [StatusDot (stats \<noteq> None) (probe = None), Txt (probe_label ps n)]],
            El ''div''
              [Row ''Block'' (stat_text stats (\<lambda>st. number_text ve (blockNumber st)) dash),
               Row ''Chain ID'' (stat_text stats stats_chain (''hint '' @ show_int (net_chainIdHint net))),
               Row ''Gas'' (stat_text stats gwei_text dash),
               El ''div'' [Txt (rpc_url (settings d) n)],
               Link (net_explorerUrl net) (net_explorerUrl net)]] @
           (if active then [El ''div'' [Txt ''Active network'']] else []))])"

definition NetworkTab :: "view_env \<Rightarrow> desk \<Rightarrow> probes \<Rightarrow> ui list" where
  "NetworkTab ve d ps = [El ''div'' (map (network_card ve d ps) NETWORK_ORDER)]"

definition log_line :: "view_env \<Rightarrow> LogEntry \<Rightarrow> ui" where
  "log_line ve e = El ''div''
     [El ''span'' [Txt (time_text ve (le_ts e) @ '' '')],
      El ''span'' [Txt (''['' @ le_source e @ ''] '')], El ''span'' [Txt (le_message e)]]"

definition ConsoleTab :: "view_env \<Rightarrow> desk \<Rightarrow> console \<Rightarrow> ui list" where
  "ConsoleTab ve d c =
     [El ''div''
       [Card (Some (''JSON-RPC Console ('' @ net_label (NETWORKS (activeNetwork (settings d))) @ '')''))
          [El ''div''
            ([El ''div'' [text_input (cv_method c) ''eth_blockNumber'' TypeMethod,
                press ''primary'' (trim (cv_method c) = []) CallClick ''Call''],
              El ''div'' [El ''div'' [Txt ''Params (JSON array)''],
                Inp ''textarea'' (cv_params c) [] (Some TypeParams)]] @
             (case cv_result c of None \<Rightarrow> [] | Some r \<Rightarrow> [El ''pre'' [Txt r]]) @
             [El ''div'' [Txt ''Calls go to '', El ''span'' [Txt (active_url d)]]])],
        Card (Some ''Log'')
          [El ''div'' [press ''ghost'' False ClearClick ''Clear''],
           El ''div'' (if getLogs d = [] then [El ''div'' [Txt ''No log entries yet.'']]
                       else map (log_line ve) (getLogs d))]]]"

text \<open>The value of an input; \<open>null\<close> and \<open>undefined\<close> show as empty.\<close>

definition input_value :: "json option \<Rightarrow> string" where
  "input_value j = (case j of None \<Rightarrow> [] | Some JsNull \<Rightarrow> [] | Some v \<Rightarrow> js_string v)"

definition danger_zone :: "viem \<Rightarrow> desk \<Rightarrow> settings_tab \<Rightarrow> ui list" where
  "danger_zone v d t =
     (if hasWallet d
      then [El ''div''
        ([El ''div'' (if_text (walletAddress v d) (\<lambda>a. [Txt a])),
          El ''div''
            (press ''ghost'' False (SettingsEv Reveal) ''Reveal Private Key'' #
             (if \<not> tv_confirmDelete t
              then [press ''danger'' False (SettingsEv AskDelete) ''Delete Wallet'']
              else [press ''danger'' False (SettingsEv ConfirmDelete) ''Confirm Delete (no undo)'',
                    press ''ghost'' False (SettingsEv CancelDelete) ''Cancel'']))] @
         if_text (tv_revealed t) (\<lambda>pk.
           [El ''div'' [El ''div'' [Txt (''Private key '' @ dash @ '' never share this'')],
              El ''div'' [El ''span'' [Txt pk], CopyButton pk]]]) @
         [El ''div'' [Txt ''After deleting, open the Wallet tab to create or import a new wallet.'']])]
      else [El ''div'' [Txt ''No wallet on this device.'']])"

definition SettingsTab :: "viem \<Rightarrow> desk \<Rightarrow> settings_tab \<Rightarrow> ui list" where
  "SettingsTab v d t =
     (let st = settings d; variant = (\<lambda>b. if b then ''primary'' else ''ghost'')
      in [El ''div''
        [Card (Some ''Appearance'') [El ''div''
           [press (variant (theme st = Dark)) False (SetTheme Dark) ''Dark'',
            press (variant (theme st = Light)) False (SetTheme Light) ''Light'']],
         Card (Some ''Bridge API'')
           [Field ''API Base URL'' [text_input (apiUrl st) [] SetApiUrl],
            El ''div'' [Txt (''Custodial bridge API (Cloudflare Worker). Default: '' @
              net_apiUrl (NETWORKS Mainnet))]],
         Card (Some ''RPC Endpoints'')
           [El ''div'' (map (\<lambda>n. Field (net_label (NETWORKS n) @ '' RPC'')
              [text_input (input_value (map_of (rpcUrls st) (net_id n))) (net_rpcUrl (NETWORKS n))
                 (SetRpcUrl n)]) NETWORK_ORDER),
            El ''div'' [Txt (''The light client talks to these hosted endpoints for all chain data and transaction '' @
              ''submission. Chain IDs are auto-detected per endpoint.'')]],
         Card (Some ''Wallet (Danger Zone)'') (danger_zone v d t),
         Card (Some ''About'') [El ''div''
           [El ''div'' [Txt (''Snowside desktop light client '' @ dash @
              '' eCash drivechain (slot 88) on an Avalanche L1.'')],
            El ''div''
              [Link ''https://snowside.network'' ''snowside.network'', Txt ('' '' @ middle_dot @ '' ''),
               Link ''https://docs.snowside.network'' ''docs.snowside.network'', Txt ('' '' @ middle_dot @ '' ''),
               Link ''https://github.com/abitsuite/snowside'' ''github.com/abitsuite/snowside'']]]]])"

subsection \<open>The application\<close>

definition TABS :: "(TabId \<times> string) list" where
  "TABS = [(TOverview, ''Overview''), (TWallet, ''Wallet''), (TBridge, ''Bridge''), (TNetwork, ''Network''),
     (TConsole, ''Console''), (TSettings, ''Settings'')]"

definition TopNav :: "TabId \<Rightarrow> ui" where
  "TopNav active =
     El ''nav'' (El ''div'' [El ''span'' [Txt ''Snowside Lodge'']] #
       map (\<lambda>(t, label). Btn (if active = t then ''active'' else []) False (\<lambda>_. SelectTab t)
         [El ''span'' [Txt label]]) TABS)"

definition shown_tab :: "view_env \<Rightarrow> viem \<Rightarrow> desk \<Rightarrow> tab_view \<Rightarrow> error + ui list" where
  "shown_tab ve v d t =
     (case t of
        OverviewView ov \<Rightarrow> Inr (OverviewTab ve v d ov)
      | WalletView w \<Rightarrow> Inr (WalletTab v d w)
      | BridgeView b \<Rightarrow> BridgeTab ve v d b
      | NetworkView ps \<Rightarrow> Inr (NetworkTab ve d ps)
      | ConsoleView c \<Rightarrow> Inr (ConsoleTab ve d c)
      | SettingsView st \<Rightarrow> Inr (SettingsTab v d st))"

definition App :: "view_env \<Rightarrow> viem \<Rightarrow> app \<Rightarrow> error + ui" where
  "App ve v s =
     (let st = settings (ap_desk s); n = activeNetwork st
      in bind_sum (shown_tab ve v (ap_desk s) (ap_tab s)) (\<lambda>main.
         bind_sum (child (map_of (rpcUrls st) (net_id n))) (\<lambda>url.
         Inr (El ''div''
           [TopNav (tab_of (ap_tab s)), El ''main'' main,
            El ''footer''
              [El ''span'' [Txt (net_label (NETWORKS n) @ '' '' @ middle_dot @ '' ''), El ''span'' url],
               El ''span'' [Txt (''eCash drivechain '' @ middle_dot @ '' slot 88 '' @ middle_dot @
                 '' light client'')]]]))))"

subsection \<open>What can be done on the screen\<close>

text \<open>Does the tree have an enabled control for an event?\<close>

fun offers :: "app_event \<Rightarrow> ui \<Rightarrow> bool" where
  "offers e (El tag us) = list_ex (offers e) us"
| "offers e (Hint t us) = list_ex (offers e) us"
| "offers e (Btn variant disabled h us) = (\<not> disabled \<and> (\<exists>n. h n = e) \<or> list_ex (offers e) us)"
| "offers e (Inp type x placeholder (Some h)) = (\<exists>t. h t = e)"
| "offers e u = False"

text \<open>The events that are not the user's.\<close>

fun timed :: "app_event \<Rightarrow> bool" where
  "timed (OverviewPoll a) = True"
| "timed (NetworkPoll a) = True"
| "timed (WalletEv e) = (e = BalancePoll)"
| "timed (BridgeEv e) = (e = DepositTimer \<or> e = HistoryPoll)"
| "timed e = False"

lemmas ui_defs = Card_def Field_def SubTabs_def press_def text_input_def Let_def

lemma offers_tab: "offers (SelectTab t) (TopNav active)"
  by (cases t) (simp_all add: TopNav_def TABS_def)

lemma wallet_controls:
  assumes "\<not> list_ex (offers (WalletEv e)) (WalletTab v d w)" "e \<noteq> BalancePoll"
  shows "wallet_step env v e w d' = (w, d')"
proof (cases w)
  case (Setup i err)
  with assms show ?thesis
    by (cases e) (auto simp: WalletSetup_def ui_defs wallet_of_def import_clicked_def truthy_str_def)
next
  case (Home a sub b)
  with assms show ?thesis
    by (cases e; cases sub) (auto simp: WalletHome_def SendCard_def ui_defs send_clicked_def)
qed

lemma deposit_controls:
  assumes "DepositPane ve v p = Inr us" "\<not> list_ex (offers (BridgeEv e)) us"
    and "e \<noteq> DepositTimer" "e \<noteq> SelectDeposit" "e \<noteq> SelectWithdraw" "e \<noteq> SelectHistory"
  shows "bridge_step env v e (DepositSub p) s = (DepositSub p, s)"
proof -
  have "n \<in> set NETWORK_ORDER" for n by (cases n) (simp_all add: NETWORK_ORDER_def)
  with assms show ?thesis
    by (cases e) (auto simp: DepositPane_def ui_defs bind_sum_Inr list_ex_iff create_clicked_def)
qed

lemma withdraw_controls:
  assumes "WithdrawPane v (ap_desk s) p = Inr us" "\<not> list_ex (offers (BridgeEv e)) us"
    and "e \<noteq> SelectDeposit" "e \<noteq> SelectWithdraw" "e \<noteq> SelectHistory"
  shows "bridge_step env v e (WithdrawSub p) s = (WithdrawSub p, s)"
proof (cases e)
  case (WithdrawEv we)
  with assms show ?thesis
    by (cases we) (auto simp: WithdrawPane_def ui_defs bind_sum_Inr)
qed (use assms in auto)

lemma bridge_controls:
  assumes "BridgeTab ve v (ap_desk s) b = Inr us" "\<not> list_ex (offers (BridgeEv e)) us" "\<not> timed (BridgeEv e)"
  shows "bridge_step env v e b s = (b, s)"
proof -
  obtain pane where pane: "bridge_pane ve v (ap_desk s) b = Inr pane"
    and u: "\<not> list_ex (offers (BridgeEv e)) pane" "e \<noteq> SelectDeposit" "e \<noteq> SelectWithdraw" "e \<noteq> SelectHistory"
    using assms(1,2) by (auto simp: BridgeTab_def SubTabs_def bind_sum_Inr)
  show ?thesis
  proof (cases b)
    case (DepositSub p)
    with pane u assms(3) deposit_controls [of ve v p pane e env s] show ?thesis by (simp add: bridge_pane_def)
  next
    case (WithdrawSub p)
    with pane u withdraw_controls [of v s p pane e env] show ?thesis by (simp add: bridge_pane_def)
  next
    case (HistorySub p)
    with u assms(3) show ?thesis by (cases e) auto
  qed
qed

lemma network_controls:
  assumes "\<not> list_ex (offers e) (NetworkTab ve d ps)" "\<not> timed e"
  shows "network_step env e ps d' = (ps, d')"
proof -
  have "n \<in> set NETWORK_ORDER" for n by (cases n) (simp_all add: NETWORK_ORDER_def)
  with assms show ?thesis
    by (cases e) (auto simp: NetworkTab_def network_card_def ui_defs list_ex_iff)
qed

lemma console_controls:
  "\<not> list_ex (offers e) (ConsoleTab ve d c) \<Longrightarrow> console_step env parse pretty e c d' = (c, d')"
  by (cases e) (auto simp: ConsoleTab_def ui_defs)

lemma settings_controls:
  assumes "\<not> list_ex (offers e) (SettingsTab v d t)"
  shows "settings_event_step e t d = (t, d)"
proof (cases e)
  case (SettingsEv se)
  with assms show ?thesis by (cases se; cases t; cases "tv_confirmDelete t") (auto simp: SettingsTab_def danger_zone_def ui_defs)
next
  case (SetTheme x)
  with assms show ?thesis by (cases x) (auto simp: SettingsTab_def ui_defs)
next
  case (SetRpcUrl n u)
  with assms show ?thesis by (cases n) (auto simp: SettingsTab_def NETWORK_ORDER_def ui_defs)
qed (use assms in \<open>auto simp: SettingsTab_def ui_defs\<close>)

lemma tab_controls:
  assumes "shown_tab ve v (ap_desk s) (ap_tab s) = Inr main" "\<not> list_ex (offers e) main" "\<not> timed e"
    and "\<And>t. e \<noteq> SelectTab t"
  shows "tab_step env v js e s = s"
proof (cases "ap_tab s")
  case (OverviewView ov)
  with assms(3) show ?thesis by (cases e) (simp_all add: tab_step_def show_view_def)
next
  case (WalletView w)
  with assms wallet_controls [of _ v "ap_desk s" w env "ap_desk s"] show ?thesis
    by (cases e) (simp_all add: tab_step_def show_view_def shown_tab_def)
next
  case (BridgeView b)
  with assms bridge_controls [of ve v s b main _ env] show ?thesis
    by (cases e) (simp_all add: tab_step_def shown_tab_def)
next
  case (NetworkView ps)
  with assms network_controls [of e ve "ap_desk s" ps env "ap_desk s"] show ?thesis
    by (simp add: tab_step_def show_view_def shown_tab_def)
next
  case (ConsoleView c)
  with assms console_controls [of e ve "ap_desk s" c env _ _ "ap_desk s"] show ?thesis
    by (simp add: tab_step_def show_view_def shown_tab_def)
next
  case (SettingsView t)
  with assms settings_controls [of e v "ap_desk s" t] show ?thesis
    by (simp add: tab_step_def show_view_def shown_tab_def)
qed


subsection \<open>A history that cannot be shown\<close>

lemma map_fallible_fails: "x \<in> set xs \<Longrightarrow> f x = Inl e \<Longrightarrow> \<exists>e. map_fallible f xs = Inl e"
proof (induction xs)
  case (Cons y ys)
  then show ?case by (cases "f y"; cases "map_fallible f ys") auto
qed simp

text \<open>
  C30. Anyone can take down anyone's client. A withdrawal request for any Snowside address with the amount
  \<open>abc\<close> (no token, no signature) is accepted by the API; the application of the owner of that
  address, with the API's list of withdrawals in its history pane, cannot be rendered.
\<close>

theorem history_takes_client_down:
  assumes "db_up s" "r_uuid r \<notin> w_id ` set (t_withdrawals s)"
    and "r_verb r = POST" "segments r = [''v1'', ''bridge'', ''withdraw'']"
    and "r_body r = Some body" "z_string body ''snowsideAddress'' = Some a" "a \<noteq> []"
      "z_string body ''ecashAddress'' = Some e" "e \<noteq> []" "z_network body ''network'' = Some n"
      "z_string body ''amountEcx'' = Some ''abc''" "z_opt_string body ''burnTxHash'' = Some b"
    and "int_affinity aenv ''abc'' = AmtStr ''abc''"
  shows "\<exists>s' rows. handle aenv r s = (Reply 200 (PCreated (r_uuid r)), s') \<and>
    get_withdrawals a s' = (Inr (Reply 200 (PWithdrawals rows)), s') \<and>
    (\<forall>ve v c p. ap_tab c = BridgeView (HistorySub p) \<and> walletAddress v (ap_desk c) = Some a \<and>
       hv_withdrawals p = JsArr (map withdrawal_json rows) \<longrightarrow> (\<exists>err. App ve v c = Inl err))"
proof -
  let ?w = "new_withdrawal (r_uuid r) n a e (AmtStr ''abc'') (if truthy_str b then b else None) (r_now r)"
  from withdrawal_listed [OF assms(1-11) _ assms(12), of aenv] assms(13) obtain s' rows where
    h: "handle aenv r s = (Reply 200 (PCreated (r_uuid r)), s')"
      "get_withdrawals a s' = (Inr (Reply 200 (PWithdrawals rows)), s')" and rows: "?w \<in> set rows"
    by auto
  have w: "w_amount_ecx ?w = AmtStr ''abc''" by (simp add: new_withdrawal_def)
  have "\<exists>err. App ve v c = Inl err"
    if c: "ap_tab c = BridgeView (HistorySub p)" "walletAddress v (ap_desk c) = Some a"
      "hv_withdrawals p = JsArr (map withdrawal_json rows)" for ve v c p
  proof -
    let ?row = "history_row ve (ap_desk c) (withdrawal_row_amount v)"
    have "withdrawal_row_amount v (withdrawal_json ?w) = Inl ''RangeError''"
      by (simp add: withdrawal_row_amount_def amount_ecx_field w abc_fails)
    then have "\<exists>err. ?row (withdrawal_json ?w) = Inl err"
      by (simp add: history_row_def withdrawal_json_def bind_sum_def split: sum.split)
    with rows obtain err where "map_fallible ?row (map withdrawal_json rows) = Inl err"
      using map_fallible_fails [of "withdrawal_json ?w" "map withdrawal_json rows" ?row] by auto
    moreover have "map withdrawal_json rows \<noteq> []" using rows by auto
    ultimately have "history_card ve (ap_desk c) (withdrawal_row_amount v) t none (hv_withdrawals p) = Inl err" for t none
      by (auto simp: history_card_def c split: list.split)
    then show ?thesis using assms(7)
      by (simp add: App_def Let_def shown_tab_def BridgeTab_def bridge_pane_def HistoryPane_def c truthy_str_def
          bind_sum_def split: sum.split)
  qed
  with h show ?thesis by blast
qed

subsection \<open>Witnesses\<close>

definition toy_view :: view_env where
  "toy_view = \<lparr>number_text = show_num, date_text = js_string, time_text = show_int\<rparr>"

definition toy_start :: app where
  "toy_start = app_run toy_desk_env toy_viem toy_json [SelectTab TWallet]
     (app_start toy_viem (start_desk None None True 0))"


definition toy_history :: "withdrawal_row list \<Rightarrow> app" where
  "toy_history rows =
     (app_start toy_viem (start_desk None (Some ''k'') True 0))
       \<lparr>ap_tab := BridgeView (HistorySub (open_history\<lparr>hv_withdrawals := JsArr (map withdrawal_json rows)\<rparr>))\<rparr>"

theorem history_takes_client_down_witness:
  "\<exists>s' rows. get_withdrawals ''0xabc'' s' = (Inr (Reply 200 (PWithdrawals rows)), s') \<and>
     snd (handle toy_api toy_withdraw empty_db) = s' \<and>
     (\<exists>err. App toy_view (toy_viem\<lparr>privateKeyToAccount := \<lambda>k. Inr ''0xabc''\<rparr>) (toy_history rows) = Inl err)"
proof -
  have seg: "segments toy_withdraw = [''v1'', ''bridge'', ''withdraw'']"
    by (simp add: segments_def toy_withdraw_def toy_request_def)
  have r: "r_verb toy_withdraw = POST" "r_body toy_withdraw = Some toy_bad_body"
    "r_uuid toy_withdraw = ''id1''"
    by (simp_all add: toy_withdraw_def toy_request_def)
  have z: "z_string toy_bad_body ''snowsideAddress'' = Some ''0xabc''"
    "z_string toy_bad_body ''ecashAddress'' = Some ''x''"
    "z_network toy_bad_body ''network'' = Some ''signet''"
    "z_string toy_bad_body ''amountEcx'' = Some ''abc''"
    "z_opt_string toy_bad_body ''burnTxHash'' = Some None"
    by (simp_all add: toy_bad_body_def z_string_def z_network_def z_opt_string_def field_def)
  have "int_affinity toy_api ''abc'' = AmtStr ''abc''" by (simp add: toy_api_def)
  from history_takes_client_down [OF _ _ r(1) seg r(2) z(1) _ z(2) _ z(3,4,5) this, of empty_db]
  obtain s' rows where s': "handle toy_api toy_withdraw empty_db = (Reply 200 (PCreated ''id1''), s')"
      "get_withdrawals ''0xabc'' s' = (Inr (Reply 200 (PWithdrawals rows)), s')"
    and down: "\<And>ve v c p. ap_tab c = BridgeView (HistorySub p) \<Longrightarrow> walletAddress v (ap_desk c) = Some ''0xabc'' \<Longrightarrow>
      hv_withdrawals p = JsArr (map withdrawal_json rows) \<Longrightarrow> \<exists>err. App ve v c = Inl err"
    by (auto simp: r empty_db_def)
  have "\<exists>err. App toy_view (toy_viem\<lparr>privateKeyToAccount := \<lambda>k. Inr ''0xabc''\<rparr>) (toy_history rows) = Inl err"
    by (rule down [where p = "open_history\<lparr>hv_withdrawals := JsArr (map withdrawal_json rows)\<rparr>"])
      (simp_all add: toy_history_def open_history_def app_start_def walletAddress_def start_desk_def load_def
        getWalletKey_def truthy_str_def)
  with s' show ?thesis by force
qed

end
